(* ===== verification/DJ_Prelude.thy ===== *)
theory DJ_Prelude
  imports Main "HOL-Library.AList" "HOL-Library.Sublist"
begin

section \<open>Shared vocabulary of the development\<close>

text \<open>
  What every component uses: Python exceptions as values, the effect type of a Python
  method (a result or an exception, together with the state that the method left behind:
  attribute writes made before a \<^verbatim>\<open>raise\<close> stay), insertion ordered dictionaries, slices
  into chunks, decimal printing, \<^verbatim>\<open>os.path.join\<close>, and the collections of simplification
  rules that the component theories extend.
\<close>

named_theorems eff_simps \<open>rewrite rules of the effect combinators\<close>
named_theorems world_simps \<open>what the external world operations do to files and directories\<close>
named_theorems rep_intros \<open>introduction rules for the representation invariants\<close>

subsection \<open>Exceptions and effects\<close>

datatype exn =
    AssertionError | RuntimeError | IndexError | KeyError | TypeError | ValueError
  | StopIteration | NotImplementedError | UnboundLocalError | AttributeError
  | SyntaxError | OverflowError | NameError | ZeroDivisionError
  | OpError \<comment> \<open>an error of TensorFlow: of its file systems, or a failed assertion\<close>
  | DecodeError \<comment> \<open>a protobuf parse failure\<close>
  | RpcError \<comment> \<open>a failed remote call\<close>
  | PsiException int \<comment> \<open>with its error code\<close>
  | GenericException \<comment> \<open>\<^verbatim>\<open>raise Exception(...)\<close>\<close>
  | PanicException \<comment> \<open>a panic of the Rust extension\<close>
  | ProcessExit \<comment> \<open>\<^verbatim>\<open>os._exit(-1)\<close>\<close>

type_synonym bytes = string

type_synonym ('a, 's) eff = "(exn + 'a) \<times> 's"

definition then_do :: "('a, 's) eff \<Rightarrow> ('a \<Rightarrow> 's \<Rightarrow> ('b, 't) eff) \<Rightarrow> ('s \<Rightarrow> 't) \<Rightarrow> ('b, 't) eff" where
  "then_do r k on_err = (case r of (Inl e, s) \<Rightarrow> (Inl e, on_err s) | (Inr x, s) \<Rightarrow> k x s)"

abbreviation and_then :: "('a, 's) eff \<Rightarrow> ('a \<Rightarrow> 's \<Rightarrow> ('b, 's) eff) \<Rightarrow> ('b, 's) eff" where
  "and_then r k \<equiv> then_do r k (\<lambda>s. s)"

lemma then_do_simps [simp, eff_simps]:
  "then_do (Inr x, s) k h = k x s"
  "then_do (Inl e, s) k h = (Inl e, h s)"
  by (simp_all add: then_do_def)

lemma then_do_Inr_iff:
  "then_do r k h = (Inr y, t) \<longleftrightarrow> (\<exists>x s. r = (Inr x, s) \<and> k x s = (Inr y, t))"
  by (cases r) (auto simp: then_do_def split: sum.splits)

lemma then_do_Inl_iff:
  "then_do r k h = (Inl e, t) \<longleftrightarrow>
     (\<exists>s. r = (Inl e, s) \<and> h s = t) \<or> (\<exists>x s. r = (Inr x, s) \<and> k x s = (Inl e, t))"
  by (cases r) (auto simp: then_do_def split: sum.splits)

lemma then_do_keeps:
  assumes "P (snd r)" "\<And>x s. P s \<Longrightarrow> Q (snd (k x s))" "\<And>s. P s \<Longrightarrow> Q (h s)"
  shows "Q (snd (then_do r k h))"
  using assms by (cases r) (auto simp: then_do_def split: sum.split)

lemma and_then_keeps:
  "f (snd r) = c \<Longrightarrow> (\<And>x s. f s = c \<Longrightarrow> f (snd (k x s)) = c) \<Longrightarrow> f (snd (and_then r k)) = c"
  by (rule then_do_keeps [where P = "\<lambda>s. f s = c" and Q = "\<lambda>s. f s = c"])

definition raising :: "'a option \<Rightarrow> exn \<Rightarrow> exn + 'a" where
  "raising v e = (case v of None \<Rightarrow> Inl e | Some x \<Rightarrow> Inr x)"

lemma raising_simps [simp, eff_simps]:
  "raising (Some x) e = Inr x" "raising None e = Inl e"
  by (simp_all add: raising_def)

subsection \<open>Dictionaries in insertion order\<close>

text \<open>
  A Python dictionary is an association list with distinct keys. Assignment keeps the
  place of a key that is there and appends a new key, which is \<^const>\<open>AList.update\<close>;
  \<^verbatim>\<open>popitem\<close> removes the entry inserted last.
\<close>

type_synonym ('k, 'v) dict = "('k \<times> 'v) list"

abbreviation dict_set :: "'k \<Rightarrow> 'v \<Rightarrow> ('k, 'v) dict \<Rightarrow> ('k, 'v) dict" where
  "dict_set \<equiv> AList.update"

abbreviation dict_get :: "('k, 'v) dict \<Rightarrow> 'k \<Rightarrow> 'v option" where
  "dict_get \<equiv> map_of"

definition popitem :: "('k, 'v) dict \<Rightarrow> ('k, 'v) dict" where
  "popitem d = butlast d"

lemma dict_get_set [simp]: "dict_get (dict_set k v d) k' = (if k' = k then Some v else dict_get d k')"
  by (simp add: update_conv')

lemma dict_set_new: "k \<notin> fst ` set d \<Longrightarrow> dict_set k v d = d @ [(k, v)]"
  by (induction d) auto

lemma dict_set_length:
  "length (dict_set k v d) = (if k \<in> fst ` set d then length d else Suc (length d))"
  by (induction d) auto

lemma dict_get_None_notin: "dict_get d k = None \<longleftrightarrow> k \<notin> fst ` set d"
  by (simp add: map_of_eq_None_iff)

lemma dict_set_keys:
  "map fst (dict_set k v d) = (if k \<in> fst ` set d then map fst d else map fst d @ [k])"
  by (simp add: update_keys)

lemma dict_set_mem:
  "(k', v') \<in> set (dict_set k v d) \<Longrightarrow> distinct (map fst d) \<Longrightarrow>
     (k' = k \<and> v' = v) \<or> (k' \<noteq> k \<and> (k', v') \<in> set d)"
  by (induction d) (auto simp: image_iff split: if_splits)

lemma dict_set_distinct [simp]: "distinct (map fst d) \<Longrightarrow> distinct (map fst (dict_set k v d))"
  by (rule distinct_update)

subsection \<open>Lists cut into chunks\<close>

fun chunks :: "nat \<Rightarrow> 'a list \<Rightarrow> 'a list list" where
  "chunks n xs = (if xs = [] \<or> n = 0 then [] else take n xs # chunks n (drop n xs))"

declare chunks.simps [simp del]

lemma chunks_Nil [simp]: "chunks n [] = []"
  by (simp add: chunks.simps)

lemma chunks_short: "xs \<noteq> [] \<Longrightarrow> length xs \<le> n \<Longrightarrow> chunks n xs = [xs]"
  by (subst chunks.simps) (cases n, auto)

lemma chunks_long: "0 < n \<Longrightarrow> n < length xs \<Longrightarrow> chunks n xs = take n xs # chunks n (drop n xs)"
  by (subst chunks.simps) auto

lemma chunks_full_append: "0 < n \<Longrightarrow> length xs = n \<Longrightarrow> chunks n (xs @ ys) = xs # chunks n ys"
  by (subst chunks.simps) auto

lemma concat_chunks [simp]: "0 < n \<Longrightarrow> concat (chunks n xs) = xs"
proof (induction n xs rule: chunks.induct)
  case (1 n xs)
  then show ?case by (cases "xs = []") (auto simp: chunks.simps [of n xs])
qed

lemma chunks_nonempty: "ys \<in> set (chunks n xs) \<Longrightarrow> ys \<noteq> []"
proof (induction n xs rule: chunks.induct)
  case (1 n xs)
  then show ?case by (auto simp: chunks.simps [of n xs] split: if_splits)
qed

lemma chunks_length_le: "ys \<in> set (chunks n xs) \<Longrightarrow> length ys \<le> n"
proof (induction n xs rule: chunks.induct)
  case (1 n xs)
  then show ?case by (auto simp: chunks.simps [of n xs] split: if_splits)
qed

lemma chunks_eq_Nil [simp]: "0 < n \<Longrightarrow> chunks n xs = [] \<longleftrightarrow> xs = []"
  by (subst chunks.simps) simp

lemma chunks_butlast_full: "ys \<in> set (butlast (chunks n xs)) \<Longrightarrow> length ys = n"
proof (induction n xs rule: chunks.induct)
  case (1 n xs)
  show ?case
  proof (cases "xs = [] \<or> n = 0")
    case True
    with "1.prems" show ?thesis by (simp add: chunks.simps [of n xs])
  next
    case False
    then have eq: "chunks n xs = take n xs # chunks n (drop n xs)"
      by (simp add: chunks.simps [of n xs])
    show ?thesis
    proof (cases "drop n xs = []")
      case True
      with "1.prems" eq show ?thesis by simp
    next
      case long: False
      then have "chunks n (drop n xs) \<noteq> []"
        using False by simp
      with "1.prems" eq have "ys = take n xs \<or> ys \<in> set (butlast (chunks n (drop n xs)))"
        by auto
      then show ?thesis
        using long False "1.IH" by auto
    qed
  qed
qed

subsection \<open>Decimal numbers and paths\<close>

fun str_of_nat :: "nat \<Rightarrow> string" where
  "str_of_nat n = (if n < 10 then [char_of (48 + n)] else str_of_nat (n div 10) @ [char_of (48 + n mod 10)])"

declare str_of_nat.simps [simp del]

definition str_of_int :: "int \<Rightarrow> string" where
  "str_of_int i = (if i < 0 then CHR ''-'' # str_of_nat (nat (- i)) else str_of_nat (nat i))"

definition zfill :: "nat \<Rightarrow> string \<Rightarrow> string" where
  "zfill n s = replicate (n - length s) CHR ''0'' @ s"

definition path_join :: "string \<Rightarrow> string \<Rightarrow> string" where
  "path_join a b =
     (if b \<noteq> [] \<and> hd b = CHR ''/'' then b
      else if a = [] \<or> last a = CHR ''/'' then a @ b
      else a @ CHR ''/'' # b)"

definition file_name :: "string \<Rightarrow> bool" where
  "file_name n \<longleftrightarrow> n \<noteq> [] \<and> CHR ''/'' \<notin> set n"

lemma file_name_hd: "file_name n \<Longrightarrow> hd n \<noteq> CHR ''/''"
  by (cases n) (auto simp: file_name_def)

lemma path_join_inject:
  "file_name b \<Longrightarrow> file_name c \<Longrightarrow> path_join a b = path_join a c \<longleftrightarrow> b = c"
  using file_name_hd [of b] file_name_hd [of c] by (auto simp: path_join_def)

lemma of_char_digit: "k < 10 \<Longrightarrow> of_char (char_of (48 + k) :: char) = (48 + k :: nat)"
  by (simp add: take_bit_nat_eq_self)

lemma str_of_nat_digit: "c \<in> set (str_of_nat n) \<Longrightarrow> 48 \<le> (of_char c :: nat) \<and> (of_char c :: nat) < 58"
proof (induction n rule: str_of_nat.induct)
  case (1 n)
  have d: "48 \<le> (of_char (char_of (48 + k) :: char) :: nat) \<and> (of_char (char_of (48 + k) :: char) :: nat) < 58"
    if "k < 10" for k :: nat
    using that by (simp only: of_char_digit) simp
  show ?case
  proof (cases "n < 10")
    case True
    with "1.prems" d [of n] show ?thesis by (subst (asm) str_of_nat.simps) auto
  next
    case False
    with "1" d [of "n mod 10"] show ?thesis by (subst (asm) (2) str_of_nat.simps) auto
  qed
qed

lemma str_of_nat_nonempty [simp]: "str_of_nat n \<noteq> []"
  by (subst str_of_nat.simps) simp

text \<open>A printed number can be read back, with or without leading zeros.\<close>

definition digits_value :: "string \<Rightarrow> nat" where
  "digits_value s = foldl (\<lambda>n c. 10 * n + (of_char c - 48)) 0 s"

lemma digits_value_snoc: "digits_value (s @ [c]) = 10 * digits_value s + (of_char c - 48)"
  by (simp add: digits_value_def)

lemma digits_value_str: "digits_value (str_of_nat n) = n"
proof (induction n rule: str_of_nat.induct)
  case (1 n)
  show ?case
  proof (cases "n < 10")
    case True
    then have "str_of_nat n = [] @ [char_of (48 + n)]" by (subst str_of_nat.simps) simp
    with True show ?thesis by (simp only: digits_value_snoc of_char_digit) (simp add: digits_value_def)
  next
    case False
    then have "str_of_nat n = str_of_nat (n div 10) @ [char_of (48 + n mod 10)]" by (subst str_of_nat.simps) simp
    with "1.IH" False show ?thesis by (simp only: digits_value_snoc of_char_digit) simp
  qed
qed

lemma digits_value_zeros: "digits_value (replicate k CHR ''0'' @ s) = digits_value s"
  by (induction k) (simp_all add: digits_value_def)

lemma zfill_inject [simp]: "zfill k (str_of_nat m) = zfill k (str_of_nat n) \<longleftrightarrow> m = n"
proof
  assume "zfill k (str_of_nat m) = zfill k (str_of_nat n)"
  then have "digits_value (zfill k (str_of_nat m)) = digits_value (zfill k (str_of_nat n))" by simp
  then show "m = n" by (simp add: zfill_def digits_value_zeros digits_value_str)
qed simp

lemma zfill_no_slash: "CHR ''/'' \<notin> set (zfill k (str_of_nat n))"
  using str_of_nat_digit [of "CHR ''/''" n] by (auto simp: zfill_def)

end
