(* ===== verification/DJ_World.thy ===== *)
theory DJ_World
  imports DJ_Prelude
begin

section \<open>Messages, constants and the external world\<close>

text \<open>
  The protocol messages of \<^verbatim>\<open>DataJoin/common\<close> as records, the constants of
  \<^verbatim>\<open>DataJoin/config.py\<close>, and the operations that the data join calls but whose code is not
  part of the repository: TensorFlow's file system and record files, the protobuf printers
  and parsers, the name functions of \<^verbatim>\<open>DataJoin.utils.process_manager\<close>, the clock, the
  unique ids and the HTTP service. They are the fields of a record \<open>ext\<close> over a world type
  \<open>'w\<close>, an argument of every definition that uses one of them. What the code relies on is
  the predicate \<open>world_ok\<close>, whose conjuncts are the documented behaviour of these
  operations on files and directories.
\<close>

subsection \<open>Constants of config.py\<close>

definition sync_example_id_nums :: nat where "sync_example_id_nums = 2048"

definition removed_items_nums_from_buffer :: nat where "removed_items_nums_from_buffer = 1024"

definition data_block_index_threshold :: int where "data_block_index_threshold = 2 ^ 53"

definition Invalid_EventTime :: int where "Invalid_EventTime = -8223372020784275321"

subsection \<open>Messages of data\_join\_service\<close>

record data_block_meta =
  block_id :: string
  partition_id :: int
  file_version :: int
  start_time :: int
  end_time :: int
  example_ids :: "bytes list"
  leader_start_index :: int
  leader_end_index :: int
  follower_restart_index :: int
  data_block_index :: int

definition empty_data_block_meta :: data_block_meta where
  "empty_data_block_meta =
     \<lparr>block_id = [], partition_id = 0, file_version = 0, start_time = 0, end_time = 0,
      example_ids = [], leader_start_index = 0, leader_end_index = 0,
      follower_restart_index = 0, data_block_index = 0\<rparr>"

record lite_example_ids =
  lite_partition_id :: int
  lite_begin_index :: int
  lite_example_id :: "bytes list"
  lite_event_time :: "int list"
  lite_finished :: bool

datatype sync_content =
    SyncMeta data_block_meta \<comment> \<open>oneof field \<^verbatim>\<open>data_block_meta\<close>\<close>
  | SyncLite lite_example_ids \<comment> \<open>oneof field \<^verbatim>\<open>lite_example_ids\<close>\<close>
  | SyncUnset

text \<open>Assignment to an \<^verbatim>\<open>int64\<close> field raises \<^verbatim>\<open>ValueError\<close> outside the range.\<close>

definition int64_ok :: "int \<Rightarrow> bool" where
  "int64_ok i \<longleftrightarrow> - (2 ^ 63) \<le> i \<and> i < 2 ^ 63"

subsection \<open>TensorFlow examples\<close>

datatype feature = Int64List "int list" | BytesList "bytes list" | FloatList | KindUnset

type_synonym tf_example = "string \<Rightarrow> feature" \<comment> \<open>reading an absent key yields \<open>KindUnset\<close>\<close>

subsection \<open>External operations\<close>

record 'w ext =
  ex_file :: "'w \<Rightarrow> string \<Rightarrow> bytes list option" \<comment> \<open>the records of the file at a path\<close>
  ex_isdir :: "'w \<Rightarrow> string \<Rightarrow> bool"
  ex_makedirs :: "'w \<Rightarrow> string \<Rightarrow> 'w option"
  ex_write :: "'w \<Rightarrow> string \<Rightarrow> bytes list \<Rightarrow> 'w option" \<comment> \<open>\<^verbatim>\<open>TFRecordWriter\<close>\<close>
  ex_rename :: "'w \<Rightarrow> string \<Rightarrow> string \<Rightarrow> bool \<Rightarrow> 'w option" \<comment> \<open>\<^verbatim>\<open>gfile.Rename(src, dst, overwrite)\<close>\<close>
  ex_remove :: "'w \<Rightarrow> string \<Rightarrow> 'w option"
  ex_uuid :: "'w \<Rightarrow> string" \<comment> \<open>\<^verbatim>\<open>str(uuid.uuid1())\<close>\<close>
  ex_now :: "'w \<Rightarrow> int" \<comment> \<open>\<^verbatim>\<open>time.time()\<close>\<close>
  ex_distribute :: bool \<comment> \<open>the environment variable MODE is \<^verbatim>\<open>distribute\<close>\<close>
  ex_post :: "'w \<Rightarrow> string \<Rightarrow> string \<Rightarrow> 'w option" \<comment> \<open>the POST of the meta and block paths\<close>
  ex_meta_to_string :: "data_block_meta \<Rightarrow> bytes"
  ex_meta_parse :: "bytes \<Rightarrow> data_block_meta option"
  ex_meta_name :: "string \<Rightarrow> int \<Rightarrow> int \<Rightarrow> string" \<comment> \<open>\<^verbatim>\<open>data_block_meta_file_name_wrap\<close>\<close>
  ex_block_name :: "string \<Rightarrow> data_block_meta \<Rightarrow> string" \<comment> \<open>\<^verbatim>\<open>data_block_file_name_wrap\<close>\<close>
  ex_block_id :: "string \<Rightarrow> data_block_meta \<Rightarrow> string" \<comment> \<open>\<^verbatim>\<open>block_id_wrap\<close>\<close>
  ex_partition_dir :: "int \<Rightarrow> string" \<comment> \<open>\<^verbatim>\<open>partition_id_wrap\<close>\<close>
  ex_parse_example :: "bytes \<Rightarrow> tf_example option"
  ex_content_to_bytes :: "sync_content \<Rightarrow> bytes" \<comment> \<open>\<^verbatim>\<open>SerializeToString\<close>\<close>
  ex_content_parse :: "bytes \<Rightarrow> sync_content option"
  ex_compress :: "bytes \<Rightarrow> bytes" \<comment> \<open>\<^verbatim>\<open>zlib.compress\<close>\<close>
  ex_decompress :: "bytes \<Rightarrow> bytes option"
  ex_listdir :: "'w \<Rightarrow> string \<Rightarrow> string list option" \<comment> \<open>\<^verbatim>\<open>gfile.ListDirectory\<close>\<close>
  ex_hadoop_get :: "'w \<Rightarrow> string \<Rightarrow> string \<Rightarrow> 'w" \<comment> \<open>\<^verbatim>\<open>os.system("hadoop fs -get ...")\<close>\<close>

definition ex_exists :: "'w ext \<Rightarrow> 'w \<Rightarrow> string \<Rightarrow> bool" where
  "ex_exists E w p \<longleftrightarrow> ex_file E w p \<noteq> None \<or> ex_isdir E w p"

text \<open>
  \<open>writes_ok\<close>: a file can be written in an existing directory, the write stores exactly the
  records and touches nothing else. \<open>renames_ok\<close>: a rename moves an existing file to a path
  that is free (or overwritten), and fails otherwise. \<open>removes_ok\<close> likewise.
\<close>

definition writes_ok :: "'w ext \<Rightarrow> bool" where
  "writes_ok E \<longleftrightarrow>
     (\<forall>w d n rs. ex_isdir E w d \<longrightarrow> file_name n \<longrightarrow> \<not> ex_isdir E w (path_join d n) \<longrightarrow>
        ex_write E w (path_join d n) rs \<noteq> None) \<and>
     (\<forall>w p rs w'. ex_write E w p rs = Some w' \<longrightarrow>
        ex_file E w' = (ex_file E w)(p \<mapsto> rs) \<and> ex_isdir E w' = ex_isdir E w)"

definition renames_ok :: "'w ext \<Rightarrow> bool" where
  "renames_ok E \<longleftrightarrow>
     (\<forall>w p q ov. ex_rename E w p q ov = None \<longleftrightarrow>
        ex_file E w p = None \<or> ex_isdir E w q \<or> (ex_file E w q \<noteq> None \<and> \<not> ov)) \<and>
     (\<forall>w p q ov w'. ex_rename E w p q ov = Some w' \<longrightarrow> p \<noteq> q \<longrightarrow>
        ex_file E w' = ((ex_file E w)(q := ex_file E w p))(p := None) \<and>
        ex_isdir E w' = ex_isdir E w)"

definition removes_ok :: "'w ext \<Rightarrow> bool" where
  "removes_ok E \<longleftrightarrow>
     (\<forall>w p. ex_remove E w p = None \<longleftrightarrow> ex_file E w p = None) \<and>
     (\<forall>w p w'. ex_remove E w p = Some w' \<longrightarrow>
        ex_file E w' = (ex_file E w)(p := None) \<and> ex_isdir E w' = ex_isdir E w)"

definition dirs_ok :: "'w ext \<Rightarrow> bool" where
  "dirs_ok E \<longleftrightarrow>
     (\<forall>w p w'. ex_makedirs E w p = Some w' \<longrightarrow>
        ex_file E w' = ex_file E w \<and> (\<forall>q. ex_isdir E w q \<longrightarrow> ex_isdir E w' q) \<and> ex_isdir E w' p) \<and>
     (\<forall>w p. ex_file E w p \<noteq> None \<longrightarrow> \<not> ex_isdir E w p)"

text \<open>
  The HTTP service answers without touching the files of the data join; unique ids give
  file names that are not in use; metas and messages are read back as they were printed.
\<close>

definition posts_ok :: "'w ext \<Rightarrow> bool" where
  "posts_ok E \<longleftrightarrow>
     (\<forall>w p q w'. ex_post E w p q = Some w' \<longrightarrow>
        ex_file E w' = ex_file E w \<and> ex_isdir E w' = ex_isdir E w)"

definition tmp_name :: "string \<Rightarrow> int \<Rightarrow> string" where
  "tmp_name u c = u @ ''-'' @ str_of_int c @ ''.tmp''"

definition uuids_ok :: "'w ext \<Rightarrow> bool" where
  "uuids_ok E \<longleftrightarrow>
     (\<forall>w. CHR ''/'' \<notin> set (ex_uuid E w)) \<and>
     (\<forall>w d c. \<not> ex_exists E w (path_join d (tmp_name (ex_uuid E w) c))) \<and>
     (\<forall>w s p i c. tmp_name (ex_uuid E w) c \<noteq> ex_meta_name E s p i) \<and>
     (\<forall>w s m c. tmp_name (ex_uuid E w) c \<noteq> ex_block_name E s m)"

definition prints_ok :: "'w ext \<Rightarrow> bool" where
  "prints_ok E \<longleftrightarrow> (\<forall>m. ex_meta_parse E (ex_meta_to_string E m) = Some m)"

definition messages_ok :: "'w ext \<Rightarrow> bool" where
  "messages_ok E \<longleftrightarrow>
     (\<forall>c. ex_content_parse E (ex_content_to_bytes E c) = Some c) \<and>
     (\<forall>b. ex_decompress E (ex_compress E b) = Some b)"

text \<open>
  The name functions: for one data source and partition, metas of different indices have
  different file names, data files and meta files never share a name, and data files of
  blocks with different indices differ.
\<close>

definition names_ok :: "'w ext \<Rightarrow> string \<Rightarrow> int \<Rightarrow> bool" where
  "names_ok E s p \<longleftrightarrow>
     (\<forall>i j. ex_meta_name E s p i = ex_meta_name E s p j \<longrightarrow> i = j) \<and>
     (\<forall>i. file_name (ex_meta_name E s p i)) \<and>
     (\<forall>m. file_name (ex_block_name E s m)) \<and>
     (\<forall>m i. ex_block_name E s m \<noteq> ex_meta_name E s p i) \<and>
     (\<forall>m m'. data_block_index m \<noteq> data_block_index m' \<longrightarrow> ex_block_name E s m \<noteq> ex_block_name E s m')"

definition world_ok :: "'w ext \<Rightarrow> bool" where
  "world_ok E \<longleftrightarrow> writes_ok E \<and> renames_ok E \<and> removes_ok E \<and> dirs_ok E \<and> posts_ok E \<and>
     uuids_ok E \<and> prints_ok E \<and> messages_ok E"

lemma world_okD:
  assumes "world_ok E"
  shows "writes_ok E" "renames_ok E" "removes_ok E" "dirs_ok E" "posts_ok E" "uuids_ok E"
    "prints_ok E" "messages_ok E"
  using assms by (simp_all add: world_ok_def)

subsection \<open>Derived facts in the form the components use\<close>

lemma write_file [world_simps]:
  "world_ok E \<Longrightarrow> ex_write E w p rs = Some w' \<Longrightarrow> ex_file E w' = (ex_file E w)(p \<mapsto> rs)"
  by (auto simp: world_ok_def writes_ok_def)

lemma write_isdir [world_simps]:
  "world_ok E \<Longrightarrow> ex_write E w p rs = Some w' \<Longrightarrow> ex_isdir E w' = ex_isdir E w"
  by (auto simp: world_ok_def writes_ok_def)

lemma rename_file [world_simps]:
  "world_ok E \<Longrightarrow> ex_rename E w p q ov = Some w' \<Longrightarrow> p \<noteq> q \<Longrightarrow>
     ex_file E w' = ((ex_file E w)(q := ex_file E w p))(p := None)"
  by (auto simp: world_ok_def renames_ok_def)

lemma rename_isdir [world_simps]:
  "world_ok E \<Longrightarrow> ex_rename E w p q ov = Some w' \<Longrightarrow> p \<noteq> q \<Longrightarrow> ex_isdir E w' = ex_isdir E w"
  by (auto simp: world_ok_def renames_ok_def)

lemma post_file [world_simps]:
  "world_ok E \<Longrightarrow> ex_post E w p q = Some w' \<Longrightarrow> ex_file E w' = ex_file E w"
  by (auto simp: world_ok_def posts_ok_def)

lemma post_isdir [world_simps]:
  "world_ok E \<Longrightarrow> ex_post E w p q = Some w' \<Longrightarrow> ex_isdir E w' = ex_isdir E w"
  by (auto simp: world_ok_def posts_ok_def)

lemma remove_file [world_simps]:
  "world_ok E \<Longrightarrow> ex_remove E w p = Some w' \<Longrightarrow> ex_file E w' = (ex_file E w)(p := None)"
  by (auto simp: world_ok_def removes_ok_def)

lemma remove_isdir [world_simps]:
  "world_ok E \<Longrightarrow> ex_remove E w p = Some w' \<Longrightarrow> ex_isdir E w' = ex_isdir E w"
  by (auto simp: world_ok_def removes_ok_def)

lemma write_succeeds:
  assumes "world_ok E" "ex_isdir E w d" "file_name n" "\<not> ex_isdir E w (path_join d n)"
  obtains w' where "ex_write E w (path_join d n) rs = Some w'"
    "ex_file E w' = (ex_file E w)(path_join d n \<mapsto> rs)" "ex_isdir E w' = ex_isdir E w"
proof -
  from assms have "ex_write E w (path_join d n) rs \<noteq> None"
    by (auto simp: world_ok_def writes_ok_def)
  then obtain w' where "ex_write E w (path_join d n) rs = Some w'" by blast
  with assms(1) that show ?thesis by (blast dest: write_file write_isdir)
qed

lemma rename_succeeds:
  assumes "world_ok E" "ex_file E w p = Some rs" "\<not> ex_isdir E w q"
    "ov \<or> ex_file E w q = None" "p \<noteq> q"
  obtains w' where "ex_rename E w p q ov = Some w'"
    "ex_file E w' = ((ex_file E w)(q \<mapsto> rs))(p := None)" "ex_isdir E w' = ex_isdir E w"
proof -
  from assms have "ex_rename E w p q ov \<noteq> None"
    by (auto simp: world_ok_def renames_ok_def)
  then obtain w' where w': "ex_rename E w p q ov = Some w'" by blast
  have "ex_file E w' = ((ex_file E w)(q \<mapsto> rs))(p := None)"
    using rename_file [OF assms(1) w' assms(5)] assms(2) by simp
  with rename_isdir [OF assms(1) w' assms(5)] w' that show ?thesis by blast
qed

lemma exists_file: "ex_file E w p = Some rs \<Longrightarrow> ex_exists E w p"
  by (simp add: ex_exists_def)

lemma tmp_fresh:
  assumes "world_ok E"
  shows "ex_file E w (path_join d (tmp_name (ex_uuid E w) c)) = None"
    "\<not> ex_isdir E w (path_join d (tmp_name (ex_uuid E w) c))"
    "file_name (tmp_name (ex_uuid E w) c)"
    "tmp_name (ex_uuid E w) c \<noteq> ex_meta_name E s p i"
    "tmp_name (ex_uuid E w) c \<noteq> ex_block_name E s m"
proof -
  from assms have u: "uuids_ok E" by (rule world_okD)
  then show "ex_file E w (path_join d (tmp_name (ex_uuid E w) c)) = None"
    and "\<not> ex_isdir E w (path_join d (tmp_name (ex_uuid E w) c))"
    and "tmp_name (ex_uuid E w) c \<noteq> ex_meta_name E s p i"
    and "tmp_name (ex_uuid E w) c \<noteq> ex_block_name E s m"
    by (auto simp: uuids_ok_def ex_exists_def)
  from u show "file_name (tmp_name (ex_uuid E w) c)"
    by (auto simp: file_name_def tmp_name_def uuids_ok_def str_of_int_def dest: str_of_nat_digit)
qed

end
