(* ===== verification/Block_Manager.thy ===== *)
theory Block_Manager
  imports DJ_World
begin

section \<open>DataBlockManager: the index of the data blocks of a partition\<close>

text \<open>
  \<^verbatim>\<open>data_join/data_block_manager.py\<close>. The manager keeps the index of the last saved block,
  found at start by a binary search over the meta files, the index of a block that is being
  saved, and an in-memory dictionary of metas. Every method runs under the object's lock, so
  a method is one atomic step. The abstract contract is a list of metas: the produced number
  is its length, an update appends at that index, a read returns the entry.
\<close>

record data_block_manager =
  dbm_partition_id :: int
  dbm_data_block_dir :: string
  dbm_data_source_name :: string
  dbm_buffer :: "(int, data_block_meta) dict"
  dbm_saved :: "int option"
  dbm_saving :: "int option"

subsection \<open>Operations\<close>

definition data_block_dir_wrap :: "'w ext \<Rightarrow> data_block_manager \<Rightarrow> string" where
  "data_block_dir_wrap E m = path_join (dbm_data_block_dir m) (ex_partition_dir E (dbm_partition_id m))"

definition acquire_data_block_meta_path :: "'w ext \<Rightarrow> data_block_manager \<Rightarrow> int \<Rightarrow> string" where
  "acquire_data_block_meta_path E m i =
     path_join (data_block_dir_wrap E m)
       (ex_meta_name E (dbm_data_source_name m) (dbm_partition_id m) i)"

definition create_data_block_dir_if_need ::
  "'w ext \<Rightarrow> data_block_manager \<Rightarrow> 'w \<Rightarrow> (unit, 'w) eff" where
  "create_data_block_dir_if_need E m w =
     (let d = data_block_dir_wrap E m;
          made = (if \<not> ex_exists E w d
                  then (case ex_makedirs E w d of None \<Rightarrow> (Inl OpError, w) | Some w' \<Rightarrow> (Inr (), w'))
                  else (Inr (), w))
      in and_then made (\<lambda>_ w'. if \<not> ex_isdir E w' d then (Inl ProcessExit, w') else (Inr (), w')))"

text \<open>The search loop over the meta files; \<open>p i\<close> is \<^verbatim>\<open>gfile.Exists\<close> of the meta of index \<open>i\<close>.\<close>

function search_saved_index :: "(int \<Rightarrow> bool) \<Rightarrow> int \<Rightarrow> int \<Rightarrow> int" where
  "search_saved_index p low high =
     (if low \<le> high
      then (let mid = (low + high) div 2
            in if p mid then search_saved_index p (mid + 1) high
               else search_saved_index p low (mid - 1))
      else high)"
  by pat_completeness auto
termination
  by (relation "measure (\<lambda>(p, low, high). nat (high - low + 1))") auto

declare search_saved_index.simps [simp del]

definition sync_saved_data_block_index ::
  "'w ext \<Rightarrow> 'w \<Rightarrow> data_block_manager \<Rightarrow> (unit, data_block_manager) eff" where
  "sync_saved_data_block_index E w m =
     (case dbm_saved m of
        None \<Rightarrow>
          if dbm_saving m \<noteq> None then (Inl AssertionError, m)
          else (Inr (), m\<lparr>dbm_saved := Some (search_saved_index
                  (\<lambda>i. ex_exists E w (acquire_data_block_meta_path E m i)) 0 data_block_index_threshold)\<rparr>)
      | Some s \<Rightarrow>
          (case dbm_saving m of
             None \<Rightarrow> (Inr (), m)
           | Some g \<Rightarrow>
               if g \<noteq> s + 1 then (Inl AssertionError, m)
               else if \<not> ex_exists E w (acquire_data_block_meta_path E m g)
               then (Inr (), m\<lparr>dbm_saving := None\<rparr>)
               else (Inr (), m\<lparr>dbm_saved := Some g, dbm_saving := None\<rparr>)))"

function remove_item_from_data_block_memory_buffer ::
  "(int, data_block_meta) dict \<Rightarrow> (int, data_block_meta) dict" where
  "remove_item_from_data_block_memory_buffer d =
     (if removed_items_nums_from_buffer < length d
      then remove_item_from_data_block_memory_buffer (popitem d) else d)"
  by pat_completeness auto
termination
  by (relation "measure length") (auto simp: popitem_def removed_items_nums_from_buffer_def)

declare remove_item_from_data_block_memory_buffer.simps [simp del]

definition init_data_block_manager ::
  "'w ext \<Rightarrow> int \<Rightarrow> string \<Rightarrow> string \<Rightarrow> 'w \<Rightarrow> (data_block_manager, 'w) eff" where
  "init_data_block_manager E pid dir src w =
     (let m = \<lparr>dbm_partition_id = pid, dbm_data_block_dir = dir, dbm_data_source_name = src,
               dbm_buffer = [], dbm_saved = None, dbm_saving = None\<rparr>
      in and_then (create_data_block_dir_if_need E m w)
           (\<lambda>_ w'. (map_sum id (\<lambda>_. snd (sync_saved_data_block_index E w' m))
                      (fst (sync_saved_data_block_index E w' m)), w')))"

definition acquire_produced_data_block_number ::
  "'w ext \<Rightarrow> 'w \<Rightarrow> data_block_manager \<Rightarrow> (int, data_block_manager) eff" where
  "acquire_produced_data_block_number E w m =
     and_then (sync_saved_data_block_index E w m)
       (\<lambda>_ m'. (map_sum id (\<lambda>s. s + 1) (raising (dbm_saved m') TypeError), m'))"

definition sync_data_block_meta ::
  "'w ext \<Rightarrow> 'w \<Rightarrow> int \<Rightarrow> data_block_manager \<Rightarrow> (data_block_meta option, data_block_manager) eff" where
  "sync_data_block_meta E w i m =
     (case dbm_saved m of
        None \<Rightarrow> (Inl TypeError, m)
      | Some s \<Rightarrow>
          if s < 0 \<or> i > s then (Inr None, m)
          else
            (let loaded =
               (if dict_get (dbm_buffer m) i \<noteq> None then (Inr (), m)
                else (case ex_file E w (acquire_data_block_meta_path E m i) of
                        None \<Rightarrow> (Inl OpError, m)
                      | Some [] \<Rightarrow> (Inl StopIteration, m)
                      | Some (r # _) \<Rightarrow>
                          (case ex_meta_parse E r of
                             None \<Rightarrow> (Inl DecodeError, m)
                           | Some meta \<Rightarrow>
                               (Inr (), m\<lparr>dbm_buffer := remove_item_from_data_block_memory_buffer
                                              (dict_set i meta (dbm_buffer m))\<rparr>))))
             in and_then loaded
                  (\<lambda>_ m'. (map_sum id Some (raising (dict_get (dbm_buffer m') i) KeyError), m'))))"

definition acquire_data_block_meta_by_index ::
  "'w ext \<Rightarrow> 'w \<Rightarrow> int \<Rightarrow> data_block_manager \<Rightarrow> (data_block_meta option, data_block_manager) eff" where
  "acquire_data_block_meta_by_index E w i m =
     (if i < 0 then (Inl IndexError, m)
      else and_then (sync_saved_data_block_index E w m) (\<lambda>_ m'. sync_data_block_meta E w i m'))"

definition update_data_block_meta ::
  "'w ext \<Rightarrow> string \<Rightarrow> data_block_meta \<Rightarrow> data_block_manager \<times> 'w \<Rightarrow>
     (string, data_block_manager \<times> 'w) eff" where
  "update_data_block_meta E tmp meta mw =
     (case mw of (m, w) \<Rightarrow>
        if \<not> ex_exists E w tmp then (Inl RuntimeError, (m, w))
        else if dbm_saving m \<noteq> None then (Inl RuntimeError, (m, w))
        else
          (case dbm_saved m of
             None \<Rightarrow> (Inl TypeError, (m, w))
           | Some s \<Rightarrow>
               let i = data_block_index meta
               in if i \<noteq> s + 1 then (Inl IndexError, (m, w))
                  else
                    let m1 = m\<lparr>dbm_saving := Some i\<rparr>;
                        path = acquire_data_block_meta_path E m1 i
                    in (case ex_rename E w tmp path False of
                          None \<Rightarrow> (Inl OpError, (m1, w))
                        | Some w' \<Rightarrow>
                            (Inr path,
                             (m1\<lparr>dbm_saving := None, dbm_saved := Some i,
                                 dbm_buffer := dict_set i meta
                                   (remove_item_from_data_block_memory_buffer (dbm_buffer m1))\<rparr>, w')))))"

subsection \<open>The search loop finds the boundary of the saved metas\<close>

lemma search_saved_index_bounds:
  assumes "low \<le> high + 1"
  shows "low - 1 \<le> search_saved_index p low high \<and> search_saved_index p low high \<le> high"
  using assms
proof (induction p low high rule: search_saved_index.induct)
  case (1 p low high)
  show ?case
  proof (cases "low \<le> high")
    case True
    define mid where "mid = (low + high) div 2"
    from True have mid: "low \<le> mid" "mid \<le> high" by (auto simp: mid_def)
    show ?thesis
    proof (cases "p mid")
      case p: True
      from "1.IH"(1) [OF True mid_def p] mid
      have "mid + 1 - 1 \<le> search_saved_index p (mid + 1) high \<and> search_saved_index p (mid + 1) high \<le> high"
        by simp
      with True p mid show ?thesis
        by (simp add: search_saved_index.simps [of p low high] Let_def flip: mid_def)
    next
      case p: False
      from "1.IH"(2) [OF True mid_def p] mid
      have "low - 1 \<le> search_saved_index p low (mid - 1) \<and> search_saved_index p low (mid - 1) \<le> mid - 1"
        by simp
      with True p mid show ?thesis
        by (simp add: search_saved_index.simps [of p low high] Let_def flip: mid_def)
    qed
  next
    case False
    with "1.prems" show ?thesis by (simp add: search_saved_index.simps [of p low high])
  qed
qed

lemma search_saved_index_boundary:
  assumes "low \<le> high + 1"
  shows "(search_saved_index p low high = low - 1 \<or> p (search_saved_index p low high)) \<and>
         (search_saved_index p low high = high \<or> \<not> p (search_saved_index p low high + 1))"
  using assms
proof (induction p low high rule: search_saved_index.induct)
  case (1 p low high)
  show ?case
  proof (cases "low \<le> high")
    case True
    define mid where "mid = (low + high) div 2"
    from True have mid: "low \<le> mid" "mid \<le> high" by (auto simp: mid_def)
    show ?thesis
    proof (cases "p mid")
      case p: True
      from True p have eq: "search_saved_index p low high = search_saved_index p (mid + 1) high"
        by (simp add: search_saved_index.simps [of p low high] Let_def flip: mid_def)
      from "1.IH"(1) [OF True mid_def p] mid p show ?thesis by (auto simp: eq)
    next
      case p: False
      from True p have eq: "search_saved_index p low high = search_saved_index p low (mid - 1)"
        by (simp add: search_saved_index.simps [of p low high] Let_def flip: mid_def)
      from "1.IH"(2) [OF True mid_def p] mid p show ?thesis by (auto simp: eq)
    qed
  next
    case False
    with "1.prems" show ?thesis by (simp add: search_saved_index.simps [of p low high])
  qed
qed

lemma search_saved_index_prefix:
  assumes prefix: "\<And>i. low \<le> i \<Longrightarrow> i \<le> high \<Longrightarrow> p i \<longleftrightarrow> i < n" and "low \<le> n" "n \<le> high + 1"
  shows "search_saved_index p low high = n - 1"
proof -
  let ?r = "search_saved_index p low high"
  from assms have le: "low \<le> high + 1" by simp
  note b = search_saved_index_bounds [OF le, of p] search_saved_index_boundary [OF le, of p]
  have "?r < n"
  proof (cases "?r = low - 1")
    case True
    with assms show ?thesis by simp
  next
    case False
    with b prefix [of ?r] show ?thesis by auto
  qed
  moreover have "n \<le> ?r + 1"
  proof (cases "?r = high")
    case True
    with assms show ?thesis by simp
  next
    case False
    with b prefix [of "?r + 1"] show ?thesis by auto
  qed
  ultimately show ?thesis by simp
qed

lemma remove_item_take:
  "remove_item_from_data_block_memory_buffer d = take removed_items_nums_from_buffer d"
proof (induction d rule: remove_item_from_data_block_memory_buffer.induct)
  case (1 d)
  show ?case
  proof (cases "removed_items_nums_from_buffer < length d")
    case True
    with "1" have "remove_item_from_data_block_memory_buffer d = take removed_items_nums_from_buffer (butlast d)"
      by (simp add: remove_item_from_data_block_memory_buffer.simps [of d] popitem_def)
    with True show ?thesis by (simp add: take_butlast)
  next
    case False
    then show ?thesis by (simp add: remove_item_from_data_block_memory_buffer.simps [of d])
  qed
qed

subsection \<open>The abstract contract: a list of metas\<close>

definition metas_on_disk :: "'w ext \<Rightarrow> data_block_manager \<Rightarrow> 'w \<Rightarrow> data_block_meta list \<Rightarrow> bool" where
  "metas_on_disk E m w ms \<longleftrightarrow>
     ex_isdir E w (data_block_dir_wrap E m) \<and>
     int (length ms) \<le> data_block_index_threshold + 1 \<and>
     (\<forall>i < length ms. ex_file E w (acquire_data_block_meta_path E m (int i)) = Some [ex_meta_to_string E (ms ! i)] \<and>
        data_block_index (ms ! i) = int i) \<and>
     (\<forall>i \<ge> length ms. \<not> ex_exists E w (acquire_data_block_meta_path E m (int i)))"

definition buffer_agrees :: "data_block_manager \<Rightarrow> data_block_meta list \<Rightarrow> bool" where
  "buffer_agrees m ms \<longleftrightarrow> distinct (map fst (dbm_buffer m)) \<and>
     (\<forall>(i, meta) \<in> set (dbm_buffer m). 0 \<le> i \<and> i < int (length ms) \<and> meta = ms ! nat i)"

definition dbm_rep :: "'w ext \<Rightarrow> data_block_manager \<Rightarrow> 'w \<Rightarrow> data_block_meta list \<Rightarrow> bool" where
  "dbm_rep E m w ms \<longleftrightarrow>
     world_ok E \<and> names_ok E (dbm_data_source_name m) (dbm_partition_id m) \<and>
     metas_on_disk E m w ms \<and>
     dbm_saved m = Some (int (length ms) - 1) \<and> dbm_saving m = None \<and> buffer_agrees m ms"

lemma dbm_repD:
  assumes "dbm_rep E m w ms"
  shows "world_ok E" "names_ok E (dbm_data_source_name m) (dbm_partition_id m)"
    "metas_on_disk E m w ms" "dbm_saved m = Some (int (length ms) - 1)" "dbm_saving m = None"
    "buffer_agrees m ms"
  using assms by (simp_all add: dbm_rep_def)

lemma meta_path_fields [simp]:
  "acquire_data_block_meta_path E (m\<lparr>dbm_saved := a\<rparr>) = acquire_data_block_meta_path E m"
  "acquire_data_block_meta_path E (m\<lparr>dbm_saving := a\<rparr>) = acquire_data_block_meta_path E m"
  "acquire_data_block_meta_path E (m\<lparr>dbm_buffer := b\<rparr>) = acquire_data_block_meta_path E m"
  "data_block_dir_wrap E (m\<lparr>dbm_saved := a\<rparr>) = data_block_dir_wrap E m"
  "data_block_dir_wrap E (m\<lparr>dbm_saving := a\<rparr>) = data_block_dir_wrap E m"
  "data_block_dir_wrap E (m\<lparr>dbm_buffer := b\<rparr>) = data_block_dir_wrap E m"
  by (simp_all add: fun_eq_iff acquire_data_block_meta_path_def data_block_dir_wrap_def)

lemma metas_on_disk_fields [simp]:
  "metas_on_disk E (m\<lparr>dbm_saved := a\<rparr>) = metas_on_disk E m"
  "metas_on_disk E (m\<lparr>dbm_saving := a\<rparr>) = metas_on_disk E m"
  "metas_on_disk E (m\<lparr>dbm_buffer := b\<rparr>) = metas_on_disk E m"
  by (simp_all add: fun_eq_iff metas_on_disk_def)

lemma meta_path_inject:
  assumes "names_ok E (dbm_data_source_name m) (dbm_partition_id m)"
  shows "acquire_data_block_meta_path E m i = acquire_data_block_meta_path E m j \<longleftrightarrow> i = j"
  using assms by (auto simp: acquire_data_block_meta_path_def path_join_inject names_ok_def)

lemma metas_on_disk_exists:
  assumes "metas_on_disk E m w ms" and "0 \<le> i"
  shows "ex_exists E w (acquire_data_block_meta_path E m i) \<longleftrightarrow> i < int (length ms)"
proof (cases "i < int (length ms)")
  case True
  with assms have "ex_file E w (acquire_data_block_meta_path E m i) = Some [ex_meta_to_string E (ms ! nat i)]"
    by (auto simp: metas_on_disk_def dest: spec [of _ "nat i"])
  with True show ?thesis by (simp add: exists_file)
next
  case False
  with assms show ?thesis by (auto simp: metas_on_disk_def dest: spec [of _ "nat i"])
qed

lemma sync_rep: "dbm_rep E m w ms \<Longrightarrow> sync_saved_data_block_index E w m = (Inr (), m)"
  by (simp add: sync_saved_data_block_index_def dbm_rep_def)

lemma sync_fresh_manager:
  assumes disk: "metas_on_disk E m w ms" and "dbm_saved m = None" "dbm_saving m = None"
  shows "sync_saved_data_block_index E w m = (Inr (), m\<lparr>dbm_saved := Some (int (length ms) - 1)\<rparr>)"
proof -
  have "search_saved_index (\<lambda>i. ex_exists E w (acquire_data_block_meta_path E m i)) 0 data_block_index_threshold
          = int (length ms) - 1"
    using disk metas_on_disk_exists [OF disk]
    by (intro search_saved_index_prefix) (auto simp: metas_on_disk_def)
  with assms show ?thesis by (simp add: sync_saved_data_block_index_def)
qed

lemma number_rep:
  "dbm_rep E m w ms \<Longrightarrow> acquire_produced_data_block_number E w m = (Inr (int (length ms)), m)"
  by (simp add: acquire_produced_data_block_number_def sync_rep) (simp add: dbm_rep_def)

lemma buffer_get:
  assumes "buffer_agrees m ms" "dict_get (dbm_buffer m) i = Some meta"
  shows "0 \<le> i" "i < int (length ms)" "meta = ms ! nat i"
  using assms by (auto simp: buffer_agrees_def dest!: map_of_SomeD)

lemma fetch_negative: "i < 0 \<Longrightarrow> acquire_data_block_meta_by_index E w i m = (Inl IndexError, m)"
  by (simp add: acquire_data_block_meta_by_index_def)

lemma fetch_beyond:
  "dbm_rep E m w ms \<Longrightarrow> int (length ms) \<le> i \<Longrightarrow> acquire_data_block_meta_by_index E w i m = (Inr None, m)"
  by (simp add: acquire_data_block_meta_by_index_def sync_rep sync_data_block_meta_def dbm_repD)

lemma fetch_cached:
  assumes "dbm_rep E m w ms" "dict_get (dbm_buffer m) i = Some meta"
  shows "acquire_data_block_meta_by_index E w i m = (Inr (Some (ms ! nat i)), m)"
  using buffer_get [OF dbm_repD(6) [OF assms(1)] assms(2)] assms
  by (auto simp: acquire_data_block_meta_by_index_def sync_rep sync_data_block_meta_def dbm_repD)

lemma fetch_uncached:
  assumes rep: "dbm_rep E m w ms" and i: "0 \<le> i" "i < int (length ms)"
    and miss: "dict_get (dbm_buffer m) i = None"
  shows "acquire_data_block_meta_by_index E w i m =
    (let m' = m\<lparr>dbm_buffer := take removed_items_nums_from_buffer (dbm_buffer m @ [(i, ms ! nat i)])\<rparr>
     in (if length (dbm_buffer m) < removed_items_nums_from_buffer
         then Inr (Some (ms ! nat i)) else Inl KeyError, m'))"
proof -
  have fl: "ex_file E w (acquire_data_block_meta_path E m i) = Some [ex_meta_to_string E (ms ! nat i)]"
    using dbm_repD(3) [OF rep] i by (auto simp: metas_on_disk_def dest: spec [of _ "nat i"])
  have parse: "ex_meta_parse E (ex_meta_to_string E (ms ! nat i)) = Some (ms ! nat i)"
    using world_okD(7) [OF dbm_repD(1) [OF rep]] by (simp add: prints_ok_def)
  have new: "i \<notin> fst ` set (dbm_buffer m)" using miss by (simp add: dict_get_None_notin)
  have ne: "ms \<noteq> []" using i by auto
  have full: "dict_get (take removed_items_nums_from_buffer (dbm_buffer m)) i = None"
    using new by (auto simp: map_of_eq_None_iff dest: in_set_takeD)
  have loaded: "acquire_data_block_meta_by_index E w i m =
      (let m' = m\<lparr>dbm_buffer := take removed_items_nums_from_buffer (dbm_buffer m @ [(i, ms ! nat i)])\<rparr>
       in (map_sum id Some (raising (dict_get (dbm_buffer m') i) KeyError), m'))"
    using rep i miss fl parse dict_set_new [OF new] ne
    by (simp add: acquire_data_block_meta_by_index_def sync_rep sync_data_block_meta_def dbm_repD
        remove_item_take Let_def)
  show ?thesis
  proof (cases "length (dbm_buffer m) < removed_items_nums_from_buffer")
    case True
    with loaded miss show ?thesis by (simp add: Let_def map_add_def)
  next
    case False
    with loaded full show ?thesis by (simp add: Let_def)
  qed
qed

lemma buffer_agrees_take_append:
  assumes agrees: "buffer_agrees m ms" and i: "0 \<le> i" "i < int (length ms)"
    and new: "dict_get (dbm_buffer m) i = None"
  shows "buffer_agrees (m\<lparr>dbm_buffer := take n (dbm_buffer m @ [(i, ms ! nat i)])\<rparr>) ms"
proof -
  let ?b = "dbm_buffer m @ [(i, ms ! nat i)]"
  have "distinct (map fst ?b)"
    using agrees new by (auto simp: buffer_agrees_def dict_get_None_notin)
  then have "distinct (map fst (take n ?b))"
    by (metis distinct_take take_map)
  moreover have "\<forall>(j, meta) \<in> set ?b. 0 \<le> j \<and> j < int (length ms) \<and> meta = ms ! nat j"
    using agrees i by (auto simp: buffer_agrees_def)
  then have "\<forall>(j, meta) \<in> set (take n ?b). 0 \<le> j \<and> j < int (length ms) \<and> meta = ms ! nat j"
    by (meson in_set_takeD)
  ultimately show ?thesis by (simp add: buffer_agrees_def)
qed

lemma fetch_keeps_rep:
  assumes rep: "dbm_rep E m w ms"
  shows "dbm_rep E (snd (acquire_data_block_meta_by_index E w i m)) w ms"
proof -
  consider "i < 0" | "int (length ms) \<le> i" | "0 \<le> i" "i < int (length ms)" "dict_get (dbm_buffer m) i \<noteq> None"
    | "0 \<le> i" "i < int (length ms)" "dict_get (dbm_buffer m) i = None"
    by fastforce
  then show ?thesis
  proof cases
    case 1
    with rep show ?thesis by (simp add: fetch_negative)
  next
    case 2
    with rep show ?thesis by (simp add: fetch_beyond)
  next
    case 3
    with rep show ?thesis by (auto simp: fetch_cached)
  next
    case 4
    from fetch_uncached [OF rep this]
    have "snd (acquire_data_block_meta_by_index E w i m) =
        m\<lparr>dbm_buffer := take removed_items_nums_from_buffer (dbm_buffer m @ [(i, ms ! nat i)])\<rparr>"
      by (simp add: Let_def)
    moreover note buffer_agrees_take_append [OF dbm_repD(6) [OF rep] 4, of removed_items_nums_from_buffer]
    ultimately show ?thesis using rep by (simp add: dbm_rep_def)
  qed
qed

lemma fetch_stored:
  assumes rep: "dbm_rep E m w ms" and i: "0 \<le> i" "i < int (length ms)"
    and room: "length (dbm_buffer m) < removed_items_nums_from_buffer \<or> dict_get (dbm_buffer m) i \<noteq> None"
  shows "fst (acquire_data_block_meta_by_index E w i m) = Inr (Some (ms ! nat i))"
proof (cases "dict_get (dbm_buffer m) i")
  case None
  with assms show ?thesis by (simp add: fetch_uncached Let_def)
next
  case (Some meta)
  with rep show ?thesis by (simp add: fetch_cached)
qed

lemma uncached_room:
  assumes "buffer_agrees m ms" "0 \<le> i" "i < int (length ms)" "dict_get (dbm_buffer m) i = None"
  shows "length (dbm_buffer m) < length ms"
proof -
  have "fst ` set (dbm_buffer m) \<subseteq> {0..<int (length ms)} - {i}"
    using assms by (auto simp: buffer_agrees_def dict_get_None_notin)
  then have "card (fst ` set (dbm_buffer m)) \<le> card ({0..<int (length ms)} - {i})"
    by (intro card_mono) simp_all
  also have "\<dots> < length ms" using assms(2,3) by (simp add: card_Diff_singleton)
  finally have "card (fst ` set (dbm_buffer m)) < length ms" .
  then show ?thesis using assms(1) by (metis buffer_agrees_def distinct_card length_map list.set_map)
qed

lemma fetch_small:
  assumes rep: "dbm_rep E m w ms" and i: "0 \<le> i" "i < int (length ms)"
    and small: "length ms \<le> removed_items_nums_from_buffer"
  shows "fst (acquire_data_block_meta_by_index E w i m) = Inr (Some (ms ! nat i))"
  by (rule fetch_stored [OF rep i])
    (use uncached_room [OF dbm_repD(6) [OF rep] i] small in \<open>auto intro: less_le_trans\<close>)

lemma update_wrong_index:
  assumes "dbm_rep E m w ms" "ex_exists E w tmp" "data_block_index meta \<noteq> int (length ms)"
  shows "update_data_block_meta E tmp meta (m, w) = (Inl IndexError, (m, w))"
  using assms by (simp add: update_data_block_meta_def dbm_rep_def)

lemma buffer_agrees_snoc:
  assumes "buffer_agrees m ms"
  shows "buffer_agrees (m\<lparr>dbm_buffer := dict_set (int (length ms)) meta
           (take n (dbm_buffer m))\<rparr>) (ms @ [meta])"
proof -
  let ?b = "take n (dbm_buffer m)"
  have dist: "distinct (map fst ?b)"
    using assms unfolding buffer_agrees_def by (metis distinct_take take_map)
  have old: "0 \<le> j \<and> j < int (length ms) \<and> v = ms ! nat j" if "(j, v) \<in> set ?b" for j v
    using assms that by (auto simp: buffer_agrees_def dest: in_set_takeD)
  have "0 \<le> j \<and> j < int (length (ms @ [meta])) \<and> v = (ms @ [meta]) ! nat j"
    if "(j, v) \<in> set (dict_set (int (length ms)) meta ?b)" for j v
    using dict_set_mem [OF that dist] old [of j v] by (auto simp: nth_append)
  then show ?thesis
    unfolding buffer_agrees_def using dict_set_distinct [OF dist] by auto
qed

lemma metas_on_disk_snoc:
  assumes disk: "metas_on_disk E m w ms" and names: "names_ok E (dbm_data_source_name m) (dbm_partition_id m)"
    and room: "int (length ms) \<le> data_block_index_threshold"
    and idx: "data_block_index meta = int (length ms)"
    and tmp: "\<And>i. tmp \<noteq> acquire_data_block_meta_path E m i"
    and fl: "ex_file E w' = ((ex_file E w)(acquire_data_block_meta_path E m (int (length ms)) \<mapsto>
                [ex_meta_to_string E meta]))(tmp := None)"
    and dir: "ex_isdir E w' = ex_isdir E w"
  shows "metas_on_disk E m w' (ms @ [meta])"
proof -
  have other: "ex_file E w' (acquire_data_block_meta_path E m (int i)) =
      ex_file E w (acquire_data_block_meta_path E m (int i))" if "i \<noteq> length ms" for i
    using tmp [of "int i"] that by (simp add: fl meta_path_inject [OF names])
  have this_one: "ex_file E w' (acquire_data_block_meta_path E m (int (length ms))) = Some [ex_meta_to_string E meta]"
    using tmp [of "int (length ms)"] by (simp add: fl)
  show ?thesis
    using disk room idx other this_one
    by (auto simp: metas_on_disk_def dir ex_exists_def nth_append not_less less_Suc_eq)
qed

lemma update_appends:
  assumes rep: "dbm_rep E m w ms" and idx: "data_block_index meta = int (length ms)"
    and room: "int (length ms) \<le> data_block_index_threshold"
    and fl: "ex_file E w tmp = Some [ex_meta_to_string E meta]"
    and tmp: "\<And>i. tmp \<noteq> acquire_data_block_meta_path E m i"
  obtains m' w' where
    "update_data_block_meta E tmp meta (m, w) =
       (Inr (acquire_data_block_meta_path E m (int (length ms))), (m', w'))"
    "dbm_rep E m' w' (ms @ [meta])"
    "m' = m\<lparr>dbm_saving := None, dbm_saved := Some (int (length ms)),
            dbm_buffer := dict_set (int (length ms)) meta (take removed_items_nums_from_buffer (dbm_buffer m))\<rparr>"
    "ex_file E w' = ((ex_file E w)(acquire_data_block_meta_path E m (int (length ms)) \<mapsto>
                [ex_meta_to_string E meta]))(tmp := None)"
    "ex_isdir E w' = ex_isdir E w"
proof -
  let ?p = "acquire_data_block_meta_path E m (int (length ms))"
  note r = dbm_repD [OF rep]
  have free: "\<not> ex_exists E w ?p"
    using metas_on_disk_exists [OF r(3), of "int (length ms)"] by simp
  then have "\<not> ex_isdir E w ?p" "False \<or> ex_file E w ?p = None"
    by (auto simp: ex_exists_def)
  from rename_succeeds [OF r(1) fl this tmp] obtain w' where
    ren: "ex_rename E w tmp ?p False = Some w'" and
    fl': "ex_file E w' = ((ex_file E w)(?p \<mapsto> [ex_meta_to_string E meta]))(tmp := None)" and
    dir': "ex_isdir E w' = ex_isdir E w" by blast
  let ?m = "m\<lparr>dbm_saving := None, dbm_saved := Some (int (length ms)),
            dbm_buffer := dict_set (int (length ms)) meta (take removed_items_nums_from_buffer (dbm_buffer m))\<rparr>"
  have upd: "update_data_block_meta E tmp meta (m, w) = (Inr ?p, (?m, w'))"
    using r idx ren exists_file [OF fl] by (simp add: update_data_block_meta_def remove_item_take Let_def)
  have "dbm_rep E ?m w' (ms @ [meta])"
    using r metas_on_disk_snoc [OF r(3,2) room idx tmp fl' dir']
      buffer_agrees_snoc [OF r(6), of meta removed_items_nums_from_buffer]
    by (simp add: dbm_rep_def buffer_agrees_def)
  with upd fl' dir' that show ?thesis by blast
qed

lemma init_manager_rep:
  assumes "world_ok E" "names_ok E src pid"
    and disk: "metas_on_disk E \<lparr>dbm_partition_id = pid, dbm_data_block_dir = dir, dbm_data_source_name = src,
               dbm_buffer = [], dbm_saved = None, dbm_saving = None\<rparr> w ms"
  shows "\<exists>m. init_data_block_manager E pid dir src w = (Inr m, w) \<and> dbm_rep E m w ms \<and> dbm_buffer m = []"
proof -
  let ?m = "\<lparr>dbm_partition_id = pid, dbm_data_block_dir = dir, dbm_data_source_name = src,
               dbm_buffer = [], dbm_saved = None, dbm_saving = None\<rparr>"
  have "create_data_block_dir_if_need E ?m w = (Inr (), w)"
    using disk by (simp add: create_data_block_dir_if_need_def metas_on_disk_def ex_exists_def Let_def)
  moreover have "sync_saved_data_block_index E w ?m = (Inr (), ?m\<lparr>dbm_saved := Some (int (length ms) - 1)\<rparr>)"
    using sync_fresh_manager [OF disk] by simp
  moreover have "metas_on_disk E (?m\<lparr>dbm_saved := Some (int (length ms) - 1)\<rparr>) w ms"
    using disk by (simp only: metas_on_disk_fields)
  ultimately show ?thesis
    using assms by (simp add: init_data_block_manager_def dbm_rep_def buffer_agrees_def)
qed

end
