(* ===== verification/Block_Maker.thy ===== *)
theory Block_Maker
  imports Block_Manager
begin

section \<open>DataBlockMaker: one data block under construction\<close>

text \<open>
  \<^verbatim>\<open>data_join/data_block_maker.py\<close>. A maker collects the records of one block in a
  temporary record file and the example ids and times in a meta; the finalizer gives the data
  file its name, stores the meta (through the manager when one is attached) and reports both
  paths in distribute mode. The manager is an object shared with the joiner or the saver, so
  the finalizer runs on the triple of maker, manager and world.
\<close>

record data_block_maker =
  mk_data_source_name :: string
  mk_has_manager :: bool
  mk_saved_example_num :: int
  mk_partition_id :: int
  mk_meta :: data_block_meta
  mk_example_num_threshold :: "int option"
  mk_data_block_dir_name :: string
  mk_tmp_file_path_counter :: int
  mk_tmp_file_path :: string
  mk_written :: "bytes list" \<comment> \<open>the records handed to the TFRecordWriter\<close>

subsection \<open>Operations\<close>

definition obtain_data_block_dir :: "'w ext \<Rightarrow> data_block_maker \<Rightarrow> string" where
  "obtain_data_block_dir E mk = path_join (mk_data_block_dir_name mk) (ex_partition_dir E (mk_partition_id mk))"

definition make_tmp_file_path :: "'w ext \<Rightarrow> 'w \<Rightarrow> data_block_maker \<Rightarrow> string \<times> data_block_maker" where
  "make_tmp_file_path E w mk =
     (path_join (obtain_data_block_dir E mk) (tmp_name (ex_uuid E w) (mk_tmp_file_path_counter mk)),
      mk\<lparr>mk_tmp_file_path_counter := mk_tmp_file_path_counter mk + 1\<rparr>)"

definition init_data_block_maker ::
  "'w ext \<Rightarrow> string \<Rightarrow> string \<Rightarrow> int \<Rightarrow> int \<Rightarrow> int option \<Rightarrow> 'w \<Rightarrow> (data_block_maker, 'w) eff" where
  "init_data_block_maker E dir src pid idx thr w =
     (if \<not> int64_ok pid \<or> \<not> int64_ok idx then (Inl ValueError, w)
      else
        let mk0 = \<lparr>mk_data_source_name = src, mk_has_manager = False, mk_saved_example_num = 0,
                   mk_partition_id = pid,
                   mk_meta = empty_data_block_meta\<lparr>partition_id := pid, data_block_index := idx,
                               follower_restart_index := 0\<rparr>,
                   mk_example_num_threshold = thr, mk_data_block_dir_name = dir,
                   mk_tmp_file_path_counter = 0, mk_tmp_file_path = [], mk_written = []\<rparr>;
            (tmp, mk1) = make_tmp_file_path E w mk0
        in (case ex_write E w tmp [] of
              None \<Rightarrow> (Inl OpError, w)
            | Some w' \<Rightarrow> (Inr (mk1\<lparr>mk_tmp_file_path := tmp\<rparr>), w')))"

definition build_data_block_manager :: "data_block_maker \<Rightarrow> data_block_maker" where
  "build_data_block_manager mk = mk\<lparr>mk_has_manager := True\<rparr>"

definition set_start_time :: "int \<Rightarrow> data_block_maker \<Rightarrow> (unit, data_block_maker) eff" where
  "set_start_time t mk =
     (if int64_ok t then (Inr (), mk\<lparr>mk_meta := (mk_meta mk)\<lparr>start_time := t\<rparr>\<rparr>) else (Inl ValueError, mk))"

definition set_end_time :: "int \<Rightarrow> data_block_maker \<Rightarrow> (unit, data_block_maker) eff" where
  "set_end_time t mk =
     (if int64_ok t then (Inr (), mk\<lparr>mk_meta := (mk_meta mk)\<lparr>end_time := t\<rparr>\<rparr>) else (Inl ValueError, mk))"

definition save :: "bytes \<Rightarrow> bytes \<Rightarrow> int option \<Rightarrow> data_block_maker \<Rightarrow> (unit, data_block_maker) eff" where
  "save data_record example_id event_time mk =
     (let mk1 = mk\<lparr>mk_written := mk_written mk @ [data_record],
                   mk_meta := (mk_meta mk)\<lparr>example_ids := example_ids (mk_meta mk) @ [example_id]\<rparr>\<rparr>
      in case event_time of
           None \<Rightarrow> (Inl TypeError, mk1)
         | Some t \<Rightarrow>
             and_then
               (if mk_saved_example_num mk1 = 0
                then and_then (set_start_time t mk1) (\<lambda>_. set_end_time t)
                else and_then
                       (if t < start_time (mk_meta mk1) then set_start_time t mk1 else (Inr (), mk1))
                       (\<lambda>_ mk2. if t > end_time (mk_meta mk2) then set_end_time t mk2 else (Inr (), mk2)))
               (\<lambda>_ mk3. (Inr (), mk3\<lparr>mk_saved_example_num := mk_saved_example_num mk3 + 1\<rparr>)))"

definition init_maker_by_input_meta :: "data_block_meta \<Rightarrow> data_block_maker \<Rightarrow> data_block_maker" where
  "init_maker_by_input_meta meta mk =
     mk\<lparr>mk_partition_id := partition_id meta, mk_example_num_threshold := None, mk_meta := meta\<rparr>"

definition set_restart_data_join_index :: "int \<Rightarrow> data_block_maker \<Rightarrow> data_block_maker" where
  "set_restart_data_join_index i mk = mk\<lparr>mk_meta := (mk_meta mk)\<lparr>follower_restart_index := i\<rparr>\<rparr>"

definition is_data_block_exceed_threshold :: "data_block_maker \<Rightarrow> bool" where
  "is_data_block_exceed_threshold mk =
     (case mk_example_num_threshold mk of
        None \<Rightarrow> False
      | Some t \<Rightarrow> int (length (example_ids (mk_meta mk))) \<ge> t)"

definition save_data_record :: "bytes \<Rightarrow> data_block_maker \<Rightarrow> data_block_maker" where
  "save_data_record record mk =
     mk\<lparr>mk_written := mk_written mk @ [record], mk_saved_example_num := mk_saved_example_num mk + 1\<rparr>"

definition make_data_block_meta ::
  "'w ext \<Rightarrow> data_block_maker \<times> data_block_manager \<times> 'w \<Rightarrow>
     (string, data_block_maker \<times> data_block_manager \<times> 'w) eff" where
  "make_data_block_meta E st =
     (case st of (mk, m, w) \<Rightarrow>
        let (tmp, mk1) = make_tmp_file_path E w mk
        in (case ex_write E w tmp [ex_meta_to_string E (mk_meta mk1)] of
              None \<Rightarrow> (Inl OpError, (mk1, m, w))
            | Some w1 \<Rightarrow>
                if mk_has_manager mk1
                then then_do (update_data_block_meta E tmp (mk_meta mk1) (m, w1))
                       (\<lambda>path (m', w'). (Inr path, (mk1, m', w')))
                       (\<lambda>(m', w'). (mk1, m', w'))
                else
                  let path = path_join (obtain_data_block_dir E mk1)
                               (ex_meta_name E (mk_data_source_name mk1) (mk_partition_id mk1)
                                  (data_block_index (mk_meta mk1)))
                  in (case ex_rename E w1 tmp path False of
                        None \<Rightarrow> (Inl OpError, (mk1, m, w1))
                      | Some w2 \<Rightarrow> (Inr path, (mk1, m, w2)))))"

definition data_block_finalizer ::
  "'w ext \<Rightarrow> data_block_maker \<times> data_block_manager \<times> 'w \<Rightarrow>
     (data_block_meta option, data_block_maker \<times> data_block_manager \<times> 'w) eff" where
  "data_block_finalizer E st =
     (case st of (mk, m, w) \<Rightarrow>
        if mk_saved_example_num mk \<noteq> int (length (example_ids (mk_meta mk)))
        then (Inl AssertionError, (mk, m, w))
        else
          (case ex_write E w (mk_tmp_file_path mk) (mk_written mk) of
             None \<Rightarrow> (Inl OpError, (mk, m, w))
           | Some w1 \<Rightarrow>
               if example_ids (mk_meta mk) \<noteq> []
               then
                 let mk1 = mk\<lparr>mk_meta := (mk_meta mk)\<lparr>block_id := ex_block_id E (mk_data_source_name mk) (mk_meta mk)\<rparr>\<rparr>;
                     path = path_join (obtain_data_block_dir E mk1)
                              (ex_block_name E (mk_data_source_name mk1) (mk_meta mk1))
                 in (case ex_rename E w1 (mk_tmp_file_path mk1) path True of
                       None \<Rightarrow> (Inl OpError, (mk1, m, w1))
                     | Some w2 \<Rightarrow>
                         and_then (make_data_block_meta E (mk1, m, w2))
                           (\<lambda>meta_path (mk2, m2, w3).
                              if ex_distribute E
                              then (case ex_post E w3 meta_path path of
                                      None \<Rightarrow> (Inl RpcError, (mk2, m2, w3))
                                    | Some w4 \<Rightarrow> (Inr (Some (mk_meta mk2)), (mk2, m2, w4)))
                              else (Inr (Some (mk_meta mk2)), (mk2, m2, w3))))
               else
                 (case ex_remove E w1 (mk_tmp_file_path mk) of
                    None \<Rightarrow> (Inl OpError, (mk, m, w1))
                  | Some w2 \<Rightarrow> (Inr None, (mk, m, w2)))))"

subsection \<open>The meta of a block under construction\<close>

text \<open>
  What \<open>save\<close> maintains: the number of saved examples is the number of ids and of records,
  and the times are the extremes of the event times seen.
\<close>

definition maker_counts :: "data_block_maker \<Rightarrow> bool" where
  "maker_counts mk \<longleftrightarrow>
     mk_saved_example_num mk = int (length (example_ids (mk_meta mk))) \<and>
     length (mk_written mk) = length (example_ids (mk_meta mk))"

fun save_all :: "(bytes \<times> bytes \<times> int option) list \<Rightarrow> data_block_maker \<Rightarrow> (unit, data_block_maker) eff" where
  "save_all [] mk = (Inr (), mk)"
| "save_all ((r, e, t) # xs) mk = and_then (save r e t mk) (\<lambda>_. save_all xs)"

lemma save_ok:
  assumes "int64_ok t" and "maker_counts mk"
  shows "\<exists>mk'. save r e (Some t) mk = (Inr (), mk') \<and> maker_counts mk' \<and>
      mk_written mk' = mk_written mk @ [r] \<and>
      mk_meta mk' = (mk_meta mk)\<lparr>example_ids := example_ids (mk_meta mk) @ [e],
        start_time := (if example_ids (mk_meta mk) = [] then t else min t (start_time (mk_meta mk))),
        end_time := (if example_ids (mk_meta mk) = [] then t
                     else max t (end_time (mk_meta mk)))\<rparr> \<and>
      mk' = mk\<lparr>mk_written := mk_written mk', mk_meta := mk_meta mk', mk_saved_example_num := mk_saved_example_num mk'\<rparr>"
  using assms
  by (auto simp: save_def set_start_time_def set_end_time_def maker_counts_def Let_def min_def max_def)

lemma save_bad_time:
  assumes "\<not> int64_ok t" and "mk_saved_example_num mk = 0"
  shows "save r e (Some t) mk = (Inl ValueError,
      mk\<lparr>mk_written := mk_written mk @ [r],
         mk_meta := (mk_meta mk)\<lparr>example_ids := example_ids (mk_meta mk) @ [e]\<rparr>\<rparr>)"
  using assms by (simp add: save_def set_start_time_def Let_def)

text \<open>
  A failed \<open>save\<close> has already written the record and the id, so the maker's count stays
  behind for good: whatever is saved afterwards, the finalizer raises.
\<close>

definition maker_behind :: "data_block_maker \<Rightarrow> bool" where
  "maker_behind mk \<longleftrightarrow> mk_saved_example_num mk < int (length (example_ids (mk_meta mk)))"

lemma save_effect:
  "example_ids (mk_meta (snd (save r e t mk))) = example_ids (mk_meta mk) @ [e] \<and>
   mk_saved_example_num (snd (save r e t mk)) =
     (if isl (fst (save r e t mk)) then mk_saved_example_num mk else mk_saved_example_num mk + 1)"
  by (cases t) (simp_all add: save_def set_start_time_def set_end_time_def Let_def)

lemma save_cases:
  obtains (completed) mk' where "save r e t mk = (Inr (), mk')"
      "mk_saved_example_num mk' = mk_saved_example_num mk + 1"
      "example_ids (mk_meta mk') = example_ids (mk_meta mk) @ [e]"
  | (raised) ex mk' where "save r e t mk = (Inl ex, mk')"
      "mk_saved_example_num mk' = mk_saved_example_num mk"
      "example_ids (mk_meta mk') = example_ids (mk_meta mk) @ [e]"
  using save_effect [of r e t mk] by (cases "save r e t mk"; cases "fst (save r e t mk)") auto

lemma save_behind: "maker_behind mk \<Longrightarrow> maker_behind (snd (save r e t mk))"
  by (cases rule: save_cases [of r e t mk]) (auto simp: maker_behind_def)

lemma save_raised_behind:
  "mk_saved_example_num mk \<le> int (length (example_ids (mk_meta mk))) \<Longrightarrow>
     save r e t mk = (Inl ex, mk') \<Longrightarrow> maker_behind mk'"
  by (cases rule: save_cases [of r e t mk]) (auto simp: maker_behind_def)

lemma finalizer_behind:
  "maker_behind mk \<Longrightarrow> data_block_finalizer E (mk, m, w) = (Inl AssertionError, (mk, m, w))"
  by (simp add: data_block_finalizer_def maker_behind_def)

subsection \<open>The finalizer stores the block\<close>

definition block_path :: "'w ext \<Rightarrow> data_block_manager \<Rightarrow> data_block_meta \<Rightarrow> string" where
  "block_path E m meta = path_join (data_block_dir_wrap E m) (ex_block_name E (dbm_data_source_name m) meta)"

definition block_dir_ok :: "'w ext \<Rightarrow> data_block_manager \<Rightarrow> 'w \<Rightarrow> bool" where
  "block_dir_ok E m w \<longleftrightarrow> (\<forall>meta. \<not> ex_isdir E w (block_path E m meta))"

definition post_answers :: "'w ext \<Rightarrow> bool" where
  "post_answers E \<longleftrightarrow> (ex_distribute E \<longrightarrow> (\<forall>w p q. ex_post E w p q \<noteq> None))"

text \<open>A maker attached to a manager, with its temporary file open in the manager's directory.\<close>

definition maker_ready :: "'w ext \<Rightarrow> data_block_manager \<Rightarrow> 'w \<Rightarrow> data_block_maker \<Rightarrow> bool" where
  "maker_ready E m w mk \<longleftrightarrow>
     mk_has_manager mk \<and> mk_data_block_dir_name mk = dbm_data_block_dir m \<and>
     mk_data_source_name mk = dbm_data_source_name m \<and> mk_partition_id mk = dbm_partition_id m \<and>
     (\<exists>n. mk_tmp_file_path mk = path_join (data_block_dir_wrap E m) n \<and> file_name n \<and>
        (\<forall>i. n \<noteq> ex_meta_name E (dbm_data_source_name m) (dbm_partition_id m) i) \<and>
        (\<forall>b. n \<noteq> ex_block_name E (dbm_data_source_name m) b)) \<and>
     ex_file E w (mk_tmp_file_path mk) \<noteq> None \<and>
     \<not> ex_isdir E w (mk_tmp_file_path mk)"

definition named_meta :: "'w ext \<Rightarrow> data_block_manager \<Rightarrow> data_block_meta \<Rightarrow> data_block_meta" where
  "named_meta E m meta = meta\<lparr>block_id := ex_block_id E (dbm_data_source_name m) meta\<rparr>"

lemma named_meta_fields [simp]:
  "example_ids (named_meta E m meta) = example_ids meta"
  "data_block_index (named_meta E m meta) = data_block_index meta"
  "partition_id (named_meta E m meta) = partition_id meta"
  by (simp_all add: named_meta_def)

lemma maker_ready_dir [simp]: "maker_ready E m w mk \<Longrightarrow> obtain_data_block_dir E mk = data_block_dir_wrap E m"
  by (simp add: maker_ready_def obtain_data_block_dir_def data_block_dir_wrap_def)

lemma block_path_neq_meta_path:
  assumes "names_ok E (dbm_data_source_name m) (dbm_partition_id m)"
  shows "block_path E m meta \<noteq> acquire_data_block_meta_path E m i"
  using assms by (auto simp: block_path_def acquire_data_block_meta_path_def path_join_inject names_ok_def)

lemma block_path_inject:
  assumes "names_ok E (dbm_data_source_name m) (dbm_partition_id m)"
    and "data_block_index b \<noteq> data_block_index b'"
  shows "block_path E m b \<noteq> block_path E m b'"
  using assms by (auto simp: block_path_def path_join_inject names_ok_def)

lemma metas_on_disk_other_file:
  assumes disk: "metas_on_disk E m w ms"
    and fl: "\<And>i. ex_file E w' (acquire_data_block_meta_path E m i) = ex_file E w (acquire_data_block_meta_path E m i)"
    and dir: "ex_isdir E w' = ex_isdir E w"
  shows "metas_on_disk E m w' ms"
  using disk by (simp add: metas_on_disk_def ex_exists_def fl dir)

lemma dbm_rep_other_file:
  assumes "dbm_rep E m w ms"
    and "\<And>i. ex_file E w' (acquire_data_block_meta_path E m i) = ex_file E w (acquire_data_block_meta_path E m i)"
    and "ex_isdir E w' = ex_isdir E w"
  shows "dbm_rep E m w' ms"
  using assms metas_on_disk_other_file [of E m w ms w'] by (simp add: dbm_rep_def)

text \<open>Storing the meta through the manager.\<close>

lemma make_meta_appends:
  assumes rep: "dbm_rep E m w ms" and ready: "mk_has_manager mk" "obtain_data_block_dir E mk = data_block_dir_wrap E m"
    and idx: "data_block_index (mk_meta mk) = int (length ms)"
    and room: "int (length ms) \<le> data_block_index_threshold"
  obtains mk' m' w' where
    "make_data_block_meta E (mk, m, w) =
       (Inr (acquire_data_block_meta_path E m (int (length ms))), (mk', m', w'))"
    "mk_meta mk' = mk_meta mk" "dbm_rep E m' w' (ms @ [mk_meta mk])"
    "dbm_partition_id m' = dbm_partition_id m" "dbm_data_block_dir m' = dbm_data_block_dir m"
    "dbm_data_source_name m' = dbm_data_source_name m"
    "ex_file E w' = (ex_file E w)(acquire_data_block_meta_path E m (int (length ms)) \<mapsto>
        [ex_meta_to_string E (mk_meta mk)])"
    "ex_isdir E w' = ex_isdir E w"
proof -
  note r = dbm_repD [OF rep]
  let ?n = "tmp_name (ex_uuid E w) (mk_tmp_file_path_counter mk)"
  let ?tmp = "path_join (data_block_dir_wrap E m) ?n"
  let ?mk = "mk\<lparr>mk_tmp_file_path_counter := mk_tmp_file_path_counter mk + 1\<rparr>"
  note fresh = tmp_fresh [OF r(1)]
  have dir: "ex_isdir E w (data_block_dir_wrap E m)" using r(3) by (simp add: metas_on_disk_def)
  have neq: "?tmp \<noteq> acquire_data_block_meta_path E m i" for i
    using fresh(3,4) r(2) by (auto simp: acquire_data_block_meta_path_def path_join_inject names_ok_def)
  obtain w1 where wr: "ex_write E w ?tmp [ex_meta_to_string E (mk_meta mk)] = Some w1"
      "ex_file E w1 = (ex_file E w)(?tmp \<mapsto> [ex_meta_to_string E (mk_meta mk)])"
      "ex_isdir E w1 = ex_isdir E w"
    by (rule write_succeeds [OF r(1) dir fresh(3) fresh(2)])
  have rep1: "dbm_rep E m w1 ms"
    by (rule dbm_rep_other_file [OF rep]) (use neq wr in \<open>simp_all add: neq [symmetric]\<close>)
  have "ex_file E w1 ?tmp = Some [ex_meta_to_string E (mk_meta mk)]" using wr by simp
  from update_appends [OF rep1 idx room this neq] obtain m' w' where
    up: "update_data_block_meta E ?tmp (mk_meta mk) (m, w1) =
          (Inr (acquire_data_block_meta_path E m (int (length ms))), (m', w'))"
        "dbm_rep E m' w' (ms @ [mk_meta mk])"
        "ex_file E w' = ((ex_file E w1)(acquire_data_block_meta_path E m (int (length ms)) \<mapsto>
            [ex_meta_to_string E (mk_meta mk)]))(?tmp := None)"
        "ex_isdir E w' = ex_isdir E w1"
    and m': "m' = m\<lparr>dbm_saving := None, dbm_saved := Some (int (length ms)),
            dbm_buffer := dict_set (int (length ms)) (mk_meta mk) (take removed_items_nums_from_buffer (dbm_buffer m))\<rparr>"
    by blast
  have files: "ex_file E w' = (ex_file E w)(acquire_data_block_meta_path E m (int (length ms)) \<mapsto>
        [ex_meta_to_string E (mk_meta mk)])"
    using up(3) wr(2) fresh(1) neq [of "int (length ms)"] by (auto simp: fun_eq_iff)
  have run: "make_data_block_meta E (mk, m, w) =
       (Inr (acquire_data_block_meta_path E m (int (length ms))), (?mk, m', w'))"
    using ready wr(1) up(1) by (simp add: make_data_block_meta_def make_tmp_file_path_def Let_def)
  show ?thesis
    by (rule that [OF run _ up(2) _ _ _ files]) (use m' up(4) wr(3) in simp_all)
qed

lemma finalizer_stores:
  assumes rep: "dbm_rep E m w ms" and ready: "maker_ready E m w mk" and counts: "maker_counts mk"
    and ids: "example_ids (mk_meta mk) \<noteq> []"
    and idx: "data_block_index (mk_meta mk) = int (length ms)"
    and room: "int (length ms) \<le> data_block_index_threshold"
    and dirs: "block_dir_ok E m w" and post: "post_answers E"
  obtains mk' m' w' where
    "data_block_finalizer E (mk, m, w) = (Inr (Some (named_meta E m (mk_meta mk))), (mk', m', w'))"
    "dbm_rep E m' w' (ms @ [named_meta E m (mk_meta mk)])"
    "dbm_partition_id m' = dbm_partition_id m" "dbm_data_block_dir m' = dbm_data_block_dir m"
    "dbm_data_source_name m' = dbm_data_source_name m"
    "mk_meta mk' = named_meta E m (mk_meta mk)"
    "ex_file E w' = ((ex_file E w)(block_path E m (named_meta E m (mk_meta mk)) \<mapsto> mk_written mk,
        acquire_data_block_meta_path E m (int (length ms)) \<mapsto>
          [ex_meta_to_string E (named_meta E m (mk_meta mk))]))(mk_tmp_file_path mk := None)"
    "ex_isdir E w' = ex_isdir E w"
proof -
  note r = dbm_repD [OF rep]
  define meta where "meta = named_meta E m (mk_meta mk)"
  define bp where "bp = block_path E m meta"
  let ?tmp = "mk_tmp_file_path mk"
  let ?mk1 = "mk\<lparr>mk_meta := meta\<rparr>"
  from ready obtain n where n: "?tmp = path_join (data_block_dir_wrap E m) n" "file_name n"
    "\<And>i. n \<noteq> ex_meta_name E (dbm_data_source_name m) (dbm_partition_id m) i"
    "\<And>b. n \<noteq> ex_block_name E (dbm_data_source_name m) b"
    by (auto simp: maker_ready_def)
  have dir: "ex_isdir E w (data_block_dir_wrap E m)" using r(3) by (simp add: metas_on_disk_def)
  have tmp_dir: "\<not> ex_isdir E w (path_join (data_block_dir_wrap E m) n)"
    using ready n(1) by (simp add: maker_ready_def)
  have tmp_neq: "?tmp \<noteq> acquire_data_block_meta_path E m i" for i
    using n r(2) by (auto simp: acquire_data_block_meta_path_def path_join_inject names_ok_def)
  have tmp_bp: "?tmp \<noteq> bp"
    using n r(2) by (auto simp: bp_def block_path_def path_join_inject names_ok_def)
  have bp_neq: "bp \<noteq> acquire_data_block_meta_path E m i" for i
    unfolding bp_def by (rule block_path_neq_meta_path [OF r(2)])
  obtain w1 where w1: "ex_write E w ?tmp (mk_written mk) = Some w1"
      "ex_file E w1 = (ex_file E w)(?tmp \<mapsto> mk_written mk)" "ex_isdir E w1 = ex_isdir E w"
    using write_succeeds [OF r(1) dir n(2) tmp_dir] n(1) by metis
  have "ex_file E w1 ?tmp = Some (mk_written mk)" "\<not> ex_isdir E w1 bp"
    using w1 dirs by (simp_all add: block_dir_ok_def bp_def)
  from rename_succeeds [OF r(1) this disjI1 [OF TrueI] tmp_bp] obtain w2 where
    w2: "ex_rename E w1 ?tmp bp True = Some w2"
        "ex_file E w2 = ((ex_file E w1)(bp \<mapsto> mk_written mk))(?tmp := None)" "ex_isdir E w2 = ex_isdir E w1"
    by blast
  have rep2: "dbm_rep E m w2 ms"
    by (rule dbm_rep_other_file [OF rep])
      (use w1 w2 tmp_neq bp_neq in \<open>simp_all add: tmp_neq [symmetric] bp_neq [symmetric]\<close>)
  have pre: "mk_has_manager ?mk1" "obtain_data_block_dir E ?mk1 = data_block_dir_wrap E m"
    "data_block_index (mk_meta ?mk1) = int (length ms)"
    using ready idx by (simp_all add: maker_ready_def obtain_data_block_dir_def data_block_dir_wrap_def meta_def)
  obtain mk' m' w' where st: "make_data_block_meta E (?mk1, m, w2) =
       (Inr (acquire_data_block_meta_path E m (int (length ms))), (mk', m', w'))"
    "mk_meta mk' = meta" "dbm_rep E m' w' (ms @ [meta])"
    "dbm_partition_id m' = dbm_partition_id m" "dbm_data_block_dir m' = dbm_data_block_dir m"
    "dbm_data_source_name m' = dbm_data_source_name m"
    "ex_file E w' = (ex_file E w2)(acquire_data_block_meta_path E m (int (length ms)) \<mapsto> [ex_meta_to_string E meta])"
    "ex_isdir E w' = ex_isdir E w2"
    by (rule make_meta_appends [OF rep2 pre room]) simp
  obtain w'' where w'': "ex_file E w'' = ex_file E w'" "ex_isdir E w'' = ex_isdir E w'"
    "data_block_finalizer E (mk, m, w) = (Inr (Some meta), (mk', m', w''))"
  proof -
    have base: "data_block_finalizer E (mk, m, w) =
        (if ex_distribute E
         then (case ex_post E w' (acquire_data_block_meta_path E m (int (length ms))) bp of
                 None \<Rightarrow> (Inl RpcError, (mk', m', w'))
               | Some w4 \<Rightarrow> (Inr (Some (mk_meta mk')), (mk', m', w4)))
         else (Inr (Some (mk_meta mk')), (mk', m', w')))"
      using counts ids w1(1) w2(1) st(1) ready
      by (simp add: data_block_finalizer_def maker_counts_def maker_ready_def Let_def
          obtain_data_block_dir_def data_block_dir_wrap_def meta_def named_meta_def bp_def block_path_def)
    show ?thesis
    proof (cases "ex_distribute E")
      case True
      with post obtain w4 where w4: "ex_post E w' (acquire_data_block_meta_path E m (int (length ms))) bp = Some w4"
        unfolding post_answers_def by fast
      with base True st(2) post_file [OF r(1) w4] post_isdir [OF r(1) w4] that show ?thesis by simp
    next
      case False
      with base st(2) that show ?thesis by simp
    qed
  qed
  have files: "ex_file E w'' = ((ex_file E w)(bp \<mapsto> mk_written mk,
        acquire_data_block_meta_path E m (int (length ms)) \<mapsto> [ex_meta_to_string E meta]))(?tmp := None)"
    using w''(1) st(7) w2(2) w1(2) tmp_neq [of "int (length ms)"] by (auto simp: fun_eq_iff)
  have "dbm_rep E m' w'' (ms @ [meta])"
    by (rule dbm_rep_other_file [OF st(3)]) (simp_all add: w'')
  with w'' st w1 w2 files that show ?thesis
    unfolding meta_def bp_def by simp
qed

subsection \<open>Opening a maker\<close>

definition opened_maker :: "data_block_manager \<Rightarrow> int \<Rightarrow> int option \<Rightarrow> string \<Rightarrow> data_block_maker" where
  "opened_maker m idx thr tmp =
     \<lparr>mk_data_source_name = dbm_data_source_name m, mk_has_manager = False, mk_saved_example_num = 0,
      mk_partition_id = dbm_partition_id m,
      mk_meta = empty_data_block_meta\<lparr>partition_id := dbm_partition_id m, data_block_index := idx,
                  follower_restart_index := 0\<rparr>,
      mk_example_num_threshold = thr, mk_data_block_dir_name = dbm_data_block_dir m,
      mk_tmp_file_path_counter = 1, mk_tmp_file_path = tmp, mk_written = []\<rparr>"

lemma init_maker_opens:
  assumes rep: "dbm_rep E m w ms" and i64: "int64_ok (dbm_partition_id m)" "int64_ok idx"
  obtains tmp w' where
    "init_data_block_maker E (dbm_data_block_dir m) (dbm_data_source_name m) (dbm_partition_id m) idx thr w =
       (Inr (opened_maker m idx thr tmp), w')"
    "dbm_rep E m w' ms" "ex_file E w' = (ex_file E w)(tmp \<mapsto> [])" "ex_isdir E w' = ex_isdir E w"
    "\<forall>b. tmp \<noteq> block_path E m b"
    "\<forall>mk. mk_tmp_file_path mk = tmp \<and> mk_has_manager mk \<and> mk_data_block_dir_name mk = dbm_data_block_dir m \<and>
       mk_data_source_name mk = dbm_data_source_name m \<and> mk_partition_id mk = dbm_partition_id m \<longrightarrow>
       maker_ready E m w' mk"
proof -
  note r = dbm_repD [OF rep]
  note fresh = tmp_fresh [OF r(1), where w = w]
  let ?n = "tmp_name (ex_uuid E w) 0"
  let ?tmp = "path_join (data_block_dir_wrap E m) ?n"
  have dir: "ex_isdir E w (data_block_dir_wrap E m)" using r(3) by (simp add: metas_on_disk_def)
  obtain w' where w': "ex_write E w ?tmp [] = Some w'" "ex_file E w' = (ex_file E w)(?tmp \<mapsto> [])"
      "ex_isdir E w' = ex_isdir E w"
    by (rule write_succeeds [OF r(1) dir fresh(3) fresh(2)])
  have neq: "?tmp \<noteq> acquire_data_block_meta_path E m i" for i
    using fresh(3,4) r(2) by (auto simp: acquire_data_block_meta_path_def path_join_inject names_ok_def)
  have neq_bp: "?tmp \<noteq> block_path E m b" for b
    using fresh(3,5) r(2) by (auto simp: block_path_def path_join_inject names_ok_def)
  have rep': "dbm_rep E m w' ms"
    by (rule dbm_rep_other_file [OF rep]) (use neq w' in \<open>simp_all add: neq [symmetric]\<close>)
  have run: "init_data_block_maker E (dbm_data_block_dir m) (dbm_data_source_name m) (dbm_partition_id m) idx thr w =
       (Inr (opened_maker m idx thr ?tmp), w')"
    using i64 w'(1)
    by (simp add: init_data_block_maker_def make_tmp_file_path_def obtain_data_block_dir_def
        data_block_dir_wrap_def opened_maker_def Let_def)
  show ?thesis
    by (rule that [OF run rep' w'(2,3) allI [OF neq_bp]]) (use fresh w' in \<open>auto simp: maker_ready_def\<close>)
qed

end
