(* ===== verification/Raw_Data.thy ===== *)
theory Raw_Data
  imports DJ_World "HOL-Library.Char_ord" "HOL-Library.List_Lexorder"
begin

section \<open>Raw data: record parsers, iterators and the loader\<close>

text \<open>
  \<^verbatim>\<open>data_join/data_iterator_builder\<close> and \<^verbatim>\<open>data_join/raw_data_loader.py\<close>. A raw record is
  the byte string of a TensorFlow example; its example id and event time are parsed on demand.
  The loader reads every file of a directory in name order into a dictionary from example id to
  record.

  Both parser properties catch every failure and evaluate \<^verbatim>\<open>traceback.print_exc(str(e))\<close> in the
  handler. The first parameter of \<^verbatim>\<open>print_exc\<close> is the numeric \<^verbatim>\<open>limit\<close>; with a string it raises
  \<^verbatim>\<open>TypeError\<close>, so the assignment of the invalid value after it is not reached.
\<close>

text \<open>Keys of the item dictionary: ids are \<^verbatim>\<open>bytes\<close>, the invalid id is the empty \<^verbatim>\<open>str\<close>.\<close>

datatype example_key = KeyBytes bytes | KeyStr string

definition Invalid_ExampleId :: example_key where "Invalid_ExampleId = KeyStr []"

definition print_exc_with_limit :: "string \<Rightarrow> exn + unit" where
  "print_exc_with_limit limit = Inl TypeError"

subsection \<open>Python's int() on byte strings\<close>

definition digit_value :: "char \<Rightarrow> int option" where
  "digit_value c = (let k = (of_char c :: nat) in if 48 \<le> k \<and> k \<le> 57 then Some (int k - 48) else None)"

fun py_digits :: "string \<Rightarrow> int \<Rightarrow> bool \<Rightarrow> int option" where
  "py_digits [] acc after_digit = (if after_digit then Some acc else None)"
| "py_digits (c # cs) acc after_digit =
     (case digit_value c of
        Some v \<Rightarrow> py_digits cs (10 * acc + v) True
      | None \<Rightarrow> if c = CHR ''_'' \<and> after_digit then py_digits cs acc False else None)"

definition py_space :: "char \<Rightarrow> bool" where
  "py_space c \<longleftrightarrow> c = CHR '' '' \<or> (9 \<le> (of_char c :: nat) \<and> (of_char c :: nat) \<le> 13)"

definition py_strip :: "string \<Rightarrow> string" where
  "py_strip s = rev (dropWhile py_space (rev (dropWhile py_space s)))"

definition py_int :: "bytes \<Rightarrow> int option" where
  "py_int s =
     (case py_strip s of
        [] \<Rightarrow> None
      | c # cs \<Rightarrow>
          if c = CHR ''-'' then map_option uminus (py_digits cs 0 False)
          else if c = CHR ''+'' then py_digits cs 0 False
          else py_digits (c # cs) 0 False)"

subsection \<open>TfRecordDataItemParser\<close>

definition read_event_time :: "'w ext \<Rightarrow> bytes \<Rightarrow> exn + int option" where
  "read_event_time E item =
     (case ex_parse_example E item of
        None \<Rightarrow> Inl DecodeError
      | Some example \<Rightarrow>
          (case example ''event_time'' of
             Int64List (v # _) \<Rightarrow> Inr (Some v)
           | Int64List [] \<Rightarrow> Inl IndexError
           | BytesList (b # _) \<Rightarrow> map_sum id Some (raising (py_int b) ValueError)
           | BytesList [] \<Rightarrow> Inl IndexError
           | _ \<Rightarrow> Inr None))"

definition event_time :: "'w ext \<Rightarrow> bytes \<Rightarrow> exn + int option" where
  "event_time E item =
     (case read_event_time E item of
        Inr t \<Rightarrow> Inr t
      | Inl _ \<Rightarrow> (case print_exc_with_limit [] of
                    Inl e \<Rightarrow> Inl e
                  | Inr _ \<Rightarrow> Inr (Some Invalid_EventTime)))"

definition read_example_id :: "'w ext \<Rightarrow> bytes \<Rightarrow> exn + example_key" where
  "read_example_id E item =
     (case ex_parse_example E item of
        None \<Rightarrow> Inl DecodeError
      | Some example \<Rightarrow>
          (case example ''example_id'' of
             BytesList (b # _) \<Rightarrow> Inr (KeyBytes b)
           | _ \<Rightarrow> Inl IndexError))"

definition example_id :: "'w ext \<Rightarrow> bytes \<Rightarrow> exn + example_key" where
  "example_id E item =
     (case read_example_id E item of
        Inr k \<Rightarrow> Inr k
      | Inl _ \<Rightarrow> (case print_exc_with_limit [] of
                    Inl e \<Rightarrow> Inl e
                  | Inr _ \<Rightarrow> Inr Invalid_ExampleId))"

subsection \<open>Iterators\<close>

text \<open>The registry that the metaclass fills when the two iterator classes are defined.\<close>

datatype iterator_class = BASE_DATA_ITERATOR | TF_RECORD_ITERATOR

definition iterator_registry :: "(string, iterator_class) dict" where
  "iterator_registry =
     [(''BASE_DATA_ITERATOR'', BASE_DATA_ITERATOR), (''TF_RECORD_ITERATOR'', TF_RECORD_ITERATOR)]"

definition build_data_iterator :: "string \<Rightarrow> exn + iterator_class" where
  "build_data_iterator raw_data_iter_name = raising (dict_get iterator_registry raw_data_iter_name) ProcessExit"

text \<open>
  \<open>reset_data_iterator\<close> returns the first item and the records the iterator still holds. The
  base class declares the hook without the path parameter, so calling it raises \<^verbatim>\<open>TypeError\<close>.
\<close>

definition reset_data_iterator ::
  "'w ext \<Rightarrow> 'w \<Rightarrow> iterator_class \<Rightarrow> string \<Rightarrow> exn + (bytes \<times> bytes list) option" where
  "reset_data_iterator E w cls file_path =
     (case cls of
        BASE_DATA_ITERATOR \<Rightarrow> Inl TypeError
      | TF_RECORD_ITERATOR \<Rightarrow>
          if file_path = [] then Inr None
          else (case ex_file E w file_path of
                  None \<Rightarrow> Inl OpError
                | Some [] \<Rightarrow> Inl StopIteration
                | Some (r # rs) \<Rightarrow> Inr (Some (r, rs))))"

subsection \<open>RawDataManager\<close>

type_synonym item_dict = "(example_key, bytes) dict"

record raw_data_manager =
  rd_raw_data_dir :: string
  rd_raw_data_iter :: string \<comment> \<open>the option \<^verbatim>\<open>raw_data_iter\<close>\<close>
  rd_mode :: string
  rd_local_raw_data_dir :: string
  rd_all_fpath :: "string list"
  rd_item_dict :: item_dict
  rd_raw_data_stale :: bool

definition encode_local_raw_data_dir :: "'w ext \<Rightarrow> 'w \<Rightarrow> raw_data_manager \<Rightarrow> raw_data_manager" where
  "encode_local_raw_data_dir E w r =
     r\<lparr>rd_local_raw_data_dir :=
         (if rd_mode r = ''local'' then rd_raw_data_dir r else path_join ''/tmp'' (ex_uuid E w))\<rparr>"

definition preload_raw_data_file_path ::
  "'w ext \<Rightarrow> raw_data_manager \<times> 'w \<Rightarrow> (unit, raw_data_manager \<times> 'w) eff" where
  "preload_raw_data_file_path E rw =
     (case rw of (r, w) \<Rightarrow>
        let d = rd_local_raw_data_dir r;
            fetched =
              (if rd_mode r = ''distribute''
               then (case (if ex_exists E w d then Some w else ex_makedirs E w d) of
                       None \<Rightarrow> (Inl OpError, (r, w))
                     | Some w' \<Rightarrow> (Inr (), (r, ex_hadoop_get E w' (rd_raw_data_dir r) d)))
               else (Inr (), (r, w)))
        in and_then fetched
             (\<lambda>_ (r, w). case ex_listdir E w d of
                None \<Rightarrow> (Inl OpError, (r, w))
              | Some names \<Rightarrow>
                  (Inr (), (r\<lparr>rd_all_fpath :=
                      sort (filter (\<lambda>p. \<not> ex_isdir E w p) (map (path_join d) names))\<rparr>, w))))"

text \<open>
  The inner loop tests the id of the \<^emph>\<open>first\<close> item of the file, not of the item at hand.
\<close>

fun load_items :: "'w ext \<Rightarrow> example_key \<Rightarrow> bytes list \<Rightarrow> item_dict \<Rightarrow> (unit, item_dict) eff" where
  "load_items E first [] d = (Inr (), d)"
| "load_items E first (item # items) d =
     (if first \<noteq> Invalid_ExampleId
      then (case example_id E item of
              Inl e \<Rightarrow> (Inl e, d)
            | Inr k \<Rightarrow> load_items E first items (dict_set k item d))
      else load_items E first items d)"

definition load_file ::
  "'w ext \<Rightarrow> 'w \<Rightarrow> string \<Rightarrow> string \<Rightarrow> item_dict \<Rightarrow> (unit, item_dict) eff" where
  "load_file E w iter fpath d =
     (case build_data_iterator iter of
        Inl e \<Rightarrow> (Inl e, d)
      | Inr cls \<Rightarrow>
          (case reset_data_iterator E w cls fpath of
             Inl e \<Rightarrow> (Inl e, d)
           | Inr None \<Rightarrow> (Inl AttributeError, d) \<comment> \<open>\<^verbatim>\<open>None.example_id\<close>\<close>
           | Inr (Some (first_item, rest)) \<Rightarrow>
               (case example_id E first_item of
                  Inl e \<Rightarrow> (Inl e, d)
                | Inr k \<Rightarrow>
                    load_items E k rest
                      (if k \<noteq> Invalid_ExampleId then dict_set k first_item d else d))))"

fun load_files :: "'w ext \<Rightarrow> 'w \<Rightarrow> string \<Rightarrow> string list \<Rightarrow> item_dict \<Rightarrow> (unit, item_dict) eff" where
  "load_files E w iter [] d = (Inr (), d)"
| "load_files E w iter (f # fs) d = and_then (load_file E w iter f d) (\<lambda>_. load_files E w iter fs)"

definition load_raw_data_to_mem :: "'w ext \<Rightarrow> 'w \<Rightarrow> raw_data_manager \<Rightarrow> (unit, raw_data_manager) eff" where
  "load_raw_data_to_mem E w r =
     (if rd_all_fpath r = [] then (Inl AssertionError, r)
      else then_do (load_files E w (rd_raw_data_iter r) (rd_all_fpath r) (rd_item_dict r))
             (\<lambda>_ d. if d = [] then (Inl AssertionError, r\<lparr>rd_item_dict := d\<rparr>)
                    else (Inr (), r\<lparr>rd_item_dict := d, rd_raw_data_stale := True\<rparr>))
             (\<lambda>d. r\<lparr>rd_item_dict := d\<rparr>))"

definition init_raw_data_loader ::
  "'w ext \<Rightarrow> string \<Rightarrow> string \<Rightarrow> string \<Rightarrow> 'w \<Rightarrow> (raw_data_manager, 'w) eff" where
  "init_raw_data_loader E dir iter mode w =
     (let r0 = encode_local_raw_data_dir E w
                 \<lparr>rd_raw_data_dir = dir, rd_raw_data_iter = iter, rd_mode = mode,
                  rd_local_raw_data_dir = [], rd_all_fpath = [], rd_item_dict = [],
                  rd_raw_data_stale = False\<rparr>
      in then_do (preload_raw_data_file_path E (r0, w))
           (\<lambda>_ (r1, w1). case load_raw_data_to_mem E w1 r1 of
                (Inl e, _) \<Rightarrow> (Inl e, w1)
              | (Inr _, r2) \<Rightarrow> (Inr r2, w1))
           snd)"

record init_raw_data_loading =
  il_loader :: raw_data_manager
  il_partition_finished :: bool
  il_follower_finished :: bool
  il_stale_with_sender :: bool
  il_partition_id :: int

definition init_raw_data_loading_object ::
  "'w ext \<Rightarrow> string \<Rightarrow> string \<Rightarrow> int \<Rightarrow> string \<Rightarrow> 'w \<Rightarrow> (init_raw_data_loading, 'w) eff" where
  "init_raw_data_loading_object E dir iter pid mode w =
     and_then (init_raw_data_loader E dir iter mode w)
       (\<lambda>r w'. (Inr \<lparr>il_loader = r, il_partition_finished = False, il_follower_finished = False,
                      il_stale_with_sender = True, il_partition_id = pid\<rparr>, w'))"

definition acquire_stale_with_sender :: "init_raw_data_loading \<Rightarrow> init_raw_data_loading" where
  "acquire_stale_with_sender il = il\<lparr>il_stale_with_sender := True\<rparr>"

definition release_stale_with_sender :: "init_raw_data_loading \<Rightarrow> init_raw_data_loading" where
  "release_stale_with_sender il = il\<lparr>il_stale_with_sender := False\<rparr>"

subsection \<open>What is loaded\<close>

lemma example_id_never_invalid: "example_id E item \<noteq> Inr Invalid_ExampleId"
  by (auto simp: example_id_def read_example_id_def print_exc_with_limit_def Invalid_ExampleId_def
      split: sum.splits option.splits feature.splits list.splits)

lemma example_id_Inl: "example_id E item = Inl e \<Longrightarrow> e = TypeError"
  by (auto simp: example_id_def print_exc_with_limit_def split: sum.splits)

lemma event_time_Inl: "event_time E item = Inl e \<Longrightarrow> e = TypeError"
  by (auto simp: event_time_def print_exc_with_limit_def split: sum.splits)

definition keyed :: "'w ext \<Rightarrow> bytes \<Rightarrow> example_key" where
  "keyed E item = (case example_id E item of Inr k \<Rightarrow> k | Inl _ \<Rightarrow> Invalid_ExampleId)"

definition readable :: "'w ext \<Rightarrow> bytes \<Rightarrow> bool" where
  "readable E item \<longleftrightarrow> (\<exists>k. example_id E item = Inr k)"

lemma readable_keyed: "readable E item \<Longrightarrow> example_id E item = Inr (keyed E item)"
  by (auto simp: readable_def keyed_def)

definition put_item :: "'w ext \<Rightarrow> bytes \<Rightarrow> item_dict \<Rightarrow> item_dict" where
  "put_item E item d = dict_set (keyed E item) item d"

lemma load_items_fold:
  assumes "first \<noteq> Invalid_ExampleId" "\<forall>item \<in> set items. readable E item"
  shows "load_items E first items d = (Inr (), fold (put_item E) items d)"
  using assms
  by (induction items arbitrary: d) (auto simp: readable_keyed put_item_def)

lemma load_file_fold:
  assumes "iter = ''TF_RECORD_ITERATOR''" "fpath \<noteq> []" "ex_file E w fpath = Some rs" "rs \<noteq> []"
    "\<forall>item \<in> set rs. readable E item"
  shows "load_file E w iter fpath d = (Inr (), fold (put_item E) rs d)"
proof -
  from assms obtain r rs' where rs: "rs = r # rs'" by (cases rs) auto
  have valid: "keyed E r \<noteq> Invalid_ExampleId"
    using example_id_never_invalid [of E r] readable_keyed [of E r] assms rs by auto
  then show ?thesis
    using assms rs load_items_fold [OF valid, of rs' E]
    by (simp add: load_file_def build_data_iterator_def iterator_registry_def reset_data_iterator_def
        readable_keyed put_item_def)
qed

lemma load_files_fold:
  assumes "iter = ''TF_RECORD_ITERATOR''"
    and "\<And>f. f \<in> set fs \<Longrightarrow> f \<noteq> [] \<and> ex_file E w f \<noteq> None \<and> ex_file E w f \<noteq> Some [] \<and>
           (\<forall>item \<in> set (the (ex_file E w f)). readable E item)"
  shows "load_files E w iter fs d = (Inr (), fold (put_item E) (concat (map (\<lambda>f. the (ex_file E w f)) fs)) d)"
  using assms(2)
proof (induction fs arbitrary: d)
  case Nil
  then show ?case by simp
next
  case (Cons f fs)
  obtain rs where rs: "ex_file E w f = Some rs" "rs \<noteq> []" "\<forall>item \<in> set rs. readable E item" "f \<noteq> []"
    using Cons.prems [of f] by auto
  have "load_files E w iter fs d' =
      (Inr (), fold (put_item E) (concat (map (\<lambda>f. the (ex_file E w f)) fs)) d')" for d'
    by (rule Cons.IH) (use Cons.prems in auto)
  with rs load_file_fold [OF assms(1) rs(4,1,2,3), of d] show ?case by simp
qed

lemma fold_put_item_get:
  "dict_get (fold (put_item E) items d) k =
     (case map_of (rev (map (\<lambda>item. (keyed E item, item)) items)) k of
        Some item \<Rightarrow> Some item | None \<Rightarrow> dict_get d k)"
proof (induction items rule: rev_induct)
  case Nil
  then show ?case by simp
next
  case (snoc item items)
  then show ?case by (simp add: put_item_def)
qed

lemma fold_put_item_distinct: "distinct (map fst d) \<Longrightarrow> distinct (map fst (fold (put_item E) items d))"
  by (induction items arbitrary: d) (auto simp: put_item_def)

lemma fold_put_item_keys:
  "fst ` set (fold (put_item E) items d) = keyed E ` set items \<union> fst ` set d"
  by (induction items arbitrary: d) (auto simp: put_item_def dom_update)

text \<open>An iterator name that is not registered ends the process as soon as a file is loaded.\<close>

lemma load_files_unknown:
  "dict_get iterator_registry iter = None \<Longrightarrow> fs \<noteq> [] \<Longrightarrow> load_files E w iter fs d = (Inl ProcessExit, d)"
  by (cases fs) (simp_all add: load_file_def build_data_iterator_def)

lemma load_mem_unknown:
  "dict_get iterator_registry (rd_raw_data_iter r) = None \<Longrightarrow> isl (fst (load_raw_data_to_mem E w r))"
  by (cases "rd_all_fpath r = []") (simp_all add: load_raw_data_to_mem_def load_files_unknown)

lemma preload_keeps_iter:
  "rd_raw_data_iter (fst (snd (preload_raw_data_file_path E (r, w)))) = rd_raw_data_iter r"
  by (auto simp: preload_raw_data_file_path_def then_do_def Let_def split: option.split)

lemma loader_unknown:
  assumes "dict_get iterator_registry iter = None"
  shows "isl (fst (init_raw_data_loader E dir iter mode w))"
proof -
  let ?r0 = "encode_local_raw_data_dir E w
      \<lparr>rd_raw_data_dir = dir, rd_raw_data_iter = iter, rd_mode = mode, rd_local_raw_data_dir = [],
       rd_all_fpath = [], rd_item_dict = [], rd_raw_data_stale = False\<rparr>"
  obtain x r1 w1 where p: "preload_raw_data_file_path E (?r0, w) = (x, (r1, w1))" by (metis prod.collapse)
  then have "rd_raw_data_iter r1 = iter"
    using preload_keeps_iter [of E ?r0 w] by (simp add: encode_local_raw_data_dir_def)
  then have "isl (fst (load_raw_data_to_mem E w1 r1))" using load_mem_unknown [of r1 E w1] assms by simp
  then show ?thesis
    using p by (cases x) (auto simp: init_raw_data_loader_def Let_def split: prod.split sum.split)
qed

end
