(* ===== verification/Block_Store.thy ===== *)
theory Block_Store
  imports Block_Maker Raw_Data
begin

section \<open>The store of a partition: metas and data files together\<close>

text \<open>
  What the manager, the makers and the disk hold together, as the joiner and the saver rely on
  it: \<open>store_rep E m w d base new\<close> says that the manager \<open>m\<close> and the disk represent the metas
  \<open>base @ new\<close> and that the data file of every block of \<open>new\<close> holds exactly the records of its
  ids in the dictionary \<open>d\<close>. Opening a maker keeps it; the finalizer of a maker that holds the
  records of its ids appends one block.
\<close>

definition item_records :: "item_dict \<Rightarrow> bytes list \<Rightarrow> bytes list" where
  "item_records d ids = map (\<lambda>e. the (dict_get d (KeyBytes e))) ids"

definition block_stored :: "'w ext \<Rightarrow> data_block_manager \<Rightarrow> 'w \<Rightarrow> item_dict \<Rightarrow> data_block_meta \<Rightarrow> bool" where
  "block_stored E m w d b \<longleftrightarrow> ex_file E w (block_path E m b) = Some (item_records d (example_ids b))"

definition store_rep ::
  "'w ext \<Rightarrow> data_block_manager \<Rightarrow> 'w \<Rightarrow> item_dict \<Rightarrow> data_block_meta list \<Rightarrow> data_block_meta list \<Rightarrow> bool" where
  "store_rep E m w d base new \<longleftrightarrow>
     dbm_rep E m w (base @ new) \<and> block_dir_ok E m w \<and> int64_ok (dbm_partition_id m) \<and>
     (\<forall>b \<in> set new. block_stored E m w d b \<and> partition_id b = dbm_partition_id m)"

lemma store_repD:
  assumes "store_rep E m w d base new"
  shows "dbm_rep E m w (base @ new)" "block_dir_ok E m w" "int64_ok (dbm_partition_id m)"
    "b \<in> set new \<Longrightarrow> block_stored E m w d b" "b \<in> set new \<Longrightarrow> partition_id b = dbm_partition_id m"
  using assms by (simp_all add: store_rep_def)

definition same_manager :: "data_block_manager \<Rightarrow> data_block_manager \<Rightarrow> bool" where
  "same_manager m m' \<longleftrightarrow>
     dbm_partition_id m' = dbm_partition_id m \<and> dbm_data_block_dir m' = dbm_data_block_dir m \<and>
     dbm_data_source_name m' = dbm_data_source_name m"

lemma block_path_cong:
  "dbm_partition_id m' = dbm_partition_id m \<Longrightarrow> dbm_data_block_dir m' = dbm_data_block_dir m \<Longrightarrow>
   dbm_data_source_name m' = dbm_data_source_name m \<Longrightarrow> block_path E m' = block_path E m"
  by (simp add: fun_eq_iff block_path_def data_block_dir_wrap_def)

lemma room_int64: "int n \<le> data_block_index_threshold \<Longrightarrow> int64_ok (int n)"
  by (simp add: int64_ok_def data_block_index_threshold_def)

definition ready_on :: "'w ext \<Rightarrow> data_block_manager \<Rightarrow> 'w \<Rightarrow> string \<Rightarrow> bool" where
  "ready_on E m w tmp \<longleftrightarrow>
     (\<forall>mk. mk_tmp_file_path mk = tmp \<and> mk_has_manager mk \<and> mk_data_block_dir_name mk = dbm_data_block_dir m \<and>
       mk_data_source_name mk = dbm_data_source_name m \<and> mk_partition_id mk = dbm_partition_id m \<longrightarrow>
       maker_ready E m w mk)"

lemma ready_onD:
  "ready_on E m w tmp \<Longrightarrow> mk_tmp_file_path mk = tmp \<Longrightarrow> mk_has_manager mk \<Longrightarrow>
     mk_data_block_dir_name mk = dbm_data_block_dir m \<Longrightarrow> mk_data_source_name mk = dbm_data_source_name m \<Longrightarrow>
     mk_partition_id mk = dbm_partition_id m \<Longrightarrow> maker_ready E m w mk"
  by (simp add: ready_on_def)

lemma store_open:
  assumes rep: "store_rep E m w d base new" and idx: "int64_ok idx"
  obtains tmp w' where
    "init_data_block_maker E (dbm_data_block_dir m) (dbm_data_source_name m) (dbm_partition_id m) idx thr w =
       (Inr (opened_maker m idx thr tmp), w')"
    "store_rep E m w' d base new" "ready_on E m w' tmp"
proof -
  obtain tmp w' where o:
    "init_data_block_maker E (dbm_data_block_dir m) (dbm_data_source_name m) (dbm_partition_id m) idx thr w =
       (Inr (opened_maker m idx thr tmp), w')"
    "dbm_rep E m w' (base @ new)" "ex_file E w' = (ex_file E w)(tmp \<mapsto> [])" "ex_isdir E w' = ex_isdir E w"
    "\<forall>b. tmp \<noteq> block_path E m b" "ready_on E m w' tmp"
    by (rule init_maker_opens [OF store_repD(1,3) [OF rep] idx, folded ready_on_def])
  have "store_rep E m w' d base new"
    using rep o(2-4) o(5) [THEN spec, THEN not_sym]
    by (auto simp: store_rep_def block_dir_ok_def block_stored_def)
  with o(1,6) that show ?thesis by blast
qed

lemma store_finalizer:
  assumes rep: "store_rep E m w d base new" and ready: "maker_ready E m w mk" and counts: "maker_counts mk"
    and ids: "example_ids (mk_meta mk) \<noteq> []"
    and idx: "data_block_index (mk_meta mk) = int (length (base @ new))"
    and room: "int (length (base @ new)) \<le> data_block_index_threshold" and post: "post_answers E"
    and pid: "partition_id (mk_meta mk) = dbm_partition_id m"
    and written: "mk_written mk = item_records d (example_ids (mk_meta mk))"
  obtains mk' m' w' where
    "data_block_finalizer E (mk, m, w) = (Inr (Some (named_meta E m (mk_meta mk))), (mk', m', w'))"
    "store_rep E m' w' d base (new @ [named_meta E m (mk_meta mk)])" "same_manager m m'"
    "mk_meta mk' = named_meta E m (mk_meta mk)"
proof -
  note r = dbm_repD [OF store_repD(1) [OF rep]]
  define b where "b = named_meta E m (mk_meta mk)"
  obtain mk' m' w' where f: "data_block_finalizer E (mk, m, w) = (Inr (Some b), (mk', m', w'))"
    "dbm_rep E m' w' ((base @ new) @ [b])"
    "dbm_partition_id m' = dbm_partition_id m" "dbm_data_block_dir m' = dbm_data_block_dir m"
    "dbm_data_source_name m' = dbm_data_source_name m" "mk_meta mk' = b"
    "ex_file E w' = ((ex_file E w)(block_path E m b \<mapsto> mk_written mk,
        acquire_data_block_meta_path E m (int (length (base @ new))) \<mapsto> [ex_meta_to_string E b]))
          (mk_tmp_file_path mk := None)"
    "ex_isdir E w' = ex_isdir E w"
    by (rule finalizer_stores [OF store_repD(1) [OF rep] ready counts ids idx room store_repD(2) [OF rep] post,
          folded b_def])
  have bp: "block_path E m' = block_path E m" by (rule block_path_cong [OF f(3,4,5)])
  have tmp_bp: "block_path E m b' \<noteq> mk_tmp_file_path mk" for b'
    using ready r(2) by (auto simp: maker_ready_def block_path_def path_join_inject names_ok_def)
  have old: "block_stored E m' w' d b'" if "b' \<in> set new" for b'
  proof -
    from that obtain k where k: "k < length new" "b' = new ! k" by (auto simp: in_set_conv_nth)
    then have "(base @ new) ! (length base + k) = b'" by simp
    with r(3) k have "data_block_index b' = int (length base + k)"
      by (auto simp: metas_on_disk_def dest: spec [of _ "length base + k"])
    with k idx have "block_path E m b' \<noteq> block_path E m b"
      by (intro block_path_inject [OF r(2)]) (simp add: b_def)
    with store_repD(4) [OF rep that] show ?thesis
      using block_path_neq_meta_path [OF r(2)] tmp_bp by (auto simp: block_stored_def bp f(7))
  qed
  have "block_stored E m' w' d b"
    using block_path_neq_meta_path [OF r(2)] tmp_bp written by (auto simp: block_stored_def bp f(7) b_def)
  with old f(2,3,8) pid store_repD [OF rep] have "store_rep E m' w' d base (new @ [b])"
    by (auto simp: store_rep_def block_dir_ok_def bp b_def)
  with f that show ?thesis by (simp add: b_def same_manager_def)
qed

lemma fetch_same_manager: "same_manager m (snd (acquire_data_block_meta_by_index E w i m))"
  by (auto simp: same_manager_def acquire_data_block_meta_by_index_def sync_saved_data_block_index_def
      sync_data_block_meta_def then_do_def Let_def split: option.splits list.splits sum.splits)

lemma store_fetch:
  assumes rep: "store_rep E m w d base new"
  shows "store_rep E (snd (acquire_data_block_meta_by_index E w i m)) w d base new"
proof -
  let ?m = "snd (acquire_data_block_meta_by_index E w i m)"
  have same: "same_manager m ?m" by (rule fetch_same_manager)
  then have "block_path E ?m = block_path E m" by (intro block_path_cong) (simp_all add: same_manager_def)
  with same fetch_keeps_rep [OF store_repD(1) [OF rep]] rep show ?thesis
    by (simp add: store_rep_def block_dir_ok_def block_stored_def same_manager_def)
qed

end
