(* ===== verification/Data_Joiner.thy ===== *)
theory Data_Joiner
  imports Block_Store
begin

section \<open>DataJoiner and MemoryDataJoiner: the follower's join\<close>

text \<open>
  \<^verbatim>\<open>data_join/data_joiner_builder\<close>. The joiner takes batches of example ids that the leader
  sent from a queue, looks each id up in the follower's items and appends the matches to the
  block under construction; a block is stored when it reaches the threshold, when the batch
  that is marked finished is used up, or after a time span. \<open>_data_joiner_algo\<close> is a
  generator: one pass of its endless loop is \<open>joiner_iteration\<close>, its result says whether the
  loop was left by \<^verbatim>\<open>break\<close>, and the values it yields are logged in \<open>jn_yielded\<close>. The
  generator's local variable \<^verbatim>\<open>lite_example_ids\<close> is \<open>jn_lite\<close>, unbound at first.
\<close>

record 'w joiner =
  jn_dump_data_block_time_span :: int
  jn_dump_data_block_threshold :: int
  jn_leader_visitor :: "lite_example_ids list" \<comment> \<open>the queue\<close>
  jn_partition_id :: int
  jn_data_block_dir :: string
  jn_data_source_name :: string
  jn_follower_visitor :: raw_data_manager
  jn_manager :: data_block_manager
  jn_maker :: "data_block_maker option"
  jn_follower_restart_index :: int
  jn_finished :: bool
  jn_produced_timestamp :: int
  jn_world :: 'w
  jn_lite :: "lite_example_ids option"
  jn_yielded :: "data_block_meta option list"

subsection \<open>The registry of joiners\<close>

datatype joiner_class = BASE_DATA_JOINER | MEMORY_JOINER

definition joiner_registry :: "(string, joiner_class) dict" where
  "joiner_registry = [(''BASE_DATA_JOINER'', BASE_DATA_JOINER), (''MEMORY_JOINER'', MEMORY_JOINER)]"

definition init_data_joiner ::
  "'w ext \<Rightarrow> int \<Rightarrow> int \<Rightarrow> string \<Rightarrow> string \<Rightarrow> string \<Rightarrow> string \<Rightarrow> int \<Rightarrow> string \<Rightarrow>
     lite_example_ids list \<Rightarrow> 'w \<Rightarrow> ('w joiner, 'w) eff" where
  "init_data_joiner E span thr iter dir src raw_dir pid mode queue w =
     and_then (init_raw_data_loader E raw_dir iter mode w)
       (\<lambda>loader w1. and_then (init_data_block_manager E pid dir src w1)
          (\<lambda>m w2. (Inr \<lparr>jn_dump_data_block_time_span = span, jn_dump_data_block_threshold = thr,
                        jn_leader_visitor = queue, jn_partition_id = pid, jn_data_block_dir = dir,
                        jn_data_source_name = src, jn_follower_visitor = loader, jn_manager = m,
                        jn_maker = None, jn_follower_restart_index = 0, jn_finished = False,
                        jn_produced_timestamp = ex_now E w2, jn_world = w2, jn_lite = None,
                        jn_yielded = []\<rparr>, w2)))"

definition build_data_joiner ::
  "'w ext \<Rightarrow> string \<Rightarrow> int \<Rightarrow> int \<Rightarrow> string \<Rightarrow> string \<Rightarrow> string \<Rightarrow> string \<Rightarrow> int \<Rightarrow> string \<Rightarrow>
     lite_example_ids list \<Rightarrow> 'w \<Rightarrow> (joiner_class \<times> 'w joiner, 'w) eff" where
  "build_data_joiner E name span thr iter dir src raw_dir pid mode queue w =
     (case dict_get joiner_registry name of
        None \<Rightarrow> (Inl ProcessExit, w)
      | Some cls \<Rightarrow>
          and_then (init_data_joiner E span thr iter dir src raw_dir pid mode queue w)
            (\<lambda>j w'. (Inr (cls, j), w')))"

subsection \<open>Operations of the base class\<close>

definition joiner_acquire_data_block_meta_by_index ::
  "'w ext \<Rightarrow> int \<Rightarrow> 'w joiner \<Rightarrow> (bool \<times> data_block_meta option, 'w joiner) eff" where
  "joiner_acquire_data_block_meta_by_index E i st =
     then_do (acquire_data_block_meta_by_index E (jn_world st) i (jn_manager st))
       (\<lambda>meta m. (Inr (jn_finished st, meta), st\<lparr>jn_manager := m\<rparr>))
       (\<lambda>m. st\<lparr>jn_manager := m\<rparr>)"

definition data_join_switch :: "'w joiner \<Rightarrow> bool" where
  "data_join_switch st = rd_raw_data_stale (jn_follower_visitor st)"

definition acquire_data_block_maker :: "'w ext \<Rightarrow> bool \<Rightarrow> 'w joiner \<Rightarrow> (data_block_maker option, 'w joiner) eff" where
  "acquire_data_block_maker E is_create st =
     (if jn_maker st = None \<and> is_create
      then then_do (acquire_produced_data_block_number E (jn_world st) (jn_manager st))
             (\<lambda>idx m.
                let st1 = st\<lparr>jn_manager := m\<rparr>
                in then_do (init_data_block_maker E (jn_data_block_dir st1) (jn_data_source_name st1)
                              (jn_partition_id st1) idx (Some (jn_dump_data_block_threshold st1)) (jn_world st1))
                     (\<lambda>mk w. let mk' = set_restart_data_join_index (jn_follower_restart_index st1)
                                          (build_data_block_manager mk)
                              in (Inr (Some mk'), st1\<lparr>jn_maker := Some mk', jn_world := w\<rparr>))
                     (\<lambda>w. st1\<lparr>jn_world := w\<rparr>))
             (\<lambda>m. st\<lparr>jn_manager := m\<rparr>)
      else (Inr (jn_maker st), st))"

definition data_join_finalizer :: "'w ext \<Rightarrow> bool \<Rightarrow> 'w joiner \<Rightarrow> (data_block_meta option, 'w joiner) eff" where
  "data_join_finalizer E is_data_joiner_finished st =
     (case jn_maker st of
        None \<Rightarrow> (Inr None, st)
      | Some mk \<Rightarrow>
          then_do (data_block_finalizer E (mk, jn_manager st, jn_world st))
            (\<lambda>meta (mk', m, w).
               (Inr meta, st\<lparr>jn_manager := m, jn_world := w, jn_maker := None,
                             jn_finished := (is_data_joiner_finished \<or> jn_finished st),
                             jn_produced_timestamp := ex_now E w\<rparr>))
            (\<lambda>(mk', m, w). st\<lparr>jn_maker := Some mk', jn_manager := m, jn_world := w\<rparr>))"

definition data_block_finalizer_if_time_span :: "'w ext \<Rightarrow> 'w joiner \<Rightarrow> bool" where
  "data_block_finalizer_if_time_span E st =
     (let exec_time = ex_now E (jn_world st) - jn_produced_timestamp st
      in 0 < jn_dump_data_block_time_span st \<and> jn_dump_data_block_time_span st \<le> exec_time)"

subsection \<open>MemoryDataJoiner\<close>

definition yield_finalized :: "'w ext \<Rightarrow> bool \<Rightarrow> 'w joiner \<Rightarrow> (unit, 'w joiner) eff" where
  "yield_finalized E fin st =
     and_then (data_join_finalizer E fin st)
       (\<lambda>meta st'. (Inr (), st'\<lparr>jn_yielded := jn_yielded st' @ [meta]\<rparr>))"

definition join_example :: "'w ext \<Rightarrow> bool \<Rightarrow> bytes \<Rightarrow> 'w joiner \<Rightarrow> (unit, 'w joiner) eff" where
  "join_example E fin e st =
     (case dict_get (rd_item_dict (jn_follower_visitor st)) (KeyBytes e) of
        None \<Rightarrow> (Inr (), st)
      | Some item \<Rightarrow>
          and_then (acquire_data_block_maker E True st)
            (\<lambda>maker st1.
               case (maker, event_time E item) of
                 (None, _) \<Rightarrow> (Inl AttributeError, st1)
               | (Some mk, Inl ex) \<Rightarrow> (Inl ex, st1)
               | (Some mk, Inr t) \<Rightarrow>
                   then_do (save item e t mk)
                     (\<lambda>_ mk'.
                        let st2 = st1\<lparr>jn_maker := Some mk'\<rparr>
                        in if is_data_block_exceed_threshold mk' then yield_finalized E fin st2
                           else (Inr (), st2))
                     (\<lambda>mk'. st1\<lparr>jn_maker := Some mk'\<rparr>)))"

fun join_examples :: "'w ext \<Rightarrow> bool \<Rightarrow> bytes list \<Rightarrow> 'w joiner \<Rightarrow> (unit, 'w joiner) eff" where
  "join_examples E fin [] st = (Inr (), st)"
| "join_examples E fin (e # es) st = and_then (join_example E fin e st) (\<lambda>_. join_examples E fin es)"

definition flush_if_finished :: "'w ext \<Rightarrow> bool \<Rightarrow> 'w joiner \<Rightarrow> (unit, 'w joiner) eff" where
  "flush_if_finished E fin st =
     (if fin \<and> jn_maker st \<noteq> None then yield_finalized E fin st else (Inr (), st))"

definition join_batch :: "'w ext \<Rightarrow> lite_example_ids \<Rightarrow> 'w joiner \<Rightarrow> (unit, 'w joiner) eff" where
  "join_batch E lite st =
     (if length (lite_example_id lite) > 0
      then and_then (join_examples E (lite_finished lite) (lite_example_id lite) st)
             (\<lambda>_. flush_if_finished E (lite_finished lite))
      else flush_if_finished E (lite_finished lite) st)"

definition joiner_iteration :: "'w ext \<Rightarrow> 'w joiner \<Rightarrow> (bool, 'w joiner) eff" where
  "joiner_iteration E st =
     (if jn_finished st then (Inr True, st)
      else
        and_then
          (case jn_leader_visitor st of
             [] \<Rightarrow> (Inr (), st)
           | lite # rest \<Rightarrow> join_batch E lite (st\<lparr>jn_leader_visitor := rest, jn_lite := Some lite\<rparr>))
          (\<lambda>_ st1.
             if jn_maker st1 \<noteq> None \<and> data_block_finalizer_if_time_span E st1
             then (case jn_lite st1 of
                     None \<Rightarrow> (Inl UnboundLocalError, st1)
                   | Some lite \<Rightarrow>
                       and_then (yield_finalized E (lite_finished lite) st1) (\<lambda>_ st2. (Inr False, st2)))
             else (Inr False, st1)))"

text \<open>
  The generator's loop: at most \<open>n\<close> passes, stopping at \<^verbatim>\<open>break\<close> (result \<open>True\<close>) or at an
  exception; \<open>False\<close> means that the loop is still running.
\<close>

fun joiner_run :: "'w ext \<Rightarrow> nat \<Rightarrow> 'w joiner \<Rightarrow> (bool, 'w joiner) eff" where
  "joiner_run E 0 st = (Inr False, st)"
| "joiner_run E (Suc n) st =
     and_then (joiner_iteration E st) (\<lambda>broke st'. if broke then (Inr True, st') else joiner_run E n st')"

definition data_joiner_algo :: "'w ext \<Rightarrow> joiner_class \<Rightarrow> nat \<Rightarrow> 'w joiner \<Rightarrow> (bool, 'w joiner) eff" where
  "data_joiner_algo E cls n st =
     (case cls of
        BASE_DATA_JOINER \<Rightarrow> (Inl NotImplementedError, st)
      | MEMORY_JOINER \<Rightarrow> joiner_run E n (st\<lparr>jn_lite := None\<rparr>))"

subsection \<open>What a joiner state represents\<close>

text \<open>
  \<open>joiner_rep E d base new pending st\<close>: the manager and the disk hold the metas \<open>base\<close> that
  were there at the start followed by the blocks \<open>new\<close> of this run, each with a data file of
  exactly the follower's records of its ids; the open maker (if any) holds \<open>pending\<close>.
\<close>

definition items_timed :: "'w ext \<Rightarrow> item_dict \<Rightarrow> bool" where
  "items_timed E d \<longleftrightarrow>
     (\<forall>(k, item) \<in> set d. case event_time E item of Inr (Some t) \<Rightarrow> int64_ok t | _ \<Rightarrow> False)"

definition joiner_core :: "'w ext \<Rightarrow> item_dict \<Rightarrow> data_block_meta list \<Rightarrow> data_block_meta list \<Rightarrow> 'w joiner \<Rightarrow> bool" where
  "joiner_core E d base new st \<longleftrightarrow>
     rd_item_dict (jn_follower_visitor st) = d \<and>
     store_rep E (jn_manager st) (jn_world st) d base new \<and>
     jn_data_block_dir st = dbm_data_block_dir (jn_manager st) \<and>
     jn_data_source_name st = dbm_data_source_name (jn_manager st) \<and>
     jn_partition_id st = dbm_partition_id (jn_manager st)"

definition maker_holds ::
  "'w ext \<Rightarrow> item_dict \<Rightarrow> nat \<Rightarrow> bytes list \<Rightarrow> 'w joiner \<Rightarrow> data_block_maker \<Rightarrow> bool" where
  "maker_holds E d n pending st mk \<longleftrightarrow>
     maker_ready E (jn_manager st) (jn_world st) mk \<and> maker_counts mk \<and>
     example_ids (mk_meta mk) = pending \<and> data_block_index (mk_meta mk) = int n \<and>
     partition_id (mk_meta mk) = jn_partition_id st \<and>
     mk_written mk = item_records d pending \<and>
     mk_example_num_threshold mk = Some (jn_dump_data_block_threshold st)"

definition joiner_rep ::
  "'w ext \<Rightarrow> item_dict \<Rightarrow> data_block_meta list \<Rightarrow> data_block_meta list \<Rightarrow> bytes list \<Rightarrow> 'w joiner \<Rightarrow> bool" where
  "joiner_rep E d base new pending st \<longleftrightarrow>
     joiner_core E d base new st \<and>
     (case jn_maker st of
        None \<Rightarrow> pending = []
      | Some mk \<Rightarrow> pending \<noteq> [] \<and> maker_holds E d (length (base @ new)) pending st mk)"

text \<open>A new maker: opened on a fresh temporary file, attached to the manager, with the next index.\<close>

lemma acquire_new_maker:
  assumes core: "joiner_core E d base new st" and none: "jn_maker st = None"
    and room: "int (length (base @ new)) \<le> data_block_index_threshold"
  obtains mk w' where
    "acquire_data_block_maker E True st = (Inr (Some mk), st\<lparr>jn_maker := Some mk, jn_world := w'\<rparr>)"
    "joiner_core E d base new (st\<lparr>jn_maker := Some mk, jn_world := w'\<rparr>)"
    "maker_holds E d (length (base @ new)) [] (st\<lparr>jn_maker := Some mk, jn_world := w'\<rparr>) mk"
proof -
  let ?m = "jn_manager st" and ?w = "jn_world st" and ?thr = "Some (jn_dump_data_block_threshold st)"
  have rep: "store_rep E ?m ?w d base new" using core by (simp add: joiner_core_def)
  have settings: "jn_data_block_dir st = dbm_data_block_dir ?m"
    "jn_data_source_name st = dbm_data_source_name ?m" "jn_partition_id st = dbm_partition_id ?m"
    using core by (simp_all add: joiner_core_def)
  obtain tmp w' where o: "init_data_block_maker E (dbm_data_block_dir ?m) (dbm_data_source_name ?m)
      (dbm_partition_id ?m) (int (length (base @ new))) ?thr ?w =
       (Inr (opened_maker ?m (int (length (base @ new))) ?thr tmp), w')"
    "store_rep E ?m w' d base new" "ready_on E ?m w' tmp"
    by (rule store_open [OF rep room_int64 [OF room], of ?thr])
  define mk where "mk = set_restart_data_join_index (jn_follower_restart_index st)
      (build_data_block_manager (opened_maker ?m (int (length (base @ new))) ?thr tmp))"
  have run: "acquire_data_block_maker E True st = (Inr (Some mk), st\<lparr>jn_maker := Some mk, jn_world := w'\<rparr>)"
    using none number_rep [OF store_repD(1) [OF rep]] o(1)
    by (simp add: acquire_data_block_maker_def mk_def settings Let_def)
  have core': "joiner_core E d base new (st\<lparr>jn_maker := Some mk, jn_world := w'\<rparr>)"
    using core o(2) by (simp add: joiner_core_def)
  have "maker_ready E ?m w' mk"
    by (rule ready_onD [OF o(3)])
      (simp_all add: mk_def opened_maker_def set_restart_data_join_index_def build_data_block_manager_def)
  then have "maker_holds E d (length (base @ new)) [] (st\<lparr>jn_maker := Some mk, jn_world := w'\<rparr>) mk"
    by (simp add: maker_holds_def maker_counts_def mk_def opened_maker_def settings
        set_restart_data_join_index_def build_data_block_manager_def empty_data_block_meta_def item_records_def)
  with run core' show ?thesis using that by blast
qed

text \<open>Storing the open block.\<close>

lemma finalize_joiner:
  assumes core: "joiner_core E d base new st" and mk: "jn_maker st = Some mk"
    and holds: "maker_holds E d (length (base @ new)) pending st mk" and ids: "pending \<noteq> []"
    and room: "int (length (base @ new)) \<le> data_block_index_threshold" and post: "post_answers E"
  obtains st' b where "yield_finalized E fin st = (Inr (), st')"
    "joiner_rep E d base (new @ [b]) [] st'" "example_ids b = pending"
    "jn_yielded st' = jn_yielded st @ [Some b]" "jn_finished st' = (fin \<or> jn_finished st)"
    "jn_leader_visitor st' = jn_leader_visitor st" "jn_lite st' = jn_lite st"
    "jn_dump_data_block_threshold st' = jn_dump_data_block_threshold st"
    "jn_dump_data_block_time_span st' = jn_dump_data_block_time_span st"
proof -
  let ?m = "jn_manager st" and ?w = "jn_world st"
  have rep: "store_rep E ?m ?w d base new" using core by (simp add: joiner_core_def)
  have h: "maker_ready E ?m ?w mk" "maker_counts mk" "example_ids (mk_meta mk) = pending"
    "data_block_index (mk_meta mk) = int (length (base @ new))" "mk_written mk = item_records d pending"
    "partition_id (mk_meta mk) = dbm_partition_id ?m"
    using holds core by (simp_all add: maker_holds_def joiner_core_def)
  define b where "b = named_meta E ?m (mk_meta mk)"
  obtain mk' m' w' where f: "data_block_finalizer E (mk, ?m, ?w) = (Inr (Some b), (mk', m', w'))"
    "store_rep E m' w' d base (new @ [b])" "same_manager ?m m'"
    by (rule store_finalizer [OF rep h(1,2) _ h(4) room post, folded b_def]) (use h ids in simp_all)
  let ?st = "st\<lparr>jn_manager := m', jn_world := w', jn_maker := None, jn_finished := (fin \<or> jn_finished st),
      jn_produced_timestamp := ex_now E w', jn_yielded := jn_yielded st @ [Some b]\<rparr>"
  have run: "yield_finalized E fin st = (Inr (), ?st)"
    using mk f(1) by (simp add: yield_finalized_def data_join_finalizer_def)
  have "joiner_rep E d base (new @ [b]) [] ?st"
    using core f(2,3) by (auto simp: joiner_rep_def joiner_core_def same_manager_def)
  from that [OF run this] show ?thesis using h(3) by (simp add: b_def)
qed

text \<open>One example id: skipped when the follower does not have it, else added to the open block.\<close>

definition block_limit :: "'w joiner \<Rightarrow> nat" where
  "block_limit st = nat (max 1 (jn_dump_data_block_threshold st))"

definition same_settings :: "'w joiner \<Rightarrow> 'w joiner \<Rightarrow> bool" where
  "same_settings st st' \<longleftrightarrow>
     jn_leader_visitor st' = jn_leader_visitor st \<and> jn_lite st' = jn_lite st \<and>
     jn_dump_data_block_threshold st' = jn_dump_data_block_threshold st \<and>
     jn_dump_data_block_time_span st' = jn_dump_data_block_time_span st"

lemma same_settings_refl [simp]: "same_settings st st"
  by (simp add: same_settings_def)

lemma same_settings_trans: "same_settings a b \<Longrightarrow> same_settings b c \<Longrightarrow> same_settings a c"
  by (simp add: same_settings_def)

lemma same_settings_limit: "same_settings st st' \<Longrightarrow> block_limit st' = block_limit st"
  by (simp add: same_settings_def block_limit_def)

lemma items_timed_event:
  assumes "items_timed E d" "dict_get d (KeyBytes e) = Some item"
  obtains t where "event_time E item = Inr (Some t)" "int64_ok t"
proof -
  have "case event_time E item of Inr (Some t) \<Rightarrow> int64_ok t | _ \<Rightarrow> False"
    using assms(1) map_of_SomeD [OF assms(2)] unfolding items_timed_def by fast
  with that show ?thesis by (auto split: sum.splits option.splits)
qed

lemma acquire_open_maker:
  assumes "joiner_rep E d base new pending st" "int (length (base @ new)) \<le> data_block_index_threshold"
  obtains mk st' where "acquire_data_block_maker E True st = (Inr (Some mk), st')"
    "joiner_core E d base new st'" "jn_maker st' = Some mk" "maker_holds E d (length (base @ new)) pending st' mk"
    "same_settings st st'" "jn_yielded st' = jn_yielded st" "jn_finished st' = jn_finished st"
proof (cases "jn_maker st")
  case None
  with assms have core: "joiner_core E d base new st" and pend: "pending = []"
    by (simp_all add: joiner_rep_def)
  obtain mk w' where
    "acquire_data_block_maker E True st = (Inr (Some mk), st\<lparr>jn_maker := Some mk, jn_world := w'\<rparr>)"
    "joiner_core E d base new (st\<lparr>jn_maker := Some mk, jn_world := w'\<rparr>)"
    "maker_holds E d (length (base @ new)) [] (st\<lparr>jn_maker := Some mk, jn_world := w'\<rparr>) mk"
    by (rule acquire_new_maker [OF core None assms(2)])
  then show ?thesis
    by (intro that [of mk "st\<lparr>jn_maker := Some mk, jn_world := w'\<rparr>"]) (simp_all add: pend same_settings_def)
next
  case (Some mk)
  with assms that show ?thesis
    by (simp add: joiner_rep_def acquire_data_block_maker_def)
qed

lemma join_example_absent:
  "rd_item_dict (jn_follower_visitor st) = d \<Longrightarrow> dict_get d (KeyBytes e) = None \<Longrightarrow>
     join_example E fin e st = (Inr (), st)"
  by (simp add: join_example_def)

lemma join_example_present:
  assumes rep: "joiner_rep E d base new pending st" and timed: "items_timed E d"
    and item: "dict_get d (KeyBytes e) = Some item"
    and room: "int (length (base @ new)) \<le> data_block_index_threshold" and post: "post_answers E"
    and short: "length pending < block_limit st"
  obtains (kept) st' where "join_example E fin e st = (Inr (), st')"
      "joiner_rep E d base new (pending @ [e]) st'" "length (pending @ [e]) < block_limit st"
      "same_settings st st'" "jn_yielded st' = jn_yielded st" "jn_finished st' = jn_finished st"
  | (stored) st' b where "join_example E fin e st = (Inr (), st')"
      "joiner_rep E d base (new @ [b]) [] st'" "example_ids b = pending @ [e]"
      "length (pending @ [e]) = block_limit st"
      "same_settings st st'" "jn_yielded st' = jn_yielded st @ [Some b]" "jn_finished st' = (fin \<or> jn_finished st)"
proof -
  obtain t where t: "event_time E item = Inr (Some t)" "int64_ok t"
    by (rule items_timed_event [OF timed item])
  obtain mk st1 where a: "acquire_data_block_maker E True st = (Inr (Some mk), st1)"
    "joiner_core E d base new st1" "jn_maker st1 = Some mk" "maker_holds E d (length (base @ new)) pending st1 mk"
    "same_settings st st1" "jn_yielded st1 = jn_yielded st" "jn_finished st1 = jn_finished st"
    by (rule acquire_open_maker [OF rep room])
  have counts: "maker_counts mk" using a(4) by (simp add: maker_holds_def)
  from save_ok [OF t(2) counts] obtain mk' where s: "save item e (Some t) mk = (Inr (), mk')" "maker_counts mk'"
    "mk_written mk' = mk_written mk @ [item]" "example_ids (mk_meta mk') = example_ids (mk_meta mk) @ [e]"
    "data_block_index (mk_meta mk') = data_block_index (mk_meta mk)"
    "partition_id (mk_meta mk') = partition_id (mk_meta mk)"
    and s': "mk' = mk\<lparr>mk_written := mk_written mk', mk_meta := mk_meta mk', mk_saved_example_num := mk_saved_example_num mk'\<rparr>"
    by fastforce
  have same: "mk_has_manager mk' = mk_has_manager mk" "mk_data_block_dir_name mk' = mk_data_block_dir_name mk"
    "mk_data_source_name mk' = mk_data_source_name mk" "mk_partition_id mk' = mk_partition_id mk"
    "mk_tmp_file_path mk' = mk_tmp_file_path mk" "mk_example_num_threshold mk' = mk_example_num_threshold mk"
    by (subst s', simp)+
  let ?st2 = "st1\<lparr>jn_maker := Some mk'\<rparr>"
  have core2: "joiner_core E d base new ?st2" using a(2) by (simp add: joiner_core_def)
  have holds2: "maker_holds E d (length (base @ new)) (pending @ [e]) ?st2 mk'"
    using a(4) s(2-6) same item by (simp add: maker_holds_def maker_ready_def item_records_def)
  have dict: "rd_item_dict (jn_follower_visitor st) = d" using rep by (simp add: joiner_rep_def joiner_core_def)
  have exceed: "is_data_block_exceed_threshold mk' \<longleftrightarrow> length (pending @ [e]) = block_limit st"
    using holds2 a(5) short
    by (auto simp: is_data_block_exceed_threshold_def maker_holds_def block_limit_def same_settings_def)
  have run: "join_example E fin e st =
      (if is_data_block_exceed_threshold mk' then yield_finalized E fin ?st2 else (Inr (), ?st2))"
    using dict item a(1) t(1) s(1) by (simp add: join_example_def Let_def)
  show ?thesis
  proof (cases "length (pending @ [e]) = block_limit st")
    case True
    obtain st' b where f: "yield_finalized E fin ?st2 = (Inr (), st')"
      "joiner_rep E d base (new @ [b]) [] st'" "example_ids b = pending @ [e]"
      "jn_yielded st' = jn_yielded ?st2 @ [Some b]" "jn_finished st' = (fin \<or> jn_finished ?st2)"
      "jn_leader_visitor st' = jn_leader_visitor ?st2" "jn_lite st' = jn_lite ?st2"
      "jn_dump_data_block_threshold st' = jn_dump_data_block_threshold ?st2"
      "jn_dump_data_block_time_span st' = jn_dump_data_block_time_span ?st2"
      by (rule finalize_joiner [OF core2 _ holds2 _ room post]) simp_all
    show ?thesis
      by (rule stored [of st' b]) (use run exceed True f a in \<open>simp_all add: same_settings_def\<close>)
  next
    case False
    show ?thesis
      by (rule kept [of ?st2])
        (use run exceed False short a core2 holds2 in \<open>simp_all add: joiner_rep_def same_settings_def\<close>)
  qed
qed

text \<open>A batch of ids: full blocks are stored, the rest stays open.\<close>

definition matched :: "item_dict \<Rightarrow> bytes list \<Rightarrow> bytes list" where
  "matched d ids = filter (\<lambda>e. dict_get d (KeyBytes e) \<noteq> None) ids"

lemma join_examples_blocks:
  assumes "joiner_rep E d base new pending st" "items_timed E d" "post_answers E"
    "int (length (base @ new) + length es) \<le> data_block_index_threshold"
    "length pending < block_limit st"
  shows "\<exists>st' new' pending'. join_examples E fin es st = (Inr (), st') \<and>
    joiner_rep E d base (new @ new') pending' st' \<and>
    concat (map example_ids new') @ pending' = pending @ matched d es \<and>
    (\<forall>b \<in> set new'. length (example_ids b) = block_limit st) \<and> length pending' < block_limit st \<and>
    length new' \<le> length es \<and>
    same_settings st st' \<and> jn_yielded st' = jn_yielded st @ map Some new' \<and>
    jn_finished st' = (jn_finished st \<or> (fin \<and> new' \<noteq> []))"
  using assms
proof (induction es arbitrary: st new pending)
  case Nil
  then show ?case by (intro exI [of _ st] exI [of _ "[]"] exI [of _ pending]) (simp add: matched_def)
next
  case (Cons e es)
  note rep = Cons.prems(1)
  have dict: "rd_item_dict (jn_follower_visitor st) = d" using rep by (simp add: joiner_rep_def joiner_core_def)
  show ?case
  proof (cases "dict_get d (KeyBytes e)")
    case None
    from Cons.IH [OF rep Cons.prems(2,3) _ Cons.prems(5)] Cons.prems(4)
    show ?thesis by (force simp: join_example_absent [OF dict None] matched_def None)
  next
    case (Some item)
    have room: "int (length (base @ new)) \<le> data_block_index_threshold" using Cons.prems(4) by simp
    show ?thesis
    proof (cases rule: join_example_present [OF rep Cons.prems(2) Some room Cons.prems(3,5), of fin])
      case (1 st1)
      have lim: "block_limit st1 = block_limit st" by (rule same_settings_limit [OF 1(4)])
      have "\<exists>st' new' pending'. join_examples E fin es st1 = (Inr (), st') \<and>
          joiner_rep E d base (new @ new') pending' st' \<and>
          concat (map example_ids new') @ pending' = (pending @ [e]) @ matched d es \<and>
          (\<forall>b \<in> set new'. length (example_ids b) = block_limit st1) \<and> length pending' < block_limit st1 \<and>
          length new' \<le> length es \<and>
          same_settings st1 st' \<and> jn_yielded st' = jn_yielded st1 @ map Some new' \<and>
          jn_finished st' = (jn_finished st1 \<or> (fin \<and> new' \<noteq> []))"
        by (rule Cons.IH [OF 1(2) Cons.prems(2,3)]) (use Cons.prems(4) 1(3) lim in simp_all)
      then obtain st' new' pending' where h: "join_examples E fin es st1 = (Inr (), st')"
          "joiner_rep E d base (new @ new') pending' st'"
          "concat (map example_ids new') @ pending' = (pending @ [e]) @ matched d es"
          "\<forall>b \<in> set new'. length (example_ids b) = block_limit st1" "length pending' < block_limit st1"
          "length new' \<le> length es" "same_settings st1 st'" "jn_yielded st' = jn_yielded st1 @ map Some new'"
          "jn_finished st' = (jn_finished st1 \<or> (fin \<and> new' \<noteq> []))" by blast
      show ?thesis
        by (intro exI [of _ st'] exI [of _ new'] exI [of _ pending'])
          (use h 1 lim Some same_settings_trans [OF 1(4) h(7)] in \<open>auto simp: matched_def\<close>)
    next
      case (2 st1 b)
      have lim: "block_limit st1 = block_limit st" by (rule same_settings_limit [OF 2(5)])
      have "\<exists>st' new' pending'. join_examples E fin es st1 = (Inr (), st') \<and>
          joiner_rep E d base ((new @ [b]) @ new') pending' st' \<and>
          concat (map example_ids new') @ pending' = [] @ matched d es \<and>
          (\<forall>b \<in> set new'. length (example_ids b) = block_limit st1) \<and> length pending' < block_limit st1 \<and>
          length new' \<le> length es \<and>
          same_settings st1 st' \<and> jn_yielded st' = jn_yielded st1 @ map Some new' \<and>
          jn_finished st' = (jn_finished st1 \<or> (fin \<and> new' \<noteq> []))"
        by (rule Cons.IH [OF 2(2) Cons.prems(2,3)]) (use Cons.prems(4,5) 2 lim in simp_all)
      then obtain st' new' pending' where h: "join_examples E fin es st1 = (Inr (), st')"
          "joiner_rep E d base ((new @ [b]) @ new') pending' st'"
          "concat (map example_ids new') @ pending' = matched d es"
          "\<forall>b \<in> set new'. length (example_ids b) = block_limit st1" "length pending' < block_limit st1"
          "length new' \<le> length es" "same_settings st1 st'" "jn_yielded st' = jn_yielded st1 @ map Some new'"
          "jn_finished st' = (jn_finished st1 \<or> (fin \<and> new' \<noteq> []))" by auto
      show ?thesis
        by (intro exI [of _ st'] exI [of _ "b # new'"] exI [of _ pending'])
          (use h 2 lim Some same_settings_trans [OF 2(5) h(7)] in \<open>auto simp: matched_def\<close>)
    qed
  qed
qed

lemma flush_open:
  assumes rep: "joiner_rep E d base new pending st" and post: "post_answers E"
    and room: "int (length (base @ new)) \<le> data_block_index_threshold"
  shows "\<exists>st' new'. flush_if_finished E fin st = (Inr (), st') \<and>
    joiner_rep E d base (new @ new') (if fin then [] else pending) st' \<and>
    map example_ids new' = (if fin \<and> pending \<noteq> [] then [pending] else []) \<and>
    same_settings st st' \<and> jn_yielded st' = jn_yielded st @ map Some new' \<and>
    jn_finished st' = (jn_finished st \<or> (fin \<and> pending \<noteq> []))"
proof (cases "fin \<and> pending \<noteq> []")
  case True
  with rep obtain mk where mk: "jn_maker st = Some mk" "maker_holds E d (length (base @ new)) pending st mk"
    and core: "joiner_core E d base new st"
    by (auto simp: joiner_rep_def split: option.splits)
  obtain st' b where f: "yield_finalized E fin st = (Inr (), st')"
    "joiner_rep E d base (new @ [b]) [] st'" "example_ids b = pending"
    "jn_yielded st' = jn_yielded st @ [Some b]" "jn_finished st' = (fin \<or> jn_finished st)"
    "jn_leader_visitor st' = jn_leader_visitor st" "jn_lite st' = jn_lite st"
    "jn_dump_data_block_threshold st' = jn_dump_data_block_threshold st"
    "jn_dump_data_block_time_span st' = jn_dump_data_block_time_span st"
    by (rule finalize_joiner [OF core mk(1,2) _ room post, where fin = fin]) (use True in simp_all)
  show ?thesis
    by (intro exI [of _ st'] exI [of _ "[b]"])
      (use True mk f in \<open>simp add: flush_if_finished_def same_settings_def\<close>)
next
  case False
  then have "flush_if_finished E fin st = (Inr (), st)"
    using rep by (auto simp: flush_if_finished_def joiner_rep_def split: option.splits)
  with rep False show ?thesis by (intro exI [of _ st] exI [of _ "[]"]) auto
qed

lemma chunks_full_blocks:
  assumes "\<forall>b \<in> set bs. length b = n" "length pending < n"
  shows "chunks n (concat bs @ pending) = bs @ (if pending = [] then [] else [pending])"
  using assms
proof (induction bs)
  case Nil
  then show ?case by (cases "pending = []") (simp_all add: chunks_short)
next
  case (Cons b bs)
  then show ?case using chunks_full_append [of n b "concat bs @ pending"] by simp
qed

text \<open>
  One batch. A batch that is not marked finished stores the blocks it fills; the finished
  batch stores everything that is left.
\<close>

lemma join_batch_blocks:
  assumes rep: "joiner_rep E d base new pending st" and "items_timed E d" and post: "post_answers E"
    and room: "int (length (base @ new) + length (lite_example_id lite)) \<le> data_block_index_threshold"
    and short: "length pending < block_limit st"
  shows "\<exists>st' new' pending'. join_batch E lite st = (Inr (), st') \<and>
    joiner_rep E d base (new @ new') pending' st' \<and>
    (if lite_finished lite
     then map example_ids new' = chunks (block_limit st) (pending @ matched d (lite_example_id lite)) \<and> pending' = []
     else concat (map example_ids new') @ pending' = pending @ matched d (lite_example_id lite) \<and>
       (\<forall>b \<in> set new'. length (example_ids b) = block_limit st)) \<and>
    length pending' < block_limit st \<and> length new' \<le> length (lite_example_id lite) + 1 \<and>
    (\<not> lite_finished lite \<longrightarrow> length new' \<le> length (lite_example_id lite)) \<and>
    same_settings st st' \<and> jn_yielded st' = jn_yielded st @ map Some new' \<and>
    jn_finished st' = (jn_finished st \<or> (lite_finished lite \<and> new' \<noteq> []))"
proof -
  let ?ids = "lite_example_id lite" and ?fin = "lite_finished lite"
  have "join_batch E lite st = and_then (join_examples E ?fin ?ids st) (\<lambda>_. flush_if_finished E ?fin)"
    by (simp add: join_batch_def)
  moreover obtain st1 n1 p1 where j: "join_examples E ?fin ?ids st = (Inr (), st1)"
    "joiner_rep E d base (new @ n1) p1 st1"
    "concat (map example_ids n1) @ p1 = pending @ matched d ?ids"
    "\<forall>b \<in> set n1. length (example_ids b) = block_limit st" "length p1 < block_limit st"
    "length n1 \<le> length ?ids" "same_settings st st1" "jn_yielded st1 = jn_yielded st @ map Some n1"
    "jn_finished st1 = (jn_finished st \<or> (?fin \<and> n1 \<noteq> []))"
    using join_examples_blocks [OF rep assms(2) post room short, of ?fin] by blast
  moreover obtain st2 n2 where f: "flush_if_finished E ?fin st1 = (Inr (), st2)"
    "joiner_rep E d base ((new @ n1) @ n2) (if ?fin then [] else p1) st2"
    "map example_ids n2 = (if ?fin \<and> p1 \<noteq> [] then [p1] else [])"
    "same_settings st1 st2" "jn_yielded st2 = jn_yielded st1 @ map Some n2"
    "jn_finished st2 = (jn_finished st1 \<or> (?fin \<and> p1 \<noteq> []))"
    using flush_open [OF j(2) post, of ?fin] room j(6) by auto
  moreover have "map example_ids (n1 @ n2) = chunks (block_limit st) (pending @ matched d ?ids)" if ?fin
  proof -
    have "chunks (block_limit st) (concat (map example_ids n1) @ p1) =
        map example_ids n1 @ (if p1 = [] then [] else [p1])"
      by (rule chunks_full_blocks) (use j(4,5) in auto)
    with that f(3) j(3) show ?thesis by simp
  qed
  moreover have "length n2 \<le> 1" "\<not> ?fin \<longrightarrow> n2 = []" "?fin \<longrightarrow> (n2 \<noteq> []) = (p1 \<noteq> [])"
    using f(3) arg_cong [OF f(3), of length] by (auto split: if_splits)
  moreover have "0 < block_limit st" by (simp add: block_limit_def)
  ultimately show ?thesis
    using same_settings_trans [OF j(7) f(4)]
    by (intro exI [of _ st2] exI [of _ "n1 @ n2"] exI [of _ "if ?fin then [] else p1"]) auto
qed

text \<open>The loop over a queue of batches, without a time span.\<close>

lemma joiner_run_append:
  "joiner_run E (n + k) st =
     and_then (joiner_run E n st) (\<lambda>broke st'. if broke then (Inr True, st') else joiner_run E k st')"
proof (induction n arbitrary: st)
  case 0
  then show ?case by simp
next
  case (Suc n)
  obtain r st' where r: "joiner_iteration E st = (r, st')" by (cases "joiner_iteration E st")
  show ?case by (cases r) (simp_all add: r Suc.IH)
qed

lemma joiner_iteration_batch:
  assumes "\<not> jn_finished st" "jn_leader_visitor st = lite # rest"
    "join_batch E lite (st\<lparr>jn_leader_visitor := rest, jn_lite := Some lite\<rparr>) = (Inr (), st')"
    "same_settings (st\<lparr>jn_leader_visitor := rest, jn_lite := Some lite\<rparr>) st'"
    "jn_dump_data_block_time_span st \<le> 0"
  shows "joiner_iteration E st = (Inr False, st')"
  using assms by (simp add: joiner_iteration_def data_block_finalizer_if_time_span_def same_settings_def)

lemma joiner_iteration_idle:
  assumes "\<not> jn_finished st" "jn_leader_visitor st = []" "jn_maker st = None"
  shows "joiner_iteration E st = (Inr False, st)"
  using assms by (simp add: joiner_iteration_def)

lemma joiner_run_idle:
  assumes "\<not> jn_finished st" "jn_leader_visitor st = []" "jn_maker st = None"
  shows "joiner_run E n st = (Inr False, st)"
  using assms by (induction n) (simp_all add: joiner_iteration_idle)

lemma joiner_run_finished: "jn_finished st \<Longrightarrow> joiner_run E (Suc n) st = (Inr True, st)"
  by (simp add: joiner_iteration_def)

definition batches_ids :: "lite_example_ids list \<Rightarrow> bytes list" where
  "batches_ids bs = concat (map lite_example_id bs)"

lemma matched_append [simp]: "matched d (xs @ ys) = matched d xs @ matched d ys"
  by (simp add: matched_def)

lemma matched_length: "length (matched d xs) \<le> length xs"
  by (simp add: matched_def)

lemma joiner_run_unfinished:
  assumes "joiner_rep E d base new pending st" "items_timed E d" "post_answers E"
    "int (length (base @ new) + length (batches_ids us)) \<le> data_block_index_threshold"
    "length pending < block_limit st" "\<not> jn_finished st" "jn_leader_visitor st = us @ rest"
    "\<forall>u \<in> set us. \<not> lite_finished u" "jn_dump_data_block_time_span st \<le> 0"
  shows "\<exists>st' new' pending'. joiner_run E (length us) st = (Inr False, st') \<and>
    joiner_rep E d base (new @ new') pending' st' \<and>
    concat (map example_ids new') @ pending' = pending @ matched d (batches_ids us) \<and>
    (\<forall>b \<in> set new'. length (example_ids b) = block_limit st) \<and> length pending' < block_limit st \<and>
    length new' \<le> length (batches_ids us) \<and> jn_leader_visitor st' = rest \<and> \<not> jn_finished st' \<and>
    block_limit st' = block_limit st \<and> jn_dump_data_block_time_span st' \<le> 0 \<and>
    jn_yielded st' = jn_yielded st @ map Some new'"
  using assms
proof (induction us arbitrary: st new pending)
  case Nil
  then show ?case
    by (intro exI [of _ st] exI [of _ "[]"] exI [of _ pending]) (simp add: batches_ids_def matched_def)
next
  case (Cons u us)
  let ?st0 = "st\<lparr>jn_leader_visitor := us @ rest, jn_lite := Some u\<rparr>"
  have fin: "\<not> lite_finished u" using Cons.prems(8) by simp
  have rep0: "joiner_rep E d base new pending ?st0"
    using Cons.prems(1)
    by (simp add: joiner_rep_def joiner_core_def maker_holds_def split: option.splits)
  have lim0: "block_limit ?st0 = block_limit st" by (simp add: block_limit_def)
  have room: "int (length (base @ new) + length (lite_example_id u)) \<le> data_block_index_threshold"
    using Cons.prems(4) by (simp add: batches_ids_def)
  obtain st1 n1 p1 where b: "join_batch E u ?st0 = (Inr (), st1)" "joiner_rep E d base (new @ n1) p1 st1"
    "concat (map example_ids n1) @ p1 = pending @ matched d (lite_example_id u)"
    "\<forall>b \<in> set n1. length (example_ids b) = block_limit st" "length p1 < block_limit st"
    "length n1 \<le> length (lite_example_id u)" "same_settings ?st0 st1"
    "jn_yielded st1 = jn_yielded st @ map Some n1" "jn_finished st1 = jn_finished st"
    using join_batch_blocks [OF rep0 Cons.prems(2,3) room] Cons.prems(5) fin lim0 by auto
  have it: "joiner_iteration E st = (Inr False, st1)"
    by (rule joiner_iteration_batch [OF Cons.prems(6) _ b(1,7) Cons.prems(9)]) (use Cons.prems(7) in simp)
  have s1: "block_limit st1 = block_limit st" "jn_leader_visitor st1 = us @ rest"
    "jn_dump_data_block_time_span st1 \<le> 0"
    using b(7) Cons.prems(9) by (simp_all add: same_settings_def block_limit_def)
  have "\<exists>st' new' pending'. joiner_run E (length us) st1 = (Inr False, st') \<and>
    joiner_rep E d base ((new @ n1) @ new') pending' st' \<and>
    concat (map example_ids new') @ pending' = p1 @ matched d (batches_ids us) \<and>
    (\<forall>b \<in> set new'. length (example_ids b) = block_limit st1) \<and> length pending' < block_limit st1 \<and>
    length new' \<le> length (batches_ids us) \<and> jn_leader_visitor st' = rest \<and> \<not> jn_finished st' \<and>
    block_limit st' = block_limit st1 \<and> jn_dump_data_block_time_span st' \<le> 0 \<and>
    jn_yielded st' = jn_yielded st1 @ map Some new'"
    by (rule Cons.IH [OF b(2) Cons.prems(2,3)])
      (use Cons.prems(4,6,8) b s1 in \<open>simp_all add: batches_ids_def\<close>)
  then obtain st' n2 p2 where h: "joiner_run E (length us) st1 = (Inr False, st')"
    "joiner_rep E d base ((new @ n1) @ n2) p2 st'"
    "concat (map example_ids n2) @ p2 = p1 @ matched d (batches_ids us)"
    "\<forall>b \<in> set n2. length (example_ids b) = block_limit st1" "length p2 < block_limit st1"
    "length n2 \<le> length (batches_ids us)" "jn_leader_visitor st' = rest" "\<not> jn_finished st'"
    "block_limit st' = block_limit st1" "jn_dump_data_block_time_span st' \<le> 0"
    "jn_yielded st' = jn_yielded st1 @ map Some n2" by blast
  have cat: "concat (map example_ids (n1 @ n2)) @ p2 = pending @ matched d (batches_ids (u # us))"
    using b(3) h(3) by (simp add: batches_ids_def)
  show ?case
    by (intro exI [of _ st'] exI [of _ "n1 @ n2"] exI [of _ p2])
      (use it h b(4,6,8) s1 cat in \<open>auto simp: batches_ids_def\<close>)
qed


lemma chunks_after_full:
  "0 < n \<Longrightarrow> \<forall>b \<in> set bs. length b = n \<Longrightarrow> chunks n (concat bs @ xs) = bs @ chunks n xs"
  by (induction bs) (simp_all add: chunks_full_append)

lemma pending_iff_dvd:
  assumes "\<forall>b \<in> set bs. length b = n" "length p < n" "concat bs @ p = xs"
  shows "n dvd length xs \<longleftrightarrow> p = []"
proof -
  have "length (concat bs) = n * length bs" using assms(1) by (induction bs) auto
  with arg_cong [OF assms(3), of length] have "length xs = n * length bs + length p" by simp
  then have "n dvd length xs \<longleftrightarrow> n dvd length p" by (simp add: dvd_add_right_iff)
  then show ?thesis using assms(2) nat_dvd_not_less [of "length p" n] by auto
qed

text \<open>
  The whole queue: after one pass per batch the blocks are the chunks of the matched ids, in
  the leader's order. The flag that ends the loop is set unless the last batch leaves nothing
  to store.
\<close>

lemma joiner_run_queue:
  assumes rep: "joiner_rep E d base [] [] st" "items_timed E d" "post_answers E"
    and room: "int (length base + length (batches_ids (us @ [l]))) \<le> data_block_index_threshold"
    and st: "\<not> jn_finished st" "jn_leader_visitor st = us @ [l]"
    and fin: "\<forall>u \<in> set us. \<not> lite_finished u" "lite_finished l"
    and span: "jn_dump_data_block_time_span st \<le> 0"
  obtains st' new where "joiner_run E (length (us @ [l])) st = (Inr False, st')"
    "joiner_rep E d base new [] st'"
    "map example_ids new = chunks (block_limit st) (matched d (batches_ids (us @ [l])))"
    "jn_leader_visitor st' = []" "jn_yielded st' = jn_yielded st @ map Some new"
    "jn_finished st' \<longleftrightarrow> \<not> (block_limit st dvd length (matched d (batches_ids us)) \<and> matched d (lite_example_id l) = [])"
proof -
  have lim: "0 < block_limit st" by (simp add: block_limit_def)
  obtain st1 n1 p1 where u: "joiner_run E (length us) st = (Inr False, st1)"
    "joiner_rep E d base n1 p1 st1" "concat (map example_ids n1) @ p1 = matched d (batches_ids us)"
    "\<forall>b \<in> set n1. length (example_ids b) = block_limit st" "length p1 < block_limit st"
    "length n1 \<le> length (batches_ids us)" "jn_leader_visitor st1 = [l]" "\<not> jn_finished st1"
    "block_limit st1 = block_limit st" "jn_dump_data_block_time_span st1 \<le> 0"
    "jn_yielded st1 = jn_yielded st @ map Some n1"
    using joiner_run_unfinished [OF rep _ _ st fin(1) span] room lim by (auto simp: batches_ids_def)
  let ?st0 = "st1\<lparr>jn_leader_visitor := [], jn_lite := Some l\<rparr>"
  have rep0: "joiner_rep E d base n1 p1 ?st0"
    using u(2) by (simp add: joiner_rep_def joiner_core_def maker_holds_def split: option.splits)
  have lim0: "block_limit ?st0 = block_limit st" using u(9) by (simp add: block_limit_def)
  have room1: "int (length (base @ n1) + length (lite_example_id l)) \<le> data_block_index_threshold"
    using room u(6) by (simp add: batches_ids_def)
  obtain st2 n2 where b: "join_batch E l ?st0 = (Inr (), st2)" "joiner_rep E d base (n1 @ n2) [] st2"
    "map example_ids n2 = chunks (block_limit st) (p1 @ matched d (lite_example_id l))"
    "same_settings ?st0 st2" "jn_yielded st2 = jn_yielded st1 @ map Some n2"
    "jn_finished st2 = (jn_finished st1 \<or> n2 \<noteq> [])"
    using join_batch_blocks [OF rep0 rep(2,3) room1] u(5) fin(2) lim0 by auto
  have it: "joiner_iteration E st1 = (Inr False, st2)"
    by (rule joiner_iteration_batch [OF u(8,7) b(1,4) u(10)])
  have "joiner_run E (length us + 1) st = (Inr False, st2)"
    by (simp only: joiner_run_append u(1)) (simp add: it)
  then have run: "joiner_run E (length (us @ [l])) st = (Inr False, st2)" by simp
  have "chunks (block_limit st) (concat (map example_ids n1) @ p1 @ matched d (lite_example_id l)) =
      map example_ids n1 @ map example_ids n2"
    unfolding b(3) by (rule chunks_after_full [OF lim]) (use u(4) in simp)
  then have ids: "map example_ids (n1 @ n2) = chunks (block_limit st) (matched d (batches_ids (us @ [l])))"
    using u(3) by (simp add: batches_ids_def flip: append_assoc)
  have "n2 = [] \<longleftrightarrow> p1 = [] \<and> matched d (lite_example_id l) = []"
    using arg_cong [OF b(3), of "\<lambda>xs. xs = []"] lim by simp
  moreover have "block_limit st dvd length (matched d (batches_ids us)) \<longleftrightarrow> p1 = []"
    by (rule pending_iff_dvd [OF _ u(5) u(3)]) (use u(4) in simp)
  ultimately have "jn_finished st2 \<longleftrightarrow>
      \<not> (block_limit st dvd length (matched d (batches_ids us)) \<and> matched d (lite_example_id l) = [])"
    using b(6) u(8) by simp
  moreover have "jn_leader_visitor st2 = []" using b(4) by (simp add: same_settings_def)
  ultimately show ?thesis by (rule that [OF run b(2) ids _ _ , rotated 2]) (simp add: b(5) u(11))
qed

text \<open>The joiner never changes its partition.\<close>

lemma acquire_maker_partition: "jn_partition_id (snd (acquire_data_block_maker E c st)) = jn_partition_id st"
  by (auto simp: acquire_data_block_maker_def then_do_def Let_def split: sum.split prod.split)

lemma yield_finalized_partition: "jn_partition_id (snd (yield_finalized E fin st)) = jn_partition_id st"
  by (auto simp: yield_finalized_def data_join_finalizer_def then_do_def split: sum.split prod.split option.split)

lemma join_example_partition: "jn_partition_id (snd (join_example E fin e st)) = jn_partition_id st"
proof (cases "dict_get (rd_item_dict (jn_follower_visitor st)) (KeyBytes e)")
  case None
  then show ?thesis by (simp add: join_example_def)
next
  case (Some item)
  show ?thesis
    unfolding join_example_def Some option.case
    by (rule then_do_keeps [where P = "\<lambda>s. jn_partition_id s = jn_partition_id st", OF acquire_maker_partition])
      (auto simp: then_do_def yield_finalized_partition Let_def split: option.split sum.split prod.split)
qed

lemma join_examples_partition: "jn_partition_id (snd (join_examples E fin es st)) = jn_partition_id st"
proof (induction es arbitrary: st)
  case Nil
  then show ?case by simp
next
  case (Cons e es)
  show ?case unfolding join_examples.simps
    by (rule then_do_keeps [where P = "\<lambda>s. jn_partition_id s = jn_partition_id st", OF join_example_partition])
      (simp_all add: Cons.IH)
qed

lemma join_batch_partition: "jn_partition_id (snd (join_batch E lite st)) = jn_partition_id st"
proof -
  have flush: "jn_partition_id (snd (flush_if_finished E fin s)) = jn_partition_id s" for fin s
    by (simp add: flush_if_finished_def yield_finalized_partition)
  have "jn_partition_id (snd (and_then (join_examples E fin es st) (\<lambda>_. flush_if_finished E fin))) = jn_partition_id st"
    for fin es
    by (rule and_then_keeps [where f = jn_partition_id, OF join_examples_partition]) (simp add: flush)
  then show ?thesis by (simp add: join_batch_def flush)
qed

lemma joiner_iteration_partition: "jn_partition_id (snd (joiner_iteration E st)) = jn_partition_id st"
proof (cases "jn_finished st")
  case True
  then show ?thesis by (simp add: joiner_iteration_def)
next
  case False
  let ?P = "\<lambda>s. jn_partition_id s = jn_partition_id st"
  have tail: "?P (snd (if jn_maker s \<noteq> None \<and> data_block_finalizer_if_time_span E s
      then (case jn_lite s of None \<Rightarrow> (Inl UnboundLocalError, s)
            | Some lite \<Rightarrow> and_then (yield_finalized E (lite_finished lite) s) (\<lambda>_ s'. (Inr False, s')))
      else (Inr False, s)))" if "?P s" for s
  proof -
    have "?P (snd (and_then (yield_finalized E fin s) (\<lambda>_ s'. (Inr False, s'))))" for fin
      by (rule and_then_keeps [where f = jn_partition_id]) (simp_all add: that yield_finalized_partition)
    with that show ?thesis by (simp split: option.split)
  qed
  have head: "?P (snd (case jn_leader_visitor st of [] \<Rightarrow> (Inr (), st)
      | lite # rest \<Rightarrow> join_batch E lite (st\<lparr>jn_leader_visitor := rest, jn_lite := Some lite\<rparr>)))"
    by (simp add: join_batch_partition split: list.split)
  show ?thesis
    unfolding joiner_iteration_def using False
    by (simp only: if_False) (rule then_do_keeps [where P = ?P, OF head]; use tail in blast)
qed

lemma joiner_run_partition: "jn_partition_id (snd (joiner_run E n st)) = jn_partition_id st"
proof (induction n arbitrary: st)
  case 0
  then show ?case by simp
next
  case (Suc n)
  show ?case unfolding joiner_run.simps
    by (rule then_do_keeps [where P = "\<lambda>s. jn_partition_id s = jn_partition_id st", OF joiner_iteration_partition])
      (simp_all add: Suc.IH)
qed

end
