(* ===== verification/Block_Saver.thy ===== *)
theory Block_Saver
  imports Data_Joiner
begin

section \<open>DataBlockSaver: the leader stores the blocks the follower announced\<close>

text \<open>
  \<^verbatim>\<open>data_join/data_block_saver.py\<close>. The saver buffers metas that arrive in index order and
  stores for each one a data file with the leader's records of its ids. The meta handed to
  the maker is the object at the head of the buffer, so what the finalizer writes into it (its
  block id) is seen in the buffer; \<open>alias_head\<close> carries that write. The handler of
  \<^verbatim>\<open>_build_data_block_maker\<close> calls \<^verbatim>\<open>traceback.print_exc\<close> with a string and so turns every
  exception into \<^verbatim>\<open>TypeError\<close>; the context manager of the saver has no \<^verbatim>\<open>try\<close>, so the switch
  state stays set when saving raises.
\<close>

record 'w data_block_saver =
  sv_partition_id :: int
  sv_data_block_dir :: string
  sv_send_data_block_meta_finish :: bool
  sv_raw_data_visitor :: init_raw_data_loading
  sv_manager :: data_block_manager
  sv_next_data_block_index :: int
  sv_buffer :: "data_block_meta list"
  sv_data_source_name :: string
  sv_state_switch :: bool
  sv_world :: 'w

subsection \<open>Operations\<close>

definition init_data_block_saver ::
  "'w ext \<Rightarrow> int \<Rightarrow> init_raw_data_loading \<Rightarrow> string \<Rightarrow> string \<Rightarrow> 'w \<Rightarrow> ('w data_block_saver, 'w) eff" where
  "init_data_block_saver E pid il dir src w =
     and_then (init_data_block_manager E pid dir src w)
       (\<lambda>m w'. case acquire_produced_data_block_number E w' m of
            (Inl e, _) \<Rightarrow> (Inl e, w')
          | (Inr n, m') \<Rightarrow>
              (Inr \<lparr>sv_partition_id = pid, sv_data_block_dir = dir, sv_send_data_block_meta_finish = False,
                    sv_raw_data_visitor = il, sv_manager = m', sv_next_data_block_index = n,
                    sv_buffer = [], sv_data_source_name = src, sv_state_switch = False,
                    sv_world = w'\<rparr>, w'))"

definition append_sent_data_block_meta_to_buffer ::
  "data_block_meta \<Rightarrow> 'w data_block_saver \<Rightarrow> (bool \<times> int, 'w data_block_saver) eff" where
  "append_sent_data_block_meta_to_buffer meta sv =
     (if sv_send_data_block_meta_finish sv then (Inl RuntimeError, sv)
      else if sv_next_data_block_index sv \<noteq> data_block_index meta
      then (Inr (False, sv_next_data_block_index sv), sv)
      else (Inr (True, sv_next_data_block_index sv + 1),
            sv\<lparr>sv_buffer := sv_buffer sv @ [meta],
               sv_next_data_block_index := sv_next_data_block_index sv + 1\<rparr>))"

definition finish_sent_data_block_meta :: "'w data_block_saver \<Rightarrow> 'w data_block_saver" where
  "finish_sent_data_block_meta sv = sv\<lparr>sv_send_data_block_meta_finish := True\<rparr>"

definition is_need_save :: "'w data_block_saver \<Rightarrow> bool" where
  "is_need_save sv \<longleftrightarrow> length (sv_buffer sv) > 0"

definition get_next_data_block_meta_from_buffer :: "'w data_block_saver \<Rightarrow> data_block_meta option" where
  "get_next_data_block_meta_from_buffer sv =
     (if length (sv_buffer sv) = 0 then None else Some (hd (sv_buffer sv)))"

fun save_records :: "item_dict \<Rightarrow> bytes list \<Rightarrow> data_block_maker \<Rightarrow> data_block_maker" where
  "save_records d [] mk = mk"
| "save_records d (e # es) mk =
     save_records d es
       (case dict_get d (KeyBytes e) of Some r \<Rightarrow> save_data_record r mk | None \<Rightarrow> mk)"

definition alias_head :: "data_block_meta \<Rightarrow> 'w data_block_saver \<Rightarrow> 'w data_block_saver" where
  "alias_head meta sv = sv\<lparr>sv_buffer := (case sv_buffer sv of [] \<Rightarrow> [] | _ # rest \<Rightarrow> meta # rest)\<rparr>"

text \<open>\<open>maker_handler\<close> is the \<^verbatim>\<open>except\<close> clause around the \<^verbatim>\<open>yield\<close> of \<^verbatim>\<open>_build_data_block_maker\<close>.\<close>

definition maker_handler :: "(unit, 's) eff \<Rightarrow> (unit, 's) eff" where
  "maker_handler r =
     (case r of
        (Inl e, s) \<Rightarrow> (case print_exc_with_limit [] of Inl e' \<Rightarrow> (Inl e', s) | Inr _ \<Rightarrow> (Inr (), s))
      | (Inr _, s) \<Rightarrow> (Inr (), s))"

definition save_data_block_with_meta ::
  "'w ext \<Rightarrow> data_block_meta \<Rightarrow> 'w data_block_saver \<Rightarrow> (unit, 'w data_block_saver) eff" where
  "save_data_block_with_meta E meta sv =
     (if sv_partition_id sv \<noteq> partition_id meta then (Inl AssertionError, sv)
      else maker_handler
        (then_do (init_data_block_maker E (sv_data_block_dir sv) (sv_data_source_name sv) (sv_partition_id sv)
                    (data_block_index meta) None (sv_world sv))
           (\<lambda>mk0 w.
              let mk1 = build_data_block_manager (init_maker_by_input_meta meta mk0);
                  mk2 = save_records (rd_item_dict (il_loader (sv_raw_data_visitor sv))) (example_ids meta) mk1;
                  left = (\<lambda>(mk, m, w). alias_head (mk_meta mk) (sv\<lparr>sv_manager := m, sv_world := w\<rparr>))
              in then_do (data_block_finalizer E (mk2, sv_manager sv, w))
                   (\<lambda>saved st.
                      let sv' = left st
                      in if saved \<noteq> Some (mk_meta (fst st)) then (Inl AssertionError, sv')
                         else (case sv_buffer sv' of
                                 [] \<Rightarrow> (Inl IndexError, sv')
                               | b # rest \<Rightarrow>
                                   if b \<noteq> mk_meta (fst st) then (Inl AssertionError, sv')
                                   else (Inr (), sv'\<lparr>sv_buffer := rest\<rparr>)))
                   left)
           (\<lambda>w. sv\<lparr>sv_world := w\<rparr>)))"

lemma save_pops_head:
  "save_data_block_with_meta E meta sv = (Inr u, sv') \<Longrightarrow> length (sv_buffer sv') < length (sv_buffer sv)"
  by (auto simp: save_data_block_with_meta_def maker_handler_def print_exc_with_limit_def then_do_def
      alias_head_def Let_def split: if_splits sum.splits prod.splits list.splits)

function save_data_blocks :: "'w ext \<Rightarrow> 'w data_block_saver \<Rightarrow> (unit, 'w data_block_saver) eff" where
  "save_data_blocks E sv =
     (if is_need_save sv
      then (case get_next_data_block_meta_from_buffer sv of
              None \<Rightarrow> (Inr (), sv)
            | Some meta \<Rightarrow>
                (case save_data_block_with_meta E meta sv of
                   (Inl e, sv') \<Rightarrow> (Inl e, sv')
                 | (Inr _, sv') \<Rightarrow> save_data_blocks E sv'))
      else (Inr (), sv))"
  by pat_completeness auto
termination
  by (relation "measure (\<lambda>(E, sv). length (sv_buffer sv))") (auto dest: save_pops_head [OF trans, OF sym])

declare save_data_blocks.simps [simp del]

definition remove_saved_data_block_meta_from_buffer ::
  "'w ext \<Rightarrow> 'w data_block_saver \<Rightarrow> (unit, 'w data_block_saver) eff" where
  "remove_saved_data_block_meta_from_buffer E sv =
     then_do (acquire_produced_data_block_number E (sv_world sv) (sv_manager sv))
       (\<lambda>n m. (Inr (), sv\<lparr>sv_manager := m,
                 sv_buffer := dropWhile (\<lambda>meta. data_block_index meta < n) (sv_buffer sv)\<rparr>))
       (\<lambda>m. sv\<lparr>sv_manager := m\<rparr>)"

definition notify_data_block_manager_sync_state ::
  "'w ext \<Rightarrow> 'w data_block_saver \<Rightarrow> (unit, 'w data_block_saver) eff" where
  "notify_data_block_manager_sync_state E sv =
     (if sv_state_switch sv then remove_saved_data_block_meta_from_buffer E sv else (Inr (), sv))"

definition run_data_block_saver :: "'w ext \<Rightarrow> 'w data_block_saver \<Rightarrow> (unit, 'w data_block_saver) eff" where
  "run_data_block_saver E sv =
     and_then (notify_data_block_manager_sync_state E sv)
       (\<lambda>_ sv1. and_then (save_data_blocks E (sv1\<lparr>sv_state_switch := True\<rparr>))
          (\<lambda>_ sv2. (Inr (), sv2\<lparr>sv_state_switch := False\<rparr>)))"

subsection \<open>Copying the leader's records\<close>

lemma save_records_meta [simp]: "mk_meta (save_records d es mk) = mk_meta mk"
  by (induction es arbitrary: mk) (auto simp: save_data_record_def split: option.split)

lemma save_records_count:
  "mk_saved_example_num (save_records d es mk) =
     mk_saved_example_num mk + int (length (filter (\<lambda>e. dict_get d (KeyBytes e) \<noteq> None) es))"
  by (induction es arbitrary: mk) (auto simp: save_data_record_def)

lemma save_records_all:
  assumes "\<forall>e \<in> set es. dict_get d (KeyBytes e) \<noteq> None"
  shows "save_records d es mk =
     mk\<lparr>mk_written := mk_written mk @ item_records d es,
        mk_saved_example_num := mk_saved_example_num mk + int (length es)\<rparr>"
  using assms by (induction es arbitrary: mk) (auto simp: save_data_record_def item_records_def)

subsection \<open>Storing the buffered metas\<close>

definition saver_core ::
  "'w ext \<Rightarrow> item_dict \<Rightarrow> data_block_meta list \<Rightarrow> data_block_meta list \<Rightarrow> 'w data_block_saver \<Rightarrow> bool" where
  "saver_core E d base new sv \<longleftrightarrow>
     rd_item_dict (il_loader (sv_raw_data_visitor sv)) = d \<and>
     store_rep E (sv_manager sv) (sv_world sv) d base new \<and>
     sv_data_block_dir sv = dbm_data_block_dir (sv_manager sv) \<and>
     sv_data_source_name sv = dbm_data_source_name (sv_manager sv) \<and>
     sv_partition_id sv = dbm_partition_id (sv_manager sv)"

text \<open>A meta the saver can store: for its partition, not empty, with every id among the leader's items.\<close>

definition storable :: "item_dict \<Rightarrow> int \<Rightarrow> data_block_meta \<Rightarrow> bool" where
  "storable d pid b \<longleftrightarrow>
     partition_id b = pid \<and> example_ids b \<noteq> [] \<and> (\<forall>e \<in> set (example_ids b). dict_get d (KeyBytes e) \<noteq> None)"

fun in_order :: "nat \<Rightarrow> data_block_meta list \<Rightarrow> bool" where
  "in_order n [] = True"
| "in_order n (b # bs) \<longleftrightarrow> data_block_index b = int n \<and> in_order (Suc n) bs"

lemma in_order_append: "in_order n (xs @ ys) \<longleftrightarrow> in_order n xs \<and> in_order (n + length xs) ys"
  by (induction xs arbitrary: n) auto

lemma in_order_nth: "in_order n xs \<longleftrightarrow> (\<forall>i < length xs. data_block_index (xs ! i) = int (n + i))"
proof (induction xs rule: rev_induct)
  case Nil
  then show ?case by simp
next
  case (snoc x xs)
  then show ?case by (auto simp: in_order_append nth_append less_Suc_eq)
qed

lemma named_meta_cong: "same_manager m m' \<Longrightarrow> named_meta E m' = named_meta E m"
  by (simp add: fun_eq_iff named_meta_def same_manager_def)

lemma same_manager_trans: "same_manager a b \<Longrightarrow> same_manager b c \<Longrightarrow> same_manager a c"
  by (simp add: same_manager_def)

lemma save_block_stores:
  assumes core: "saver_core E d base new sv" and buf: "sv_buffer sv = b # rest"
    and idx: "data_block_index b = int (length (base @ new))"
    and good: "storable d (sv_partition_id sv) b"
    and room: "int (length (base @ new)) \<le> data_block_index_threshold" and post: "post_answers E"
  obtains m' w' where
    "save_data_block_with_meta E b sv = (Inr (), sv\<lparr>sv_manager := m', sv_world := w', sv_buffer := rest\<rparr>)"
    "saver_core E d base (new @ [named_meta E (sv_manager sv) b]) (sv\<lparr>sv_manager := m', sv_world := w', sv_buffer := rest\<rparr>)"
    "same_manager (sv_manager sv) m'"
proof -
  let ?m = "sv_manager sv"
  have rep: "store_rep E ?m (sv_world sv) d base new" and dict: "rd_item_dict (il_loader (sv_raw_data_visitor sv)) = d"
    and set: "sv_data_block_dir sv = dbm_data_block_dir ?m" "sv_data_source_name sv = dbm_data_source_name ?m"
      "sv_partition_id sv = dbm_partition_id ?m"
    using core by (simp_all add: saver_core_def)
  have "int64_ok (data_block_index b)" using room_int64 [OF room] idx by simp
  from store_open [OF rep this, of None] obtain tmp w1 where
    o: "init_data_block_maker E (dbm_data_block_dir ?m) (dbm_data_source_name ?m) (dbm_partition_id ?m)
          (data_block_index b) None (sv_world sv) = (Inr (opened_maker ?m (data_block_index b) None tmp), w1)"
       "store_rep E ?m w1 d base new" "ready_on E ?m w1 tmp" by blast
  define mk where "mk = save_records d (example_ids b)
      (build_data_block_manager (init_maker_by_input_meta b (opened_maker ?m (data_block_index b) None tmp)))"
  have mk: "mk_meta mk = b" "mk_written mk = item_records d (example_ids b)" "maker_counts mk"
    and mk_ready: "maker_ready E ?m w1 mk"
    using good set
    by (auto simp: mk_def save_records_all storable_def build_data_block_manager_def init_maker_by_input_meta_def
        opened_maker_def maker_counts_def item_records_def intro!: ready_onD [OF o(3)])
  obtain mk' m' w' where f: "data_block_finalizer E (mk, ?m, w1) = (Inr (Some (named_meta E ?m b)), (mk', m', w'))"
    "store_rep E m' w' d base (new @ [named_meta E ?m b])" "same_manager ?m m'" "mk_meta mk' = named_meta E ?m b"
    by (rule store_finalizer [OF o(2) mk_ready mk(3) _ _ room post, unfolded mk(1)])
      (use idx good mk set in \<open>simp_all add: storable_def\<close>)
  have "save_data_block_with_meta E b sv = (Inr (), sv\<lparr>sv_manager := m', sv_world := w', sv_buffer := rest\<rparr>)"
    using good o(1) f(1,4) buf
    by (simp add: save_data_block_with_meta_def maker_handler_def alias_head_def set storable_def dict mk_def Let_def)
  moreover have "saver_core E d base (new @ [named_meta E ?m b]) (sv\<lparr>sv_manager := m', sv_world := w', sv_buffer := rest\<rparr>)"
    using core f(2,3) by (simp add: saver_core_def same_manager_def)
  ultimately show ?thesis using f(3) that by blast
qed

lemma save_data_blocks_stores:
  assumes "saver_core E d base new sv" "sv_buffer sv = bs" "in_order (length (base @ new)) bs"
    "\<forall>b \<in> set bs. storable d (sv_partition_id sv) b"
    "int (length (base @ new) + length bs) \<le> data_block_index_threshold + 1" "post_answers E"
  shows "\<exists>m' w'. save_data_blocks E sv = (Inr (), sv\<lparr>sv_manager := m', sv_world := w', sv_buffer := []\<rparr>) \<and>
    saver_core E d base (new @ map (named_meta E (sv_manager sv)) bs) (sv\<lparr>sv_manager := m', sv_world := w', sv_buffer := []\<rparr>)"
  using assms
proof (induction bs arbitrary: new sv)
  case Nil
  then show ?case
    by (intro exI [of _ "sv_manager sv"] exI [of _ "sv_world sv"])
      (simp add: save_data_blocks.simps [of E sv] is_need_save_def saver_core_def)
next
  case (Cons b bs)
  obtain m1 w1 where one:
    "save_data_block_with_meta E b sv = (Inr (), sv\<lparr>sv_manager := m1, sv_world := w1, sv_buffer := bs\<rparr>)"
    "saver_core E d base (new @ [named_meta E (sv_manager sv) b]) (sv\<lparr>sv_manager := m1, sv_world := w1, sv_buffer := bs\<rparr>)"
    "same_manager (sv_manager sv) m1"
    by (rule save_block_stores [OF Cons.prems(1,2) _ _ _ Cons.prems(6)]) (use Cons.prems in auto)
  let ?sv1 = "sv\<lparr>sv_manager := m1, sv_world := w1, sv_buffer := bs\<rparr>"
  have "\<exists>m' w'. save_data_blocks E ?sv1 = (Inr (), ?sv1\<lparr>sv_manager := m', sv_world := w', sv_buffer := []\<rparr>) \<and>
    saver_core E d base ((new @ [named_meta E (sv_manager sv) b]) @ map (named_meta E (sv_manager ?sv1)) bs)
      (?sv1\<lparr>sv_manager := m', sv_world := w', sv_buffer := []\<rparr>)"
    by (rule Cons.IH [OF one(2)]) (use Cons.prems in simp_all)
  moreover have "save_data_blocks E sv = save_data_blocks E ?sv1"
    using Cons.prems(2) one(1)
    by (simp add: save_data_blocks.simps [of E sv] is_need_save_def get_next_data_block_meta_from_buffer_def)
  ultimately show ?case using named_meta_cong [OF one(3), of E] by simp
qed

text \<open>
  Recovery: metas that are already stored (their indices lie below the produced number) are
  dropped before saving goes on.
\<close>

lemma in_order_dropWhile:
  "in_order k bs \<Longrightarrow> dropWhile (\<lambda>b. data_block_index b < int n) bs = drop (n - k) bs"
proof (induction bs arbitrary: k)
  case Nil
  then show ?case by simp
next
  case (Cons b bs)
  show ?case
  proof (cases "k < n")
    case True
    with Cons have "dropWhile (\<lambda>b. data_block_index b < int n) bs = drop (n - Suc k) bs" by simp
    moreover from True have "n - k = Suc (n - Suc k)" by simp
    ultimately show ?thesis using Cons.prems True by simp
  next
    case False
    with Cons.prems show ?thesis by simp
  qed
qed

lemma in_order_drop: "in_order k bs \<Longrightarrow> in_order (k + j) (drop j bs)"
  using in_order_append [of k "take j bs" "drop j bs"] by (cases "j \<le> length bs") (simp_all add: min_absorb2)

lemma run_saver_stores:
  assumes core: "saver_core E d base new sv" and order: "in_order k (sv_buffer sv)"
    and k: "k \<le> length (base @ new)" "\<not> sv_state_switch sv \<longrightarrow> k = length (base @ new)"
    and cover: "length (base @ new) \<le> k + length (sv_buffer sv)"
    and good: "\<forall>b \<in> set (drop (length (base @ new) - k) (sv_buffer sv)). storable d (sv_partition_id sv) b"
    and room: "int (k + length (sv_buffer sv)) \<le> data_block_index_threshold + 1" and post: "post_answers E"
  shows "\<exists>m' w'. run_data_block_saver E sv = (Inr (), sv\<lparr>sv_manager := m', sv_world := w', sv_buffer := [], sv_state_switch := False\<rparr>) \<and>
    saver_core E d base (new @ map (named_meta E (sv_manager sv)) (drop (length (base @ new) - k) (sv_buffer sv)))
      (sv\<lparr>sv_manager := m', sv_world := w', sv_buffer := [], sv_state_switch := False\<rparr>)"
proof -
  define bs where "bs = drop (length (base @ new) - k) (sv_buffer sv)"
  let ?sv1 = "sv\<lparr>sv_buffer := bs, sv_state_switch := True\<rparr>"
  have rep: "dbm_rep E (sv_manager sv) (sv_world sv) (base @ new)"
    using core by (simp add: saver_core_def store_rep_def)
  have n: "notify_data_block_manager_sync_state E sv = (Inr (), sv\<lparr>sv_buffer := bs\<rparr>)"
  proof (cases "sv_state_switch sv")
    case True
    then show ?thesis
      using number_rep [OF rep] in_order_dropWhile [OF order, of "length (base @ new)"]
      by (simp add: notify_data_block_manager_sync_state_def remove_saved_data_block_meta_from_buffer_def bs_def)
  next
    case False
    with k show ?thesis by (simp add: notify_data_block_manager_sync_state_def bs_def)
  qed
  have "\<exists>m' w'. save_data_blocks E ?sv1 = (Inr (), ?sv1\<lparr>sv_manager := m', sv_world := w', sv_buffer := []\<rparr>) \<and>
    saver_core E d base (new @ map (named_meta E (sv_manager ?sv1)) bs) (?sv1\<lparr>sv_manager := m', sv_world := w', sv_buffer := []\<rparr>)"
  proof (rule save_data_blocks_stores [OF _ _ _ _ _ post])
    show "saver_core E d base new ?sv1" using core by (simp add: saver_core_def)
    show "in_order (length (base @ new)) bs"
      using in_order_drop [OF order, of "length (base @ new) - k"] k(1) by (simp add: bs_def)
    show "int (length (base @ new) + length bs) \<le> data_block_index_threshold + 1"
      using room cover k by (simp add: bs_def)
  qed (use good in \<open>simp_all add: bs_def\<close>)
  then obtain m' w' where s: "save_data_blocks E ?sv1 = (Inr (), ?sv1\<lparr>sv_manager := m', sv_world := w', sv_buffer := []\<rparr>)"
    "saver_core E d base (new @ map (named_meta E (sv_manager ?sv1)) bs) (?sv1\<lparr>sv_manager := m', sv_world := w', sv_buffer := []\<rparr>)"
    by blast
  show ?thesis unfolding bs_def [symmetric]
    by (intro exI [of _ m'] exI [of _ w']) (use n s in \<open>simp add: run_data_block_saver_def saver_core_def\<close>)
qed

text \<open>
  An announced block with an id the leader does not have: the finalizer's count assertion
  fails, the handler raises \<^verbatim>\<open>TypeError\<close>, nothing is stored and the meta stays at the head of
  the buffer, so every later run fails in the same way.
\<close>

lemma save_block_missing:
  assumes core: "saver_core E d base new sv" and buf: "sv_buffer sv = b # rest"
    and idx: "int64_ok (data_block_index b)" and pid: "partition_id b = sv_partition_id sv"
    and missing: "e \<in> set (example_ids b)" "dict_get d (KeyBytes e) = None"
  obtains w' where "save_data_block_with_meta E b sv = (Inl TypeError, sv\<lparr>sv_world := w'\<rparr>)"
    "saver_core E d base new (sv\<lparr>sv_world := w'\<rparr>)"
proof -
  let ?m = "sv_manager sv"
  have rep: "store_rep E ?m (sv_world sv) d base new" and dict: "rd_item_dict (il_loader (sv_raw_data_visitor sv)) = d"
    and set: "sv_data_block_dir sv = dbm_data_block_dir ?m" "sv_data_source_name sv = dbm_data_source_name ?m"
      "sv_partition_id sv = dbm_partition_id ?m"
    using core by (simp_all add: saver_core_def)
  from store_open [OF rep idx, of None] obtain tmp w1 where
    o: "init_data_block_maker E (dbm_data_block_dir ?m) (dbm_data_source_name ?m) (dbm_partition_id ?m)
          (data_block_index b) None (sv_world sv) = (Inr (opened_maker ?m (data_block_index b) None tmp), w1)"
       "store_rep E ?m w1 d base new" by blast
  define mk where "mk = save_records d (example_ids b)
      (build_data_block_manager (init_maker_by_input_meta b (opened_maker ?m (data_block_index b) None tmp)))"
  have "length (filter (\<lambda>e. dict_get d (KeyBytes e) \<noteq> None) (example_ids b)) < length (example_ids b)"
    by (rule length_filter_less [OF missing(1)]) (simp add: missing(2))
  then have "maker_behind mk"
    by (simp add: maker_behind_def mk_def save_records_count build_data_block_manager_def
        init_maker_by_input_meta_def opened_maker_def)
  from finalizer_behind [OF this, of E ?m w1]
  have fin: "data_block_finalizer E (mk, ?m, w1) = (Inl AssertionError, (mk, ?m, w1))" .
  have meta: "mk_meta mk = b"
    by (simp add: mk_def build_data_block_manager_def init_maker_by_input_meta_def)
  have "save_data_block_with_meta E b sv = (Inl TypeError, alias_head b (sv\<lparr>sv_manager := ?m, sv_world := w1\<rparr>))"
    using pid o(1) fin meta
    by (simp add: save_data_block_with_meta_def maker_handler_def print_exc_with_limit_def set dict Let_def flip: mk_def)
  moreover have "alias_head b (sv\<lparr>sv_manager := ?m, sv_world := w1\<rparr>) = sv\<lparr>sv_world := w1\<rparr>"
    using buf by (cases sv) (simp add: alias_head_def)
  ultimately show ?thesis using that core o(2) by (simp add: saver_core_def)
qed

lemma run_saver_stuck:
  assumes core: "saver_core E d base new sv" and buf: "sv_buffer sv = b # rest"
    and order: "in_order (length (base @ new)) (b # rest)" and room: "int (length (base @ new)) \<le> data_block_index_threshold"
    and pid: "partition_id b = sv_partition_id sv"
    and missing: "e \<in> set (example_ids b)" "dict_get d (KeyBytes e) = None"
  shows "\<exists>w'. run_data_block_saver E sv = (Inl TypeError, sv\<lparr>sv_world := w', sv_state_switch := True\<rparr>) \<and>
    saver_core E d base new (sv\<lparr>sv_world := w', sv_state_switch := True\<rparr>)"
proof -
  let ?sv1 = "sv\<lparr>sv_state_switch := True\<rparr>"
  have rep: "dbm_rep E (sv_manager sv) (sv_world sv) (base @ new)"
    using core by (simp add: saver_core_def store_rep_def)
  have n: "notify_data_block_manager_sync_state E sv = (Inr (), sv)"
    using number_rep [OF rep] buf order
    by (auto simp: notify_data_block_manager_sync_state_def remove_saved_data_block_meta_from_buffer_def)
  have "int64_ok (data_block_index b)" using order room_int64 [OF room] by simp
  then obtain w' where s: "save_data_block_with_meta E b ?sv1 = (Inl TypeError, ?sv1\<lparr>sv_world := w'\<rparr>)"
    "saver_core E d base new (?sv1\<lparr>sv_world := w'\<rparr>)"
    using save_block_missing [of E d base new ?sv1 b rest e] core buf pid missing by (auto simp: saver_core_def)
  then have "save_data_blocks E ?sv1 = (Inl TypeError, ?sv1\<lparr>sv_world := w'\<rparr>)"
    using buf by (simp add: save_data_blocks.simps [of E ?sv1] is_need_save_def get_next_data_block_meta_from_buffer_def)
  with n s(2) show ?thesis
    by (intro exI [of _ w']) (simp add: run_data_block_saver_def saver_core_def)
qed

end
