(* ===== verification/Consumers.thy ===== *)
theory Consumers
  imports Block_Saver
begin

section \<open>The consumers: what a service hands received items to\<close>

text \<open>
  \<^verbatim>\<open>data_join/example_id_appender.py\<close>, \<^verbatim>\<open>data_join/example_id_consumer.py\<close> (the follower's
  consumer of example ids) and \<^verbatim>\<open>data_join/data_block_consumer.py\<close> (the leader's consumer of
  block metas). The service calls them through the same five methods; \<open>consumer_methods\<close> is
  that protocol as a record of functions, and the locale \<open>transmit_consumer\<close> states what both
  classes promise about it.
\<close>

record 's consumer_methods =
  cm_fetch_partition_id :: "'s \<Rightarrow> exn + int"
  cm_partition_syncer :: "int \<Rightarrow> 's \<Rightarrow> exn + (int \<times> bool)"
  cm_append_data_items :: "sync_content \<Rightarrow> 's \<Rightarrow> (bool \<times> int, 's) eff"
  cm_finish_partition_transmit :: "int \<Rightarrow> 's \<Rightarrow> (bool, 's) eff"
  cm_reset_consumer_wrap :: "int \<Rightarrow> 's \<Rightarrow> (unit, 's) eff"

subsection \<open>AppendExamplesManager\<close>

record append_examples_manager =
  am_queue :: "lite_example_ids list"
  am_partition_id :: int
  am_send_example_finished :: bool
  am_next_example_index :: int

definition init_append_examples_manager :: "lite_example_ids list \<Rightarrow> int \<Rightarrow> append_examples_manager" where
  "init_append_examples_manager queue pid =
     \<lparr>am_queue = queue, am_partition_id = pid, am_send_example_finished = False, am_next_example_index = 0\<rparr>"

definition append_batch_examples_into_queue ::
  "lite_example_ids \<Rightarrow> append_examples_manager \<Rightarrow> (bool, append_examples_manager) eff" where
  "append_batch_examples_into_queue batch am =
     (if lite_partition_id batch \<noteq> am_partition_id am then (Inl AssertionError, am)
      else (Inr True,
            am\<lparr>am_next_example_index := am_next_example_index am + (int (length (lite_example_id batch)) - 1),
               am_queue := am_queue am @ [batch]\<rparr>))"

definition finish_send_examples :: "append_examples_manager \<Rightarrow> append_examples_manager" where
  "finish_send_examples am = am\<lparr>am_send_example_finished := True\<rparr>"

definition need_append_into_queue :: "append_examples_manager \<Rightarrow> bool" where
  "need_append_into_queue am \<longleftrightarrow> am_queue am \<noteq> []"

subsection \<open>ExampleIdConsumer\<close>

record example_id_consumer =
  ec_partition_id :: "int option"
  ec_appender :: append_examples_manager

definition init_example_id_consumer :: "int \<Rightarrow> lite_example_ids list \<Rightarrow> example_id_consumer" where
  "init_example_id_consumer pid queue =
     \<lparr>ec_partition_id = Some pid, ec_appender = init_append_examples_manager queue pid\<rparr>"

definition ec_is_synced_partition :: "int \<Rightarrow> example_id_consumer \<Rightarrow> exn + bool" where
  "ec_is_synced_partition pid c = (if ec_partition_id c \<noteq> Some pid then Inl RuntimeError else Inr True)"

definition ec_partition_syncer_to_consumer :: "int \<Rightarrow> example_id_consumer \<Rightarrow> exn + (int \<times> bool)" where
  "ec_partition_syncer_to_consumer pid c =
     (if ec_partition_id c \<noteq> Some pid then Inl RuntimeError
      else Inr (am_next_example_index (ec_appender c), am_send_example_finished (ec_appender c)))"

definition ec_reset_consumer_wrap :: "int \<Rightarrow> example_id_consumer \<Rightarrow> (unit, example_id_consumer) eff" where
  "ec_reset_consumer_wrap pid c =
     (case ec_is_synced_partition pid c of
        Inl e \<Rightarrow> (Inl e, c)
      | Inr synced \<Rightarrow>
          if \<not> synced then (Inr (), c)
          else if \<not> am_send_example_finished (ec_appender c) \<or> need_append_into_queue (ec_appender c)
          then (Inl RuntimeError, c)
          else (Inr (), c\<lparr>ec_partition_id := None\<rparr>))"

definition ec_fetch_partition_id :: "example_id_consumer \<Rightarrow> exn + int" where
  "ec_fetch_partition_id c = raising (ec_partition_id c) AssertionError"

definition ec_append_data_items_from_producer ::
  "sync_content \<Rightarrow> example_id_consumer \<Rightarrow> (bool \<times> int, example_id_consumer) eff" where
  "ec_append_data_items_from_producer req c =
     (case req of
        SyncLite lite \<Rightarrow>
          (case ec_is_synced_partition (lite_partition_id lite) c of
             Inl e \<Rightarrow> (Inl e, c)
           | Inr _ \<Rightarrow>
               then_do (append_batch_examples_into_queue lite (ec_appender c))
                 (\<lambda>_ am. (Inr (True, am_next_example_index am), c\<lparr>ec_appender := am\<rparr>))
                 (\<lambda>am. c\<lparr>ec_appender := am\<rparr>))
      | _ \<Rightarrow> (Inl AssertionError, c))"

definition ec_finish_partition_transmit :: "int \<Rightarrow> example_id_consumer \<Rightarrow> (bool, example_id_consumer) eff" where
  "ec_finish_partition_transmit pid c =
     (case ec_is_synced_partition pid c of
        Inl e \<Rightarrow> (Inl e, c)
      | Inr _ \<Rightarrow>
          let am = finish_send_examples (ec_appender c)
          in (Inr (\<not> need_append_into_queue am), c\<lparr>ec_appender := am\<rparr>))"

definition example_id_consumer_methods :: "example_id_consumer consumer_methods" where
  "example_id_consumer_methods =
     \<lparr>cm_fetch_partition_id = ec_fetch_partition_id,
      cm_partition_syncer = ec_partition_syncer_to_consumer,
      cm_append_data_items = ec_append_data_items_from_producer,
      cm_finish_partition_transmit = ec_finish_partition_transmit,
      cm_reset_consumer_wrap = ec_reset_consumer_wrap\<rparr>"

subsection \<open>DataBlockConsumer\<close>

text \<open>
  The wrapper forwards to its saver; after a reset it is \<^verbatim>\<open>None\<close>, and reading an attribute of
  \<^verbatim>\<open>None\<close> raises \<^verbatim>\<open>AttributeError\<close>. \<open>bc_routine\<close> says whether a processor is registered.
\<close>

record 'w data_block_consumer =
  bc_wrap :: "'w data_block_saver option"
  bc_routine :: bool
  bc_processor_started :: bool

definition init_data_block_consumer ::
  "'w ext \<Rightarrow> int \<Rightarrow> init_raw_data_loading \<Rightarrow> string \<Rightarrow> string \<Rightarrow> 'w \<Rightarrow> ('w data_block_consumer, 'w) eff" where
  "init_data_block_consumer E pid il dir src w =
     and_then (init_data_block_saver E pid il dir src w)
       (\<lambda>sv w'. (Inr \<lparr>bc_wrap = Some sv, bc_routine = False, bc_processor_started = False\<rparr>, w'))"

definition bc_fetch_partition_id :: "'w data_block_consumer \<Rightarrow> exn + int" where
  "bc_fetch_partition_id c = map_sum id sv_partition_id (raising (bc_wrap c) AttributeError)"

definition bc_is_synced_partition :: "int \<Rightarrow> 'w data_block_consumer \<Rightarrow> exn + bool" where
  "bc_is_synced_partition pid c =
     (case bc_wrap c of
        None \<Rightarrow> Inl AttributeError
      | Some sv \<Rightarrow> if pid \<noteq> sv_partition_id sv then Inl RuntimeError else Inr True)"

text \<open>After a successful partition check the wrapper is there: the operations below bind it.\<close>

definition with_wrap ::
  "int \<Rightarrow> 'w data_block_consumer \<Rightarrow> ('w data_block_saver \<Rightarrow> ('a, 'w data_block_consumer) eff) \<Rightarrow>
     ('a, 'w data_block_consumer) eff" where
  "with_wrap pid c k =
     (case bc_is_synced_partition pid c of
        Inl e \<Rightarrow> (Inl e, c)
      | Inr _ \<Rightarrow> (case bc_wrap c of None \<Rightarrow> (Inl AttributeError, c) | Some sv \<Rightarrow> k sv))"

definition bc_append_data_items_from_producer ::
  "sync_content \<Rightarrow> 'w data_block_consumer \<Rightarrow> (bool \<times> int, 'w data_block_consumer) eff" where
  "bc_append_data_items_from_producer req c =
     (case req of
        SyncMeta meta \<Rightarrow>
          with_wrap (partition_id meta) c
            (\<lambda>sv. then_do (append_sent_data_block_meta_to_buffer meta sv)
               (\<lambda>r sv'. (Inr r, c\<lparr>bc_wrap := Some sv'\<rparr>)) (\<lambda>sv'. c\<lparr>bc_wrap := Some sv'\<rparr>))
      | _ \<Rightarrow> (Inl AssertionError, c))"

definition bc_finish_partition_transmit :: "int \<Rightarrow> 'w data_block_consumer \<Rightarrow> (bool, 'w data_block_consumer) eff" where
  "bc_finish_partition_transmit pid c =
     with_wrap pid c
       (\<lambda>sv. let sv' = finish_sent_data_block_meta sv
             in (Inr (\<not> is_need_save sv'), c\<lparr>bc_wrap := Some sv'\<rparr>))"

definition bc_partition_syncer_to_consumer :: "int \<Rightarrow> 'w data_block_consumer \<Rightarrow> exn + (int \<times> bool)" where
  "bc_partition_syncer_to_consumer pid c =
     (case bc_wrap c of
        None \<Rightarrow> Inl AttributeError
      | Some sv \<Rightarrow>
          if sv_partition_id sv \<noteq> pid then Inl RuntimeError
          else Inr (sv_next_data_block_index sv, sv_send_data_block_meta_finish sv))"

definition bc_reset_consumer_wrap :: "int \<Rightarrow> 'w data_block_consumer \<Rightarrow> (unit, 'w data_block_consumer) eff" where
  "bc_reset_consumer_wrap pid c =
     with_wrap pid c
       (\<lambda>sv. if \<not> sv_send_data_block_meta_finish sv \<or> is_need_save sv then (Inl RuntimeError, c)
             else (Inr (), c\<lparr>bc_wrap := None\<rparr>))"

definition data_block_consumer_methods :: "'w data_block_consumer consumer_methods" where
  "data_block_consumer_methods =
     \<lparr>cm_fetch_partition_id = bc_fetch_partition_id,
      cm_partition_syncer = bc_partition_syncer_to_consumer,
      cm_append_data_items = bc_append_data_items_from_producer,
      cm_finish_partition_transmit = bc_finish_partition_transmit,
      cm_reset_consumer_wrap = bc_reset_consumer_wrap\<rparr>"

definition bc_start_processors :: "'w data_block_consumer \<Rightarrow> (unit, 'w data_block_consumer) eff" where
  "bc_start_processors c =
     (if bc_processor_started c then (Inr (), c)
      else if bc_routine c then (Inl AssertionError, c)
      else (Inr (), c\<lparr>bc_routine := True, bc_processor_started := True\<rparr>))"

definition data_block_consumer_processor_factor :: "'w data_block_consumer \<Rightarrow> bool" where
  "data_block_consumer_processor_factor c =
     (case bc_wrap c of None \<Rightarrow> False | Some sv \<Rightarrow> is_need_save sv)"

definition data_block_consumer_processor ::
  "'w ext \<Rightarrow> 'w data_block_consumer \<Rightarrow> (unit, 'w data_block_consumer) eff" where
  "data_block_consumer_processor E c =
     (case bc_wrap c of
        None \<Rightarrow> (Inr (), c) \<comment> \<open>the factor is false, the routine is not entered\<close>
      | Some sv \<Rightarrow>
          if data_block_consumer_processor_factor c
          then then_do (run_data_block_saver E sv) (\<lambda>_ sv'. (Inr (), c\<lparr>bc_wrap := Some sv'\<rparr>))
                 (\<lambda>sv'. c\<lparr>bc_wrap := Some sv'\<rparr>)
          else (Inr (), c))"

definition bc_stop_processors :: "'w data_block_consumer \<Rightarrow> 'w data_block_consumer" where
  "bc_stop_processors c = c\<lparr>bc_routine := False\<rparr>"

subsection \<open>The contract of a consumer\<close>

text \<open>
  \<open>part\<close>: the partition that is being received (none after a reset), \<open>ended\<close>: the producer
  has announced the end, \<open>idle\<close>: nothing received is waiting.
\<close>

locale transmit_consumer =
  fixes C :: "'s consumer_methods"
    and part :: "'s \<Rightarrow> int option" and ended :: "'s \<Rightarrow> bool" and idle :: "'s \<Rightarrow> bool"
  assumes fetch_open: "part s = Some p \<Longrightarrow> cm_fetch_partition_id C s = Inr p"
    and fetch_closed: "part s = None \<Longrightarrow> \<exists>e. cm_fetch_partition_id C s = Inl e"
    and sync_open: "part s = Some p \<Longrightarrow> \<exists>n. cm_partition_syncer C p s = Inr (n, ended s)"
    and append_keeps: "cm_append_data_items C c s = (r, s') \<Longrightarrow> part s' = part s \<and> ended s' = ended s"
    and append_closed: "part s = None \<Longrightarrow> \<exists>e. cm_append_data_items C c s = (Inl e, s)"
    and finish_open: "part s = Some p \<Longrightarrow>
      \<exists>s'. cm_finish_partition_transmit C p s = (Inr (idle s), s') \<and> part s' = Some p \<and> ended s' \<and> idle s' = idle s"
    and reset_open: "part s = Some p \<Longrightarrow> ended s \<Longrightarrow> idle s \<Longrightarrow>
      \<exists>s'. cm_reset_consumer_wrap C p s = (Inr (), s') \<and> part s' = None"
    and reset_refused: "part s = Some p \<Longrightarrow> \<not> (ended s \<and> idle s) \<Longrightarrow>
      cm_reset_consumer_wrap C p s = (Inl RuntimeError, s)"

interpretation ec: transmit_consumer example_id_consumer_methods ec_partition_id
  "\<lambda>c. am_send_example_finished (ec_appender c)" "\<lambda>c. am_queue (ec_appender c) = []"
proof unfold_locales
  fix s :: example_id_consumer and c r s'
  assume "cm_append_data_items example_id_consumer_methods c s = (r, s')"
  then show "ec_partition_id s' = ec_partition_id s \<and>
      am_send_example_finished (ec_appender s') = am_send_example_finished (ec_appender s)"
    by (auto simp: example_id_consumer_methods_def ec_append_data_items_from_producer_def
        append_batch_examples_into_queue_def split: sync_content.splits sum.splits if_splits)
qed (auto simp: example_id_consumer_methods_def ec_fetch_partition_id_def ec_partition_syncer_to_consumer_def
    ec_append_data_items_from_producer_def ec_finish_partition_transmit_def ec_reset_consumer_wrap_def
    ec_is_synced_partition_def finish_send_examples_def need_append_into_queue_def Let_def
    split: sync_content.splits)

interpretation bc: transmit_consumer data_block_consumer_methods
  "\<lambda>c. map_option sv_partition_id (bc_wrap c)"
  "\<lambda>c. case bc_wrap c of None \<Rightarrow> True | Some sv \<Rightarrow> sv_send_data_block_meta_finish sv"
  "\<lambda>c. case bc_wrap c of None \<Rightarrow> True | Some sv \<Rightarrow> sv_buffer sv = []"
proof unfold_locales
  fix s :: "'w data_block_consumer" and c r s'
  assume "cm_append_data_items data_block_consumer_methods c s = (r, s')"
  then show "map_option sv_partition_id (bc_wrap s') = map_option sv_partition_id (bc_wrap s) \<and>
      (case bc_wrap s' of None \<Rightarrow> True | Some sv \<Rightarrow> sv_send_data_block_meta_finish sv) =
      (case bc_wrap s of None \<Rightarrow> True | Some sv \<Rightarrow> sv_send_data_block_meta_finish sv)"
    by (auto simp: data_block_consumer_methods_def bc_append_data_items_from_producer_def with_wrap_def
        bc_is_synced_partition_def append_sent_data_block_meta_to_buffer_def
        split: sync_content.splits sum.splits if_splits option.splits)
qed (auto simp: data_block_consumer_methods_def bc_fetch_partition_id_def bc_partition_syncer_to_consumer_def
    bc_append_data_items_from_producer_def bc_finish_partition_transmit_def bc_reset_consumer_wrap_def
    bc_is_synced_partition_def with_wrap_def finish_sent_data_block_meta_def is_need_save_def Let_def
    split: sync_content.splits option.splits)

end
