(* ===== verification/Join_Service.thy ===== *)
theory Join_Service
  imports Consumers
begin

section \<open>The data join service: the remote procedures of DataJoin\<close>

text \<open>
  The handlers of \<^verbatim>\<open>data_join/data_join_manager.py\<close> with their two decorators. They call the
  consumer through its methods, so they are written over \<open>consumer_methods\<close>; what they do is
  proved once in the locale \<open>transmit_consumer\<close> and holds for both roles. An exception inside
  a handler reaches the caller as a failed call (\<open>remote\<close>). The messages keep the fields the
  code reads: a status is its code.
\<close>

record data_join_service =
  svc_rank_id :: int
  svc_partition_id :: int

record partition_request = \<comment> \<open>\<^verbatim>\<open>StartPartitionRequest\<close> and \<^verbatim>\<open>FinishPartitionRequest\<close>\<close>
  pr_rank_id :: int
  pr_partition_id :: int

record start_partition_response =
  sp_code :: int
  sp_next_index :: int
  sp_finished :: bool

record finish_partition_response =
  fp_code :: int
  fp_finished :: bool

record sync_partition_request =
  sq_rank_id :: int
  sq_partition_id :: int
  sq_content_bytes :: bytes
  sq_compressed :: bool

subsection \<open>Handlers\<close>

definition rank_id_wrap :: "data_join_service \<Rightarrow> int \<Rightarrow> ('s \<Rightarrow> ('a, 's) eff) \<Rightarrow> 's \<Rightarrow> ('a, 's) eff" where
  "rank_id_wrap svc rank f s = (if svc_rank_id svc \<noteq> rank then (Inl AssertionError, s) else f s)"

definition partition_id_wrap :: "data_join_service \<Rightarrow> int \<Rightarrow> ('s \<Rightarrow> ('a, 's) eff) \<Rightarrow> 's \<Rightarrow> ('a, 's) eff" where
  "partition_id_wrap svc pid f s =
     (if pid < 0 then (Inl AssertionError, s)
      else if svc_partition_id svc \<noteq> pid then (Inl AssertionError, s)
      else f s)"

definition StartPartition ::
  "'s consumer_methods \<Rightarrow> data_join_service \<Rightarrow> partition_request \<Rightarrow> 's \<Rightarrow> (start_partition_response, 's) eff" where
  "StartPartition C svc req =
     rank_id_wrap svc (pr_rank_id req) (partition_id_wrap svc (pr_partition_id req)
       (\<lambda>s. case cm_fetch_partition_id C s of
              Inl e \<Rightarrow> (Inl e, s)
            | Inr pid \<Rightarrow>
                if pr_partition_id req \<noteq> pid
                then (Inr \<lparr>sp_code = -2, sp_next_index = 0, sp_finished = False\<rparr>, s)
                else (case cm_partition_syncer C (pr_partition_id req) s of
                        Inl e \<Rightarrow> (Inl e, s)
                      | Inr (n, fin) \<Rightarrow>
                          if int64_ok n then (Inr \<lparr>sp_code = 0, sp_next_index = n, sp_finished = fin\<rparr>, s)
                          else (Inl ValueError, s))))"

definition FinishPartition ::
  "'s consumer_methods \<Rightarrow> data_join_service \<Rightarrow> partition_request \<Rightarrow> 's \<Rightarrow> (finish_partition_response, 's) eff" where
  "FinishPartition C svc req =
     rank_id_wrap svc (pr_rank_id req) (partition_id_wrap svc (pr_partition_id req)
       (\<lambda>s. case cm_fetch_partition_id C s of
              Inl e \<Rightarrow> (Inl e, s)
            | Inr pid \<Rightarrow>
                if pid \<noteq> pr_partition_id req then (Inl AssertionError, s)
                else and_then (cm_finish_partition_transmit C (pr_partition_id req) s)
                       (\<lambda>fin s1.
                          if fin
                          then and_then (cm_reset_consumer_wrap C (pr_partition_id req) s1)
                                 (\<lambda>_ s2. (Inr \<lparr>fp_code = 0, fp_finished = True\<rparr>, s2))
                          else (Inr \<lparr>fp_code = 0, fp_finished = False\<rparr>, s1))))"

definition SyncPartition ::
  "'w ext \<Rightarrow> 's consumer_methods \<Rightarrow> data_join_service \<Rightarrow> sync_partition_request \<Rightarrow> 's \<Rightarrow> (int, 's) eff" where
  "SyncPartition E C svc req =
     rank_id_wrap svc (sq_rank_id req) (partition_id_wrap svc (sq_partition_id req)
       (\<lambda>s. case (if sq_compressed req then ex_decompress E (sq_content_bytes req)
                   else Some (sq_content_bytes req)) of
              None \<Rightarrow> (Inl DecodeError, s)
            | Some content_bytes \<Rightarrow>
                (case ex_content_parse E content_bytes of
                   None \<Rightarrow> (Inl DecodeError, s)
                 | Some send_example_items \<Rightarrow>
                     and_then (cm_append_data_items C send_example_items s)
                       (\<lambda>(status, next_index) s'. (Inr (if \<not> status then -1 else 0), s')))))"

text \<open>A remote call: exceptions of the handler are seen as a failed call.\<close>

definition remote :: "('a, 's) eff \<Rightarrow> ('a, 's) eff" where
  "remote r = (map_sum (\<lambda>_. RpcError) id (fst r), snd r)"

lemma remote_simps [simp, eff_simps]:
  "remote (Inr x, s) = (Inr x, s)" "remote (Inl e, s) = (Inl RpcError, s)"
  by (simp_all add: remote_def)

subsection \<open>What the handlers do, for every consumer that keeps the contract\<close>

definition request_ok :: "data_join_service \<Rightarrow> int \<Rightarrow> int \<Rightarrow> bool" where
  "request_ok svc rank pid \<longleftrightarrow> svc_rank_id svc = rank \<and> svc_partition_id svc = pid \<and> 0 \<le> pid"

lemma wraps_ok [simp]:
  "request_ok svc rank pid \<Longrightarrow> rank_id_wrap svc rank (partition_id_wrap svc pid f) s = f s"
  by (simp add: request_ok_def rank_id_wrap_def partition_id_wrap_def)

lemma wraps_refuse:
  "\<not> request_ok svc rank pid \<Longrightarrow> rank_id_wrap svc rank (partition_id_wrap svc pid f) s = (Inl AssertionError, s)"
  by (auto simp: request_ok_def rank_id_wrap_def partition_id_wrap_def)

context transmit_consumer
begin

lemma finish_idle:
  assumes "request_ok svc (pr_rank_id req) (pr_partition_id req)" "part s = Some (pr_partition_id req)" "idle s"
  obtains s' where "FinishPartition C svc req s = (Inr \<lparr>fp_code = 0, fp_finished = True\<rparr>, s')" "part s' = None"
proof -
  obtain s1 where s1: "cm_finish_partition_transmit C (pr_partition_id req) s = (Inr True, s1)"
    "part s1 = Some (pr_partition_id req)" "ended s1" "idle s1"
    using finish_open [OF assms(2)] assms(3) by auto
  obtain s2 where "cm_reset_consumer_wrap C (pr_partition_id req) s1 = (Inr (), s2)" "part s2 = None"
    using reset_open [OF s1(2-4)] by auto
  with s1 assms that show ?thesis by (simp add: FinishPartition_def fetch_open)
qed

lemma finish_busy:
  assumes "request_ok svc (pr_rank_id req) (pr_partition_id req)" "part s = Some (pr_partition_id req)" "\<not> idle s"
  obtains s' where "FinishPartition C svc req s = (Inr \<lparr>fp_code = 0, fp_finished = False\<rparr>, s')"
    "part s' = part s" "ended s'"
proof -
  obtain s1 where s1: "cm_finish_partition_transmit C (pr_partition_id req) s = (Inr False, s1)"
    "part s1 = Some (pr_partition_id req)" "ended s1"
    using finish_open [OF assms(2)] assms(3) by auto
  with assms that show ?thesis by (simp add: FinishPartition_def fetch_open)
qed

lemma closed_refuses:
  assumes "part s = None"
  shows "\<exists>e. StartPartition C svc req s = (Inl e, s)" "\<exists>e. FinishPartition C svc req s = (Inl e, s)"
    "\<exists>e. SyncPartition E C svc sreq s = (Inl e, s)"
proof -
  obtain e where e: "cm_fetch_partition_id C s = Inl e" using fetch_closed [OF assms] by blast
  show "\<exists>e. StartPartition C svc req s = (Inl e, s)"
    by (cases "request_ok svc (pr_rank_id req) (pr_partition_id req)")
      (simp_all add: StartPartition_def wraps_refuse e)
  show "\<exists>e. FinishPartition C svc req s = (Inl e, s)"
    by (cases "request_ok svc (pr_rank_id req) (pr_partition_id req)")
      (simp_all add: FinishPartition_def wraps_refuse e)
  show "\<exists>e. SyncPartition E C svc sreq s = (Inl e, s)"
  proof (cases "request_ok svc (sq_rank_id sreq) (sq_partition_id sreq)")
    case True
    have "\<exists>e. and_then (cm_append_data_items C c s) k = (Inl e, s)" for c
      and k :: "bool \<times> int \<Rightarrow> _ \<Rightarrow> (int, _) eff"
      using append_closed [OF assms, of c] by auto
    then show ?thesis using True by (auto simp: SyncPartition_def split: option.split)
  next
    case False
    then show ?thesis by (simp add: SyncPartition_def wraps_refuse)
  qed
qed

lemma start_reports_ended:
  assumes "StartPartition C svc req s = (Inr r, s')" "part s = Some (svc_partition_id svc)"
  shows "s' = s \<and> sp_code r = 0 \<and> sp_finished r = ended s"
proof -
  have ok: "request_ok svc (pr_rank_id req) (pr_partition_id req)"
    by (rule ccontr) (use assms(1) in \<open>simp add: StartPartition_def wraps_refuse\<close>)
  then have pid: "pr_partition_id req = svc_partition_id svc" by (simp add: request_ok_def)
  obtain n where "cm_partition_syncer C (svc_partition_id svc) s = Inr (n, ended s)"
    using sync_open [OF assms(2)] by blast
  with assms(1) ok pid fetch_open [OF assms(2)] show ?thesis
    by (auto simp: StartPartition_def split: if_splits)
qed

lemma start_keeps: "snd (StartPartition C svc req s) = s"
  by (cases "request_ok svc (pr_rank_id req) (pr_partition_id req)")
    (auto simp: StartPartition_def wraps_refuse split: sum.split)

lemma sync_keeps:
  "part (snd (SyncPartition E C svc req s)) = part s \<and> ended (snd (SyncPartition E C svc req s)) = ended s"
proof (cases "request_ok svc (sq_rank_id req) (sq_partition_id req)")
  case True
  have "part (snd (and_then (cm_append_data_items C c s) (\<lambda>(status, next_index) s'. (Inr (g status), s')))) = part s \<and>
      ended (snd (and_then (cm_append_data_items C c s) (\<lambda>(status, next_index) s'. (Inr (g status), s')))) = ended s"
    for c and g :: "bool \<Rightarrow> int"
    using append_keeps [of c s "fst (cm_append_data_items C c s)" "snd (cm_append_data_items C c s)"]
    by (cases "cm_append_data_items C c s"; cases "fst (cm_append_data_items C c s)") auto
  then show ?thesis using True by (simp add: SyncPartition_def split: option.split)
next
  case False
  then show ?thesis by (simp add: SyncPartition_def wraps_refuse)
qed

end

end
