(* ===== verification/Producers.thy ===== *)
theory Producers
  imports Join_Service
begin

section \<open>The producers: sending example ids and block metas to the peer\<close>

text \<open>
  \<^verbatim>\<open>data_join/example_id_producer.py\<close> (the leader sends its example ids in batches) and
  \<^verbatim>\<open>data_join/data_block_producer.py\<close> (the follower runs the joiner and sends the metas of the
  stored blocks). The peer client is a record of the three remote calls over the state \<open>'s\<close>
  of the peer. The processor threads of \<^verbatim>\<open>ProcessorManager\<close>, which is not part of the
  repository, call the processor functions repeatedly; one call is one definition here.
\<close>

record 's peer_client =
  pc_StartPartition :: "partition_request \<Rightarrow> 's \<Rightarrow> (start_partition_response, 's) eff"
  pc_SyncPartition :: "sync_partition_request \<Rightarrow> 's \<Rightarrow> (int, 's) eff"
  pc_FinishPartition :: "partition_request \<Rightarrow> 's \<Rightarrow> (finish_partition_response, 's) eff"

text \<open>Both producers start a transmission in the same way.\<close>

definition notify_start ::
  "'s peer_client \<Rightarrow> int \<Rightarrow> int \<Rightarrow> 's \<Rightarrow> (int \<times> bool, 's) eff" where
  "notify_start P rank pid s =
     and_then (pc_StartPartition P \<lparr>pr_rank_id = rank, pr_partition_id = pid\<rparr> s)
       (\<lambda>r s'. if sp_code r \<noteq> 0 then (Inl RuntimeError, s')
                else (Inr (sp_next_index r, sp_finished r), s'))"

subsection \<open>ExampleIdProducer\<close>

fun append_examples :: "'w ext \<Rightarrow> bytes list \<Rightarrow> lite_example_ids \<Rightarrow> exn + lite_example_ids" where
  "append_examples E [] lite = Inr lite"
| "append_examples E (exam # exams) lite =
     (case example_id E exam of
        Inl e \<Rightarrow> Inl e
      | Inr (KeyStr _) \<Rightarrow> Inl TypeError
      | Inr (KeyBytes b) \<Rightarrow>
          (case event_time E exam of
             Inl e \<Rightarrow> Inl e
           | Inr None \<Rightarrow> Inl TypeError
           | Inr (Some t) \<Rightarrow>
               if \<not> int64_ok t then Inl ValueError
               else append_examples E exams
                      (lite\<lparr>lite_example_id := lite_example_id lite @ [b],
                            lite_event_time := lite_event_time lite @ [t]\<rparr>)))"

definition send_example_ids_to_consumer ::
  "'w ext \<Rightarrow> 's peer_client \<Rightarrow> int \<Rightarrow> bytes list \<Rightarrow> int \<Rightarrow> bool \<Rightarrow> 's \<Rightarrow> (unit, 's) eff" where
  "send_example_ids_to_consumer E P rank examples pid fin s =
     (case append_examples E examples
             \<lparr>lite_partition_id = pid, lite_begin_index = 0, lite_example_id = [], lite_event_time = [],
              lite_finished = fin\<rparr> of
        Inl e \<Rightarrow> (Inl e, s)
      | Inr lite \<Rightarrow>
          and_then (pc_SyncPartition P
              \<lparr>sq_rank_id = rank, sq_partition_id = pid, sq_content_bytes = ex_content_to_bytes E (SyncLite lite),
               sq_compressed = False\<rparr> s)
            (\<lambda>code s'. if code \<noteq> 0 then (Inl RuntimeError, s') else (Inr (), s')))"

fun send_examples_loop ::
  "'w ext \<Rightarrow> 's peer_client \<Rightarrow> int \<Rightarrow> int \<Rightarrow> bytes list \<Rightarrow> bytes list \<Rightarrow> 's \<Rightarrow> (bytes list, 's) eff" where
  "send_examples_loop E P rank pid examples_list [] s = (Inr examples_list, s)"
| "send_examples_loop E P rank pid examples_list (example # items) s =
     (let examples_list' = examples_list @ [example]
      in if length examples_list' > sync_example_id_nums
         then and_then (send_example_ids_to_consumer E P rank examples_list' pid False s)
                (\<lambda>_. send_examples_loop E P rank pid [] items)
         else send_examples_loop E P rank pid examples_list' items s)"

definition example_id_sender ::
  "'w ext \<Rightarrow> 's peer_client \<Rightarrow> int \<Rightarrow> init_raw_data_loading \<times> 's \<Rightarrow> (bool, init_raw_data_loading \<times> 's) eff" where
  "example_id_sender E P rank ils =
     (case ils of (il, s) \<Rightarrow>
        then_do (notify_start P rank (il_partition_id il) s)
          (\<lambda>(next_index, follower_finished) s1.
             if follower_finished then (Inr True, (il, s1))
             else
               then_do (send_examples_loop E P rank (il_partition_id il) [] (map snd (rd_item_dict (il_loader il))) s1)
                 (\<lambda>rest s2.
                    then_do (send_example_ids_to_consumer E P rank rest (il_partition_id il) True s2)
                      (\<lambda>_ s3. (Inr False, (il\<lparr>il_partition_finished := True\<rparr>, s3)))
                      (\<lambda>s3. (il, s3)))
                 (\<lambda>s2. (il, s2)))
          (\<lambda>s1. (il, s1)))"

definition finish_send_example_id_to_consumer ::
  "'s peer_client \<Rightarrow> int \<Rightarrow> init_raw_data_loading \<times> 's \<Rightarrow> (bool, init_raw_data_loading \<times> 's) eff" where
  "finish_send_example_id_to_consumer P rank ils =
     (case ils of (il, s) \<Rightarrow>
        and_then
          (if \<not> il_follower_finished il
           then then_do (pc_FinishPartition P \<lparr>pr_rank_id = rank, pr_partition_id = il_partition_id il\<rparr> s)
                  (\<lambda>r s'. if fp_code r \<noteq> 0 then (Inl RuntimeError, (il, s'))
                           else (Inr (), (il\<lparr>il_follower_finished := fp_finished r\<rparr>, s')))
                  (\<lambda>s'. (il, s'))
           else (Inr (), (il, s)))
          (\<lambda>_ (il', s'). (Inr (il_follower_finished il'), (il', s'))))"

text \<open>The context manager of the sender has no \<^verbatim>\<open>finally\<close>: the release is skipped on an exception.\<close>

definition send_example_id_processor ::
  "'w ext \<Rightarrow> 's peer_client \<Rightarrow> int \<Rightarrow> init_raw_data_loading \<times> 's \<Rightarrow> (unit, init_raw_data_loading \<times> 's) eff" where
  "send_example_id_processor E P rank ils =
     (case ils of (il, s) \<Rightarrow>
        and_then
          (if \<not> il_follower_finished il
           then and_then (example_id_sender E P rank (acquire_stale_with_sender il, s))
                  (\<lambda>fin (il1, s1). (Inr (), (release_stale_with_sender (il1\<lparr>il_follower_finished := fin\<rparr>), s1)))
           else (Inr (), (il, s)))
          (\<lambda>_ (il2, s2).
             if il_partition_finished il2
             then and_then (finish_send_example_id_to_consumer P rank (il2, s2)) (\<lambda>_ ils'. (Inr (), ils'))
             else (Inr (), (il2, s2))))"

subsection \<open>DataBlockProducer\<close>

record 'w data_joiner_wrapper =
  dw_class :: joiner_class
  dw_joiner :: "'w joiner"
  dw_next_data_block_index :: int
  dw_data_block_producer_finished :: bool

record producer_options =
  po_rank_id :: int
  po_partition_id :: int
  po_example_joiner :: string
  po_dump_data_block_time_span :: int
  po_dump_data_block_threshold :: int
  po_raw_data_iter :: string
  po_data_block_dir :: string
  po_data_source_name :: string
  po_raw_data_dir :: string
  po_mode :: string

definition init_data_joiner_wrapper ::
  "'w ext \<Rightarrow> producer_options \<Rightarrow> lite_example_ids list \<Rightarrow> 'w \<Rightarrow> ('w data_joiner_wrapper, 'w) eff" where
  "init_data_joiner_wrapper E po queue w =
     and_then (build_data_joiner E (po_example_joiner po) (po_dump_data_block_time_span po)
                 (po_dump_data_block_threshold po) (po_raw_data_iter po) (po_data_block_dir po)
                 (po_data_source_name po) (po_raw_data_dir po) (po_partition_id po) (po_mode po) queue w)
       (\<lambda>(cls, j) w'. (Inr \<lparr>dw_class = cls, dw_joiner = j, dw_next_data_block_index = 0,
                             dw_data_block_producer_finished = False\<rparr>, w'))"

definition get_next_data_block_meta ::
  "'w ext \<Rightarrow> 'w data_joiner_wrapper \<Rightarrow> (bool \<times> data_block_meta option, 'w data_joiner_wrapper) eff" where
  "get_next_data_block_meta E dw =
     (if \<not> 0 \<le> dw_next_data_block_index dw then (Inl AssertionError, dw)
      else then_do (joiner_acquire_data_block_meta_by_index E (dw_next_data_block_index dw) (dw_joiner dw))
             (\<lambda>r j. (Inr r, dw\<lparr>dw_joiner := j\<rparr>)) (\<lambda>j. dw\<lparr>dw_joiner := j\<rparr>))"

text \<open>
  The joiner processor consumes the generator: at most \<open>n\<close> passes of its loop. The result
  says whether the generator is exhausted.
\<close>

definition data_join_processor ::
  "'w ext \<Rightarrow> nat \<Rightarrow> 'w data_joiner_wrapper \<Rightarrow> (bool, 'w data_joiner_wrapper) eff" where
  "data_join_processor E n dw =
     (if data_join_switch (dw_joiner dw)
      then then_do (data_joiner_algo E (dw_class dw) n (dw_joiner dw))
             (\<lambda>ended j. (Inr ended, dw\<lparr>dw_joiner := j\<rparr>)) (\<lambda>j. dw\<lparr>dw_joiner := j\<rparr>)
      else (Inr True, dw))"

text \<open>
  A request over two megabytes is compressed when that saves a fifth:
  \<^verbatim>\<open>len(c) < len(s) * 0.8\<close>.
\<close>

definition data_block_meta_request ::
  "'w ext \<Rightarrow> producer_options \<Rightarrow> data_block_meta \<Rightarrow> sync_partition_request" where
  "data_block_meta_request E po meta =
     (let str = ex_content_to_bytes E (SyncMeta meta);
          request = \<lparr>sq_rank_id = po_rank_id po, sq_partition_id = po_partition_id po,
                     sq_content_bytes = str, sq_compressed = False\<rparr>
      in if length str > 2 * 2 ^ 20
         then let compressed = ex_compress E str
              in if 5 * length compressed < 4 * length str
                 then request\<lparr>sq_content_bytes := compressed, sq_compressed := True\<rparr>
                 else request
         else request)"

definition send_data_block_meta_to_consumer ::
  "'w ext \<Rightarrow> 's peer_client \<Rightarrow> producer_options \<Rightarrow> data_block_meta \<Rightarrow> 's \<Rightarrow> (unit, 's) eff" where
  "send_data_block_meta_to_consumer E P po meta s =
     and_then (pc_SyncPartition P (data_block_meta_request E po meta) s)
       (\<lambda>code s'. if code \<noteq> 0 then (Inl RuntimeError, s') else (Inr (), s'))"

text \<open>The loop of the send executor: the result says whether the loop was left.\<close>

fun send_loop ::
  "'w ext \<Rightarrow> 's peer_client \<Rightarrow> producer_options \<Rightarrow> nat \<Rightarrow> 'w data_joiner_wrapper \<times> 's \<Rightarrow>
     (bool, 'w data_joiner_wrapper \<times> 's) eff" where
  "send_loop E P po 0 dws = (Inr False, dws)"
| "send_loop E P po (Suc n) (dw, s) =
     (if dw_data_block_producer_finished dw then (Inr True, (dw, s))
      else
        then_do (get_next_data_block_meta E dw)
          (\<lambda>(join_finished, meta) dw1.
             case meta of
               None \<Rightarrow> (Inr True, (dw1, s))
             | Some meta \<Rightarrow>
                 then_do (send_data_block_meta_to_consumer E P po meta s)
                   (\<lambda>_ s1. send_loop E P po n
                      (dw1\<lparr>dw_next_data_block_index := dw_next_data_block_index dw1 + 1\<rparr>, s1))
                   (\<lambda>s1. (dw1, s1)))
          (\<lambda>dw1. (dw1, s)))"

text \<open>
  \<open>send_executor\<close> returns \<^verbatim>\<open>join_state\<close>, which is never assigned after its initialisation to
  \<^verbatim>\<open>False\<close>; \<open>None\<close> stands for a loop that is still running after \<open>n\<close> rounds.
\<close>

definition send_executor ::
  "'w ext \<Rightarrow> 's peer_client \<Rightarrow> producer_options \<Rightarrow> nat \<Rightarrow> 'w data_joiner_wrapper \<times> 's \<Rightarrow>
     (bool option, 'w data_joiner_wrapper \<times> 's) eff" where
  "send_executor E P po n dws =
     (case dws of (dw, s) \<Rightarrow>
        then_do (notify_start P (po_rank_id po) (jn_partition_id (dw_joiner dw)) s)
          (\<lambda>(next_index, fin) s1.
             let join_state = False
             in and_then (send_loop E P po n
                   (dw\<lparr>dw_next_data_block_index := next_index, dw_data_block_producer_finished := fin\<rparr>, s1))
                  (\<lambda>left dws'. (Inr (if left then Some join_state else None), dws')))
          (\<lambda>s1. (dw, s1)))"

definition notify_consumer_finish_send_meta ::
  "'s peer_client \<Rightarrow> producer_options \<Rightarrow> 'w data_joiner_wrapper \<times> 's \<Rightarrow> (bool, 'w data_joiner_wrapper \<times> 's) eff" where
  "notify_consumer_finish_send_meta P po dws =
     (case dws of (dw, s) \<Rightarrow>
        if \<not> jn_finished (dw_joiner dw) then (Inl AssertionError, (dw, s))
        else and_then
          (if \<not> dw_data_block_producer_finished dw
           then then_do (pc_FinishPartition P
                    \<lparr>pr_rank_id = po_rank_id po, pr_partition_id = jn_partition_id (dw_joiner dw)\<rparr> s)
                  (\<lambda>r s'. if fp_code r \<noteq> 0 then (Inl RuntimeError, (dw, s'))
                           else (Inr (), (dw\<lparr>dw_data_block_producer_finished := fp_finished r\<rparr>, s')))
                  (\<lambda>s'. (dw, s'))
           else (Inr (), (dw, s)))
          (\<lambda>_ (dw', s'). (Inr (dw_data_block_producer_finished dw'), (dw', s'))))"

definition send_data_block_meta_processor ::
  "'w ext \<Rightarrow> 's peer_client \<Rightarrow> producer_options \<Rightarrow> nat \<Rightarrow> 'w data_joiner_wrapper \<times> 's \<Rightarrow>
     (unit option, 'w data_joiner_wrapper \<times> 's) eff" where
  "send_data_block_meta_processor E P po n dws =
     and_then
       (if \<not> dw_data_block_producer_finished (fst dws) then send_executor E P po n dws
        else (Inr (Some False), dws))
       (\<lambda>joined dws1.
          case joined of
            None \<Rightarrow> (Inr None, dws1)
          | Some joined_finished \<Rightarrow>
              if joined_finished \<or> dw_data_block_producer_finished (fst dws1)
              then and_then (notify_consumer_finish_send_meta P po dws1) (\<lambda>_ dws2. (Inr (Some ()), dws2))
              else (Inr (Some ()), dws1))"

subsection \<open>The contract of a receiver\<close>

text \<open>
  \<open>rep s xs\<close>: the peer has received \<open>xs\<close> and accepts more. A request that carries the next
  item is answered with code 0 and stores it; a start reports the next index.
\<close>

definition carries :: "'w ext \<Rightarrow> sync_partition_request \<Rightarrow> sync_content \<Rightarrow> bool" where
  "carries E req c \<longleftrightarrow>
     Option.bind (if sq_compressed req then ex_decompress E (sq_content_bytes req) else Some (sq_content_bytes req))
       (ex_content_parse E) = Some c"

lemma data_block_meta_request_carries:
  "messages_ok E \<Longrightarrow> carries E (data_block_meta_request E po meta) (SyncMeta meta)"
  by (simp add: carries_def data_block_meta_request_def messages_ok_def Let_def)

lemma data_block_meta_request_ids [simp]:
  "sq_rank_id (data_block_meta_request E po meta) = po_rank_id po"
  "sq_partition_id (data_block_meta_request E po meta) = po_partition_id po"
  by (simp_all add: data_block_meta_request_def Let_def)

locale receiver =
  fixes E :: "'w ext" and P :: "'s peer_client" and rank :: int and pid :: int
    and rep :: "'s \<Rightarrow> 'a list \<Rightarrow> bool" and wrap :: "'a \<Rightarrow> sync_content"
    and accepts :: "'a list \<Rightarrow> 'a \<Rightarrow> bool" and next_index :: "'a list \<Rightarrow> int"
  assumes sync_stores: "rep s xs \<Longrightarrow> accepts xs x \<Longrightarrow> sq_rank_id req = rank \<Longrightarrow> sq_partition_id req = pid \<Longrightarrow>
      carries E req (wrap x) \<Longrightarrow> \<exists>s'. pc_SyncPartition P req s = (Inr 0, s') \<and> rep s' (xs @ [x])"
    and start_reports: "rep s xs \<Longrightarrow> int64_ok (next_index xs) \<Longrightarrow>
      pc_StartPartition P \<lparr>pr_rank_id = rank, pr_partition_id = pid\<rparr> s =
        (Inr \<lparr>sp_code = 0, sp_next_index = next_index xs, sp_finished = False\<rparr>, s)"
    and messages: "rep s xs \<Longrightarrow> messages_ok E"
begin

lemma notify_start_ok:
  "rep s xs \<Longrightarrow> int64_ok (next_index xs) \<Longrightarrow> notify_start P rank pid s = (Inr (next_index xs, False), s)"
  by (simp add: notify_start_def start_reports)

end

subsection \<open>The batches of the leader\<close>

definition sendable :: "'w ext \<Rightarrow> bytes \<Rightarrow> bool" where
  "sendable E exam \<longleftrightarrow>
     (\<exists>b t. example_id E exam = Inr (KeyBytes b) \<and> event_time E exam = Inr (Some t) \<and> int64_ok t)"

definition sent_id :: "'w ext \<Rightarrow> bytes \<Rightarrow> bytes" where
  "sent_id E exam = (case example_id E exam of Inr (KeyBytes b) \<Rightarrow> b | _ \<Rightarrow> [])"

definition sent_time :: "'w ext \<Rightarrow> bytes \<Rightarrow> int" where
  "sent_time E exam = (case event_time E exam of Inr (Some t) \<Rightarrow> t | _ \<Rightarrow> 0)"

definition lite_of :: "'w ext \<Rightarrow> int \<Rightarrow> bool \<Rightarrow> bytes list \<Rightarrow> lite_example_ids" where
  "lite_of E pid fin exams =
     \<lparr>lite_partition_id = pid, lite_begin_index = 0, lite_example_id = map (sent_id E) exams,
      lite_event_time = map (sent_time E) exams, lite_finished = fin\<rparr>"

lemma append_examples_sendable:
  "\<forall>exam \<in> set exams. sendable E exam \<Longrightarrow>
     append_examples E exams lite =
       Inr (lite\<lparr>lite_example_id := lite_example_id lite @ map (sent_id E) exams,
                 lite_event_time := lite_event_time lite @ map (sent_time E) exams\<rparr>)"
  by (induction exams arbitrary: lite) (auto simp: sendable_def sent_id_def sent_time_def)

fun full_batches :: "nat \<Rightarrow> 'a list \<Rightarrow> 'a list list" where
  "full_batches n xs = (if 0 < n \<and> n \<le> length xs then take n xs # full_batches n (drop n xs) else [])"

fun last_batch :: "nat \<Rightarrow> 'a list \<Rightarrow> 'a list" where
  "last_batch n xs = (if 0 < n \<and> n \<le> length xs then last_batch n (drop n xs) else xs)"

declare full_batches.simps [simp del] last_batch.simps [simp del]

lemma batches_short: "length xs < n \<Longrightarrow> full_batches n xs = [] \<and> last_batch n xs = xs"
  by (simp add: full_batches.simps [of n xs] last_batch.simps [of n xs])

lemma batches_full:
  "0 < n \<Longrightarrow> length xs = n \<Longrightarrow>
     full_batches n (xs @ ys) = xs # full_batches n ys \<and> last_batch n (xs @ ys) = last_batch n ys"
  by (simp add: full_batches.simps [of n "xs @ ys"] last_batch.simps [of n "xs @ ys"])

lemma batches_concat: "concat (full_batches n xs) @ last_batch n xs = xs"
proof (induction n xs rule: full_batches.induct)
  case (1 n xs)
  then show ?case by (simp add: full_batches.simps [of n xs] last_batch.simps [of n xs])
qed

lemma full_batches_length: "b \<in> set (full_batches n xs) \<Longrightarrow> length b = n"
proof (induction n xs rule: full_batches.induct)
  case (1 n xs)
  then show ?case by (auto simp: full_batches.simps [of n xs] split: if_splits)
qed

lemma last_batch_length: "0 < n \<Longrightarrow> length (last_batch n xs) < n"
proof (induction n xs rule: last_batch.induct)
  case (1 n xs)
  then show ?case by (auto simp: last_batch.simps [of n xs])
qed

definition leader_batches :: "'w ext \<Rightarrow> int \<Rightarrow> bytes list \<Rightarrow> lite_example_ids list" where
  "leader_batches E pid exams =
     map (lite_of E pid False) (full_batches (Suc sync_example_id_nums) exams) @
     [lite_of E pid True (last_batch (Suc sync_example_id_nums) exams)]"

locale lite_receiver = receiver E P rank pid rep SyncLite "\<lambda>xs x. lite_partition_id x = pid" next_index
  for E :: "'w ext" and P :: "'s peer_client" and rank :: int and pid :: int
    and rep :: "'s \<Rightarrow> lite_example_ids list \<Rightarrow> bool" and next_index :: "lite_example_ids list \<Rightarrow> int"
begin

lemma send_batch:
  assumes "rep s xs" "\<forall>exam \<in> set exams. sendable E exam"
  obtains s' where "send_example_ids_to_consumer E P rank exams pid fin s = (Inr (), s')"
    "rep s' (xs @ [lite_of E pid fin exams])"
proof -
  let ?req = "\<lparr>sq_rank_id = rank, sq_partition_id = pid,
      sq_content_bytes = ex_content_to_bytes E (SyncLite (lite_of E pid fin exams)), sq_compressed = False\<rparr>"
  have "carries E ?req (SyncLite (lite_of E pid fin exams))"
    using messages [OF assms(1)] by (simp add: carries_def messages_ok_def)
  then obtain s' where s': "pc_SyncPartition P ?req s = (Inr 0, s')" "rep s' (xs @ [lite_of E pid fin exams])"
    using sync_stores [OF assms(1), of "lite_of E pid fin exams" ?req] by (auto simp: lite_of_def)
  then have "send_example_ids_to_consumer E P rank exams pid fin s = (Inr (), s')"
    by (simp add: send_example_ids_to_consumer_def append_examples_sendable [OF assms(2)] lite_of_def)
  with s'(2) that show ?thesis by blast
qed

lemma send_examples_loop_batches:
  assumes "rep s xs" "\<forall>exam \<in> set (acc @ items). sendable E exam" "length acc \<le> sync_example_id_nums"
  shows "\<exists>s'. send_examples_loop E P rank pid acc items s =
      (Inr (last_batch (Suc sync_example_id_nums) (acc @ items)), s') \<and>
    rep s' (xs @ map (lite_of E pid False) (full_batches (Suc sync_example_id_nums) (acc @ items)))"
  using assms
proof (induction items arbitrary: acc s xs)
  case Nil
  then show ?case using batches_short [of acc "Suc sync_example_id_nums"] by simp
next
  case (Cons x items)
  show ?case
  proof (cases "length (acc @ [x]) > sync_example_id_nums")
    case True
    then have len: "length (acc @ [x]) = Suc sync_example_id_nums" using Cons.prems(3) by simp
    have good: "\<forall>exam \<in> set (acc @ [x]). sendable E exam" using Cons.prems(2) by simp
    obtain s1 where s1: "send_example_ids_to_consumer E P rank (acc @ [x]) pid False s = (Inr (), s1)"
      "rep s1 (xs @ [lite_of E pid False (acc @ [x])])"
      by (rule send_batch [OF Cons.prems(1) good])
    have "\<exists>s'. send_examples_loop E P rank pid [] items s1 =
        (Inr (last_batch (Suc sync_example_id_nums) ([] @ items)), s') \<and>
      rep s' ((xs @ [lite_of E pid False (acc @ [x])]) @
        map (lite_of E pid False) (full_batches (Suc sync_example_id_nums) ([] @ items)))"
      by (rule Cons.IH [OF s1(2)]) (use Cons.prems in simp_all)
    with True s1(1) batches_full [OF _ len, of items] show ?thesis by simp
  next
    case False
    then have "\<exists>s'. send_examples_loop E P rank pid (acc @ [x]) items s =
        (Inr (last_batch (Suc sync_example_id_nums) ((acc @ [x]) @ items)), s') \<and>
      rep s' (xs @ map (lite_of E pid False) (full_batches (Suc sync_example_id_nums) ((acc @ [x]) @ items)))"
      by (intro Cons.IH [OF Cons.prems(1)]) (use Cons.prems in simp_all)
    with False show ?thesis by simp
  qed
qed

lemma sender_delivers:
  assumes rep: "rep s xs" and idx: "int64_ok (next_index xs)" and pid: "il_partition_id il = pid"
    and good: "\<forall>exam \<in> snd ` set (rd_item_dict (il_loader il)). sendable E exam"
  obtains s' where "example_id_sender E P rank (il, s) = (Inr False, (il\<lparr>il_partition_finished := True\<rparr>, s'))"
    "rep s' (xs @ leader_batches E pid (map snd (rd_item_dict (il_loader il))))"
proof -
  let ?items = "map snd (rd_item_dict (il_loader il))" and ?n = "Suc sync_example_id_nums"
  have all: "\<forall>exam \<in> set ([] @ ?items). sendable E exam" using good by simp
  obtain s1 where s1: "send_examples_loop E P rank pid [] ?items s = (Inr (last_batch ?n ?items), s1)"
    "rep s1 (xs @ map (lite_of E pid False) (full_batches ?n ?items))"
    using send_examples_loop_batches [OF rep all] by auto
  have "set (last_batch ?n ?items) \<subseteq> set ?items"
    using batches_concat [of ?n ?items] by (metis set_append sup_ge2)
  then have rest: "\<forall>exam \<in> set (last_batch ?n ?items). sendable E exam" using all by auto
  obtain s2 where "send_example_ids_to_consumer E P rank (last_batch ?n ?items) pid True s1 = (Inr (), s2)"
    "rep s2 ((xs @ map (lite_of E pid False) (full_batches ?n ?items)) @ [lite_of E pid True (last_batch ?n ?items)])"
    by (rule send_batch [OF s1(2) rest])
  with s1 pid that show ?thesis
    by (simp add: example_id_sender_def notify_start_ok [OF rep idx] leader_batches_def)
qed

end

subsection \<open>Sending the stored metas\<close>

definition joiner_store ::
  "'w ext \<Rightarrow> item_dict \<Rightarrow> data_block_meta list \<Rightarrow> data_block_meta list \<Rightarrow> 'w data_joiner_wrapper \<Rightarrow> bool" where
  "joiner_store E d base new dw \<longleftrightarrow>
     store_rep E (jn_manager (dw_joiner dw)) (jn_world (dw_joiner dw)) d base new"

lemma next_meta_stored:
  assumes "joiner_store E d base new dw" "dw_next_data_block_index dw = int k" "k < length (base @ new)"
    "length (base @ new) \<le> removed_items_nums_from_buffer"
  obtains m' where "get_next_data_block_meta E dw =
      (Inr (jn_finished (dw_joiner dw), Some ((base @ new) ! k)), dw\<lparr>dw_joiner := (dw_joiner dw)\<lparr>jn_manager := m'\<rparr>\<rparr>)"
    "joiner_store E d base new (dw\<lparr>dw_joiner := (dw_joiner dw)\<lparr>jn_manager := m'\<rparr>\<rparr>)"
proof -
  let ?f = "acquire_data_block_meta_by_index E (jn_world (dw_joiner dw)) (int k) (jn_manager (dw_joiner dw))"
  have rep: "store_rep E (jn_manager (dw_joiner dw)) (jn_world (dw_joiner dw)) d base new"
    using assms(1) by (simp add: joiner_store_def)
  have "fst ?f = Inr (Some ((base @ new) ! k))"
    using fetch_small [OF store_repD(1) [OF rep] _ _ assms(4), of "int k"] assms(3) by simp
  then obtain m' where f: "?f = (Inr (Some ((base @ new) ! k)), m')" by (metis prod.collapse)
  with store_fetch [OF rep, of "int k"] have "store_rep E m' (jn_world (dw_joiner dw)) d base new" by simp
  with f assms(2) that [of m'] show ?thesis
    by (simp add: get_next_data_block_meta_def joiner_acquire_data_block_meta_by_index_def joiner_store_def)
qed

lemma next_meta_none:
  assumes "joiner_store E d base new dw" "dw_next_data_block_index dw = int (length (base @ new))"
  shows "get_next_data_block_meta E dw = (Inr (jn_finished (dw_joiner dw), None), dw)"
  using assms fetch_beyond [of E "jn_manager (dw_joiner dw)" "jn_world (dw_joiner dw)" "base @ new" "int (length (base @ new))"]
  by (simp add: get_next_data_block_meta_def joiner_acquire_data_block_meta_by_index_def joiner_store_def store_rep_def)

locale meta_receiver = receiver E P rank pid rep SyncMeta
    "\<lambda>xs x. data_block_index x = next_index xs \<and> partition_id x = pid" next_index
  for E :: "'w ext" and P :: "'s peer_client" and rank :: int and pid :: int
    and rep :: "'s \<Rightarrow> data_block_meta list \<Rightarrow> bool" and next_index :: "data_block_meta list \<Rightarrow> int" +
  assumes next_snoc: "next_index (xs @ [x]) = next_index xs + 1"
begin

lemma send_meta:
  assumes "rep s xs" "data_block_index meta = next_index xs" "partition_id meta = pid"
    "po_rank_id po = rank" "po_partition_id po = pid"
  obtains s' where "send_data_block_meta_to_consumer E P po meta s = (Inr (), s')" "rep s' (xs @ [meta])"
proof -
  obtain s' where "pc_SyncPartition P (data_block_meta_request E po meta) s = (Inr 0, s')" "rep s' (xs @ [meta])"
    using sync_stores [OF assms(1), of meta "data_block_meta_request E po meta"] assms(2-5)
      data_block_meta_request_carries [OF messages [OF assms(1)]] by auto
  with that show ?thesis by (simp add: send_data_block_meta_to_consumer_def)
qed

lemma send_loop_delivers:
  assumes "rep s xs" "joiner_store E d base new dw" "dw_next_data_block_index dw = int k" "k \<le> length (base @ new)"
    "next_index xs = int k" "length (base @ new) \<le> removed_items_nums_from_buffer"
    "\<forall>b \<in> set (drop k (base @ new)). partition_id b = pid" "\<not> dw_data_block_producer_finished dw"
    "po_rank_id po = rank" "po_partition_id po = pid"
  shows "\<exists>dw' s'. send_loop E P po (Suc (length (base @ new) - k)) (dw, s) = (Inr True, (dw', s')) \<and>
    rep s' (xs @ drop k (base @ new)) \<and> joiner_store E d base new dw' \<and>
    dw_next_data_block_index dw' = int (length (base @ new)) \<and> \<not> dw_data_block_producer_finished dw'"
  using assms
proof (induction "length (base @ new) - k" arbitrary: k dw s xs)
  case 0
  then have k: "k = length (base @ new)" by simp
  with 0 next_meta_none [OF "0.prems"(2)] show ?case by simp
next
  case (Suc n)
  let ?ms = "base @ new"
  have k: "k < length ?ms" "length ?ms - k = Suc (length ?ms - Suc k)" using Suc.hyps(2) by simp_all
  obtain m' where get: "get_next_data_block_meta E dw =
      (Inr (jn_finished (dw_joiner dw), Some (?ms ! k)), dw\<lparr>dw_joiner := (dw_joiner dw)\<lparr>jn_manager := m'\<rparr>\<rparr>)"
    "joiner_store E d base new (dw\<lparr>dw_joiner := (dw_joiner dw)\<lparr>jn_manager := m'\<rparr>\<rparr>)"
    by (rule next_meta_stored [OF Suc.prems(2,3) k(1) Suc.prems(6)])
  have "data_block_index (?ms ! k) = int k"
    using dbm_repD(3) [OF store_repD(1) [OF Suc.prems(2) [unfolded joiner_store_def]]] k(1)
    by (simp add: metas_on_disk_def)
  moreover have "partition_id (?ms ! k) = pid"
    using Suc.prems(7) Cons_nth_drop_Suc [OF k(1)] by (metis list.set_intros(1))
  ultimately obtain s1 where
    s1: "send_data_block_meta_to_consumer E P po (?ms ! k) s = (Inr (), s1)" "rep s1 (xs @ [?ms ! k])"
    using send_meta [OF Suc.prems(1), of "?ms ! k" po] Suc.prems(5,9,10) by auto
  let ?dw1 = "dw\<lparr>dw_joiner := (dw_joiner dw)\<lparr>jn_manager := m'\<rparr>, dw_next_data_block_index := int (Suc k)\<rparr>"
  have parts: "\<forall>b \<in> set (drop (Suc k) ?ms). partition_id b = pid"
    using Suc.prems(7) Cons_nth_drop_Suc [OF k(1)] by (metis list.set_intros(2))
  have "\<exists>dw' s'. send_loop E P po (Suc (length ?ms - Suc k)) (?dw1, s1) = (Inr True, (dw', s')) \<and>
    rep s' ((xs @ [?ms ! k]) @ drop (Suc k) ?ms) \<and> joiner_store E d base new dw' \<and>
    dw_next_data_block_index dw' = int (length ?ms) \<and> \<not> dw_data_block_producer_finished dw'"
    by (rule Suc.hyps(1) [OF _ s1(2) _ _ _ _ Suc.prems(6) parts])
      (use Suc.hyps(2) Suc.prems get(2) k next_snoc in \<open>simp_all add: joiner_store_def\<close>)
  moreover have "send_loop E P po (Suc (length ?ms - k)) (dw, s) = send_loop E P po (Suc (length ?ms - Suc k)) (?dw1, s1)"
    using get(1) s1(1) Suc.prems(3,8) by (subst k(2)) (simp add: add.commute)
  ultimately show ?case using Cons_nth_drop_Suc [OF k(1)] by simp
qed

end

subsection \<open>The two services as peers\<close>

definition service_peer :: "'w ext \<Rightarrow> 's consumer_methods \<Rightarrow> data_join_service \<Rightarrow> 's peer_client" where
  "service_peer E C svc =
     \<lparr>pc_StartPartition = (\<lambda>req s. remote (StartPartition C svc req s)),
      pc_SyncPartition = (\<lambda>req s. remote (SyncPartition E C svc req s)),
      pc_FinishPartition = (\<lambda>req s. remote (FinishPartition C svc req s))\<rparr>"

lemma sync_carries:
  "request_ok svc (sq_rank_id req) (sq_partition_id req) \<Longrightarrow> carries E req c \<Longrightarrow>
     SyncPartition E C svc req s =
       and_then (cm_append_data_items C c s) (\<lambda>(status, next_index) s'. (Inr (if \<not> status then -1 else 0), s'))"
  by (auto simp: SyncPartition_def carries_def bind_eq_Some_conv)

definition svc_ok :: "'w ext \<Rightarrow> data_join_service \<Rightarrow> bool" where
  "svc_ok E svc \<longleftrightarrow> messages_ok E \<and> 0 \<le> svc_partition_id svc"

definition ec_received :: "'w ext \<Rightarrow> data_join_service \<Rightarrow> example_id_consumer \<Rightarrow> lite_example_ids list \<Rightarrow> bool" where
  "ec_received E svc c xs \<longleftrightarrow>
     svc_ok E svc \<and> ec_partition_id c = Some (svc_partition_id svc) \<and>
     am_partition_id (ec_appender c) = svc_partition_id svc \<and> \<not> am_send_example_finished (ec_appender c) \<and>
     am_queue (ec_appender c) = xs \<and>
     am_next_example_index (ec_appender c) = (\<Sum>x \<leftarrow> xs. int (length (lite_example_id x)) - 1)"

text \<open>The leader's saver \<open>sv\<close> is untouched but for its buffer and the next index.\<close>

definition bc_received ::
  "'w ext \<Rightarrow> data_join_service \<Rightarrow> 'w data_block_saver \<Rightarrow> nat \<Rightarrow> 'w data_block_consumer \<Rightarrow> data_block_meta list \<Rightarrow> bool" where
  "bc_received E svc sv n c xs \<longleftrightarrow>
     svc_ok E svc \<and> sv_partition_id sv = svc_partition_id svc \<and> \<not> sv_send_data_block_meta_finish sv \<and>
     bc_wrap c = Some (sv\<lparr>sv_buffer := xs, sv_next_data_block_index := int (n + length xs)\<rparr>)"

interpretation follower: lite_receiver E "service_peer E example_id_consumer_methods svc"
  "svc_rank_id svc" "svc_partition_id svc" "ec_received E svc"
  "\<lambda>xs. \<Sum>x \<leftarrow> xs. int (length (lite_example_id x)) - 1"
  for E :: "'w ext" and svc
proof unfold_locales
  fix s xs x req
  assume "ec_received E svc s xs" "lite_partition_id x = svc_partition_id svc" "sq_rank_id req = svc_rank_id svc"
    "sq_partition_id req = svc_partition_id svc" "carries E req (SyncLite x)"
  then show "\<exists>s'. pc_SyncPartition (service_peer E example_id_consumer_methods svc) req s = (Inr 0, s') \<and>
      ec_received E svc s' (xs @ [x])"
    by (auto simp: service_peer_def sync_carries request_ok_def ec_received_def svc_ok_def
        example_id_consumer_methods_def ec_append_data_items_from_producer_def ec_is_synced_partition_def
        append_batch_examples_into_queue_def)
qed (auto simp: service_peer_def ec_received_def svc_ok_def StartPartition_def request_ok_def
    example_id_consumer_methods_def ec_fetch_partition_id_def ec_partition_syncer_to_consumer_def)

interpretation leader: meta_receiver E "service_peer E data_block_consumer_methods svc"
  "svc_rank_id svc" "svc_partition_id svc" "bc_received E svc sv n" "\<lambda>xs. int (n + length xs)"
  for E :: "'w ext" and svc sv n
proof unfold_locales
  fix s xs x req
  assume "bc_received E svc sv n s xs" "data_block_index x = int (n + length xs) \<and> partition_id x = svc_partition_id svc"
    "sq_rank_id req = svc_rank_id svc" "sq_partition_id req = svc_partition_id svc" "carries E req (SyncMeta x)"
  then show "\<exists>s'. pc_SyncPartition (service_peer E data_block_consumer_methods svc) req s = (Inr 0, s') \<and>
      bc_received E svc sv n s' (xs @ [x])"
    by (auto simp: service_peer_def sync_carries request_ok_def bc_received_def svc_ok_def
        data_block_consumer_methods_def bc_append_data_items_from_producer_def bc_is_synced_partition_def
        with_wrap_def append_sent_data_block_meta_to_buffer_def split: option.splits)
qed (auto simp: service_peer_def bc_received_def svc_ok_def StartPartition_def request_ok_def
    data_block_consumer_methods_def bc_fetch_partition_id_def bc_partition_syncer_to_consumer_def
    split: option.splits)

subsection \<open>The send processor never announces the end\<close>

text \<open>
  A peer whose state keeps \<open>I\<close> under starts and syncs, and whose starts report an unfinished
  transmission while \<open>I\<close> holds.
\<close>

locale open_peer =
  fixes P :: "'s peer_client" and I :: "'s \<Rightarrow> bool"
  assumes sync_open: "I s \<Longrightarrow> I (snd (pc_SyncPartition P req s))"
    and start_open: "I s \<Longrightarrow> I (snd (pc_StartPartition P preq s))"
    and start_unfinished: "I s \<Longrightarrow> pc_StartPartition P preq s = (Inr r, s') \<Longrightarrow> sp_code r = 0 \<Longrightarrow> \<not> sp_finished r"
begin

lemma send_meta_open: "I s \<Longrightarrow> I (snd (send_data_block_meta_to_consumer E P po meta s))"
  unfolding send_data_block_meta_to_consumer_def
  by (rule then_do_keeps [where P = I and Q = I, OF sync_open]) simp_all

lemma send_loop_open:
  "I s \<Longrightarrow> \<not> dw_data_block_producer_finished dw \<Longrightarrow>
     I (snd (snd (send_loop E P po n (dw, s)))) \<and>
     \<not> dw_data_block_producer_finished (fst (snd (send_loop E P po n (dw, s))))"
proof (induction n arbitrary: dw s)
  case (Suc n)
  obtain g dw1 where g: "get_next_data_block_meta E dw = (g, dw1)" by (cases "get_next_data_block_meta E dw")
  then have dw1: "\<not> dw_data_block_producer_finished dw1"
    using Suc.prems(2) by (auto simp: get_next_data_block_meta_def then_do_def split: if_splits sum.splits prod.splits)
  show ?case
  proof (cases g)
    case (Inr r)
    obtain fin meta where r: "r = (fin, meta)" by (cases r)
    show ?thesis
    proof (cases meta)
      case (Some b)
      obtain x s1 where x: "send_data_block_meta_to_consumer E P po b s = (x, s1)"
        by (cases "send_data_block_meta_to_consumer E P po b s")
      then have "I s1" using send_meta_open [OF Suc.prems(1), of E po b] by simp
      with x Suc g dw1 Inr r Some show ?thesis by (cases x) simp_all
    qed (use Suc g dw1 Inr r in simp)
  qed (use Suc g dw1 in simp)
qed simp

lemma notify_start_open: "I s \<Longrightarrow> I (snd (notify_start P rank pid s))"
  unfolding notify_start_def by (rule then_do_keeps [where P = I and Q = I, OF start_open]) simp_all

lemma notify_start_unfinished: "I s \<Longrightarrow> notify_start P rank pid s = (Inr (n, fin), s') \<Longrightarrow> \<not> fin"
  using start_unfinished [of s] by (auto simp: notify_start_def then_do_Inr_iff split: if_splits)

lemma send_processor_open:
  assumes "I s" "\<not> dw_data_block_producer_finished dw"
  shows "I (snd (snd (send_data_block_meta_processor E P po n (dw, s)))) \<and>
    \<not> dw_data_block_producer_finished (fst (snd (send_data_block_meta_processor E P po n (dw, s))))"
proof -
  obtain g s1 where g: "notify_start P (po_rank_id po) (jn_partition_id (dw_joiner dw)) s = (g, s1)"
    by (cases "notify_start P (po_rank_id po) (jn_partition_id (dw_joiner dw)) s")
  have s1: "I s1" using notify_start_open [OF assms(1)] g by (metis snd_conv)
  show ?thesis
  proof (cases g)
    case (Inl e)
    with g s1 assms show ?thesis by (simp add: send_data_block_meta_processor_def send_executor_def)
  next
    case (Inr p)
    obtain i fin where p: "p = (i, fin)" by (cases p)
    have "\<not> fin" using notify_start_unfinished [OF assms(1)] g Inr p by simp
    let ?dw = "dw\<lparr>dw_next_data_block_index := i, dw_data_block_producer_finished := False\<rparr>"
    obtain r dw' s' where l: "send_loop E P po n (?dw, s1) = (r, (dw', s'))"
      by (cases "send_loop E P po n (?dw, s1)") auto
    have "I s'" "\<not> dw_data_block_producer_finished dw'"
      using send_loop_open [OF s1, of ?dw E po n] l by simp_all
    with g Inr p l assms \<open>\<not> fin\<close> show ?thesis
      by (cases r) (simp_all add: send_data_block_meta_processor_def send_executor_def Let_def)
  qed
qed

end

definition bc_open :: "data_join_service \<Rightarrow> 'w data_block_consumer \<Rightarrow> bool" where
  "bc_open svc c \<longleftrightarrow>
     (case bc_wrap c of
        None \<Rightarrow> False
      | Some sv \<Rightarrow> sv_partition_id sv = svc_partition_id svc \<and> \<not> sv_send_data_block_meta_finish sv)"

lemma bc_open_iff:
  "bc_open svc c \<longleftrightarrow> map_option sv_partition_id (bc_wrap c) = Some (svc_partition_id svc) \<and>
     \<not> (case bc_wrap c of None \<Rightarrow> True | Some sv \<Rightarrow> sv_send_data_block_meta_finish sv)"
  by (simp add: bc_open_def split: option.split)

interpretation open_leader: open_peer "service_peer E data_block_consumer_methods svc"
  "bc_open svc :: 'w data_block_consumer \<Rightarrow> bool" for E :: "'w ext" and svc
proof unfold_locales
  fix s :: "'w data_block_consumer" and req preq r s'
  assume I: "bc_open svc s"
  then show "bc_open svc (snd (pc_SyncPartition (service_peer E data_block_consumer_methods svc) req s))"
    using bc.sync_keeps [of E svc req s] by (simp add: bc_open_iff service_peer_def remote_def)
  from I show "bc_open svc (snd (pc_StartPartition (service_peer E data_block_consumer_methods svc) preq s))"
    using bc.start_keeps [of svc preq s] by (simp add: service_peer_def remote_def)
  assume "pc_StartPartition (service_peer E data_block_consumer_methods svc) preq s = (Inr r, s')"
  then have "StartPartition data_block_consumer_methods svc preq s = (Inr r, s')"
    by (cases "StartPartition data_block_consumer_methods svc preq s";
        cases "fst (StartPartition data_block_consumer_methods svc preq s)") (auto simp: service_peer_def)
  from bc.start_reports_ended [OF this] I show "\<not> sp_finished r" by (simp add: bc_open_iff)
qed

end
