(* ===== verification/Join_System.thy ===== *)
theory Join_System
  imports Producers
begin

section \<open>DataJoin: the two parties together\<close>

text \<open>
  The construction of the processes of a role in \<^verbatim>\<open>data_join/data_join_manager.py\<close>, and the
  two parties of one partition as one state: the leader's loaded items and block consumer, the
  follower's example id consumer and joiner. The follower's consumer and joiner share one queue
  object; a step of the joiner reads it from the consumer and writes it back.
\<close>

subsection \<open>Construction\<close>

datatype fl_role = Leader | Follower | OtherRole

record data_source =
  ds_role :: fl_role
  ds_partition_id :: int
  ds_raw_data_dir :: string
  ds_data_block_dir :: string
  ds_data_source_name :: string
  ds_mode :: string

record join_options =
  jo_raw_data_iter :: string
  jo_example_joiner :: string
  jo_dump_data_block_time_span :: int
  jo_dump_data_block_threshold :: int

datatype 'w join_processes =
    LeaderProcesses init_raw_data_loading "'w data_block_consumer"
  | FollowerProcesses producer_options example_id_consumer

definition init_data_join_processor ::
  "'w ext \<Rightarrow> int \<Rightarrow> join_options \<Rightarrow> data_source \<Rightarrow> init_raw_data_loading \<Rightarrow> 'w \<Rightarrow> ('w join_processes, 'w) eff" where
  "init_data_join_processor E rank jo ds il w =
     (case ds_role ds of
        Leader \<Rightarrow>
          and_then (init_data_block_consumer E (ds_partition_id ds) il (ds_data_block_dir ds)
                      (ds_data_source_name ds) w)
            (\<lambda>bc w'. (Inr (LeaderProcesses il bc), w'))
      | Follower \<Rightarrow>
          (Inr (FollowerProcesses
             \<lparr>po_rank_id = rank, po_partition_id = ds_partition_id ds,
              po_example_joiner = jo_example_joiner jo,
              po_dump_data_block_time_span = jo_dump_data_block_time_span jo,
              po_dump_data_block_threshold = jo_dump_data_block_threshold jo,
              po_raw_data_iter = jo_raw_data_iter jo, po_data_block_dir = ds_data_block_dir ds,
              po_data_source_name = ds_data_source_name ds, po_raw_data_dir = ds_raw_data_dir ds,
              po_mode = ds_mode ds\<rparr>
             (init_example_id_consumer (ds_partition_id ds) [])), w)
      | OtherRole \<Rightarrow> (Inl AssertionError, w))"

definition init_data_join ::
  "'w ext \<Rightarrow> int \<Rightarrow> join_options \<Rightarrow> data_source \<Rightarrow> 'w \<Rightarrow> ('w join_processes, 'w) eff" where
  "init_data_join E rank jo ds w =
     and_then (init_raw_data_loading_object E (ds_raw_data_dir ds) (jo_raw_data_iter jo)
                 (ds_partition_id ds) (ds_mode ds) w)
       (\<lambda>il. init_data_join_processor E rank jo ds il)"

subsection \<open>The command line of data\_join\_server.py\<close>

record server_args =
  sa_rank_id :: int
  sa_partition_id :: int
  sa_data_source_name :: string
  sa_data_block_dir :: string
  sa_raw_data_dir :: string
  sa_role :: string
  sa_mode :: string
  sa_raw_data_iter :: string
  sa_example_joiner :: string
  sa_dump_data_block_time_span :: int
  sa_dump_data_block_threshold :: int

text \<open>The optional arguments at their defaults.\<close>

definition server_args_defaults :: "int \<Rightarrow> int \<Rightarrow> string \<Rightarrow> string \<Rightarrow> string \<Rightarrow> string \<Rightarrow> server_args" where
  "server_args_defaults rank pid src dir raw role =
     \<lparr>sa_rank_id = rank, sa_partition_id = pid, sa_data_source_name = src, sa_data_block_dir = dir,
      sa_raw_data_dir = raw, sa_role = role, sa_mode = ''local'', sa_raw_data_iter = ''TF_DATASET'',
      sa_example_joiner = ''MEMORY_JOINER'', sa_dump_data_block_time_span = -1,
      sa_dump_data_block_threshold = 4096\<rparr>"

definition run_task :: "'w ext \<Rightarrow> server_args \<Rightarrow> 'w \<Rightarrow> ('w join_processes, 'w) eff" where
  "run_task E a w =
     (if sa_role a \<noteq> ''leader'' \<and> sa_role a \<noteq> ''follower'' then (Inl AssertionError, w)
      else init_data_join E (sa_rank_id a)
             \<lparr>jo_raw_data_iter = sa_raw_data_iter a, jo_example_joiner = sa_example_joiner a,
              jo_dump_data_block_time_span = sa_dump_data_block_time_span a,
              jo_dump_data_block_threshold = sa_dump_data_block_threshold a\<rparr>
             \<lparr>ds_role = (if sa_role a = ''leader'' then Leader else Follower),
              ds_partition_id = sa_partition_id a, ds_raw_data_dir = sa_raw_data_dir a,
              ds_data_block_dir = sa_data_block_dir a, ds_data_source_name = sa_data_source_name a,
              ds_mode = sa_mode a\<rparr> w)"

subsection \<open>One partition at both parties\<close>

record 'w join_system =
  js_leader_loading :: init_raw_data_loading
  js_leader_consumer :: "'w data_block_consumer"
  js_follower_consumer :: example_id_consumer
  js_follower_wrap :: "'w data_joiner_wrapper"

definition leader_send_step ::
  "'w ext \<Rightarrow> data_join_service \<Rightarrow> int \<Rightarrow> 'w join_system \<Rightarrow> (unit, 'w join_system) eff" where
  "leader_send_step E svc rank js =
     then_do (send_example_id_processor E (service_peer E example_id_consumer_methods svc) rank
                (js_leader_loading js, js_follower_consumer js))
       (\<lambda>_ (il, ec). (Inr (), js\<lparr>js_leader_loading := il, js_follower_consumer := ec\<rparr>))
       (\<lambda>(il, ec). js\<lparr>js_leader_loading := il, js_follower_consumer := ec\<rparr>)"

definition follower_join_step :: "'w ext \<Rightarrow> nat \<Rightarrow> 'w join_system \<Rightarrow> (bool, 'w join_system) eff" where
  "follower_join_step E n js =
     (let dw = js_follower_wrap js; ec = js_follower_consumer js;
          dw0 = dw\<lparr>dw_joiner := (dw_joiner dw)\<lparr>jn_leader_visitor := am_queue (ec_appender ec)\<rparr>\<rparr>;
          left = (\<lambda>dw'. js\<lparr>js_follower_wrap := dw',
                    js_follower_consumer := ec\<lparr>ec_appender :=
                      (ec_appender ec)\<lparr>am_queue := jn_leader_visitor (dw_joiner dw')\<rparr>\<rparr>\<rparr>)
      in then_do (data_join_processor E n dw0) (\<lambda>ended dw'. (Inr ended, left dw')) left)"

definition follower_send_step ::
  "'w ext \<Rightarrow> data_join_service \<Rightarrow> producer_options \<Rightarrow> nat \<Rightarrow> 'w join_system \<Rightarrow> (unit option, 'w join_system) eff" where
  "follower_send_step E svc po n js =
     then_do (send_data_block_meta_processor E (service_peer E data_block_consumer_methods svc) po n
                (js_follower_wrap js, js_leader_consumer js))
       (\<lambda>r (dw, bc). (Inr r, js\<lparr>js_follower_wrap := dw, js_leader_consumer := bc\<rparr>))
       (\<lambda>(dw, bc). js\<lparr>js_follower_wrap := dw, js_leader_consumer := bc\<rparr>)"

definition leader_save_step :: "'w ext \<Rightarrow> 'w join_system \<Rightarrow> (unit, 'w join_system) eff" where
  "leader_save_step E js =
     then_do (data_block_consumer_processor E (js_leader_consumer js))
       (\<lambda>_ bc. (Inr (), js\<lparr>js_leader_consumer := bc\<rparr>)) (\<lambda>bc. js\<lparr>js_leader_consumer := bc\<rparr>)"

text \<open>
  One schedule of the four processors, chosen for the statement that spans both parties: the leader sends its ids, the
  follower joins (at most \<open>n\<close> passes) and sends its metas (at most \<open>k\<close> rounds of the send loop), the leader saves. The
  code starts the processors as concurrent ones; the steps are theirs, their order here is ours.
\<close>

definition join_round ::
  "'w ext \<Rightarrow> data_join_service \<Rightarrow> data_join_service \<Rightarrow> producer_options \<Rightarrow> nat \<Rightarrow> nat \<Rightarrow> 'w join_system \<Rightarrow>
     (unit, 'w join_system) eff" where
  "join_round E leader_svc follower_svc po n k js =
     and_then (leader_send_step E follower_svc (svc_rank_id leader_svc) js)
       (\<lambda>_ js1. and_then (follower_join_step E n js1)
          (\<lambda>_ js2. and_then (follower_send_step E leader_svc po k js2)
             (\<lambda>_ js3. leader_save_step E js3)))"

subsection \<open>The leader's ids reach the follower's queue\<close>

definition leader_ids :: "'w ext \<Rightarrow> item_dict \<Rightarrow> bytes list" where
  "leader_ids E d = map (sent_id E) (map snd d)"

lemma batches_ids_leader: "batches_ids (leader_batches E pid exams) = map (sent_id E) exams"
proof -
  let ?n = "Suc sync_example_id_nums"
  have "batches_ids (leader_batches E pid exams) =
      map (sent_id E) (concat (full_batches ?n exams) @ last_batch ?n exams)"
    by (simp add: batches_ids_def leader_batches_def lite_of_def map_concat comp_def)
  then show ?thesis by (simp only: batches_concat)
qed

lemma leader_batches_shape:
  obtains us l where "leader_batches E pid exams = us @ [l]" "\<forall>u \<in> set us. \<not> lite_finished u" "lite_finished l"
  by (rule that [of "map (lite_of E pid False) (full_batches (Suc sync_example_id_nums) exams)"
        "lite_of E pid True (last_batch (Suc sync_example_id_nums) exams)"])
    (auto simp: leader_batches_def lite_of_def)

lemma leader_processor_delivers:
  assumes rep: "ec_received E svc c []" and il: "il_partition_id il = svc_partition_id svc"
    "\<not> il_follower_finished il"
    and good: "\<forall>exam \<in> snd ` set (rd_item_dict (il_loader il)). sendable E exam"
  obtains il' c' where
    "send_example_id_processor E (service_peer E example_id_consumer_methods svc) (svc_rank_id svc) (il, c) =
       (Inr (), (il', c'))"
    "ec_partition_id c' = Some (svc_partition_id svc)"
    "am_queue (ec_appender c') = leader_batches E (svc_partition_id svc) (map snd (rd_item_dict (il_loader il)))"
    "am_send_example_finished (ec_appender c')" "il_loader il' = il_loader il" "\<not> il_follower_finished il'"
proof -
  let ?P = "service_peer E example_id_consumer_methods svc"
  let ?il = "acquire_stale_with_sender il"
  let ?q = "leader_batches E (svc_partition_id svc) (map snd (rd_item_dict (il_loader il)))"
  have il1: "il_loader ?il = il_loader il" "il_partition_id ?il = svc_partition_id svc"
    using il(1) by (simp_all add: acquire_stale_with_sender_def)
  obtain c1 where c1: "example_id_sender E ?P (svc_rank_id svc) (?il, c) =
      (Inr False, (?il\<lparr>il_partition_finished := True\<rparr>, c1))"
    "ec_received E svc c1 ?q"
    using follower.sender_delivers [OF rep, of ?il] good il1 by (auto simp: int64_ok_def)
  let ?il2 = "release_stale_with_sender (?il\<lparr>il_partition_finished := True, il_follower_finished := False\<rparr>)"
  let ?c2 = "c1\<lparr>ec_appender := finish_send_examples (ec_appender c1)\<rparr>"
  have ne: "?q \<noteq> []" by (simp add: leader_batches_def)
  have req: "request_ok svc (svc_rank_id svc) (svc_partition_id svc)"
    using rep by (simp add: request_ok_def ec_received_def svc_ok_def)
  have fin: "FinishPartition example_id_consumer_methods svc
      \<lparr>pr_rank_id = svc_rank_id svc, pr_partition_id = svc_partition_id svc\<rparr> c1 =
      (Inr \<lparr>fp_code = 0, fp_finished = False\<rparr>, ?c2)"
    using c1(2) req ne
    by (simp add: FinishPartition_def example_id_consumer_methods_def ec_fetch_partition_id_def ec_received_def
        ec_finish_partition_transmit_def ec_is_synced_partition_def need_append_into_queue_def
        finish_send_examples_def Let_def)
  have "send_example_id_processor E ?P (svc_rank_id svc) (il, c) = (Inr (), (?il2, ?c2))"
    using il(2) il(1) c1(1) fin
    by (simp add: send_example_id_processor_def finish_send_example_id_to_consumer_def service_peer_def
        release_stale_with_sender_def acquire_stale_with_sender_def)
  then show ?thesis
    by (rule that) (use c1(2) in \<open>simp_all add: ec_received_def finish_send_examples_def
        release_stale_with_sender_def acquire_stale_with_sender_def\<close>)
qed

subsection \<open>The follower joins and announces its blocks\<close>

text \<open>A joiner that is ready to start on an empty queue.\<close>

definition joiner_starts :: "'w ext \<Rightarrow> item_dict \<Rightarrow> data_block_meta list \<Rightarrow> 'w data_joiner_wrapper \<Rightarrow> bool" where
  "joiner_starts E d base dw \<longleftrightarrow>
     dw_class dw = MEMORY_JOINER \<and> data_join_switch (dw_joiner dw) \<and>
     joiner_rep E d base [] [] (dw_joiner dw) \<and> items_timed E d \<and> post_answers E \<and>
     \<not> jn_finished (dw_joiner dw) \<and> jn_dump_data_block_time_span (dw_joiner dw) \<le> 0 \<and>
     \<not> dw_data_block_producer_finished dw"

lemma join_processor_blocks:
  assumes st: "joiner_starts E d base dw" and q: "jn_leader_visitor (dw_joiner dw) = leader_batches E pid exams"
    and room: "int (length base + length exams) \<le> data_block_index_threshold"
  obtains j new where
    "data_join_processor E (length (leader_batches E pid exams)) dw = (Inr False, dw\<lparr>dw_joiner := j\<rparr>)"
    "joiner_rep E d base new [] j"
    "map example_ids new = chunks (block_limit (dw_joiner dw)) (matched d (map (sent_id E) exams))"
    "jn_leader_visitor j = []" "jn_partition_id j = jn_partition_id (dw_joiner dw)"
proof -
  let ?j0 = "(dw_joiner dw)\<lparr>jn_lite := None\<rparr>"
  obtain us l where ul: "leader_batches E pid exams = us @ [l]" "\<forall>u \<in> set us. \<not> lite_finished u" "lite_finished l"
    by (rule leader_batches_shape)
  have ids: "batches_ids (us @ [l]) = map (sent_id E) exams" using batches_ids_leader [of E pid exams] ul(1) by simp
  have rep0: "joiner_rep E d base [] [] ?j0"
    using st by (auto simp: joiner_starts_def joiner_rep_def joiner_core_def maker_holds_def split: option.splits)
  have room0: "int (length base + length (batches_ids (us @ [l]))) \<le> data_block_index_threshold"
    using room ids by simp
  obtain j new where j: "joiner_run E (length (us @ [l])) ?j0 = (Inr False, j)" "joiner_rep E d base new [] j"
    "map example_ids new = chunks (block_limit ?j0) (matched d (batches_ids (us @ [l])))" "jn_leader_visitor j = []"
    by (rule joiner_run_queue [OF rep0 _ _ room0 _ _ ul(2,3)]) (use st q ul(1) in \<open>simp_all add: joiner_starts_def\<close>)
  have "data_join_processor E (length (leader_batches E pid exams)) dw = (Inr False, dw\<lparr>dw_joiner := j\<rparr>)"
    using st j(1) ul(1) by (simp add: data_join_processor_def joiner_starts_def data_joiner_algo_def data_join_switch_def)
  moreover have "jn_partition_id j = jn_partition_id (dw_joiner dw)"
    using joiner_run_partition [of E "length (us @ [l])" ?j0] j(1) by simp
  ultimately show ?thesis using j ids that by (simp add: block_limit_def)
qed

lemma send_processor_announces:
  assumes rep: "joiner_rep E d base new [] (dw_joiner dw)" and rcv: "bc_received E svc sv (length base) c []"
    and small: "length (base @ new) \<le> removed_items_nums_from_buffer"
    and pid: "jn_partition_id (dw_joiner dw) = svc_partition_id svc"
    and po: "po_rank_id po = svc_rank_id svc" "po_partition_id po = svc_partition_id svc"
    and nf: "\<not> dw_data_block_producer_finished dw"
  obtains dw' c' where
    "send_data_block_meta_processor E (service_peer E data_block_consumer_methods svc) po (Suc (length new)) (dw, c) =
       (Inr (Some ()), (dw', c'))"
    "bc_received E svc sv (length base) c' new" "joiner_store E d base new dw'"
proof -
  let ?P = "service_peer E data_block_consumer_methods svc"
  let ?dw = "dw\<lparr>dw_next_data_block_index := int (length base), dw_data_block_producer_finished := False\<rparr>"
  have store: "joiner_store E d base new ?dw"
    and parts: "\<forall>b \<in> set (drop (length base) (base @ new)). partition_id b = svc_partition_id svc"
    using rep pid by (auto simp: joiner_rep_def joiner_core_def joiner_store_def store_rep_def)
  have i64: "int64_ok (int (length base + length ([] :: data_block_meta list)))"
    using small by (simp add: int64_ok_def removed_items_nums_from_buffer_def)
  have start: "notify_start ?P (po_rank_id po) (jn_partition_id (dw_joiner dw)) c = (Inr (int (length base), False), c)"
    using leader.notify_start_ok [OF rcv i64] pid po by simp
  obtain dw' c' where l: "send_loop E ?P po (Suc (length new)) (?dw, c) = (Inr True, (dw', c'))"
    "bc_received E svc sv (length base) c' ([] @ drop (length base) (base @ new))" "joiner_store E d base new dw'"
    "\<not> dw_data_block_producer_finished dw'"
    using leader.send_loop_delivers [OF rcv store _ _ _ small parts _ po] by auto
  have "send_data_block_meta_processor E ?P po (Suc (length new)) (dw, c) = (Inr (Some ()), (dw', c'))"
    using nf start l(1,4) by (simp add: send_data_block_meta_processor_def send_executor_def Let_def)
  with l(2,3) that show ?thesis by simp
qed

subsection \<open>The round stores aligned blocks at both parties\<close>

text \<open>
  \<open>parties_start\<close>: both parties hold the same number of blocks, the leader's items are keyed by
  their ids and can be sent, the follower's joiner is ready, both services answer for the
  partition.
\<close>

definition parties_start ::
  "'w ext \<Rightarrow> data_join_service \<Rightarrow> data_join_service \<Rightarrow> producer_options \<Rightarrow> item_dict \<Rightarrow> item_dict \<Rightarrow>
     data_block_meta list \<Rightarrow> data_block_meta list \<Rightarrow> 'w join_system \<Rightarrow> bool" where
  "parties_start E leader_svc follower_svc po dL dF baseL baseF js \<longleftrightarrow>
     svc_rank_id follower_svc = svc_rank_id leader_svc \<and> svc_partition_id follower_svc = svc_partition_id leader_svc \<and>
     po_rank_id po = svc_rank_id leader_svc \<and> po_partition_id po = svc_partition_id leader_svc \<and>
     length baseL = length baseF \<and>
     il_partition_id (js_leader_loading js) = svc_partition_id leader_svc \<and>
     \<not> il_follower_finished (js_leader_loading js) \<and>
     rd_item_dict (il_loader (js_leader_loading js)) = dL \<and>
     (\<forall>(key, r) \<in> set dL. key = KeyBytes (sent_id E r) \<and> sendable E r) \<and>
     ec_received E follower_svc (js_follower_consumer js) [] \<and>
     joiner_starts E dF baseF (js_follower_wrap js) \<and>
     jn_partition_id (dw_joiner (js_follower_wrap js)) = svc_partition_id leader_svc \<and>
     (case bc_wrap (js_leader_consumer js) of
        None \<Rightarrow> False
      | Some sv \<Rightarrow> bc_received E leader_svc sv (length baseL) (js_leader_consumer js) [] \<and>
          saver_core E dL baseL [] sv \<and> \<not> sv_state_switch sv)"

definition round_result ::
  "'w ext \<Rightarrow> item_dict \<Rightarrow> item_dict \<Rightarrow> data_block_meta list \<Rightarrow> data_block_meta list \<Rightarrow>
     data_block_meta list \<Rightarrow> data_block_meta list \<Rightarrow> 'w join_system \<Rightarrow> bool" where
  "round_result E dL dF baseL baseF newL newF js \<longleftrightarrow>
     store_rep E (jn_manager (dw_joiner (js_follower_wrap js))) (jn_world (dw_joiner (js_follower_wrap js))) dF baseF newF \<and>
     (case bc_wrap (js_leader_consumer js) of
        None \<Rightarrow> False
      | Some sv \<Rightarrow> store_rep E (sv_manager sv) (sv_world sv) dL baseL newL \<and> sv_buffer sv = [])"

lemma leader_id_present:
  assumes keys: "\<forall>(key, r) \<in> set d. key = KeyBytes (sent_id E r) \<and> sendable E r"
    and e: "e \<in> set (leader_ids E d)"
  shows "dict_get d (KeyBytes e) \<noteq> None"
proof -
  from e obtain k r where kr: "(k, r) \<in> set d" "e = sent_id E r" by (auto simp: leader_ids_def)
  with keys have "k = KeyBytes e" by auto
  with kr(1) show ?thesis by (auto simp: dict_get_None_notin intro: rev_image_eqI)
qed

lemma matched_subset: "set (matched d ids) \<subseteq> set ids"
  by (auto simp: matched_def)

lemma chunks_subset: "0 < n \<Longrightarrow> ys \<in> set (chunks n xs) \<Longrightarrow> set ys \<subseteq> set xs"
  using concat_chunks [of n xs] by (metis UN_upper set_concat)

lemma metas_in_order:
  assumes "dbm_rep E m w (base @ new)"
  shows "in_order (length base) new"
  unfolding in_order_nth
proof (intro allI impI)
  fix i assume "i < length new"
  with dbm_repD(3) [OF assms] have "data_block_index ((base @ new) ! (length base + i)) = int (length base + i)"
    unfolding metas_on_disk_def by (metis length_append nat_add_left_cancel_less)
  then show "data_block_index (new ! i) = int (length base + i)" by simp
qed

lemma parties_startD:
  assumes "parties_start E leader_svc follower_svc po dL dF baseL baseF js"
  shows "svc_rank_id follower_svc = svc_rank_id leader_svc" "svc_partition_id follower_svc = svc_partition_id leader_svc"
    "po_rank_id po = svc_rank_id leader_svc" "po_partition_id po = svc_partition_id leader_svc"
    "length baseL = length baseF" "il_partition_id (js_leader_loading js) = svc_partition_id leader_svc"
    "\<not> il_follower_finished (js_leader_loading js)" "rd_item_dict (il_loader (js_leader_loading js)) = dL"
    "\<forall>(key, r) \<in> set dL. key = KeyBytes (sent_id E r) \<and> sendable E r"
    "ec_received E follower_svc (js_follower_consumer js) []" "joiner_starts E dF baseF (js_follower_wrap js)"
    "jn_partition_id (dw_joiner (js_follower_wrap js)) = svc_partition_id leader_svc"
    "\<exists>sv. bc_wrap (js_leader_consumer js) = Some sv \<and> bc_received E leader_svc sv (length baseL) (js_leader_consumer js) [] \<and>
       saver_core E dL baseL [] sv \<and> \<not> sv_state_switch sv"
  using assms by (auto simp: parties_start_def split: option.splits)

lemma leader_send_step_delivers:
  assumes "parties_start E leader_svc follower_svc po dL dF baseL baseF js"
  obtains js1 where "leader_send_step E follower_svc (svc_rank_id leader_svc) js = (Inr (), js1)"
    "js_follower_wrap js1 = js_follower_wrap js" "js_leader_consumer js1 = js_leader_consumer js"
    "am_queue (ec_appender (js_follower_consumer js1)) = leader_batches E (svc_partition_id leader_svc) (map snd dL)"
proof -
  note ps = parties_startD [OF assms]
  have "\<forall>exam \<in> snd ` set (rd_item_dict (il_loader (js_leader_loading js))). sendable E exam"
    using ps(8,9) by auto
  from leader_processor_delivers [OF ps(10) _ ps(7) this] ps(1,2,6,8)
  obtain il1 ec1 where "send_example_id_processor E (service_peer E example_id_consumer_methods follower_svc)
        (svc_rank_id leader_svc) (js_leader_loading js, js_follower_consumer js) = (Inr (), (il1, ec1))"
    "am_queue (ec_appender ec1) = leader_batches E (svc_partition_id leader_svc) (map snd dL)"
    by metis
  then show ?thesis
    by (intro that [of "js\<lparr>js_leader_loading := il1, js_follower_consumer := ec1\<rparr>"])
      (simp_all add: leader_send_step_def)
qed

lemma follower_join_step_blocks:
  assumes starts: "joiner_starts E d base (js_follower_wrap js)"
    and q: "am_queue (ec_appender (js_follower_consumer js)) = leader_batches E pid exams"
    and room: "int (length base + length exams) \<le> data_block_index_threshold"
  obtains js' j new where "follower_join_step E (length (leader_batches E pid exams)) js = (Inr False, js')"
    "js_follower_wrap js' = (js_follower_wrap js)\<lparr>dw_joiner := j\<rparr>" "js_leader_consumer js' = js_leader_consumer js"
    "joiner_rep E d base new [] j"
    "map example_ids new = chunks (block_limit (dw_joiner (js_follower_wrap js))) (matched d (map (sent_id E) exams))"
    "jn_partition_id j = jn_partition_id (dw_joiner (js_follower_wrap js))"
proof -
  let ?dw = "js_follower_wrap js"
  let ?dw0 = "?dw\<lparr>dw_joiner := (dw_joiner ?dw)\<lparr>jn_leader_visitor := leader_batches E pid exams\<rparr>\<rparr>"
  have starts0: "joiner_starts E d base ?dw0"
    using starts by (auto simp: joiner_starts_def joiner_rep_def joiner_core_def maker_holds_def data_join_switch_def
        split: option.splits)
  obtain j new where j: "data_join_processor E (length (leader_batches E pid exams)) ?dw0 = (Inr False, ?dw0\<lparr>dw_joiner := j\<rparr>)"
    "joiner_rep E d base new [] j"
    "map example_ids new = chunks (block_limit (dw_joiner ?dw0)) (matched d (map (sent_id E) exams))"
    "jn_partition_id j = jn_partition_id (dw_joiner ?dw0)"
    by (rule join_processor_blocks [OF starts0 _ room, of pid]) simp_all
  let ?js = "js\<lparr>js_follower_wrap := ?dw\<lparr>dw_joiner := j\<rparr>,
      js_follower_consumer := (js_follower_consumer js)\<lparr>ec_appender :=
        (ec_appender (js_follower_consumer js))\<lparr>am_queue := jn_leader_visitor j\<rparr>\<rparr>\<rparr>"
  have "follower_join_step E (length (leader_batches E pid exams)) js = (Inr False, ?js)"
    using j(1) by (simp add: follower_join_step_def q Let_def)
  with j(2,3,4) that [of ?js j new] show ?thesis by (simp add: block_limit_def)
qed

lemma leader_save_step_stores:
  assumes bc: "bc_wrap (js_leader_consumer js) = Some sv" and core: "saver_core E d base [] sv"
    and switch: "\<not> sv_state_switch sv" and order: "in_order (length base) (sv_buffer sv)"
    and good: "\<forall>b \<in> set (sv_buffer sv). storable d (sv_partition_id sv) b"
    and room: "int (length base + length (sv_buffer sv)) \<le> data_block_index_threshold + 1" and post: "post_answers E"
  obtains js' sv' where "leader_save_step E js = (Inr (), js')" "bc_wrap (js_leader_consumer js') = Some sv'"
    "js_follower_wrap js' = js_follower_wrap js" "sv_buffer sv' = []"
    "store_rep E (sv_manager sv') (sv_world sv') d base (map (named_meta E (sv_manager sv)) (sv_buffer sv))"
proof (cases "sv_buffer sv = []")
  case True
  then have "leader_save_step E js = (Inr (), js)"
    using bc by (simp add: leader_save_step_def data_block_consumer_processor_def
        data_block_consumer_processor_factor_def is_need_save_def)
  with bc core True that show ?thesis by (simp add: saver_core_def)
next
  case False
  obtain m' w' where r: "run_data_block_saver E sv = (Inr (), sv\<lparr>sv_manager := m', sv_world := w', sv_buffer := [], sv_state_switch := False\<rparr>)"
    "saver_core E d base (map (named_meta E (sv_manager sv)) (sv_buffer sv))
      (sv\<lparr>sv_manager := m', sv_world := w', sv_buffer := [], sv_state_switch := False\<rparr>)"
    using run_saver_stores [OF core, of "length base"] order good room post by auto
  let ?sv = "sv\<lparr>sv_manager := m', sv_world := w', sv_buffer := [], sv_state_switch := False\<rparr>"
  have "leader_save_step E js = (Inr (), js\<lparr>js_leader_consumer := (js_leader_consumer js)\<lparr>bc_wrap := Some ?sv\<rparr>\<rparr>)"
    using bc r(1) False by (simp add: leader_save_step_def data_block_consumer_processor_def
        data_block_consumer_processor_factor_def is_need_save_def)
  then show ?thesis
    by (rule that [where sv' = ?sv]) (use r(2) in \<open>simp_all add: saver_core_def\<close>)
qed

lemma follower_send_step_announces:
  assumes rep: "joiner_rep E d base new [] (dw_joiner (js_follower_wrap js))"
    and rcv: "bc_received E svc sv (length base) (js_leader_consumer js) []"
    and small: "length (base @ new) \<le> removed_items_nums_from_buffer"
    and pid: "jn_partition_id (dw_joiner (js_follower_wrap js)) = svc_partition_id svc"
    and po: "po_rank_id po = svc_rank_id svc" "po_partition_id po = svc_partition_id svc"
    and nf: "\<not> dw_data_block_producer_finished (js_follower_wrap js)"
  obtains js' where "follower_send_step E svc po (Suc (length new)) js = (Inr (Some ()), js')"
    "bc_received E svc sv (length base) (js_leader_consumer js') new" "joiner_store E d base new (js_follower_wrap js')"
proof -
  obtain dw' c' where
    "send_data_block_meta_processor E (service_peer E data_block_consumer_methods svc) po (Suc (length new))
       (js_follower_wrap js, js_leader_consumer js) = (Inr (Some ()), (dw', c'))"
    "bc_received E svc sv (length base) c' new" "joiner_store E d base new dw'"
    by (rule send_processor_announces [OF rep rcv small pid po nf])
  then show ?thesis
    by (intro that [of "js\<lparr>js_follower_wrap := dw', js_leader_consumer := c'\<rparr>"])
      (simp_all add: follower_send_step_def)
qed

lemma storable_blocks:
  assumes keys: "\<forall>(key, r) \<in> set d. key = KeyBytes (sent_id E r) \<and> sendable E r" and lim: "0 < lim"
    and ids: "map example_ids new = chunks lim (matched d' (leader_ids E d))"
    and pids: "\<forall>b \<in> set new. partition_id b = pid" and b: "b \<in> set new"
  shows "storable d pid b"
proof -
  have mem: "example_ids b \<in> set (chunks lim (matched d' (leader_ids E d)))"
    using b ids by (metis imageI list.set_map)
  have "set (example_ids b) \<subseteq> set (leader_ids E d)"
    using chunks_subset [OF lim mem] matched_subset by blast
  with keys pids b chunks_nonempty [OF mem] show ?thesis
    by (auto simp: storable_def dest: leader_id_present [OF keys])
qed

lemma round_aligned:
  assumes start: "parties_start E leader_svc follower_svc po dL dF baseL baseF js"
    and room: "int (length baseF + length dL) \<le> data_block_index_threshold"
    and lim: "lim = block_limit (dw_joiner (js_follower_wrap js))"
    and small: "length baseF + length (chunks lim (matched dF (leader_ids E dL))) \<le> removed_items_nums_from_buffer"
    and n: "n = length (leader_batches E (svc_partition_id leader_svc) (map snd dL))"
    and k: "k = Suc (length (chunks lim (matched dF (leader_ids E dL))))"
  obtains js' newL newF where "join_round E leader_svc follower_svc po n k js = (Inr (), js')"
    "round_result E dL dF baseL baseF newL newF js'"
    "map example_ids newF = chunks lim (matched dF (leader_ids E dL))"
    "map example_ids newL = map example_ids newF" "map data_block_index newL = map data_block_index newF"
proof -
  note ps = parties_startD [OF start]
  have lim0: "0 < lim" by (simp add: lim block_limit_def)
  obtain sv where sv: "bc_wrap (js_leader_consumer js) = Some sv"
    "bc_received E leader_svc sv (length baseL) (js_leader_consumer js) []" "saver_core E dL baseL [] sv" "\<not> sv_state_switch sv"
    using ps(13) by blast
  obtain js1 where s1: "leader_send_step E follower_svc (svc_rank_id leader_svc) js = (Inr (), js1)"
    "js_follower_wrap js1 = js_follower_wrap js" "js_leader_consumer js1 = js_leader_consumer js"
    "am_queue (ec_appender (js_follower_consumer js1)) = leader_batches E (svc_partition_id leader_svc) (map snd dL)"
    by (rule leader_send_step_delivers [OF start])
  have start1: "joiner_starts E dF baseF (js_follower_wrap js1)" and room1: "int (length baseF + length (map snd dL)) \<le> data_block_index_threshold"
    using ps(11) s1(2) room by simp_all
  obtain js2 j newF where s2: "follower_join_step E n js1 = (Inr False, js2)"
    "js_follower_wrap js2 = (js_follower_wrap js)\<lparr>dw_joiner := j\<rparr>" "js_leader_consumer js2 = js_leader_consumer js"
    "joiner_rep E dF baseF newF [] j" "map example_ids newF = chunks lim (matched dF (leader_ids E dL))"
    "jn_partition_id j = svc_partition_id leader_svc"
    using follower_join_step_blocks [OF start1 s1(4) room1] s1(2,3) n lim ps(12) by (metis leader_ids_def)
  have lenF: "length newF = length (chunks lim (matched dF (leader_ids E dL)))"
    using arg_cong [OF s2(5), of length] by simp
  obtain js3 where s3: "follower_send_step E leader_svc po k js2 = (Inr (Some ()), js3)"
    "bc_received E leader_svc sv (length baseF) (js_leader_consumer js3) newF"
    "joiner_store E dF baseF newF (js_follower_wrap js3)"
    unfolding k lenF [symmetric]
    by (rule follower_send_step_announces [of E dF baseF newF js2 leader_svc sv po])
      (use s2 sv(2) ps small lenF in \<open>auto simp: joiner_starts_def\<close>)
  let ?sv = "sv\<lparr>sv_buffer := newF, sv_next_data_block_index := int (length baseF + length newF)\<rparr>"
  have storeF: "store_rep E (jn_manager j) (jn_world j) dF baseF newF"
    using s2(4) by (simp add: joiner_rep_def joiner_core_def)
  have order: "in_order (length baseL) newF"
    using metas_in_order [OF store_repD(1) [OF storeF]] ps(5) by simp
  have pids: "\<forall>b \<in> set newF. partition_id b = sv_partition_id sv"
    using storeF s2(4,6) s3(2) by (auto simp: store_rep_def joiner_rep_def joiner_core_def bc_received_def)
  have good: "\<forall>b \<in> set newF. storable dL (sv_partition_id sv) b"
    using storable_blocks [OF ps(9) lim0 s2(5) pids] by blast
  have wrap: "bc_wrap (js_leader_consumer js3) = Some ?sv" using s3(2) by (simp add: bc_received_def)
  have core: "saver_core E dL baseL [] ?sv" "\<not> sv_state_switch ?sv"
    using sv(3,4) by (simp_all add: saver_core_def)
  have fits: "in_order (length baseL) (sv_buffer ?sv)" "\<forall>b \<in> set (sv_buffer ?sv). storable dL (sv_partition_id ?sv) b"
    "int (length baseL + length (sv_buffer ?sv)) \<le> data_block_index_threshold + 1"
    using order good small lenF ps(5)
    by (simp_all add: data_block_index_threshold_def removed_items_nums_from_buffer_def)
  have post: "post_answers E" using ps(11) by (simp add: joiner_starts_def)
  obtain js4 sv' where s4: "leader_save_step E js3 = (Inr (), js4)" "bc_wrap (js_leader_consumer js4) = Some sv'"
    "js_follower_wrap js4 = js_follower_wrap js3" "sv_buffer sv' = []"
    "store_rep E (sv_manager sv') (sv_world sv') dL baseL (map (named_meta E (sv_manager ?sv)) (sv_buffer ?sv))"
    by (rule leader_save_step_stores [OF wrap core fits post])
  have "join_round E leader_svc follower_svc po n k js = (Inr (), js4)"
    using s1(1) s2(1) s3(1) s4(1) by (simp add: join_round_def)
  then show ?thesis
    by (rule that [of js4 "map (named_meta E (sv_manager sv)) newF" newF])
      (use s2(5) s3(3) s4 in \<open>simp_all add: round_result_def joiner_store_def comp_def\<close>)
qed

end
