(* ===== verification/Sample_World.thy ===== *)
theory Sample_World
  imports DJ_World
begin

section \<open>A concrete world\<close>

text \<open>
  An executable instance of the external operations: files are an association list,
  directories a list, the unique id is longer than every path in use, and messages are
  printed as length-prefixed fields. It satisfies \<open>world_ok\<close> and \<open>names_ok\<close>, so the
  hypotheses about the external code can hold together; the witnesses use it.
\<close>

record sample_world =
  sw_files :: "(string, bytes list) dict"
  sw_dirs :: "string list"
  sw_clock :: int

subsection \<open>Printing and parsing of fields\<close>

definition nat_out :: "nat \<Rightarrow> string" where
  "nat_out n = replicate n CHR ''1'' @ ''0''"

fun nat_in :: "string \<Rightarrow> (nat \<times> string) option" where
  "nat_in [] = None"
| "nat_in (c # cs) =
     (if c = CHR ''0'' then Some (0, cs) else map_option (\<lambda>(n, r). (Suc n, r)) (nat_in cs))"

lemma nat_in_out [simp]: "nat_in (nat_out n @ r) = Some (n, r)"
  by (induction n) (simp_all add: nat_out_def)

definition int_out :: "int \<Rightarrow> string" where
  "int_out i = (if i < 0 then CHR ''-'' else CHR ''+'') # nat_out (nat \<bar>i\<bar>)"

fun int_in :: "string \<Rightarrow> (int \<times> string) option" where
  "int_in [] = None"
| "int_in (c # cs) = map_option (\<lambda>(n, r). (if c = CHR ''-'' then - int n else int n, r)) (nat_in cs)"

lemma int_in_out [simp]: "int_in (int_out i @ r) = Some (i, r)"
  by (simp add: int_out_def)

definition str_out :: "string \<Rightarrow> string" where
  "str_out s = nat_out (length s) @ s"

definition str_in :: "string \<Rightarrow> (string \<times> string) option" where
  "str_in t = map_option (\<lambda>(n, r). (take n r, drop n r)) (nat_in t)"

lemma str_in_out [simp]: "str_in (str_out s @ r) = Some (s, r)"
  by (simp add: str_out_def str_in_def)

definition list_out :: "('a \<Rightarrow> string) \<Rightarrow> 'a list \<Rightarrow> string" where
  "list_out f xs = nat_out (length xs) @ concat (map f xs)"

fun many_in :: "(string \<Rightarrow> ('a \<times> string) option) \<Rightarrow> nat \<Rightarrow> string \<Rightarrow> ('a list \<times> string) option" where
  "many_in g 0 t = Some ([], t)"
| "many_in g (Suc n) t =
     Option.bind (g t) (\<lambda>(x, r). map_option (\<lambda>(xs, r'). (x # xs, r')) (many_in g n r))"

definition list_in :: "(string \<Rightarrow> ('a \<times> string) option) \<Rightarrow> string \<Rightarrow> ('a list \<times> string) option" where
  "list_in g t = Option.bind (nat_in t) (\<lambda>(n, r). many_in g n r)"

lemma list_in_out:
  assumes "\<And>x r. g (f x @ r) = Some (x, r)"
  shows "list_in g (list_out f xs @ r) = Some (xs, r)"
proof -
  have "many_in g (length xs) (concat (map f xs) @ r) = Some (xs, r)"
    by (induction xs) (simp_all add: assms)
  then show ?thesis by (simp add: list_in_def list_out_def)
qed

lemmas strings_in_out [simp] = list_in_out [of str_in str_out, OF str_in_out]
lemmas ints_in_out [simp] = list_in_out [of int_in int_out, OF int_in_out]

subsection \<open>Messages\<close>

definition meta_out :: "data_block_meta \<Rightarrow> string" where
  "meta_out m = str_out (block_id m) @ int_out (partition_id m) @ int_out (file_version m) @
     int_out (start_time m) @ int_out (end_time m) @ list_out str_out (example_ids m) @
     int_out (leader_start_index m) @ int_out (leader_end_index m) @
     int_out (follower_restart_index m) @ int_out (data_block_index m)"

definition meta_in :: "string \<Rightarrow> data_block_meta option" where
  "meta_in t =
     Option.bind (str_in t) (\<lambda>(a, t). Option.bind (int_in t) (\<lambda>(b, t).
     Option.bind (int_in t) (\<lambda>(c, t). Option.bind (int_in t) (\<lambda>(d, t).
     Option.bind (int_in t) (\<lambda>(e, t). Option.bind (list_in str_in t) (\<lambda>(f, t).
     Option.bind (int_in t) (\<lambda>(g, t). Option.bind (int_in t) (\<lambda>(h, t).
     Option.bind (int_in t) (\<lambda>(i, t). Option.bind (int_in t) (\<lambda>(j, t).
       if t = [] then Some \<lparr>block_id = a, partition_id = b, file_version = c, start_time = d,
         end_time = e, example_ids = f, leader_start_index = g, leader_end_index = h,
         follower_restart_index = i, data_block_index = j\<rparr> else None))))))))))"

lemma meta_in_out [simp]: "meta_in (meta_out m) = Some m"
proof -
  have "int_in (int_out i) = Some (i, [])" for i
    using int_in_out [of i "[]"] by simp
  then show ?thesis by (simp add: meta_in_def meta_out_def)
qed

definition lite_out :: "lite_example_ids \<Rightarrow> string" where
  "lite_out l = int_out (lite_partition_id l) @ int_out (lite_begin_index l) @
     list_out str_out (lite_example_id l) @ list_out int_out (lite_event_time l) @
     (if lite_finished l then ''t'' else ''f'')"

definition lite_in :: "string \<Rightarrow> lite_example_ids option" where
  "lite_in t =
     Option.bind (int_in t) (\<lambda>(a, t). Option.bind (int_in t) (\<lambda>(b, t).
     Option.bind (list_in str_in t) (\<lambda>(c, t). Option.bind (list_in int_in t) (\<lambda>(d, t).
       Some \<lparr>lite_partition_id = a, lite_begin_index = b, lite_example_id = c,
         lite_event_time = d, lite_finished = (t = ''t'')\<rparr>))))"

lemma lite_in_out [simp]: "lite_in (lite_out l) = Some l"
  by (cases "lite_finished l") (simp_all add: lite_in_def lite_out_def)

definition content_out :: "sync_content \<Rightarrow> string" where
  "content_out c = (case c of SyncMeta m \<Rightarrow> CHR ''m'' # meta_out m | SyncLite l \<Rightarrow> CHR ''l'' # lite_out l
     | SyncUnset \<Rightarrow> [])"

definition content_in :: "string \<Rightarrow> sync_content option" where
  "content_in t = (case t of [] \<Rightarrow> Some SyncUnset
     | c # r \<Rightarrow> if c = CHR ''m'' then map_option SyncMeta (meta_in r)
                else if c = CHR ''l'' then map_option SyncLite (lite_in r) else None)"

lemma content_in_out [simp]: "content_in (content_out c) = Some c"
  by (cases c) (simp_all add: content_in_def content_out_def)

subsection \<open>Files, directories, names\<close>

definition sw_file :: "sample_world \<Rightarrow> string \<Rightarrow> bytes list option" where
  "sw_file w p = (if p \<in> set (sw_dirs w) then None else dict_get (sw_files w) p)"

definition sw_rename :: "sample_world \<Rightarrow> string \<Rightarrow> string \<Rightarrow> bool \<Rightarrow> sample_world option" where
  "sw_rename w p q ov =
     (case sw_file w p of
        None \<Rightarrow> None
      | Some rs \<Rightarrow>
          if q \<in> set (sw_dirs w) \<or> (sw_file w q \<noteq> None \<and> \<not> ov) then None
          else Some (w\<lparr>sw_files := AList.delete p (dict_set q rs (sw_files w))\<rparr>))"

definition sw_uuid :: "sample_world \<Rightarrow> string" where
  "sw_uuid w = replicate (Suc (sum_list (map length (map fst (sw_files w) @ sw_dirs w)))) CHR ''u''"

text \<open>
  An example record is its id (up to a semicolon) and its event time in unary; the decoded
  example has the features \<^verbatim>\<open>example_id\<close> and \<^verbatim>\<open>event_time\<close>.
\<close>

definition sw_example :: "bytes \<Rightarrow> tf_example option" where
  "sw_example r =
     Some (\<lambda>k. if k = ''example_id'' then BytesList [takeWhile (\<lambda>c. c \<noteq> CHR '';'') r]
               else if k = ''event_time''
               then Int64List [int (length (dropWhile (\<lambda>c. c \<noteq> CHR '';'') r))]
               else KindUnset)"

definition sample_ext :: "sample_world ext" where
  "sample_ext =
     \<lparr>ex_file = sw_file,
      ex_isdir = (\<lambda>w p. p \<in> set (sw_dirs w)),
      ex_makedirs = (\<lambda>w p. if sw_file w p \<noteq> None then None else Some (w\<lparr>sw_dirs := p # sw_dirs w\<rparr>)),
      ex_write = (\<lambda>w p rs. if p \<in> set (sw_dirs w) then None
                           else Some (w\<lparr>sw_files := dict_set p rs (sw_files w)\<rparr>)),
      ex_rename = sw_rename,
      ex_remove = (\<lambda>w p. if sw_file w p = None then None
                         else Some (w\<lparr>sw_files := AList.delete p (sw_files w)\<rparr>)),
      ex_uuid = sw_uuid,
      ex_now = sw_clock,
      ex_distribute = True,
      ex_post = (\<lambda>w p q. Some (w\<lparr>sw_clock := sw_clock w + 1\<rparr>)),
      ex_meta_to_string = meta_out,
      ex_meta_parse = meta_in,
      ex_meta_name = (\<lambda>s p i. int_out i @ ''.meta''),
      ex_block_name = (\<lambda>s m. int_out (data_block_index m) @ ''.data''),
      ex_block_id = (\<lambda>s m. s @ int_out (data_block_index m)),
      ex_partition_dir = (\<lambda>p. ''partition_'' @ str_of_int p),
      ex_parse_example = sw_example,
      ex_content_to_bytes = content_out,
      ex_content_parse = content_in,
      ex_compress = (\<lambda>b. CHR ''z'' # b),
      ex_decompress = (\<lambda>b. case b of [] \<Rightarrow> None | _ # r \<Rightarrow> Some r),
      ex_listdir = (\<lambda>w d. if d \<in> set (sw_dirs w)
         then Some [drop (Suc (length d)) p. p \<leftarrow> map fst (sw_files w), take (Suc (length d)) p = d @ ''/'']
         else None),
      ex_hadoop_get = (\<lambda>w src dst. w)\<rparr>"

lemma sample_ext_simps [simp]:
  "ex_file sample_ext = sw_file"
  "ex_isdir sample_ext w p \<longleftrightarrow> p \<in> set (sw_dirs w)"
  "ex_distribute sample_ext"
  "ex_post sample_ext w p q = Some (w\<lparr>sw_clock := sw_clock w + 1\<rparr>)"
  "ex_parse_example sample_ext = sw_example"
  "ex_meta_to_string sample_ext = meta_out"
  by (simp_all add: sample_ext_def)

subsection \<open>The laws hold\<close>

lemma sum_list_length_ge: "p \<in> set xs \<Longrightarrow> length p \<le> sum_list (map length xs)"
  by (simp add: member_le_sum_list)

lemma path_join_length: "length n \<le> length (path_join d n)"
  by (simp add: path_join_def)

lemma sample_uuid_fresh: "\<not> ex_exists sample_ext w (path_join d (tmp_name (sw_uuid w) c))"
proof
  let ?p = "path_join d (tmp_name (sw_uuid w) c)"
  assume "ex_exists sample_ext w ?p"
  then have "?p \<in> set (map fst (sw_files w) @ sw_dirs w)"
    by (auto simp: ex_exists_def sw_file_def split: if_splits dest!: map_of_SomeD intro: rev_image_eqI)
  then have "length ?p \<le> sum_list (map length (map fst (sw_files w) @ sw_dirs w))"
    by (rule sum_list_length_ge)
  moreover have "length (sw_uuid w) < length ?p"
    by (rule less_le_trans [OF _ path_join_length]) (simp add: tmp_name_def)
  ultimately show False by (simp add: sw_uuid_def)
qed

lemma names_end:
  "x @ ''.tmp'' \<noteq> y @ ''.meta''" "x @ ''.tmp'' \<noteq> y @ ''.data''" "x @ ''.data'' \<noteq> y @ ''.meta''"
proof -
  have "rev (x @ ''.tmp'') \<noteq> rev (y @ ''.meta'')" "rev (x @ ''.tmp'') \<noteq> rev (y @ ''.data'')"
    "rev (x @ ''.data'') \<noteq> rev (y @ ''.meta'')" by simp_all
  then show "x @ ''.tmp'' \<noteq> y @ ''.meta''" "x @ ''.tmp'' \<noteq> y @ ''.data''" "x @ ''.data'' \<noteq> y @ ''.meta''"
    by (simp_all only: rev_is_rev_conv not_False_eq_True)
qed

lemma int_out_inject [simp]: "int_out i = int_out j \<longleftrightarrow> i = j"
  by (metis append_Nil2 int_in_out option.inject prod.inject)

lemma int_out_name: "file_name (int_out i @ ''.meta'')" "file_name (int_out i @ ''.data'')"
  by (auto simp: file_name_def int_out_def nat_out_def)

lemma sample_names_ok: "names_ok sample_ext s p"
  using int_out_name names_end(3) by (simp add: names_ok_def sample_ext_def)

lemma sample_world_ok: "world_ok sample_ext"
proof -
  have "writes_ok sample_ext"
    by (auto simp: writes_ok_def sample_ext_def sw_file_def fun_eq_iff update_conv' split: if_splits)
  moreover have "renames_ok sample_ext"
    by (auto simp: renames_ok_def sample_ext_def sw_rename_def sw_file_def fun_eq_iff update_conv'
        delete_conv' split: if_splits option.splits)
  moreover have "removes_ok sample_ext"
    by (auto simp: removes_ok_def sample_ext_def sw_file_def fun_eq_iff delete_conv' split: if_splits)
  moreover have "dirs_ok sample_ext"
    by (auto simp: dirs_ok_def sample_ext_def sw_file_def fun_eq_iff split: if_splits)
  moreover have "posts_ok sample_ext"
    by (auto simp: posts_ok_def sample_ext_def sw_file_def fun_eq_iff)
  moreover have "uuids_ok sample_ext"
    unfolding uuids_ok_def
  proof (intro conjI allI)
    fix w d c s p i and m :: data_block_meta
    show "CHR ''/'' \<notin> set (ex_uuid sample_ext w)" by (simp add: sample_ext_def sw_uuid_def)
    show "\<not> ex_exists sample_ext w (path_join d (tmp_name (ex_uuid sample_ext w) c))"
      using sample_uuid_fresh by (simp add: sample_ext_def)
    show "tmp_name (ex_uuid sample_ext w) c \<noteq> ex_meta_name sample_ext s p i"
      using names_end(1) [of "sw_uuid w @ ''-'' @ str_of_int c" "int_out i"]
      by (simp add: sample_ext_def tmp_name_def)
    show "tmp_name (ex_uuid sample_ext w) c \<noteq> ex_block_name sample_ext s m"
      using names_end(2) [of "sw_uuid w @ ''-'' @ str_of_int c" "int_out (data_block_index m)"]
      by (simp add: sample_ext_def tmp_name_def)
  qed
  moreover have "prints_ok sample_ext" "messages_ok sample_ext"
    by (simp_all add: prints_ok_def messages_ok_def sample_ext_def)
  ultimately show ?thesis by (simp add: world_ok_def)
qed

end
