(* ===== verification/Sample_Parties.thy ===== *)
theory Sample_Parties
  imports Join_System Sample_World
begin

section \<open>Two concrete parties\<close>

text \<open>
  A leader and a follower of partition 0 in the sample world, each with an empty partition
  directory: the states the witnesses start from.
\<close>

definition sample_disk :: sample_world where
  "sample_disk = \<lparr>sw_files = [], sw_dirs = [''d/partition_0''], sw_clock = 0\<rparr>"

definition sample_manager :: data_block_manager where
  "sample_manager = \<lparr>dbm_partition_id = 0, dbm_data_block_dir = ''d'', dbm_data_source_name = ''src'',
     dbm_buffer = [], dbm_saved = Some (-1), dbm_saving = None\<rparr>"

definition leader_dict :: item_dict where
  "leader_dict = [(KeyBytes ''a'', ''a;''), (KeyBytes ''b'', ''b;;''), (KeyBytes ''c'', ''c;;'')]"

definition follower_dict :: item_dict where
  "follower_dict = [(KeyBytes ''c'', ''c;;;''), (KeyBytes ''x'', ''x;''), (KeyBytes ''a'', ''a;;'')]"

definition sample_loader :: "item_dict \<Rightarrow> raw_data_manager" where
  "sample_loader d = \<lparr>rd_raw_data_dir = ''raw'', rd_raw_data_iter = ''TF_RECORD_ITERATOR'', rd_mode = ''local'',
     rd_local_raw_data_dir = ''raw'', rd_all_fpath = [''raw/f''], rd_item_dict = d, rd_raw_data_stale = True\<rparr>"

definition sample_loading :: "item_dict \<Rightarrow> init_raw_data_loading" where
  "sample_loading d = \<lparr>il_loader = sample_loader d, il_partition_finished = False, il_follower_finished = False,
     il_stale_with_sender = True, il_partition_id = 0\<rparr>"

definition sample_joiner :: "int \<Rightarrow> item_dict \<Rightarrow> lite_example_ids list \<Rightarrow> sample_world joiner" where
  "sample_joiner thr d q =
     \<lparr>jn_dump_data_block_time_span = -1, jn_dump_data_block_threshold = thr, jn_leader_visitor = q,
      jn_partition_id = 0, jn_data_block_dir = ''d'', jn_data_source_name = ''src'',
      jn_follower_visitor = sample_loader d, jn_manager = sample_manager, jn_maker = None,
      jn_follower_restart_index = 0, jn_finished = False, jn_produced_timestamp = 0,
      jn_world = sample_disk, jn_lite = None, jn_yielded = []\<rparr>"

definition sample_wrap :: "int \<Rightarrow> item_dict \<Rightarrow> sample_world data_joiner_wrapper" where
  "sample_wrap thr d = \<lparr>dw_class = MEMORY_JOINER, dw_joiner = sample_joiner thr d [],
     dw_next_data_block_index = 0, dw_data_block_producer_finished = False\<rparr>"

definition sample_saver :: "item_dict \<Rightarrow> data_block_meta list \<Rightarrow> sample_world data_block_saver" where
  "sample_saver d bs = \<lparr>sv_partition_id = 0, sv_data_block_dir = ''d'', sv_send_data_block_meta_finish = False,
     sv_raw_data_visitor = sample_loading d, sv_manager = sample_manager,
     sv_next_data_block_index = int (length bs), sv_buffer = bs, sv_data_source_name = ''src'',
     sv_state_switch = False, sv_world = sample_disk\<rparr>"

definition sample_consumer :: "item_dict \<Rightarrow> sample_world data_block_consumer" where
  "sample_consumer d = \<lparr>bc_wrap = Some (sample_saver d []), bc_routine = True, bc_processor_started = True\<rparr>"

definition sample_service :: data_join_service where
  "sample_service = \<lparr>svc_rank_id = 0, svc_partition_id = 0\<rparr>"

definition sample_options :: producer_options where
  "sample_options = \<lparr>po_rank_id = 0, po_partition_id = 0, po_example_joiner = ''MEMORY_JOINER'',
     po_dump_data_block_time_span = -1, po_dump_data_block_threshold = 1,
     po_raw_data_iter = ''TF_RECORD_ITERATOR'', po_data_block_dir = ''d'', po_data_source_name = ''src'',
     po_raw_data_dir = ''raw'', po_mode = ''local''\<rparr>"

definition sample_system :: "int \<Rightarrow> sample_world join_system" where
  "sample_system thr = \<lparr>js_leader_loading = sample_loading leader_dict, js_leader_consumer = sample_consumer leader_dict,
     js_follower_consumer = init_example_id_consumer 0 [], js_follower_wrap = sample_wrap thr follower_dict\<rparr>"

lemma char_of_zero: "char_of (48 :: nat) = CHR ''0''"
  by code_simp

lemma sample_dir: "data_block_dir_wrap sample_ext sample_manager = ''d/partition_0''"
  by (simp add: data_block_dir_wrap_def sample_manager_def sample_ext_def path_join_def str_of_int_def
      str_of_nat.simps [of 0] char_of_zero)

lemma sample_free:
  "n \<noteq> [] \<Longrightarrow> hd n \<noteq> CHR ''/'' \<Longrightarrow> \<not> ex_exists sample_ext sample_disk (path_join ''d/partition_0'' n)"
  by (auto simp: ex_exists_def sample_disk_def sw_file_def path_join_def)

lemma sample_meta_free: "\<not> ex_exists sample_ext sample_disk (acquire_data_block_meta_path sample_ext sample_manager i)"
  unfolding acquire_data_block_meta_path_def sample_dir
  by (rule sample_free) (simp_all add: sample_ext_def int_out_def)

lemma sample_store: "store_rep sample_ext sample_manager sample_disk d [] []"
proof -
  have "block_dir_ok sample_ext sample_manager sample_disk"
    unfolding block_dir_ok_def block_path_def sample_dir
    using sample_free [of "ex_block_name sample_ext s meta" for s meta]
    by (auto simp: ex_exists_def sample_ext_def int_out_def)
  then show ?thesis
    using sample_world_ok sample_names_ok sample_meta_free
    by (simp add: store_rep_def dbm_rep_def metas_on_disk_def buffer_agrees_def int64_ok_def
        data_block_index_threshold_def sample_dir)
      (simp add: sample_manager_def sample_disk_def)
qed

lemma sample_joiner_rep: "joiner_rep sample_ext d [] [] [] (sample_joiner thr d q)"
  using sample_store [of d]
  by (simp add: joiner_rep_def joiner_core_def sample_joiner_def sample_loader_def)
    (simp add: sample_manager_def)

lemma sample_saver_core: "saver_core sample_ext d [] [] (sample_saver d bs)"
  using sample_store [of d]
  by (simp add: saver_core_def sample_saver_def sample_loading_def sample_loader_def)
    (simp add: sample_manager_def)

lemma sample_post: "post_answers sample_ext"
  by (simp add: post_answers_def)

lemma sample_timed: "items_timed sample_ext follower_dict"
  by (simp add: items_timed_def follower_dict_def event_time_def read_event_time_def sw_example_def int64_ok_def)

lemma sample_parties_start:
  "parties_start sample_ext sample_service sample_service sample_options leader_dict follower_dict [] [] (sample_system thr)"
proof -
  have msg: "messages_ok sample_ext" by (rule world_okD(8) [OF sample_world_ok])
  have keys: "\<forall>(key, r) \<in> set leader_dict. key = KeyBytes (sent_id sample_ext r) \<and> sendable sample_ext r"
    by (simp add: leader_dict_def sent_id_def sendable_def example_id_def read_example_id_def event_time_def
        read_event_time_def sw_example_def int64_ok_def)
  have ec: "ec_received sample_ext sample_service (init_example_id_consumer 0 []) []"
    using msg by (simp add: ec_received_def svc_ok_def sample_service_def init_example_id_consumer_def
        init_append_examples_manager_def)
  have bc: "bc_received sample_ext sample_service (sample_saver leader_dict []) 0 (sample_consumer leader_dict) []"
    using msg by (simp add: bc_received_def svc_ok_def sample_service_def sample_consumer_def sample_saver_def)
  have j: "joiner_starts sample_ext follower_dict [] (sample_wrap thr follower_dict)"
    using sample_joiner_rep [of follower_dict thr "[]"] sample_timed sample_post
    by (simp add: joiner_starts_def sample_wrap_def) (simp add: sample_joiner_def data_join_switch_def sample_loader_def)
  show ?thesis
    using keys ec bc j sample_saver_core [of leader_dict "[]"]
    by (simp add: parties_start_def sample_system_def sample_consumer_def)
      (simp add: sample_service_def sample_options_def sample_loading_def sample_loader_def sample_wrap_def
        sample_joiner_def sample_saver_def)
qed

end
