(* ===== verification/Join_Properties.thy ===== *)
theory Join_Properties
  imports Sample_Parties
begin

section \<open>Properties of the data join\<close>

text \<open>
  The properties of the components of the data join, each with a witness at the concrete
  parties of \<^verbatim>\<open>Sample_Parties\<close> where it has hypotheses.
\<close>

subsection \<open>The joiner\<close>

lemma sample_matched:
  "matched follower_dict [''a'', ''b'', ''c''] = [''a'', ''c'']"
  by (simp add: matched_def follower_dict_def)

definition sample_batch :: "bytes list \<Rightarrow> bool \<Rightarrow> lite_example_ids" where
  "sample_batch ids fin = \<lparr>lite_partition_id = 0, lite_begin_index = 0, lite_example_id = ids,
     lite_event_time = map (\<lambda>_. 1) ids, lite_finished = fin\<rparr>"

lemma sample_batch_simps [simp]:
  "lite_example_id (sample_batch ids fin) = ids" "lite_finished (sample_batch ids fin) = fin"
  by (simp_all add: sample_batch_def)

lemma sample_limit: "block_limit (sample_joiner thr d q) = nat (max 1 thr)"
  by (simp add: block_limit_def sample_joiner_def)

lemma sample_joiner_simps [simp]:
  "\<not> jn_finished (sample_joiner thr d q)" "jn_leader_visitor (sample_joiner thr d q) = q"
  "jn_dump_data_block_time_span (sample_joiner thr d q) = -1" "jn_lite (sample_joiner thr d q) = None"
  by (simp_all add: sample_joiner_def)

text \<open>
  C9. A queue of batches of which only the last is marked finished: after one pass of the
  joiner's loop per batch, the follower's store holds, beyond the blocks that were there, the
  ids that the follower also has, in the leader's order and cut into blocks of the threshold;
  the data file of each block holds exactly the follower's records of its ids, no block is left
  open, and the generator has yielded exactly these metas.
\<close>

theorem joiner_stores_intersection:
  assumes "joiner_rep E d base [] [] st" "items_timed E d" "post_answers E"
    and "int (length base + length (batches_ids (us @ [l]))) \<le> data_block_index_threshold"
    and "\<not> jn_finished st" "jn_leader_visitor st = us @ [l]" "jn_lite st = None"
    and "\<forall>u \<in> set us. \<not> lite_finished u" "lite_finished l"
    and "jn_dump_data_block_time_span st \<le> 0"
  shows "\<exists>st' new. data_joiner_algo E MEMORY_JOINER (length (us @ [l])) st = (Inr False, st') \<and>
     store_rep E (jn_manager st') (jn_world st') d base new \<and> jn_maker st' = None \<and>
     map example_ids new = chunks (block_limit st) (matched d (batches_ids (us @ [l]))) \<and>
     jn_yielded st' = jn_yielded st @ map Some new"
proof -
  obtain st' new where r: "joiner_run E (length (us @ [l])) st = (Inr False, st')" "joiner_rep E d base new [] st'"
    "map example_ids new = chunks (block_limit st) (matched d (batches_ids (us @ [l])))"
    "jn_yielded st' = jn_yielded st @ map Some new"
    by (rule joiner_run_queue [OF assms(1-6,8-10)])
  have "st\<lparr>jn_lite := None\<rparr> = st" using assms(7) by (cases st) simp
  then have "data_joiner_algo E MEMORY_JOINER (length (us @ [l])) st = (Inr False, st')"
    using r(1) by (simp add: data_joiner_algo_def)
  with r show ?thesis by (auto simp: joiner_rep_def joiner_core_def split: option.splits)
qed

theorem joiner_stores_intersection_witness:
  "\<exists>st' new. data_joiner_algo sample_ext MEMORY_JOINER 2
       (sample_joiner 1 follower_dict [sample_batch [''a'', ''b''] False, sample_batch [''c''] True]) = (Inr False, st') \<and>
     store_rep sample_ext (jn_manager st') (jn_world st') follower_dict [] new \<and>
     map example_ids new = [[''a''], [''c'']]"
proof -
  let ?u = "sample_batch [''a'', ''b''] False" and ?l = "sample_batch [''c''] True"
  let ?st = "sample_joiner 1 follower_dict [?u, ?l]"
  have ids: "batches_ids ([?u] @ [?l]) = [''a'', ''b'', ''c'']" by (simp add: batches_ids_def)
  have blocks: "chunks (block_limit ?st) (matched follower_dict (batches_ids ([?u] @ [?l]))) = [[''a''], [''c'']]"
    unfolding ids sample_matched sample_limit by code_simp
  have len: "length ([?u] @ [?l]) = 2" by simp
  have "\<exists>st' new. data_joiner_algo sample_ext MEMORY_JOINER (length ([?u] @ [?l])) ?st = (Inr False, st') \<and>
     store_rep sample_ext (jn_manager st') (jn_world st') follower_dict [] new \<and> jn_maker st' = None \<and>
     map example_ids new = chunks (block_limit ?st) (matched follower_dict (batches_ids ([?u] @ [?l]))) \<and>
     jn_yielded st' = jn_yielded ?st @ map Some new"
    by (rule joiner_stores_intersection [OF sample_joiner_rep sample_timed sample_post])
      (simp_all add: batches_ids_def data_block_index_threshold_def)
  then show ?thesis unfolding blocks len by (elim exE conjE) (intro exI conjI; assumption)
qed

text \<open>
  C11. The joiner's loop over such a queue is left at some point if and only if the last batch
  leaves something to store: it runs forever exactly when the blocks of the earlier batches came
  out even and the finished batch has no id in common with the follower.
\<close>

theorem joiner_ends_iff:
  assumes "joiner_rep E d base [] [] st" "items_timed E d" "post_answers E"
    and "int (length base + length (batches_ids (us @ [l]))) \<le> data_block_index_threshold"
    and "\<not> jn_finished st" "jn_leader_visitor st = us @ [l]"
    and "\<forall>u \<in> set us. \<not> lite_finished u" "lite_finished l"
    and "jn_dump_data_block_time_span st \<le> 0"
  shows "(\<exists>n st'. joiner_run E n st = (Inr True, st')) \<longleftrightarrow>
     \<not> (block_limit st dvd length (matched d (batches_ids us)) \<and> matched d (lite_example_id l) = [])"
proof -
  let ?q = "length (us @ [l])"
  obtain st' new where r: "joiner_run E ?q st = (Inr False, st')" "joiner_rep E d base new [] st'"
    "jn_leader_visitor st' = []"
    "jn_finished st' \<longleftrightarrow> \<not> (block_limit st dvd length (matched d (batches_ids us)) \<and> matched d (lite_example_id l) = [])"
    by (rule joiner_run_queue [OF assms])
  have none: "jn_maker st' = None" using r(2) by (auto simp: joiner_rep_def split: option.splits)
  show ?thesis
  proof (cases "jn_finished st'")
    case True
    have "joiner_run E (?q + Suc 0) st = (Inr True, st')"
      by (simp only: joiner_run_append r(1)) (simp add: joiner_run_finished [OF True, of E 0, simplified])
    with True r(4) show ?thesis by blast
  next
    case False
    have "joiner_run E n st \<noteq> (Inr True, st'')" for n st''
    proof
      assume a: "joiner_run E n st = (Inr True, st'')"
      have "joiner_run E (n + ?q) st = (Inr True, st'')" by (simp only: joiner_run_append a) simp
      moreover have "joiner_run E (?q + n) st = (Inr False, st')"
        by (simp only: joiner_run_append r(1)) (simp add: joiner_run_idle [OF False r(3) none])
      ultimately show False by (simp add: add.commute)
    qed
    with False r(4) show ?thesis by blast
  qed
qed

theorem joiner_ends_iff_witness:
  "\<not> (\<exists>n st'. joiner_run sample_ext n (sample_joiner 1 follower_dict [sample_batch [''b''] True]) = (Inr True, st'))"
  using joiner_ends_iff [OF sample_joiner_rep sample_timed sample_post, of "[]" "sample_batch [''b''] True" 1
      "[sample_batch [''b''] True]"]
  by (simp add: batches_ids_def data_block_index_threshold_def matched_def follower_dict_def)

subsection \<open>The block manager\<close>

text \<open>
  C12. A manager that is started on a disk where another manager left the metas \<open>ms\<close> finds all
  of them: the binary search recovers their number, nothing on the disk changes, and the new
  manager represents the same list.
\<close>

theorem manager_restart_recovers:
  assumes "dbm_rep E m w ms"
  shows "\<exists>m'. init_data_block_manager E (dbm_partition_id m) (dbm_data_block_dir m) (dbm_data_source_name m) w = (Inr m', w) \<and>
     dbm_rep E m' w ms \<and> fst (acquire_produced_data_block_number E w m') = Inr (int (length ms))"
proof -
  let ?m0 = "\<lparr>dbm_partition_id = dbm_partition_id m, dbm_data_block_dir = dbm_data_block_dir m,
    dbm_data_source_name = dbm_data_source_name m, dbm_buffer = [], dbm_saved = None, dbm_saving = None\<rparr>"
  have eq: "?m0 = m\<lparr>dbm_buffer := [], dbm_saved := None, dbm_saving := None\<rparr>" by (cases m) simp
  have "metas_on_disk E ?m0 w ms"
    unfolding eq using dbm_repD(3) [OF assms] by (simp only: metas_on_disk_fields)
  from init_manager_rep [OF dbm_repD(1,2) [OF assms] this] show ?thesis
    using number_rep by fastforce
qed

theorem manager_restart_recovers_witness:
  "\<exists>m'. init_data_block_manager sample_ext 0 ''d'' ''src'' sample_disk = (Inr m', sample_disk) \<and>
     fst (acquire_produced_data_block_number sample_ext sample_disk m') = Inr 0"
  using manager_restart_recovers [OF store_repD(1) [OF sample_store [of "[]"]]] by (auto simp: sample_manager_def)

text \<open>
  C16. The search over the meta files ends for every predicate and every interval and returns the
  boundary of a run of existing metas: the entry at the result exists (unless the result lies
  just below the interval) and the entry after it does not (unless the result is the upper end).
\<close>

theorem search_finds_boundary:
  assumes "low \<le> high + 1"
  shows "low - 1 \<le> search_saved_index p low high \<and> search_saved_index p low high \<le> high \<and>
     (search_saved_index p low high \<noteq> low - 1 \<longrightarrow> p (search_saved_index p low high)) \<and>
     (search_saved_index p low high \<noteq> high \<longrightarrow> \<not> p (search_saved_index p low high + 1))"
  using search_saved_index_bounds [OF assms] search_saved_index_boundary [OF assms] by blast

theorem search_finds_boundary_witness:
  "search_saved_index (\<lambda>i. i < 5) 0 data_block_index_threshold = 4"
proof -
  have "0 \<le> data_block_index_threshold + 1" by (simp add: data_block_index_threshold_def)
  from search_finds_boundary [OF this, of "\<lambda>i. i < 5"] show ?thesis
    by (auto simp: data_block_index_threshold_def)
qed

text \<open>
  C14. Reading a meta by its index is reading the list: a negative index raises
  \<^verbatim>\<open>IndexError\<close>, an index past the end gives \<^verbatim>\<open>None\<close>, every other index gives the entry, and
  the manager still represents the list, as long as no more metas are stored than the buffer
  keeps.
\<close>

theorem fetch_reads_list:
  assumes "dbm_rep E m w ms" "length ms \<le> removed_items_nums_from_buffer"
  shows "fst (acquire_data_block_meta_by_index E w i m) =
      (if i < 0 then Inl IndexError else if i < int (length ms) then Inr (Some (ms ! nat i)) else Inr None) \<and>
    dbm_rep E (snd (acquire_data_block_meta_by_index E w i m)) w ms"
  using fetch_keeps_rep [OF assms(1)] fetch_small [OF assms(1) _ _ assms(2)] fetch_beyond [OF assms(1)]
    fetch_negative [of i E w m] assms(1)
  by (cases "i < 0"; cases "i < int (length ms)") simp_all

theorem fetch_reads_list_witness:
  "fst (acquire_data_block_meta_by_index sample_ext sample_disk 3 sample_manager) = Inr None"
  using fetch_reads_list [OF store_repD(1) [OF sample_store [of "[]"]], of 3] by simp

text \<open>
  When the buffer is full, a stored meta that is not in it cannot be read: the meta is loaded,
  put last into the buffer and at once evicted again, and the read raises \<^verbatim>\<open>KeyError\<close>.
\<close>

theorem fetch_full_buffer_fails:
  assumes "dbm_rep E m w ms" "0 \<le> i" "i < int (length ms)" "dict_get (dbm_buffer m) i = None"
    and "removed_items_nums_from_buffer \<le> length (dbm_buffer m)"
  shows "fst (acquire_data_block_meta_by_index E w i m) = Inl KeyError"
  using fetch_uncached [OF assms(1-4)] assms(5) by (simp add: Let_def)

definition many_metas :: "data_block_meta list" where
  "many_metas = map (\<lambda>i. empty_data_block_meta\<lparr>data_block_index := int i\<rparr>) [0..<1025]"

definition many_manager :: data_block_manager where
  "many_manager = sample_manager\<lparr>dbm_saved := Some 1024,
     dbm_buffer := map (\<lambda>i. (int i, many_metas ! i)) [0..<1024]\<rparr>"

definition many_disk :: sample_world where
  "many_disk = sample_disk\<lparr>sw_files :=
     map (\<lambda>i. (acquire_data_block_meta_path sample_ext sample_manager (int i), [meta_out (many_metas ! i)])) [0..<1025]\<rparr>"

lemma map_of_map_inj:
  "inj f \<Longrightarrow> map_of (map (\<lambda>i. (f i, g i)) xs) (f k) = (if k \<in> set xs then Some (g k) else None)"
  by (induction xs) (auto dest: injD)

lemma many_rep: "dbm_rep sample_ext many_manager many_disk many_metas"
proof -
  let ?path = "\<lambda>i. acquire_data_block_meta_path sample_ext sample_manager (int i)"
  have inj: "inj ?path" using meta_path_inject [OF sample_names_ok] by (auto intro: injI)
  have path: "acquire_data_block_meta_path sample_ext many_manager = acquire_data_block_meta_path sample_ext sample_manager"
    "data_block_dir_wrap sample_ext many_manager = ''d/partition_0''"
    using sample_dir by (simp_all add: many_manager_def)
  have nodir: "?path i \<noteq> ''d/partition_0''" for i
    using sample_meta_free [of "int i"] by (auto simp: ex_exists_def sample_disk_def)
  have fl: "ex_file sample_ext many_disk (?path i) = (if i < 1025 then Some [meta_out (many_metas ! i)] else None)" for i
    using nodir [of i] map_of_map_inj [OF inj, of "\<lambda>i. [meta_out (many_metas ! i)]" "[0..<1025]" i]
    by (simp add: sw_file_def many_disk_def sample_disk_def)
  have "metas_on_disk sample_ext many_manager many_disk many_metas"
    using fl nodir
    by (simp add: metas_on_disk_def path ex_exists_def many_metas_def many_disk_def sample_disk_def
        data_block_index_threshold_def)
  moreover have "buffer_agrees many_manager many_metas"
    by (auto simp: buffer_agrees_def many_manager_def many_metas_def comp_def distinct_map inj_on_def)
  ultimately show ?thesis
    using sample_world_ok sample_names_ok by (simp add: dbm_rep_def) (simp add: many_manager_def many_metas_def sample_manager_def)
qed

theorem fetch_full_buffer_fails_witness:
  "fst (acquire_data_block_meta_by_index sample_ext many_disk 1024 many_manager) = Inl KeyError"
  by (rule fetch_full_buffer_fails [OF many_rep])
    (auto simp: many_metas_def many_manager_def removed_items_nums_from_buffer_def map_of_eq_None_iff)

subsection \<open>The block maker\<close>

lemma save_all_snoc:
  "save_all (xs @ [(r, e, t)]) mk = and_then (save_all xs mk) (\<lambda>_. save r e t)"
proof (induction xs arbitrary: mk)
  case Nil
  then show ?case by (cases "save r e t mk"; cases "fst (save r e t mk)") (auto simp: then_do_def)
next
  case (Cons x xs)
  obtain r1 e1 t1 where x: "x = (r1, e1, t1)" by (cases x) auto
  show ?case
    by (cases "save r1 e1 t1 mk"; cases "fst (save r1 e1 t1 mk)") (auto simp: x Cons.IH then_do_def)
qed

lemma save_all_times:
  assumes "maker_counts mk" "example_ids (mk_meta mk) = []" "mk_written mk = []" "\<forall>x \<in> set xs. int64_ok (snd (snd x))"
  shows "\<exists>mk'. save_all (map (\<lambda>(r, e, t). (r, e, Some t)) xs) mk = (Inr (), mk') \<and> maker_counts mk' \<and>
     example_ids (mk_meta mk') = map (\<lambda>x. fst (snd x)) xs \<and> mk_written mk' = map fst xs \<and>
     (xs \<noteq> [] \<longrightarrow> start_time (mk_meta mk') = Min ((\<lambda>x. snd (snd x)) ` set xs) \<and>
                   end_time (mk_meta mk') = Max ((\<lambda>x. snd (snd x)) ` set xs))"
  using assms(4)
proof (induction xs rule: rev_induct)
  case Nil
  with assms show ?case by simp
next
  case (snoc x xs)
  obtain r e t where x: "x = (r, e, t)" by (cases x) auto
  obtain mk1 where m1: "save_all (map (\<lambda>(r, e, t). (r, e, Some t)) xs) mk = (Inr (), mk1)" "maker_counts mk1"
     "example_ids (mk_meta mk1) = map (\<lambda>x. fst (snd x)) xs" "mk_written mk1 = map fst xs"
     "xs \<noteq> [] \<longrightarrow> start_time (mk_meta mk1) = Min ((\<lambda>x. snd (snd x)) ` set xs) \<and>
                  end_time (mk_meta mk1) = Max ((\<lambda>x. snd (snd x)) ` set xs)"
    using snoc by auto
  have "int64_ok t" using snoc.prems x by simp
  from save_ok [OF this m1(2), of r e] obtain mk2 where
    m2: "save r e (Some t) mk1 = (Inr (), mk2)" "maker_counts mk2" "mk_written mk2 = mk_written mk1 @ [r]"
      "mk_meta mk2 = (mk_meta mk1)\<lparr>example_ids := example_ids (mk_meta mk1) @ [e],
        start_time := (if example_ids (mk_meta mk1) = [] then t else min t (start_time (mk_meta mk1))),
        end_time := (if example_ids (mk_meta mk1) = [] then t else max t (end_time (mk_meta mk1)))\<rparr>"
    by blast
  have run: "save_all (map (\<lambda>(r, e, t). (r, e, Some t)) (xs @ [x])) mk = (Inr (), mk2)"
    using m1(1) m2(1) by (simp add: x save_all_snoc)
  show ?case
  proof (intro exI [of _ mk2] conjI run m2(2))
    show "xs @ [x] \<noteq> [] \<longrightarrow> start_time (mk_meta mk2) = Min ((\<lambda>x. snd (snd x)) ` set (xs @ [x])) \<and>
        end_time (mk_meta mk2) = Max ((\<lambda>x. snd (snd x)) ` set (xs @ [x]))"
      using m1(3,5) m2(4) x by (cases "xs = []") (simp_all add: min.commute max.commute)
  qed (use m1 m2 x in simp_all)
qed

text \<open>
  C21. Saving examples with event times in the 64 bit range into a new maker always succeeds: the
  meta lists the ids in order, the record file the records in order, the counter equals both
  lengths, and the start and end time of the meta are the least and the greatest event time.
\<close>

theorem maker_meta_describes_records:
  assumes "maker_counts mk" "example_ids (mk_meta mk) = []" "mk_written mk = []" "\<forall>x \<in> set xs. int64_ok (snd (snd x))"
  shows "\<exists>mk'. save_all (map (\<lambda>(r, e, t). (r, e, Some t)) xs) mk = (Inr (), mk') \<and> maker_counts mk' \<and>
     example_ids (mk_meta mk') = map (\<lambda>x. fst (snd x)) xs \<and> mk_written mk' = map fst xs \<and>
     (xs \<noteq> [] \<longrightarrow> start_time (mk_meta mk') = Min ((\<lambda>x. snd (snd x)) ` set xs) \<and>
                   end_time (mk_meta mk') = Max ((\<lambda>x. snd (snd x)) ` set xs))"
  by (rule save_all_times [OF assms])

definition sample_maker :: data_block_maker where
  "sample_maker = opened_maker sample_manager 0 (Some 4) ''d/partition_0/u.tmp''"

theorem maker_meta_describes_records_witness:
  "\<exists>mk'. save_all [(''r1'', ''a'', Some 7), (''r2'', ''b'', Some 3)] sample_maker = (Inr (), mk') \<and>
     start_time (mk_meta mk') = 3 \<and> end_time (mk_meta mk') = 7"
  using maker_meta_describes_records [of sample_maker "[(''r1'', ''a'', 7), (''r2'', ''b'', 3)]"]
  by (auto simp: sample_maker_def opened_maker_def maker_counts_def empty_data_block_meta_def int64_ok_def)

text \<open>
  A \<open>save\<close> that raises (an example without a usable event time) has already added the id and
  the record: whatever is saved into that maker afterwards, its finalizer raises
  \<^verbatim>\<open>AssertionError\<close> and stores nothing.
\<close>

theorem failed_save_spoils_maker:
  assumes "maker_counts mk" "save r e t mk = (Inl ex, mk')"
    and "mk'' = fold (\<lambda>(r, e, t) mk. snd (save r e t mk)) later mk'"
  shows "data_block_finalizer E (mk'', m, w) = (Inl AssertionError, (mk'', m, w))"
proof -
  have "maker_behind mk'"
    by (rule save_raised_behind [OF _ assms(2)]) (use assms(1) in \<open>simp add: maker_counts_def\<close>)
  then have "maker_behind (fold (\<lambda>(r, e, t) mk. snd (save r e t mk)) later mk')"
    by (induction later arbitrary: mk') (auto simp: save_behind)
  with assms(3) show ?thesis by (simp add: finalizer_behind)
qed

theorem failed_save_spoils_maker_witness:
  "fst (data_block_finalizer sample_ext
      (fold (\<lambda>(r, e, t) mk. snd (save r e t mk)) [(''r2'', ''b'', Some 3)] (snd (save ''r1'' ''a'' None sample_maker)),
       sample_manager, sample_disk)) = Inl AssertionError"
proof -
  have "save ''r1'' ''a'' None sample_maker = (Inl TypeError, snd (save ''r1'' ''a'' None sample_maker))"
    by (simp add: save_def)
  moreover have "maker_counts sample_maker"
    by (simp add: sample_maker_def opened_maker_def maker_counts_def empty_data_block_meta_def)
  ultimately show ?thesis by (simp only: failed_save_spoils_maker [OF _ _ refl] fst_conv)
qed

subsection \<open>The raw data loader\<close>

text \<open>
  C22. Loading files whose records can all be read gives a dictionary that maps each example id to
  its last record, in the order of the files and of the records in a file, and nothing else.
\<close>

theorem loader_keeps_last_record:
  assumes "rd_raw_data_iter r = ''TF_RECORD_ITERATOR''" "rd_all_fpath r \<noteq> []" "rd_item_dict r = []"
    and "\<And>f. f \<in> set (rd_all_fpath r) \<Longrightarrow> f \<noteq> [] \<and> ex_file E w f \<noteq> None \<and> ex_file E w f \<noteq> Some [] \<and>
           (\<forall>item \<in> set (the (ex_file E w f)). readable E item)"
  shows "\<exists>d. load_raw_data_to_mem E w r = (Inr (), r\<lparr>rd_item_dict := d, rd_raw_data_stale := True\<rparr>) \<and>
     distinct (map fst d) \<and>
     (\<forall>k. dict_get d k = map_of (rev (map (\<lambda>item. (keyed E item, item))
                            (concat (map (\<lambda>f. the (ex_file E w f)) (rd_all_fpath r))))) k)"
proof -
  let ?items = "concat (map (\<lambda>f. the (ex_file E w f)) (rd_all_fpath r))"
  let ?d = "fold (put_item E) ?items []"
  have "hd (rd_all_fpath r) \<in> set (rd_all_fpath r)" using assms(2) by simp
  then have "?items \<noteq> []" using assms(4) by fastforce
  moreover have "fst ` set ?d = keyed E ` set ?items" by (simp only: fold_put_item_keys) simp
  ultimately have "?d \<noteq> []" by auto
  then have "load_raw_data_to_mem E w r = (Inr (), r\<lparr>rd_item_dict := ?d, rd_raw_data_stale := True\<rparr>)"
    using load_files_fold [OF assms(1,4)] assms(2,3) by (simp add: load_raw_data_to_mem_def)
  moreover have "distinct (map fst ?d)" by (rule fold_put_item_distinct) simp
  moreover have "dict_get ?d k = map_of (rev (map (\<lambda>item. (keyed E item, item)) ?items)) k" for k
    by (simp only: fold_put_item_get) (simp split: option.split)
  ultimately show ?thesis by blast
qed

definition raw_disk :: sample_world where
  "raw_disk = \<lparr>sw_files = [(''raw/f'', [''a;'', ''b;;'', ''a;;;''])], sw_dirs = [''raw''], sw_clock = 0\<rparr>"

theorem loader_keeps_last_record_witness:
  "\<exists>d. fst (load_raw_data_to_mem sample_ext raw_disk (sample_loader [])) = Inr () \<and>
     rd_item_dict (snd (load_raw_data_to_mem sample_ext raw_disk (sample_loader []))) = d \<and>
     dict_get d (KeyBytes ''a'') = Some ''a;;;''"
proof -
  have "\<exists>d. load_raw_data_to_mem sample_ext raw_disk (sample_loader []) =
       (Inr (), (sample_loader [])\<lparr>rd_item_dict := d, rd_raw_data_stale := True\<rparr>) \<and> distinct (map fst d) \<and>
     (\<forall>k. dict_get d k = map_of (rev (map (\<lambda>item. (keyed sample_ext item, item))
         (concat (map (\<lambda>f. the (ex_file sample_ext raw_disk f)) (rd_all_fpath (sample_loader [])))))) k)"
    by (rule loader_keeps_last_record)
      (auto simp: sample_loader_def raw_disk_def sw_file_def readable_def example_id_def read_example_id_def sw_example_def)
  then show ?thesis
    by (auto simp: sample_loader_def raw_disk_def sw_file_def keyed_def example_id_def read_example_id_def sw_example_def)
qed

lemma load_items_unreadable:
  assumes "first \<noteq> Invalid_ExampleId" "\<exists>item \<in> set items. \<not> readable E item"
  shows "fst (load_items E first items d) = Inl TypeError"
  using assms
proof (induction items arbitrary: d)
  case (Cons item items)
  show ?case
  proof (cases "example_id E item")
    case (Inl e)
    then show ?thesis using Cons.prems(1) example_id_Inl [OF Inl] by simp
  next
    case (Inr k)
    then show ?thesis using Cons by (auto simp: readable_def)
  qed
qed simp

text \<open>
  A record whose example id cannot be parsed is not skipped: the handler that should mark it
  invalid raises \<^verbatim>\<open>TypeError\<close> itself, so loading the file fails.
\<close>

theorem unreadable_record_fails_load:
  assumes "ex_file E w fpath = Some rs" "fpath \<noteq> []" "\<exists>item \<in> set rs. \<not> readable E item"
  shows "fst (load_file E w ''TF_RECORD_ITERATOR'' fpath d) = Inl TypeError"
proof -
  from assms(3) obtain r rs' where rs: "rs = r # rs'" by (cases rs) auto
  show ?thesis
  proof (cases "example_id E r")
    case (Inl e)
    then show ?thesis
      using assms rs example_id_Inl [OF Inl]
      by (simp add: load_file_def build_data_iterator_def iterator_registry_def reset_data_iterator_def)
  next
    case (Inr k)
    have "k \<noteq> Invalid_ExampleId" using Inr example_id_never_invalid [of E r] by auto
    moreover have "\<exists>item \<in> set rs'. \<not> readable E item" using assms(3) rs Inr by (auto simp: readable_def)
    ultimately show ?thesis
      using assms rs Inr load_items_unreadable
      by (simp add: load_file_def build_data_iterator_def iterator_registry_def reset_data_iterator_def)
  qed
qed

definition blind_ext :: "sample_world ext" where
  "blind_ext = sample_ext\<lparr>ex_parse_example := (\<lambda>r. if r = ''?'' then None else sw_example r)\<rparr>"

theorem unreadable_record_fails_load_witness:
  "fst (load_file blind_ext (sample_disk\<lparr>sw_files := [(''raw/f'', [''a;'', ''?''])]\<rparr>) ''TF_RECORD_ITERATOR'' ''raw/f'' []) =
     Inl TypeError"
  by (rule unreadable_record_fails_load [where rs = "[''a;'', ''?'']"])
    (auto simp: blind_ext_def sample_disk_def sw_file_def readable_def example_id_def read_example_id_def
      print_exc_with_limit_def)

subsection \<open>The saver\<close>

text \<open>
  C10. A run of the leader's saver over metas in index order stores them all: for every buffered
  meta that is not stored yet it writes the leader's records of its ids, in order, and the meta
  with its block id; metas that an earlier, interrupted run had stored are dropped first, and the
  buffer is empty afterwards.
\<close>

theorem saver_stores_announced_blocks:
  assumes "saver_core E d base new sv" "in_order k (sv_buffer sv)"
    and "k \<le> length (base @ new)" "\<not> sv_state_switch sv \<longrightarrow> k = length (base @ new)"
    and "length (base @ new) \<le> k + length (sv_buffer sv)"
    and "\<forall>b \<in> set (drop (length (base @ new) - k) (sv_buffer sv)). storable d (sv_partition_id sv) b"
    and "int (k + length (sv_buffer sv)) \<le> data_block_index_threshold + 1" "post_answers E"
  shows "\<exists>sv'. run_data_block_saver E sv = (Inr (), sv') \<and> sv_buffer sv' = [] \<and> \<not> sv_state_switch sv' \<and>
     store_rep E (sv_manager sv') (sv_world sv') d base
       (new @ map (named_meta E (sv_manager sv)) (drop (length (base @ new) - k) (sv_buffer sv)))"
proof -
  obtain m' w' where "run_data_block_saver E sv =
        (Inr (), sv\<lparr>sv_manager := m', sv_world := w', sv_buffer := [], sv_state_switch := False\<rparr>)"
    "saver_core E d base (new @ map (named_meta E (sv_manager sv)) (drop (length (base @ new) - k) (sv_buffer sv)))
      (sv\<lparr>sv_manager := m', sv_world := w', sv_buffer := [], sv_state_switch := False\<rparr>)"
    using run_saver_stores [OF assms] by blast
  then show ?thesis by (simp add: saver_core_def)
qed

definition sample_meta :: "int \<Rightarrow> bytes list \<Rightarrow> data_block_meta" where
  "sample_meta i ids = empty_data_block_meta\<lparr>data_block_index := i, example_ids := ids\<rparr>"

theorem saver_stores_announced_blocks_witness:
  "\<exists>sv'. run_data_block_saver sample_ext (sample_saver leader_dict [sample_meta 0 [''a'', ''c'']]) = (Inr (), sv') \<and>
     sv_buffer sv' = []"
proof -
  let ?sv = "sample_saver leader_dict [sample_meta 0 [''a'', ''c'']]"
  have "\<exists>sv'. run_data_block_saver sample_ext ?sv = (Inr (), sv') \<and> sv_buffer sv' = [] \<and> \<not> sv_state_switch sv' \<and>
     store_rep sample_ext (sv_manager sv') (sv_world sv') leader_dict []
       ([] @ map (named_meta sample_ext (sv_manager ?sv)) (drop (length ([] @ [] :: data_block_meta list) - 0) (sv_buffer ?sv)))"
    by (rule saver_stores_announced_blocks [OF sample_saver_core _ _ _ _ _ _ sample_post])
      (simp_all add: sample_saver_def sample_meta_def storable_def empty_data_block_meta_def leader_dict_def
        data_block_index_threshold_def)
  then show ?thesis by blast
qed

text \<open>
  C37. One announced meta with an id that the leader does not have stops the saver for good: every
  run raises \<^verbatim>\<open>TypeError\<close>, stores nothing and leaves that meta at the head of the buffer.
\<close>

theorem saver_stuck_on_unknown_id:
  assumes "saver_core E d base new sv" "sv_buffer sv = b # rest" "in_order (length (base @ new)) (b # rest)"
    and "int (length (base @ new)) \<le> data_block_index_threshold" "partition_id b = sv_partition_id sv"
    and "e \<in> set (example_ids b)" "dict_get d (KeyBytes e) = None"
  shows "fst (run_data_block_saver E (((\<lambda>s. snd (run_data_block_saver E s)) ^^ n) sv)) = Inl TypeError \<and>
     sv_buffer (((\<lambda>s. snd (run_data_block_saver E s)) ^^ n) sv) = b # rest \<and>
     saver_core E d base new (((\<lambda>s. snd (run_data_block_saver E s)) ^^ n) sv)"
proof -
  have step: "fst (run_data_block_saver E s) = Inl TypeError \<and>
      sv_buffer (snd (run_data_block_saver E s)) = b # rest \<and> saver_core E d base new (snd (run_data_block_saver E s)) \<and>
      sv_partition_id (snd (run_data_block_saver E s)) = sv_partition_id s"
    if "saver_core E d base new s" "sv_buffer s = b # rest" "sv_partition_id s = sv_partition_id sv" for s
    using run_saver_stuck [OF that(1,2) assms(3,4) _ assms(6,7)] assms(5) that by auto
  have inv: "saver_core E d base new (((\<lambda>s. snd (run_data_block_saver E s)) ^^ n) sv) \<and>
      sv_buffer (((\<lambda>s. snd (run_data_block_saver E s)) ^^ n) sv) = b # rest \<and>
      sv_partition_id (((\<lambda>s. snd (run_data_block_saver E s)) ^^ n) sv) = sv_partition_id sv"
    by (induction n) (use assms(1,2) step in auto)
  with step show ?thesis by blast
qed

theorem saver_stuck_on_unknown_id_witness:
  "fst (run_data_block_saver sample_ext (snd (run_data_block_saver sample_ext
      (sample_saver leader_dict [sample_meta 0 [''x'']])))) = Inl TypeError"
proof -
  let ?sv = "sample_saver leader_dict [sample_meta 0 [''x'']]"
  have "fst (run_data_block_saver sample_ext (((\<lambda>s. snd (run_data_block_saver sample_ext s)) ^^ 1) ?sv)) = Inl TypeError \<and>
     sv_buffer (((\<lambda>s. snd (run_data_block_saver sample_ext s)) ^^ 1) ?sv) = [sample_meta 0 [''x'']] \<and>
     saver_core sample_ext leader_dict [] [] (((\<lambda>s. snd (run_data_block_saver sample_ext s)) ^^ 1) ?sv)"
    by (rule saver_stuck_on_unknown_id [OF sample_saver_core, where e = "''x''"])
      (simp_all add: sample_saver_def sample_meta_def empty_data_block_meta_def leader_dict_def
        data_block_index_threshold_def)
  then show ?thesis by simp
qed

subsection \<open>The service\<close>

text \<open>
  C23. When the follower has taken everything out of the queue, the leader's finish request is
  answered with finished, and from then on the follower's service refuses every request of the
  partition; while the queue holds a batch, the answer is not finished and the partition stays
  open.
\<close>

theorem follower_finish_closes_partition:
  assumes "request_ok svc (pr_rank_id req) (pr_partition_id req)" "ec_partition_id c = Some (pr_partition_id req)"
  shows "\<exists>c'. FinishPartition example_id_consumer_methods svc req c =
        (Inr \<lparr>fp_code = 0, fp_finished = (am_queue (ec_appender c) = [])\<rparr>, c') \<and>
     (if am_queue (ec_appender c) = []
      then isl (fst (StartPartition example_id_consumer_methods svc req' c')) \<and>
           isl (fst (SyncPartition E example_id_consumer_methods svc sreq c')) \<and>
           isl (fst (FinishPartition example_id_consumer_methods svc req' c'))
      else ec_partition_id c' = ec_partition_id c \<and> am_send_example_finished (ec_appender c'))"
proof (cases "am_queue (ec_appender c) = []")
  case True
  obtain c' where c': "FinishPartition example_id_consumer_methods svc req c =
      (Inr \<lparr>fp_code = 0, fp_finished = True\<rparr>, c')" "ec_partition_id c' = None"
    by (rule ec.finish_idle [OF assms True])
  show ?thesis
    using c' True ec.closed_refuses(1) [OF c'(2), of svc req'] ec.closed_refuses(2) [OF c'(2), of svc req']
      ec.closed_refuses(3) [OF c'(2), of E svc sreq] by auto
next
  case False
  obtain c' where "FinishPartition example_id_consumer_methods svc req c =
      (Inr \<lparr>fp_code = 0, fp_finished = False\<rparr>, c')" "ec_partition_id c' = ec_partition_id c"
      "am_send_example_finished (ec_appender c')"
    by (rule ec.finish_busy [OF assms False])
  with False show ?thesis by auto
qed

theorem follower_finish_closes_partition_witness:
  "\<exists>c'. FinishPartition example_id_consumer_methods sample_service \<lparr>pr_rank_id = 0, pr_partition_id = 0\<rparr>
      (init_example_id_consumer 0 []) = (Inr \<lparr>fp_code = 0, fp_finished = True\<rparr>, c')"
  using follower_finish_closes_partition [of sample_service "\<lparr>pr_rank_id = 0, pr_partition_id = 0\<rparr>"
      "init_example_id_consumer 0 []" "\<lparr>pr_rank_id = 0, pr_partition_id = 0\<rparr>" sample_ext
      "\<lparr>sq_rank_id = 0, sq_partition_id = 0, sq_content_bytes = [], sq_compressed = False\<rparr>"]
  by (auto simp: request_ok_def sample_service_def init_example_id_consumer_def init_append_examples_manager_def)

text \<open>
  C24. Both services check a request before they touch any state: a request with another rank, a
  negative partition or another partition raises \<^verbatim>\<open>AssertionError\<close> in each of the three
  procedures and changes nothing.
\<close>

theorem service_refuses_foreign_request:
  assumes "\<not> request_ok svc rank pid"
  shows "StartPartition C svc \<lparr>pr_rank_id = rank, pr_partition_id = pid\<rparr> s = (Inl AssertionError, s) \<and>
     FinishPartition C svc \<lparr>pr_rank_id = rank, pr_partition_id = pid\<rparr> s = (Inl AssertionError, s) \<and>
     SyncPartition E C svc \<lparr>sq_rank_id = rank, sq_partition_id = pid, sq_content_bytes = bytes, sq_compressed = z\<rparr> s =
       (Inl AssertionError, s)"
  using assms by (simp add: StartPartition_def FinishPartition_def SyncPartition_def wraps_refuse)

theorem service_refuses_foreign_request_witness:
  "fst (FinishPartition example_id_consumer_methods sample_service \<lparr>pr_rank_id = 0, pr_partition_id = 7\<rparr>
      (init_example_id_consumer 0 [])) = Inl AssertionError"
  using service_refuses_foreign_request [of sample_service 0 7 example_id_consumer_methods "init_example_id_consumer 0 []"
      sample_ext "[]" False]
  by (simp add: request_ok_def sample_service_def)

subsection \<open>The producers\<close>

text \<open>
  C15. Against the follower's service the leader's sender always succeeds and delivers its ids in
  batches that follow what the follower has already received: every batch but the last has
  exactly one id more than the configured number and is not marked finished, the last has at
  most the configured number, is marked finished and is sent even when it is empty, and the
  batches together hold the leader's ids in order.
\<close>

theorem sender_delivers_batches:
  assumes "ec_received E svc c xs" "int64_ok (am_next_example_index (ec_appender c))"
    and "il_partition_id il = svc_partition_id svc"
    and "\<forall>exam \<in> snd ` set (rd_item_dict (il_loader il)). sendable E exam"
  shows "\<exists>c' us l. example_id_sender E (service_peer E example_id_consumer_methods svc) (svc_rank_id svc) (il, c) =
        (Inr False, (il\<lparr>il_partition_finished := True\<rparr>, c')) \<and>
     am_queue (ec_appender c') = xs @ us @ [l] \<and>
     (\<forall>u \<in> set us. \<not> lite_finished u \<and> length (lite_example_id u) = sync_example_id_nums + 1) \<and>
     lite_finished l \<and> length (lite_example_id l) \<le> sync_example_id_nums \<and>
     batches_ids (us @ [l]) = leader_ids E (rd_item_dict (il_loader il))"
proof -
  let ?items = "map snd (rd_item_dict (il_loader il))" and ?n = "Suc sync_example_id_nums"
  let ?us = "map (lite_of E (svc_partition_id svc) False) (full_batches ?n ?items)"
  let ?l = "lite_of E (svc_partition_id svc) True (last_batch ?n ?items)"
  have i64: "int64_ok (\<Sum>x \<leftarrow> xs. int (length (lite_example_id x)) - 1)"
    using assms(1,2) by (simp add: ec_received_def)
  obtain c' where c': "example_id_sender E (service_peer E example_id_consumer_methods svc) (svc_rank_id svc) (il, c) =
        (Inr False, (il\<lparr>il_partition_finished := True\<rparr>, c'))"
    "ec_received E svc c' (xs @ leader_batches E (svc_partition_id svc) ?items)"
    by (rule follower.sender_delivers [OF assms(1) i64 assms(3,4)])
  have "am_queue (ec_appender c') = xs @ ?us @ [?l]"
    using c'(2) by (simp add: ec_received_def leader_batches_def)
  moreover have "\<forall>u \<in> set ?us. \<not> lite_finished u \<and> length (lite_example_id u) = sync_example_id_nums + 1"
    by (auto simp: lite_of_def full_batches_length)
  moreover have "length (lite_example_id ?l) \<le> sync_example_id_nums"
    using last_batch_length [of ?n ?items] by (simp add: lite_of_def)
  moreover have "batches_ids (?us @ [?l]) = leader_ids E (rd_item_dict (il_loader il))"
    using batches_ids_leader [of E "svc_partition_id svc" ?items] by (simp add: leader_batches_def leader_ids_def)
  moreover have "lite_finished ?l" by (simp add: lite_of_def)
  ultimately show ?thesis using c'(1) by blast
qed

theorem sender_delivers_batches_witness:
  "\<exists>c'. example_id_sender sample_ext (service_peer sample_ext example_id_consumer_methods sample_service) 0
       (sample_loading leader_dict, init_example_id_consumer 0 []) =
      (Inr False, ((sample_loading leader_dict)\<lparr>il_partition_finished := True\<rparr>, c'))"
proof -
  note ps = parties_startD [OF sample_parties_start [of 1], unfolded sample_system_def, simplified]
  have "\<forall>exam \<in> snd ` set (rd_item_dict (il_loader (sample_loading leader_dict))). sendable sample_ext exam"
    using ps(9) by (auto simp: sample_loading_def sample_loader_def)
  from sender_delivers_batches [OF ps(10) _ _ this] show ?thesis
    by (auto simp: init_example_id_consumer_def init_append_examples_manager_def int64_ok_def sample_loading_def
        sample_service_def)
qed

text \<open>
  C39. The follower never tells the leader that it is done: no call of the meta sender, whatever
  it finds in the store and whether or not it raises, sends the finish request, so the leader's
  saver stays open and the producer is never finished.
\<close>

theorem meta_sender_never_finishes:
  assumes "bc_open svc (js_leader_consumer js)" "\<not> dw_data_block_producer_finished (js_follower_wrap js)"
  shows "bc_open svc (js_leader_consumer (snd (follower_send_step E svc po n js))) \<and>
     \<not> dw_data_block_producer_finished (js_follower_wrap (snd (follower_send_step E svc po n js)))"
proof -
  obtain r dw c where r: "send_data_block_meta_processor E (service_peer E data_block_consumer_methods svc) po n
      (js_follower_wrap js, js_leader_consumer js) = (r, (dw, c))" by (metis prod.collapse)
  have "bc_open svc c \<and> \<not> dw_data_block_producer_finished dw"
    using open_leader.send_processor_open [OF assms, of E E po n] r by simp
  then show ?thesis by (cases r) (simp_all add: follower_send_step_def r)
qed

theorem meta_sender_never_finishes_witness:
  "bc_open sample_service (js_leader_consumer (snd (follower_send_step sample_ext sample_service sample_options 9
     (sample_system 1))))"
  using meta_sender_never_finishes [of sample_service "sample_system 1" sample_ext sample_options 9]
  by (simp add: bc_open_def sample_system_def sample_consumer_def sample_saver_def sample_service_def sample_wrap_def)

subsection \<open>Starting the server\<close>

text \<open>
  With the default value of the option for the raw data iterator, which is not the name of an
  iterator class, the server never comes up, in either role and on any disk.
\<close>

theorem default_iterator_never_starts:
  "isl (fst (run_task E (server_args_defaults rank pid src dir raw role) w))"
proof -
  have "isl (fst (init_raw_data_loader E raw ''TF_DATASET'' mode w))" for mode
    by (rule loader_unknown) (simp add: iterator_registry_def)
  then have "isl (fst (init_data_join E rank jo ds w))"
    if "jo_raw_data_iter jo = ''TF_DATASET''" "ds_raw_data_dir ds = raw" for jo ds
  proof -
    obtain e w' where "init_raw_data_loader E raw ''TF_DATASET'' (ds_mode ds) w = (Inl e, w')"
      using \<open>\<And>mode. isl (fst (init_raw_data_loader E raw ''TF_DATASET'' mode w))\<close> [of "ds_mode ds"]
      by (metis isl_def prod.collapse)
    with that show ?thesis by (simp add: init_data_join_def init_raw_data_loading_object_def)
  qed
  then show ?thesis by (auto simp: run_task_def server_args_defaults_def)
qed

end
