(* ===== verification/Join_Server.thy ===== *)
theory Join_Server
  imports Join_System
begin

section \<open>Channel, processors and the life of the server\<close>

text \<open>
  The channel to the peer (\<^verbatim>\<open>proxy/data_join_channel.py\<close>), the start and stop of the processors of a role
  (\<^verbatim>\<open>example_id_producer.py\<close>, \<^verbatim>\<open>data_block_producer.py\<close>, \<^verbatim>\<open>data_join_manager.py\<close>) and \<^verbatim>\<open>DataJoinService\<close> of \<^verbatim>\<open>data_join_server.py\<close>. gRPC's
  channel is what it does with a call: the address it goes to, its details and its requests. The
  class \<^verbatim>\<open>ProcessorManager\<close> is not part of the repository: the calls of its methods are recorded in the order
  in which they are made.
\<close>

subsection \<open>The channel\<close>

record call_details =
  cd_method :: string
  cd_timeout :: "int option"
  cd_metadata :: "(string \<times> string) list option"
  cd_credentials :: "string option"

text \<open>An interceptor function gives the new details, the requests and what is done to the response.\<close>

type_synonym ('q, 'r) interceptor =
  "call_details \<Rightarrow> 'q list \<Rightarrow> bool \<Rightarrow> bool \<Rightarrow> call_details \<times> 'q list \<times> ('r \<Rightarrow> 'r) option"

definition postprocess :: "('r \<Rightarrow> 'r) option \<Rightarrow> 'r \<Rightarrow> 'r" where
  "postprocess f response = (case f of None \<Rightarrow> response | Some g \<Rightarrow> g response)"

definition intercept_unary_unary ::
  "('q, 'r) interceptor \<Rightarrow> (call_details \<Rightarrow> 'q \<Rightarrow> 'r) \<Rightarrow> call_details \<Rightarrow> 'q \<Rightarrow> 'r" where
  "intercept_unary_unary fn continuation details request =
     (case fn details [request] False False of (d, reqs, post) \<Rightarrow> postprocess post (continuation d (hd reqs)))"

definition intercept_unary_stream ::
  "('q, 'r) interceptor \<Rightarrow> (call_details \<Rightarrow> 'q \<Rightarrow> 'r) \<Rightarrow> call_details \<Rightarrow> 'q \<Rightarrow> 'r" where
  "intercept_unary_stream fn continuation details request =
     (case fn details [request] False True of (d, reqs, post) \<Rightarrow> postprocess post (continuation d (hd reqs)))"

definition intercept_stream_unary ::
  "('q, 'r) interceptor \<Rightarrow> (call_details \<Rightarrow> 'q list \<Rightarrow> 'r) \<Rightarrow> call_details \<Rightarrow> 'q list \<Rightarrow> 'r" where
  "intercept_stream_unary fn continuation details requests =
     (case fn details requests True False of (d, reqs, post) \<Rightarrow> postprocess post (continuation d reqs))"

definition intercept_stream_stream ::
  "('q, 'r) interceptor \<Rightarrow> (call_details \<Rightarrow> 'q list \<Rightarrow> 'r) \<Rightarrow> call_details \<Rightarrow> 'q list \<Rightarrow> 'r" where
  "intercept_stream_stream fn continuation details requests =
     (case fn details requests True True of (d, reqs, post) \<Rightarrow> postprocess post (continuation d reqs))"

definition add_header_interceptor :: "string \<Rightarrow> string \<Rightarrow> ('q, 'r) interceptor" where
  "add_header_interceptor add_header add_value details requests request_streaming response_streaming =
     (details\<lparr>cd_metadata := Some ((case cd_metadata details of None \<Rightarrow> [] | Some m \<Rightarrow> m) @ [(add_header, add_value)])\<rparr>, requests, None)"

datatype channel = Insecure string | WithHeader channel string string

datatype mode_type = UNKNOWN | REMOTE

text \<open>\<open>valid\<close> is \<^verbatim>\<open>address_valid_checker\<close>, \<open>inner_proxy\<close> the variable \<^verbatim>\<open>INTERNAL_PROXY\<close> (empty when it is not set).\<close>

definition create_data_join_channel :: "(string \<Rightarrow> bool) \<Rightarrow> string \<Rightarrow> string \<Rightarrow> mode_type \<Rightarrow> exn + channel" where
  "create_data_join_channel valid inner_proxy peer mode =
     (if valid peer then Inr (Insecure peer)
      else if mode = REMOTE
      then if inner_proxy = [] then Inl GenericException else Inr (WithHeader (Insecure inner_proxy) ''uuid'' peer)
      else Inl GenericException)"

text \<open>A call on a channel; \<open>net\<close> makes a call at an address.\<close>

fun unary_call :: "(string \<Rightarrow> call_details \<Rightarrow> 'q \<Rightarrow> 'r) \<Rightarrow> channel \<Rightarrow> call_details \<Rightarrow> 'q \<Rightarrow> 'r" where
  "unary_call net (Insecure address) = net address"
| "unary_call net (WithHeader ch h v) = intercept_unary_unary (add_header_interceptor h v) (unary_call net ch)"

fun stream_call :: "(string \<Rightarrow> call_details \<Rightarrow> 'q list \<Rightarrow> 'r) \<Rightarrow> channel \<Rightarrow> call_details \<Rightarrow> 'q list \<Rightarrow> 'r" where
  "stream_call net (Insecure address) = net address"
| "stream_call net (WithHeader ch h v) = intercept_stream_stream (add_header_interceptor h v) (stream_call net ch)"

subsection \<open>Processors\<close>

datatype processor_call =
    MakeProcessor string nat
  | ActiveProcessor string
  | InactiveProcessor string
  | EnableProcessor string
  | BuildParameter string

record processors =
  pc_started :: bool
  pc_routine :: "string list" \<comment> \<open>the keys of \<^verbatim>\<open>_processor_routine\<close>\<close>
  pc_calls :: "processor_call list"

definition no_processors :: processors where
  "no_processors = \<lparr>pc_started = False, pc_routine = [], pc_calls = []\<rparr>"

definition routine_update :: "(string \<times> nat) list \<Rightarrow> processors \<Rightarrow> processors" where
  "routine_update ps p = p\<lparr>pc_routine := pc_routine p @ filter (\<lambda>n. n \<notin> set (pc_routine p)) (map fst ps),
     pc_calls := pc_calls p @ map (\<lambda>(n, i). MakeProcessor n i) ps\<rparr>"

definition activate_all :: "processors \<Rightarrow> processors" where
  "activate_all p = p\<lparr>pc_calls := pc_calls p @ map ActiveProcessor (pc_routine p), pc_started := True\<rparr>"

definition enable_processor :: "string \<Rightarrow> exn \<Rightarrow> processors \<Rightarrow> (unit, processors) eff" where
  "enable_processor name missing p =
     (if name \<in> set (pc_routine p) then (Inr (), p\<lparr>pc_calls := pc_calls p @ [EnableProcessor name]\<rparr>) else (Inl missing, p))"

definition stop_processors :: "processors \<Rightarrow> processors" where
  "stop_processors p = p\<lparr>pc_started := False, pc_calls := pc_calls p @ map InactiveProcessor (pc_routine p)\<rparr>"

text \<open>The leader's producer.\<close>

definition ep_start_processors :: "processors \<Rightarrow> (unit, processors) eff" where
  "ep_start_processors p =
     (if pc_started p then (Inr (), p)
      else enable_processor ''example_id_sender_processor'' KeyError
             (activate_all (routine_update [(''example_id_sender_processor'', 6)] p)))"

definition impl_send_example_id_factor :: "'l option \<Rightarrow> processors \<Rightarrow> (bool, processors) eff" where
  "impl_send_example_id_factor init_loading p =
     (if init_loading \<noteq> None
      then if ''example_id_sender_processor'' \<in> set (pc_routine p)
           then (Inr True, p\<lparr>pc_calls := pc_calls p @ [BuildParameter ''example_id_sender_processor'']\<rparr>)
           else (Inl KeyError, p)
      else (Inr False, p))"

text \<open>The follower's producer; \<open>built\<close> is the outcome of the construction of the joiner.\<close>

definition dp_start_processors :: "processors \<Rightarrow> (unit, processors) eff" where
  "dp_start_processors p =
     (if pc_started p then (Inr (), p)
      else (Inr (), activate_all (routine_update [(''build_data_joiner'', 6), (''data_joiner'', 5), (''data_block_meta_sender'', 5)] p)))"

definition build_data_joiner_processor ::
  "exn + 'j \<Rightarrow> 'j option \<times> processors \<Rightarrow> (unit, 'j option \<times> processors) eff" where
  "build_data_joiner_processor built s =
     (case built of
        Inl e \<Rightarrow> (Inl e, s)
      | Inr j \<Rightarrow>
          (case s of
             (Some _, p) \<Rightarrow> (Inl AssertionError, s)
           | (None, p) \<Rightarrow>
               (case enable_processor ''data_joiner'' AttributeError p of
                  (Inl e, p1) \<Rightarrow> (Inl e, (Some j, p1))
                | (Inr _, p1) \<Rightarrow>
                    (case enable_processor ''data_block_meta_sender'' AttributeError p1 of (r, p2) \<Rightarrow> (r, (Some j, p2))))))"

definition enable_build_data_joiner_processor :: "'j option \<times> processors \<Rightarrow> (unit, 'j option \<times> processors) eff" where
  "enable_build_data_joiner_processor s =
     (case enable_processor ''build_data_joiner'' AttributeError (snd s) of (r, p) \<Rightarrow> (r, (None, p)))"

definition impl_build_data_joiner_factor :: "'j option \<times> processors \<Rightarrow> bool" where
  "impl_build_data_joiner_factor s \<longleftrightarrow> fst s = None"

definition impl_joiner_factor :: "string \<Rightarrow> 'j option \<times> processors \<Rightarrow> (bool, 'j option \<times> processors) eff" where
  "impl_joiner_factor name s =
     (case s of
        (None, p) \<Rightarrow> (Inr False, s)
      | (Some j, p) \<Rightarrow>
          if name \<in> set (pc_routine p) then (Inr True, (Some j, p\<lparr>pc_calls := pc_calls p @ [BuildParameter name]\<rparr>))
          else (Inl AttributeError, s))"

definition impl_data_join_factor :: "'j option \<times> processors \<Rightarrow> (bool, 'j option \<times> processors) eff" where
  "impl_data_join_factor = impl_joiner_factor ''data_joiner''"

definition impl_send_data_block_meta_factor :: "'j option \<times> processors \<Rightarrow> (bool, 'j option \<times> processors) eff" where
  "impl_send_data_block_meta_factor = impl_joiner_factor ''data_block_meta_sender''"

subsection \<open>DataJoin and DataJoinService\<close>

record 'w join_service =
  sv_leader :: bool
  sv_producer :: processors
  sv_consumer :: "'w data_block_consumer" \<comment> \<open>of the leader\<close>
  sv_serving :: bool \<comment> \<open>the gRPC server\<close>
  sv_started :: bool \<comment> \<open>\<^verbatim>\<open>_data_join_server_started\<close>\<close>

definition start_data_join_processor :: "'w join_service \<Rightarrow> (unit, 'w join_service) eff" where
  "start_data_join_processor s =
     (case (if sv_leader s then ep_start_processors else dp_start_processors) (sv_producer s) of
        (Inl e, p) \<Rightarrow> (Inl e, s\<lparr>sv_producer := p\<rparr>)
      | (Inr _, p) \<Rightarrow>
          if sv_leader s
          then case bc_start_processors (sv_consumer s) of (r, c) \<Rightarrow> (r, s\<lparr>sv_producer := p, sv_consumer := c\<rparr>)
          else (Inr (), s\<lparr>sv_producer := p\<rparr>))"

definition stop_data_join_processor :: "'w join_service \<Rightarrow> 'w join_service" where
  "stop_data_join_processor s =
     (let s1 = s\<lparr>sv_producer := stop_processors (sv_producer s)\<rparr>
      in if sv_leader s then s1\<lparr>sv_consumer := bc_stop_processors (sv_consumer s)\<rparr> else s1)"

definition start_data_join_service :: "'w join_service \<Rightarrow> (unit, 'w join_service) eff" where
  "start_data_join_service s =
     (if sv_started s then (Inr (), s)
      else case start_data_join_processor (s\<lparr>sv_serving := True\<rparr>) of
             (Inl e, s1) \<Rightarrow> (Inl e, s1)
           | (Inr _, s1) \<Rightarrow> (Inr (), s1\<lparr>sv_started := True\<rparr>))"

text \<open>The first statement of the stop calls a method \<^verbatim>\<open>stop\<close> of the servicer, which \<^verbatim>\<open>DataJoin\<close> does not have.\<close>

definition stop_data_join_service :: "'w join_service \<Rightarrow> (unit, 'w join_service) eff" where
  "stop_data_join_service s = (if sv_started s then (Inl AttributeError, s) else (Inr (), s))"

text \<open>\<^verbatim>\<open>wait_for_termination\<close> returns when the server has ended.\<close>

definition run_service :: "'w join_service \<Rightarrow> (unit, 'w join_service) eff" where
  "run_service s = and_then (start_data_join_service s) (\<lambda>_ s1. stop_data_join_service (s1\<lparr>sv_serving := False\<rparr>))"

section \<open>Properties of the server\<close>

lemma header_once:
  "intercept_unary_unary (add_header_interceptor h v) k d q =
     k (d\<lparr>cd_metadata := Some ((case cd_metadata d of None \<Rightarrow> [] | Some m \<Rightarrow> m) @ [(h, v)])\<rparr>) q"
  "intercept_unary_stream (add_header_interceptor h v) k d q =
     k (d\<lparr>cd_metadata := Some ((case cd_metadata d of None \<Rightarrow> [] | Some m \<Rightarrow> m) @ [(h, v)])\<rparr>) q"
  "intercept_stream_unary (add_header_interceptor h v) k' d qs =
     k' (d\<lparr>cd_metadata := Some ((case cd_metadata d of None \<Rightarrow> [] | Some m \<Rightarrow> m) @ [(h, v)])\<rparr>) qs"
  "intercept_stream_stream (add_header_interceptor h v) k' d qs =
     k' (d\<lparr>cd_metadata := Some ((case cd_metadata d of None \<Rightarrow> [] | Some m \<Rightarrow> m) @ [(h, v)])\<rparr>) qs"
  by (simp_all add: intercept_unary_unary_def intercept_unary_stream_def intercept_stream_unary_def intercept_stream_stream_def
      add_header_interceptor_def postprocess_def)

text \<open>
  The channel to a peer: a valid address is called directly; any other name is called through
  the internal proxy with the name as the last header \<^verbatim>\<open>uuid\<close>, and method, timeout, credentials, the other headers
  and the requests of the call are kept, for single requests and for streams. Without a proxy, or with
  another mode, there is no channel.
\<close>

theorem channel_reaches_peer:
  "(valid peer \<longrightarrow> create_data_join_channel valid proxy peer mode = Inr (Insecure peer)) \<and>
   (\<not> valid peer \<and> mode = REMOTE \<and> proxy \<noteq> [] \<longrightarrow> (\<exists>ch. create_data_join_channel valid proxy peer mode = Inr ch \<and>
      (\<forall>net d q. unary_call net ch d q =
         net proxy (d\<lparr>cd_metadata := Some ((case cd_metadata d of None \<Rightarrow> [] | Some m \<Rightarrow> m) @ [(''uuid'', peer)])\<rparr>) q) \<and>
      (\<forall>net d qs. stream_call net ch d qs =
         net proxy (d\<lparr>cd_metadata := Some ((case cd_metadata d of None \<Rightarrow> [] | Some m \<Rightarrow> m) @ [(''uuid'', peer)])\<rparr>) qs))) \<and>
   (\<not> valid peer \<and> (mode \<noteq> REMOTE \<or> proxy = []) \<longrightarrow> create_data_join_channel valid proxy peer mode = Inl GenericException)"
  by (auto simp: create_data_join_channel_def header_once)

theorem channel_reaches_peer_witness:
  "\<exists>ch. create_data_join_channel (\<lambda>_. False) ''proxy:1'' ''bank'' REMOTE = Inr ch \<and>
     unary_call (\<lambda>a d q. (a, cd_metadata d, q)) ch \<lparr>cd_method = ''m'', cd_timeout = None, cd_metadata = None, cd_credentials = None\<rparr> ''q'' =
       (''proxy:1'', Some [(''uuid'', ''bank'')], ''q'')"
proof -
  obtain ch where "create_data_join_channel (\<lambda>_. False) ''proxy:1'' ''bank'' REMOTE = Inr ch"
    "\<forall>(net :: string \<Rightarrow> call_details \<Rightarrow> string \<Rightarrow> string \<times> (string \<times> string) list option \<times> string) d q. unary_call net ch d q =
       net ''proxy:1'' (d\<lparr>cd_metadata := Some ((case cd_metadata d of None \<Rightarrow> [] | Some m \<Rightarrow> m) @ [(''uuid'', ''bank'')])\<rparr>) q"
    using channel_reaches_peer [of "\<lambda>_. False" "''bank''" "''proxy:1''" REMOTE] by auto
  then show ?thesis by (intro exI [of _ ch]) simp
qed

definition fresh_service :: "'w join_service \<Rightarrow> bool" where
  "fresh_service s \<longleftrightarrow> sv_producer s = no_processors \<and> \<not> sv_started s \<and> \<not> bc_routine (sv_consumer s) \<and> \<not> bc_processor_started (sv_consumer s)"

definition activated :: "'w join_service \<Rightarrow> string list" where
  "activated s = (if sv_leader s then [''example_id_sender_processor''] else [''build_data_joiner'', ''data_joiner'', ''data_block_meta_sender''])"

lemma start_fresh:
  assumes "fresh_service s"
  obtains s' where "start_data_join_processor s = (Inr (), s')" "pc_started (sv_producer s')" "pc_routine (sv_producer s') = activated s"
    "set (map ActiveProcessor (activated s)) \<subseteq> set (pc_calls (sv_producer s'))" "\<forall>n. InactiveProcessor n \<notin> set (pc_calls (sv_producer s'))"
    "bc_routine (sv_consumer s') = sv_leader s" "bc_processor_started (sv_consumer s') = sv_leader s"
    "sv_leader s' = sv_leader s" "sv_started s' = sv_started s"
proof -
  note defs = start_data_join_processor_def fresh_service_def no_processors_def ep_start_processors_def dp_start_processors_def
    routine_update_def activate_all_def enable_processor_def bc_start_processors_def activated_def
  show thesis using assms by (cases "sv_leader s") (rule that [of "snd (start_data_join_processor s)"]; simp add: defs)+
qed

text \<open>
  A data join server never shuts down cleanly: when its gRPC server has ended, the stop raises
  \<^verbatim>\<open>AttributeError\<close> as its first action, and all processors that were activated stay active.
\<close>

theorem service_shutdown_raises:
  assumes "fresh_service s"
  shows "\<exists>s'. run_service s = (Inl AttributeError, s') \<and> sv_started s' \<and>
     set (map ActiveProcessor (activated s)) \<subseteq> set (pc_calls (sv_producer s')) \<and>
     (\<forall>n. InactiveProcessor n \<notin> set (pc_calls (sv_producer s'))) \<and> bc_routine (sv_consumer s') = sv_leader s"
proof -
  have fresh: "fresh_service (s\<lparr>sv_serving := True\<rparr>)" using assms by (simp add: fresh_service_def)
  obtain s1 where "start_data_join_processor (s\<lparr>sv_serving := True\<rparr>) = (Inr (), s1)"
    "set (map ActiveProcessor (activated s)) \<subseteq> set (pc_calls (sv_producer s1))" "\<forall>n. InactiveProcessor n \<notin> set (pc_calls (sv_producer s1))"
    "bc_routine (sv_consumer s1) = sv_leader s"
    by (rule start_fresh [OF fresh]) (simp add: activated_def)
  with assms show ?thesis by (simp add: run_service_def start_data_join_service_def stop_data_join_service_def fresh_service_def)
qed

definition sample_join_service :: "unit join_service" where
  "sample_join_service = \<lparr>sv_leader = True, sv_producer = no_processors,
     sv_consumer = \<lparr>bc_wrap = None, bc_routine = False, bc_processor_started = False\<rparr>, sv_serving = False, sv_started = False\<rparr>"

lemma sample_fresh: "fresh_service sample_join_service"
  by (simp add: fresh_service_def sample_join_service_def)

theorem service_shutdown_raises_witness:
  "\<exists>s'. run_service sample_join_service = (Inl AttributeError, s') \<and> ActiveProcessor ''example_id_sender_processor'' \<in> set (pc_calls (sv_producer s'))"
  using service_shutdown_raises [OF sample_fresh] by (auto simp: activated_def sample_join_service_def)

text \<open>
  After a stop and a new start of the processors the leader's saver does not run again: the
  consumer still counts as started, so its processor is not created, while the sender of the ids is.
\<close>

theorem restarted_leader_saves_nothing:
  assumes "fresh_service s" "sv_leader s" "start_data_join_processor s = (Inr (), s1)"
  shows "\<exists>s2. start_data_join_processor (stop_data_join_processor s1) = (Inr (), s2) \<and> pc_started (sv_producer s2) \<and>
     bc_routine (sv_consumer s1) \<and> \<not> bc_routine (sv_consumer s2)"
proof -
  obtain s' where s': "start_data_join_processor s = (Inr (), s')" "pc_started (sv_producer s')" "pc_routine (sv_producer s') = activated s"
    "bc_routine (sv_consumer s') = sv_leader s" "bc_processor_started (sv_consumer s') = sv_leader s" "sv_leader s' = sv_leader s"
    by (rule start_fresh [OF assms(1)])
  then have "s1 = s'" using assms(3) by simp
  with s' assms(2) show ?thesis
    by (simp add: start_data_join_processor_def stop_data_join_processor_def bc_start_processors_def bc_stop_processors_def Let_def
        ep_start_processors_def stop_processors_def routine_update_def activate_all_def enable_processor_def activated_def)
qed

theorem restarted_leader_saves_nothing_witness:
  "\<exists>s1 s2. start_data_join_processor sample_join_service = (Inr (), s1) \<and>
     start_data_join_processor (stop_data_join_processor s1) = (Inr (), s2) \<and> \<not> bc_routine (sv_consumer s2)"
proof -
  obtain s1 where "start_data_join_processor sample_join_service = (Inr (), s1)" by (rule start_fresh [OF sample_fresh])
  moreover have "sv_leader sample_join_service" by (simp add: sample_join_service_def)
  ultimately show ?thesis using restarted_leader_saves_nothing [OF sample_fresh] by blast
qed

end
