(* ===== verification/Psi_Files.thy ===== *)
theory Psi_Files
  imports DJ_Prelude "HOL-Library.Char_ord" "HOL-Library.List_Lexorder"
begin

section \<open>Paths, formats and files of the intersection job\<close>

text \<open>
  The functions on paths and files of \<^verbatim>\<open>PSI/psi_actors.py\<close>. Strings are the UTF-8 octets of the Python
  strings, so the order of strings is the order of their code points. Of \<^verbatim>\<open>pyarrow\<close> (tables, csv,
  parquet, file systems) only the operations that the code calls appear: those on tables are the
  fields of the record \<open>arrow\<close> over an arbitrary type of tables, the listing of a file system is the
  record \<open>filesystem\<close>. The contents of the files are the state; a file is addressed by the name
  node of its file system (empty for the local one) and its path.
\<close>

subsection \<open>Strings\<close>

definition startswith :: "string \<Rightarrow> string \<Rightarrow> bool" where
  "startswith s p \<longleftrightarrow> take (length p) s = p"

definition endswith :: "string \<Rightarrow> string \<Rightarrow> bool" where
  "endswith s p \<longleftrightarrow> length p \<le> length s \<and> drop (length s - length p) s = p"

definition lower_char :: "char \<Rightarrow> char" where
  "lower_char c = (let n = of_char c :: nat in if 65 \<le> n \<and> n \<le> 90 then char_of (n + 32) else c)"

definition lower :: "string \<Rightarrow> string" where
  "lower s = map lower_char s"

text \<open>\<^verbatim>\<open>s.split(c)\<close>, and the paths that \<^verbatim>\<open>rmtree\<close> of a directory removes.\<close>

fun split_on :: "char \<Rightarrow> string \<Rightarrow> string list" where
  "split_on c [] = [[]]"
| "split_on c (x # xs) =
     (if x = c then [] # split_on c xs
      else (case split_on c xs of [] \<Rightarrow> [[x]] | w # ws \<Rightarrow> (x # w) # ws))"

definition inside :: "string \<Rightarrow> string \<Rightarrow> bool" where
  "inside d p \<longleftrightarrow> p = d \<or> startswith p (path_join d [])"

lemma split_on_plain: "c \<notin> set xs \<Longrightarrow> split_on c xs = [xs]"
  by (induction xs) auto

lemma split_on_two: "c \<notin> set xs \<Longrightarrow> c \<notin> set ys \<Longrightarrow> split_on c (xs @ c # ys) = [xs, ys]"
  by (induction xs) (auto simp: split_on_plain)

lemma startswith_append [simp]: "startswith (p @ s) p"
  by (simp add: startswith_def)

lemma endswith_append [simp]: "endswith (s @ p) p"
  by (simp add: endswith_def)

lemma endswith_iff: "endswith s p \<longleftrightarrow> (\<exists>t. s = t @ p)"
proof
  assume "endswith s p"
  then have "s = take (length s - length p) s @ p" by (metis append_take_drop_id endswith_def)
  then show "\<exists>t. s = t @ p" ..
qed auto

text \<open>\<^verbatim>\<open>urlparse\<close> of an hdfs url: the network location ends at the path, the path at a query or a fragment.\<close>

definition url_netloc :: "string \<Rightarrow> string" where
  "url_netloc url = takeWhile (\<lambda>c. c \<notin> {CHR ''/'', CHR ''?'', CHR ''#''}) (drop (length ''hdfs://'') url)"

definition url_path :: "string \<Rightarrow> string" where
  "url_path url = takeWhile (\<lambda>c. c \<notin> {CHR ''?'', CHR ''#''})
     (dropWhile (\<lambda>c. c \<notin> {CHR ''/'', CHR ''?'', CHR ''#''}) (drop (length ''hdfs://'') url))"

definition path_net :: "string \<Rightarrow> string" where
  "path_net url = ''hdfs://'' @ url_netloc url"

subsection \<open>Protocols and formats\<close>

definition infer_protocol :: "string \<Rightarrow> string" where
  "infer_protocol file_path =
     (if startswith file_path ''https://'' \<or> startswith file_path ''http://'' then ''http''
      else if startswith file_path ''hdfs://'' then ''hdfs''
      else ''nfs'')"

definition infer_format :: "string \<Rightarrow> string" where
  "infer_format file_path =
     (let lower_base_path = lower file_path
      in if endswith lower_base_path ''.csv'' then ''csv''
         else if endswith lower_base_path ''.txt'' then ''csv''
         else if endswith lower_base_path ''.csv.gz'' then ''csv.gz''
         else if endswith lower_base_path ''.gz.parquet'' then ''gz.parquet''
         else if endswith lower_base_path ''.parquet'' then ''parquet''
         else ''csv'')"

subsection \<open>Tables\<close>

datatype pyval = VStr string | VInt int | VBytes bytes | VFloat bytes \<comment> \<open>the octets of the double\<close> | VNone

type_synonym schema = "(string \<times> string) list" \<comment> \<open>names and types of the columns\<close>

record 't arrow =
  ar_column_names :: "'t \<Rightarrow> string list"
  ar_num_rows :: "'t \<Rightarrow> nat"
  ar_column :: "'t \<Rightarrow> string \<Rightarrow> exn + pyval list"
  ar_column0 :: "'t \<Rightarrow> bytes list" \<comment> \<open>the ids that \<^verbatim>\<open>psi_in.column(0)\<close> holds\<close>
  ar_take :: "'t \<Rightarrow> nat list \<Rightarrow> 't"
  ar_null_count :: "'t \<Rightarrow> string \<Rightarrow> nat"
  ar_int16 :: "int list \<Rightarrow> exn + pyval list" \<comment> \<open>\<^verbatim>\<open>pa.array(..., type=pa.int16())\<close>\<close>
  ar_add_column0 :: "'t \<Rightarrow> string \<Rightarrow> pyval list \<Rightarrow> exn + 't"
  ar_drop :: "'t \<Rightarrow> string list \<Rightarrow> exn + 't"
  ar_schema :: "'t \<Rightarrow> schema"
  ar_cast :: "'t \<Rightarrow> schema \<Rightarrow> exn + 't"
  ar_combine_chunks :: "'t \<Rightarrow> 't"
  ar_to_batches :: "'t \<Rightarrow> 't list"
  ar_slice00 :: "'t \<Rightarrow> 't" \<comment> \<open>\<^verbatim>\<open>slice(0, 0, True)\<close>\<close>
  ar_from_pydict_empty :: "schema \<Rightarrow> 't"
  ar_from_batches :: "'t list \<Rightarrow> exn + 't"
  ar_concat_tables :: "'t list \<Rightarrow> exn + 't"
  ar_write_csv :: "bool \<Rightarrow> string \<Rightarrow> 't \<Rightarrow> bytes" \<comment> \<open>header, delimiter\<close>
  ar_write_parquet :: "string option \<Rightarrow> 't \<Rightarrow> bytes"
  ar_read_csv :: "string \<Rightarrow> bytes \<Rightarrow> exn + 't"
  ar_unpack :: "string \<Rightarrow> bytes \<Rightarrow> exn + bytes" \<comment> \<open>what \<^verbatim>\<open>open_input_stream\<close> reads: decompressed by the extension of the path\<close>
  ar_pack :: "string \<Rightarrow> bytes \<Rightarrow> bytes" \<comment> \<open>what an output stream writes: compressed by the extension of the path\<close>
  ar_read_parquet :: "bytes \<Rightarrow> exn + 't"
  ar_validate_key :: "'t list \<Rightarrow> string + string \<times> string \<Rightarrow> exn + unit" \<comment> \<open>ray's \<^verbatim>\<open>_validate_key_fn\<close>\<close>
  ar_simple_sort :: "int list \<Rightarrow> (string \<times> string) list \<Rightarrow> bool \<Rightarrow> 't list \<Rightarrow> nat \<Rightarrow> exn + 't list"
    \<comment> \<open>ray's \<^verbatim>\<open>SimpleSortOp\<close>: boundaries, key, descending; blocks, reducers\<close>

type_synonym file_store = "string \<times> string \<Rightarrow> bytes option"

subsection \<open>Reading and writing\<close>

text \<open>A step that may raise, and then the next one.\<close>

definition bind_exn :: "exn + 'a \<Rightarrow> ('a \<Rightarrow> exn + 'b) \<Rightarrow> exn + 'b" where
  "bind_exn r k = (case r of Inl e \<Rightarrow> Inl e | Inr x \<Rightarrow> k x)"

lemma bind_exn_simps [simp]: "bind_exn (Inr x) k = k x" "bind_exn (Inl e) k = Inl e"
  by (simp_all add: bind_exn_def)

lemma bind_exn_Inr: "bind_exn r k = Inr y \<longleftrightarrow> (\<exists>x. r = Inr x \<and> k x = Inr y)"
  by (cases r) simp_all

text \<open>
  The streams that a filesystem opens compress and decompress by the extension of the path, so a
  \<^verbatim>\<open>.csv.gz\<close> file holds compressed text; a stream that is opened to append adds one more
  compressed member. Parquet files are read and written by their own functions. Without a header row the code passes \<^verbatim>\<open>autogenerate_column_names\<close> to \<^verbatim>\<open>csv.ParseOptions\<close>, which has no
  such parameter: a \<^verbatim>\<open>TypeError\<close>.
\<close>

definition read_data_from_filesystem ::
  "'t arrow \<Rightarrow> string \<Rightarrow> string \<Rightarrow> bool \<Rightarrow> string \<Rightarrow> file_store \<Rightarrow> exn + 't" where
  "read_data_from_filesystem A net file_path with_head csv_delimiter st =
     (let infered_format = infer_format file_path
      in if infered_format \<in> {''csv'', ''txt'', ''csv.gz''}
         then if \<not> with_head then Inl TypeError
              else (case st (net, file_path) of
                 None \<Rightarrow> Inl OpError
               | Some content \<Rightarrow> bind_exn (ar_unpack A file_path content) (ar_read_csv A csv_delimiter))
         else if infered_format \<in> {''parquet'', ''gz.parquet''}
         then (case st (net, file_path) of None \<Rightarrow> Inl OpError | Some content \<Rightarrow> ar_read_parquet A content)
         else Inl ValueError)"

definition write_data_to_filesystem ::
  "'t arrow \<Rightarrow> string \<Rightarrow> 't \<Rightarrow> string \<Rightarrow> bool \<Rightarrow> bool \<Rightarrow> string \<Rightarrow> file_store \<Rightarrow> (unit, file_store) eff" where
  "write_data_to_filesystem A net data file_path appending with_head csv_delimiter st =
     (let infered_format = infer_format file_path
      in if infered_format \<in> {''csv'', ''txt'', ''csv.gz''}
         then let text = ar_pack A file_path (ar_write_csv A with_head csv_delimiter data)
              in if appending
                 then (Inr (), st((net, file_path) \<mapsto> (case st (net, file_path) of None \<Rightarrow> [] | Some old \<Rightarrow> old) @ text))
                 else (Inr (), st((net, file_path) \<mapsto> text))
         else if infered_format \<in> {''parquet'', ''gz.parquet''}
         then let compression = (if infered_format = ''gz.parquet'' then Some ''GZIP'' else None)
              in (Inr (), st((net, file_path) \<mapsto> ar_write_parquet A compression data))
         else (Inl ValueError, st))"

definition read_data_from_hdfs :: "'t arrow \<Rightarrow> string \<Rightarrow> bool \<Rightarrow> string \<Rightarrow> file_store \<Rightarrow> exn + 't" where
  "read_data_from_hdfs A abs_file_path = read_data_from_filesystem A (path_net abs_file_path) (url_path abs_file_path)"

definition write_data_to_hdfs ::
  "'t arrow \<Rightarrow> 't \<Rightarrow> string \<Rightarrow> bool \<Rightarrow> bool \<Rightarrow> string \<Rightarrow> file_store \<Rightarrow> (unit, file_store) eff" where
  "write_data_to_hdfs A data abs_file_path =
     write_data_to_filesystem A (path_net abs_file_path) data (url_path abs_file_path)"

definition read_data_from_file :: "'t arrow \<Rightarrow> string \<Rightarrow> bool \<Rightarrow> string \<Rightarrow> file_store \<Rightarrow> exn + 't" where
  "read_data_from_file A abs_file_path = read_data_from_filesystem A [] abs_file_path"

definition write_data_to_file ::
  "'t arrow \<Rightarrow> 't \<Rightarrow> string \<Rightarrow> bool \<Rightarrow> bool \<Rightarrow> string \<Rightarrow> file_store \<Rightarrow> (unit, file_store) eff" where
  "write_data_to_file A data abs_file_path = write_data_to_filesystem A [] data abs_file_path"

subsection \<open>Listing directories\<close>

datatype file_type = FileT | DirectoryT | NotFoundT | UnknownT

record file_info =
  fi_path :: string
  fi_type :: file_type
  fi_extension :: string

record filesystem =
  fs_type :: "string \<Rightarrow> file_type"
  fs_list :: "string \<Rightarrow> bool \<Rightarrow> file_info list" \<comment> \<open>of a directory, recursively or not\<close>

definition data_extensions :: "string list" where
  "data_extensions = [''csv'', ''txt'', ''csv.gz'', ''parquet'', ''gz.parquet'']"

definition filter_data_paths :: "string \<Rightarrow> file_info list \<Rightarrow> bool \<Rightarrow> (string \<times> file_type) list" where
  "filter_data_paths pre file_infos with_directory =
     sort_key fst
       (map (\<lambda>fi. (pre @ fi_path fi, fi_type fi))
         (filter (\<lambda>fi. if fi_type fi = FileT then fi_extension fi \<in> set data_extensions else with_directory) file_infos))"

text \<open>The paths alone: \<^verbatim>\<open>with_file_type_return=False\<close>.\<close>

definition get_actual_data_files_from_filesystem :: "filesystem \<Rightarrow> string \<Rightarrow> string \<Rightarrow> string list" where
  "get_actual_data_files_from_filesystem fsys pre path =
     map fst (filter_data_paths (pre @ ''/'') (fs_list fsys path True) False)"

definition get_actual_data_files_from_hdfs :: "(string \<Rightarrow> filesystem) \<Rightarrow> string \<Rightarrow> string list" where
  "get_actual_data_files_from_hdfs hdfs abs_file_path =
     get_actual_data_files_from_filesystem (hdfs (path_net abs_file_path)) (path_net abs_file_path) (url_path abs_file_path)"

definition get_actual_data_files_from_file :: "filesystem \<Rightarrow> string \<Rightarrow> string list" where
  "get_actual_data_files_from_file local abs_file_path = get_actual_data_files_from_filesystem local [] abs_file_path"

text \<open>A block of input: one file, or the list of all files below a directory.\<close>

datatype data_path = OnePath string | PathList "string list"

definition refetch_entry :: "(string \<Rightarrow> filesystem) \<Rightarrow> filesystem \<Rightarrow> string \<Rightarrow> string \<times> file_type \<Rightarrow> data_path" where
  "refetch_entry hdfs local data_protocol e =
     (case e of (file_path, file_type) \<Rightarrow>
        if file_type = FileT then OnePath file_path
        else PathList (sort (if data_protocol = ''hdfs'' then get_actual_data_files_from_hdfs hdfs file_path
                             else get_actual_data_files_from_file local file_path)))"

definition refetch_if_has_directory ::
  "(string \<Rightarrow> filesystem) \<Rightarrow> filesystem \<Rightarrow> string \<Rightarrow> (string \<times> file_type) list \<Rightarrow> data_path list" where
  "refetch_if_has_directory hdfs local data_protocol file_list_with_type =
     map (refetch_entry hdfs local data_protocol) file_list_with_type"

end
