(* ===== verification/Block_Registry.thy ===== *)
theory Block_Registry
  imports Block_Store Psi_Files "HOL-Library.Multiset"
begin

section \<open>Registration of stored blocks\<close>

text \<open>
  How a stored block reaches the metadata service: the notification of the maker
  (\<^verbatim>\<open>data_block_maker.py\<close>), the handler of \<^verbatim>\<open>routine/parse_data_block_meta_routine.py\<close>, the process of
  \<^verbatim>\<open>controller/parse_data_block_meta.py\<close> that looks up the files, and the process of
  \<^verbatim>\<open>controller/sync_convert_data_block.py\<close> that reads a meta and requests the entry. A started process
  is a value with the arguments of its command line; the state of a starting process is the
  list of the processes it has started. Arguments and answers of requests are JSON values.
\<close>

datatype jval = JNull | JBool bool | JInt int | JStr string

datatype process =
    ParseProcess string string string \<comment> \<open>\<^verbatim>\<open>-d\<close> directory, \<^verbatim>\<open>-mt\<close> meta, \<^verbatim>\<open>-db\<close> block\<close>
  | ConvertProcess string string string \<comment> \<open>\<^verbatim>\<open>-d\<close> time stamp, \<^verbatim>\<open>-m\<close> meta path, \<^verbatim>\<open>-p\<close> data path\<close>

record http_request =
  rq_url :: string
  rq_json :: "(string, jval) dict"

subsection \<open>The notification and its handler\<close>

definition save_data_block_info :: "string \<Rightarrow> string \<Rightarrow> string \<Rightarrow> http_request" where
  "save_data_block_info host_ip meta_path data_path =
     \<lparr>rq_url = ''http://'' @ host_ip @ '':6380/v1/parse/data/block/meta'',
      rq_json = [(''dfs_data_block_meta'', JStr meta_path), (''dfs_data_block'', JStr data_path)]\<rparr>"

text \<open>\<^verbatim>\<open>json.get(k, '')\<close>; a command line accepts strings only (\<^verbatim>\<open>TypeError\<close>).\<close>

definition json_get :: "(string, jval) dict \<Rightarrow> string \<Rightarrow> jval" where
  "json_get d k = (case dict_get d k of None \<Rightarrow> JStr [] | Some v \<Rightarrow> v)"

definition truthy :: "jval \<Rightarrow> bool" where
  "truthy v \<longleftrightarrow> v \<notin> {JNull, JBool False, JInt 0, JStr []}"

definition parse_data_block_meta :: "(string, jval) dict \<Rightarrow> process list \<Rightarrow> (int \<times> string, process list) eff" where
  "parse_data_block_meta json ps =
     (let d = json_get json ''dfs_data_block_dir''; m = json_get json ''dfs_data_block_meta''; b = json_get json ''dfs_data_block''
      in if \<not> truthy d \<and> \<not> truthy m \<and> \<not> truthy b then (Inr (500, ''args is null''), ps)
         else case (d, m, b) of
                (JStr d', JStr m', JStr b') \<Rightarrow> (Inr (0, ''success''), ps @ [ParseProcess d' m' b'])
              | _ \<Rightarrow> (Inl TypeError, ps))"

subsection \<open>Looking up the files of a partition\<close>

text \<open>\<^verbatim>\<open>xs[-k]\<close>.\<close>

definition from_end :: "nat \<Rightarrow> 'a list \<Rightarrow> exn + 'a" where
  "from_end k xs = (if k \<le> length xs then Inr (xs ! (length xs - k)) else Inl IndexError)"

definition files_ending :: "'w ext \<Rightarrow> 'w \<Rightarrow> string \<Rightarrow> string list \<Rightarrow> string \<Rightarrow> string list" where
  "files_ending E w d names ending =
     map (path_join d) (filter (\<lambda>f. \<not> ex_isdir E w (path_join d f) \<and> endswith f ending) names)"

fun index_paths :: "nat \<Rightarrow> string list \<Rightarrow> (string, string) dict \<Rightarrow> exn + (string, string) dict" where
  "index_paths k [] d = Inr d"
| "index_paths k (p # ps) d =
     (case from_end k (split_on CHR ''.'' p) of
        Inl e \<Rightarrow> Inl e
      | Inr index \<Rightarrow> index_paths k ps (dict_set index p d))"

fun launch_blocks ::
  "string \<Rightarrow> (string, string) dict \<Rightarrow> (string, string) dict \<Rightarrow> nat list \<Rightarrow> process list \<Rightarrow> (unit, process list) eff" where
  "launch_blocks time_stamp metas blocks [] ps = (Inr (), ps)"
| "launch_blocks time_stamp metas blocks (i # is) ps =
     (case dict_get metas (zfill 8 (str_of_nat i)) of
        None \<Rightarrow> (Inl KeyError, ps)
      | Some meta_path \<Rightarrow>
          (case dict_get blocks (zfill 8 (str_of_nat i)) of
             None \<Rightarrow> (Inl KeyError, ps)
           | Some data_path \<Rightarrow> launch_blocks time_stamp metas blocks is (ps @ [ConvertProcess time_stamp meta_path data_path])))"

definition data_block_controller ::
  "'w ext \<Rightarrow> 'w \<Rightarrow> string \<Rightarrow> string \<Rightarrow> process list \<Rightarrow> (unit, process list) eff" where
  "data_block_controller E w time_stamp dfs_data_block_dir ps =
     (case ex_listdir E w dfs_data_block_dir of
        None \<Rightarrow> (Inl OpError, ps)
      | Some names \<Rightarrow>
          let data_meta_fpaths = sort (files_ending E w dfs_data_block_dir names ''.meta'');
              data_block_fpaths = files_ending E w dfs_data_block_dir names ''.data''
          in if length data_meta_fpaths \<noteq> length data_block_fpaths then (Inl AssertionError, ps)
             else case index_paths 2 data_meta_fpaths [] of
                    Inl e \<Rightarrow> (Inl e, ps)
                  | Inr metas \<Rightarrow>
                      (case index_paths 3 data_block_fpaths [] of
                         Inl e \<Rightarrow> (Inl e, ps)
                       | Inr blocks \<Rightarrow> launch_blocks time_stamp metas blocks [0..<length blocks] ps))"

fun control_dirs ::
  "'w ext \<Rightarrow> 'w \<Rightarrow> string \<Rightarrow> string list \<Rightarrow> process list \<Rightarrow> (unit, process list) eff" where
  "control_dirs E w time_stamp [] ps = (Inr (), ps)"
| "control_dirs E w time_stamp (d # ds) ps =
     and_then (data_block_controller E w time_stamp d ps) (\<lambda>_. control_dirs E w time_stamp ds)"

text \<open>\<^verbatim>\<open>s.strip('/')\<close> removes slashes at both ends.\<close>

definition strip_slashes :: "string \<Rightarrow> string" where
  "strip_slashes s = rev (dropWhile (\<lambda>c. c = CHR ''/'') (rev (dropWhile (\<lambda>c. c = CHR ''/'') s)))"

definition parse_task :: "'w ext \<Rightarrow> 'w \<Rightarrow> string \<Rightarrow> string \<Rightarrow> string \<Rightarrow> string \<Rightarrow> process list \<Rightarrow> (unit, process list) eff" where
  "parse_task E w time_stamp dir_arg meta_arg block_arg ps =
     (if dir_arg \<noteq> []
      then let d = (if endswith dir_arg ''/'' then strip_slashes dir_arg else dir_arg)
           in case ex_listdir E w d of
                None \<Rightarrow> (Inl OpError, ps)
              | Some names \<Rightarrow> control_dirs E w time_stamp (filter (ex_isdir E w) (map (path_join d) names)) ps
      else if meta_arg \<noteq> [] \<and> block_arg \<noteq> []
      then (Inr (), ps @ [ConvertProcess time_stamp meta_arg block_arg])
      else (Inl AssertionError, ps))"

subsection \<open>Reading a meta and requesting the entry\<close>

definition data_source_name_of :: "string \<Rightarrow> string" where
  "data_source_name_of data_path = hd (split_on CHR ''.'' (last (split_on CHR ''/'' data_path)))"

definition block_request :: "data_block_meta \<Rightarrow> string \<Rightarrow> http_request" where
  "block_request meta data_path =
     \<lparr>rq_url = ''/v1/data/'' @ block_id meta @ ''/'' @ str_of_int (partition_id meta) @ ''/'' @ str_of_int (file_version meta) @ ''/create/data/block'',
      rq_json =
        [(''start_time'', JInt (start_time meta)), (''end_time'', JInt (end_time meta)),
         (''leader_start_index'', JInt (leader_start_index meta)), (''leader_end_index'', JInt (leader_end_index meta)),
         (''follower_restart_index'', JInt (follower_restart_index meta)), (''data_block_index'', JInt (data_block_index meta)),
         (''dfs_data_block_dir'', JStr data_path), (''create_status'', JInt 2), (''consumed_status'', JInt 1),
         (''data_source_name'', JStr (data_source_name_of data_path))]\<rparr>"

definition sync_convert_data_block :: "'w ext \<Rightarrow> 'w \<Rightarrow> string \<Rightarrow> string \<Rightarrow> exn + http_request" where
  "sync_convert_data_block E w meta_path data_path =
     (case ex_file E w meta_path of
        None \<Rightarrow> Inl OpError
      | Some [] \<Rightarrow> Inl StopIteration
      | Some (r # _) \<Rightarrow>
          (case ex_meta_parse E r of
             None \<Rightarrow> Inl DecodeError
           | Some meta \<Rightarrow> Inr (block_request meta data_path)))"

text \<open>What a process requests, or the processes it starts.\<close>

fun run_process :: "'w ext \<Rightarrow> 'w \<Rightarrow> string \<Rightarrow> process \<Rightarrow> (http_request option, process list) eff" where
  "run_process E w time_stamp (ParseProcess d m b) = and_then (parse_task E w time_stamp d m b []) (\<lambda>_ ps. (Inr None, ps))"
| "run_process E w time_stamp (ConvertProcess _ m p) =
     (case sync_convert_data_block E w m p of Inl e \<Rightarrow> (Inl e, []) | Inr rq \<Rightarrow> (Inr (Some rq), []))"

subsection \<open>Pairing metas and blocks\<close>

lemma index_paths_new:
  assumes "\<forall>p \<in> set ps. from_end k (split_on CHR ''.'' p) = Inr (key p)" "distinct (map fst d @ map key ps)"
  shows "index_paths k ps d = Inr (d @ map (\<lambda>p. (key p, p)) ps)"
  using assms
proof (induction ps arbitrary: d)
  case (Cons p ps)
  then have "dict_set (key p) p d = d @ [(key p, p)]" by (intro dict_set_new) auto
  with Cons show ?case by simp
qed simp

lemma launch_blocks_all:
  assumes "\<forall>i \<in> set is. dict_get metas (zfill 8 (str_of_nat i)) = Some (mp i) \<and> dict_get blocks (zfill 8 (str_of_nat i)) = Some (dp i)"
  shows "launch_blocks ts metas blocks is ps = (Inr (), ps @ map (\<lambda>i. ConvertProcess ts (mp i) (dp i)) is)"
  using assms by (induction "is" arbitrary: ps) simp_all

text \<open>An index of paths that are a permutation of numbered paths.\<close>

lemma index_numbered:
  assumes "mset ps = mset (map path [0..<n])" "\<forall>i < n. from_end k (split_on CHR ''.'' (path i)) = Inr (zfill 8 (str_of_nat i))"
  obtains d where "index_paths k ps [] = Inr d" "length d = n" "\<forall>i < n. dict_get d (zfill 8 (str_of_nat i)) = Some (path i)"
proof -
  define key where "key p = (case from_end k (split_on CHR ''.'' p) of Inl _ \<Rightarrow> [] | Inr x \<Rightarrow> x)" for p :: string
  have key: "key (path i) = zfill 8 (str_of_nat i)" if "i < n" for i using assms(2) that by (simp add: key_def)
  have ps: "set ps = path ` {..<n}" using arg_cong [OF assms(1), of set_mset] by (simp add: atLeast_upt)
  have keys: "map key (map path [0..<n]) = map (\<lambda>i. zfill 8 (str_of_nat i)) [0..<n]" using key by simp
  have "mset (map key ps) = mset (map (\<lambda>i. zfill 8 (str_of_nat i)) [0..<n])"
    unfolding keys [symmetric] mset_map [of key] assms(1) ..
  moreover have "distinct (map (\<lambda>i. zfill 8 (str_of_nat i)) [0..<n])" by (simp add: distinct_map inj_on_def)
  ultimately have dist: "distinct (map key ps)" using mset_eq_imp_distinct_iff by blast
  have "index_paths k ps [] = Inr ([] @ map (\<lambda>p. (key p, p)) ps)"
    using assms(2) ps dist by (intro index_paths_new) (auto simp: key)
  moreover have "length ps = n" using arg_cong [OF assms(1), of size] by simp
  moreover have "dict_get (map (\<lambda>p. (key p, p)) ps) (zfill 8 (str_of_nat i)) = Some (path i)" if "i < n" for i
    using dist ps that key [OF that] by (intro map_of_is_SomeI) (auto simp: comp_def image_iff intro!: bexI [of _ i])
  ultimately show thesis by (intro that [of "map (\<lambda>p. (key p, p)) ps"]) simp_all
qed

definition listed_blocks :: "'w ext \<Rightarrow> data_block_manager \<Rightarrow> 'w \<Rightarrow> data_block_meta list \<Rightarrow> bool" where
  "listed_blocks E m w ms \<longleftrightarrow> (\<exists>names. ex_listdir E w (data_block_dir_wrap E m) = Some names \<and>
     mset (files_ending E w (data_block_dir_wrap E m) names ''.meta'') = mset (map (\<lambda>i. acquire_data_block_meta_path E m (int i)) [0..<length ms]) \<and>
     mset (files_ending E w (data_block_dir_wrap E m) names ''.data'') = mset (map (\<lambda>i. block_path E m (ms ! i)) [0..<length ms]))"

definition numbered_names :: "'w ext \<Rightarrow> data_block_manager \<Rightarrow> data_block_meta list \<Rightarrow> bool" where
  "numbered_names E m ms \<longleftrightarrow> (\<forall>i < length ms.
     from_end 2 (split_on CHR ''.'' (acquire_data_block_meta_path E m (int i))) = Inr (zfill 8 (str_of_nat i)) \<and>
     from_end 3 (split_on CHR ''.'' (block_path E m (ms ! i))) = Inr (zfill 8 (str_of_nat i)))"

lemma controller_launches:
  assumes "listed_blocks E m w ms" "numbered_names E m ms"
  shows "data_block_controller E w ts (data_block_dir_wrap E m) ps = (Inr (), ps @
    map (\<lambda>i. ConvertProcess ts (acquire_data_block_meta_path E m (int i)) (block_path E m (ms ! i))) [0..<length ms])"
proof -
  let ?d = "data_block_dir_wrap E m" and ?mp = "\<lambda>i. acquire_data_block_meta_path E m (int i)" and ?bp = "\<lambda>i. block_path E m (ms ! i)"
  from assms(1) obtain names where names: "ex_listdir E w ?d = Some names"
    "mset (files_ending E w ?d names ''.meta'') = mset (map ?mp [0..<length ms])"
    "mset (files_ending E w ?d names ''.data'') = mset (map ?bp [0..<length ms])" unfolding listed_blocks_def by blast
  have N: "\<forall>i < length ms. from_end 2 (split_on CHR ''.'' (?mp i)) = Inr (zfill 8 (str_of_nat i))"
    "\<forall>i < length ms. from_end 3 (split_on CHR ''.'' (?bp i)) = Inr (zfill 8 (str_of_nat i))"
    using assms(2) unfolding numbered_names_def by blast+
  have sorted: "mset (sort (files_ending E w ?d names ''.meta'')) = mset (map ?mp [0..<length ms])" using names(2) by simp
  obtain metas where metas: "index_paths 2 (sort (files_ending E w ?d names ''.meta'')) [] = Inr metas" "length metas = length ms"
    "\<forall>i < length ms. dict_get metas (zfill 8 (str_of_nat i)) = Some (?mp i)" by (rule index_numbered [OF sorted N(1)])
  obtain blocks where blocks: "index_paths 3 (files_ending E w ?d names ''.data'') [] = Inr blocks" "length blocks = length ms"
    "\<forall>i < length ms. dict_get blocks (zfill 8 (str_of_nat i)) = Some (?bp i)" by (rule index_numbered [OF names(3) N(2)])
  have "length (files_ending E w ?d names ''.meta'') = length ms" "length (files_ending E w ?d names ''.data'') = length ms"
    using arg_cong [OF names(2), of size] arg_cong [OF names(3), of size] by simp_all
  moreover have "launch_blocks ts metas blocks [0..<length ms] ps = (Inr (), ps @ map (\<lambda>i. ConvertProcess ts (?mp i) (?bp i)) [0..<length ms])"
    using metas(3) blocks(3) by (intro launch_blocks_all) simp
  ultimately show ?thesis using names(1) metas(1) blocks(1,2) by (simp add: data_block_controller_def)
qed

lemma convert_requests:
  assumes "metas_on_disk E m w ms" "prints_ok E" "i < length ms"
  shows "sync_convert_data_block E w (acquire_data_block_meta_path E m (int i)) data_path = Inr (block_request (ms ! i) data_path)"
  using assms by (simp add: sync_convert_data_block_def metas_on_disk_def prints_ok_def)

end
