(* ===== verification/Meta_Database.thy ===== *)
theory Meta_Database
  imports Block_Registry
begin

section \<open>The metadata database\<close>

text \<open>
  The tables of \<^verbatim>\<open>db/db_models.py\<close>, the writes of \<^verbatim>\<open>manager/data_managers.py\<close> and \<^verbatim>\<open>controller/data_controller.py\<close>, and the
  key store of \<^verbatim>\<open>db/redis_manager.py\<close>. A row is the dictionary of the values that a model object holds; a
  table maps keys to rows. What MySQL keeps of a row that it is given, or the error it answers, is
  the parameter \<open>commit\<close>; \<open>commit_ok\<close> states that a row whose values fit the declared columns is kept
  with all its columns. The clock gives the time stamp and the date.
\<close>

subsection \<open>Models\<close>

datatype column_type = CharField nat \<comment> \<open>\<^verbatim>\<open>max_length\<close>\<close> | IntegerField | BigIntegerField | TextField

record field =
  f_type :: column_type
  f_null :: bool
  f_default :: jval

type_synonym db_model = "(string \<times> field) list"

definition char_field :: "nat \<Rightarrow> field" where
  "char_field n = \<lparr>f_type = CharField n, f_null = False, f_default = JNull\<rparr>"

definition int_field :: "jval \<Rightarrow> field" where
  "int_field d = \<lparr>f_type = IntegerField, f_null = True, f_default = d\<rparr>"

definition big_field :: field where
  "big_field = \<lparr>f_type = BigIntegerField, f_null = True, f_default = JNull\<rparr>"

definition text_field :: field where
  "text_field = \<lparr>f_type = TextField, f_null = True, f_default = JStr []\<rparr>"

definition DataBlockMeta_model :: db_model where
  "DataBlockMeta_model =
     [(''block_id'', char_field 500), (''dfs_data_block_dir'', char_field 500), (''partition_id'', int_field (JInt 0)),
      (''file_version'', int_field (JInt 0)), (''start_time'', big_field), (''end_time'', big_field), (''example_ids'', text_field),
      (''leader_start_index'', big_field), (''leader_end_index'', big_field), (''follower_start_index'', big_field),
      (''follower_end_index'', big_field), (''data_block_index'', big_field), (''follower_restart_index'', big_field),
      (''create_time'', big_field), (''update_time'', big_field), (''create_status'', int_field (JInt 0)),
      (''consumed_status'', int_field (JInt 0)), (''data_source_name'', char_field 300)]"

definition DataSourceMeta_model :: db_model where
  "DataSourceMeta_model =
     [(''data_source_name'', char_field 100), (''partition_num'', int_field (JInt 0)), (''matching_window'', big_field),
      (''data_source_type'', int_field JNull), (''max_example_in_data_block'', big_field), (''inherit_data_source'', char_field 100),
      (''start_time'', big_field), (''end_time'', big_field), (''create_time'', big_field), (''update_time'', big_field)]"

definition DataSource_model :: db_model where
  "DataSource_model =
     [(''data_source_name'', char_field 100), (''dfs_data_block_dir'', char_field 100), (''dfs_raw_data_dir'', char_field 100),
      (''data_source_role'', int_field (JInt 0)), (''data_source_state'', int_field (JInt 0)), (''start_time'', big_field),
      (''end_time'', big_field), (''create_time'', big_field), (''update_time'', big_field)]"

definition Coordinator_model :: db_model where
  "Coordinator_model =
     [(''ip_port'', char_field 100), (''register_code'', int_field (JInt 0)), (''query_code'', int_field (JInt 0)),
      (''local_uuid'', char_field 100), (''remote_uuid'', char_field 100), (''create_time'', big_field), (''update_time'', big_field)]"

text \<open>The classes of the module below \<^verbatim>\<open>DataBaseModel\<close>, by name, with the names of their tables.\<close>

definition component_classes :: "(string \<times> string) list" where
  "component_classes =
     [(''Coordinator'', ''register_coordinator''), (''DataBlockMeta'', ''data_block_meta''), (''DataSource'', ''data_source''),
      (''DataSourceMeta'', ''data_source_meta'')]"

definition init_db :: "bool \<Rightarrow> string set \<Rightarrow> (unit, string set) eff" where
  "init_db connected tables =
     (if connected then (Inr (), tables \<union> snd ` set component_classes) else (Inl AttributeError, tables))"

text \<open>Only the route server has a connection: for every other main file \<^verbatim>\<open>DB\<close> is \<^verbatim>\<open>None\<close>.\<close>

definition db_connected :: "string \<Rightarrow> bool" where
  "db_connected main_file \<longleftrightarrow> endswith main_file ''route_server.py''"

text \<open>One object per class and process.\<close>

definition singleton :: "(string \<rightharpoonup> 'a) \<Rightarrow> string \<Rightarrow> nat \<Rightarrow> 'a \<Rightarrow> 'a \<times> (string \<rightharpoonup> 'a)" where
  "singleton registry cls pid new =
     (let key = cls @ str_of_nat pid
      in case registry key of Some x \<Rightarrow> (x, registry) | None \<Rightarrow> (new, registry(key \<mapsto> new)))"

subsection \<open>Rows\<close>

type_synonym row = "string \<rightharpoonup> jval"
type_synonym table = "jval \<rightharpoonup> row"

record clock =
  ck_stamp :: int \<comment> \<open>\<^verbatim>\<open>current_timestamp()\<close>\<close>
  ck_date :: jval

definition row_get :: "row \<Rightarrow> string \<Rightarrow> jval" where
  "row_get r k = (case r k of None \<Rightarrow> JNull | Some v \<Rightarrow> v)"

text \<open>A new object holds the defaults that are not \<^verbatim>\<open>None\<close>.\<close>

definition new_row :: "db_model \<Rightarrow> row" where
  "new_row model k =
     (case map_of model k of
        None \<Rightarrow> None
      | Some f \<Rightarrow> if f_default f = JNull then None else Some (f_default f))"

definition model_save :: "(row \<Rightarrow> exn + row) \<Rightarrow> clock \<Rightarrow> db_model \<Rightarrow> row \<Rightarrow> exn + row" where
  "model_save commit ck model r =
     (let r1 = (if ''update_date'' \<in> fst ` set model then r(''update_date'' \<mapsto> ck_date ck) else r);
          r2 = (if ''update_time'' \<in> fst ` set model then r1(''update_time'' \<mapsto> JInt (ck_stamp ck)) else r1)
      in commit r2)"

text \<open>Python compares booleans as the integers 0 and 1.\<close>

fun py_equal :: "jval \<Rightarrow> jval \<Rightarrow> bool" where
  "py_equal (JBool b) (JInt i) \<longleftrightarrow> i = of_bool b"
| "py_equal (JInt i) (JBool b) \<longleftrightarrow> i = of_bool b"
| "py_equal v w \<longleftrightarrow> v = w"

text \<open>The loop over the given values: names that are not columns raise inside a handler that ignores them.\<close>

fun set_fields :: "db_model \<Rightarrow> string list \<Rightarrow> (string, jval) dict \<Rightarrow> row \<Rightarrow> row" where
  "set_fields model skipped [] r = r"
| "set_fields model skipped ((k, v) # kvs) r =
     set_fields model skipped kvs
       (if k \<in> set skipped then r
        else case map_of model k of
               None \<Rightarrow> r
             | Some f \<Rightarrow> if py_equal v (f_default f) then r else r(k \<mapsto> v))"

fun preset :: "(string \<times> jval) list \<Rightarrow> row \<Rightarrow> row" where
  "preset [] r = r"
| "preset ((k, v) # kvs) r = preset kvs (r(k \<mapsto> v))"

subsection \<open>DataManagers\<close>

record data_managers =
  dm_block_id :: jval
  dm_partition_id :: jval
  dm_file_version :: jval
  dm_data_source_name :: jval
  dm_dfs_data_block_dir :: jval
  dm_dfs_raw_data_dir :: jval
  dm_data_source_role :: jval
  dm_data_source_state :: jval

text \<open>
  The three methods share their text: rows are selected by the column \<^verbatim>\<open>block_id\<close> of the model, which raises
  when the model has no such column; the first row is changed, a missing row is created or not.
\<close>

definition save_info ::
  "(row \<Rightarrow> exn + row) \<Rightarrow> clock \<Rightarrow> bool \<Rightarrow> db_model \<Rightarrow> string list \<Rightarrow> (string \<times> jval) list \<Rightarrow> jval \<Rightarrow> (string, jval) dict \<Rightarrow> bool \<Rightarrow> table \<Rightarrow>
     (unit, table) eff" where
  "save_info commit ck connected model skipped presets key info create tb =
     (if \<not> connected then (Inl AttributeError, tb)
      else case map_of model ''block_id'' of
             None \<Rightarrow> (Inl AttributeError, tb)
           | Some _ \<Rightarrow>
               (case (case tb key of
                        Some r \<Rightarrow> Some r
                      | None \<Rightarrow>
                          if create
                          then Some ((new_row model)(''create_time'' \<mapsto> JInt (ck_stamp ck), ''update_time'' \<mapsto> JInt (ck_stamp ck)))
                          else None) of
                  None \<Rightarrow> (Inr (), tb)
                | Some r \<Rightarrow>
                    (case model_save commit ck model (set_fields model skipped info (preset presets r)) of
                       Inl e \<Rightarrow> (Inl e, tb)
                     | Inr r' \<Rightarrow> (Inr (), tb(key \<mapsto> r')))))"

definition save_data_block_meta_info ::
  "(row \<Rightarrow> exn + row) \<Rightarrow> clock \<Rightarrow> bool \<Rightarrow> data_managers \<Rightarrow> (string, jval) dict \<Rightarrow> bool \<Rightarrow> table \<Rightarrow> (unit, table) eff" where
  "save_data_block_meta_info commit ck connected dm info create tb =
     save_info commit ck connected DataBlockMeta_model [''block_id'', ''partition_id'', ''file_version'']
       [(''block_id'', dm_block_id dm), (''partition_id'', dm_partition_id dm), (''file_version'', dm_file_version dm)]
       (dm_block_id dm) info create tb"

definition save_data_source_meta_info ::
  "(row \<Rightarrow> exn + row) \<Rightarrow> clock \<Rightarrow> bool \<Rightarrow> data_managers \<Rightarrow> (string, jval) dict \<Rightarrow> bool \<Rightarrow> table \<Rightarrow> (unit, table) eff" where
  "save_data_source_meta_info commit ck connected dm info create tb =
     save_info commit ck connected DataSourceMeta_model [''data_source_name''] [] (dm_block_id dm) info create tb"

definition save_data_source_info ::
  "(row \<Rightarrow> exn + row) \<Rightarrow> clock \<Rightarrow> bool \<Rightarrow> data_managers \<Rightarrow> (string, jval) dict \<Rightarrow> bool \<Rightarrow> table \<Rightarrow> (unit, table) eff" where
  "save_data_source_info commit ck connected dm info create tb =
     save_info commit ck connected DataSource_model [''data_source_name'']
       [(''data_source_state'', dm_data_source_state dm), (''dfs_data_block_dir'', dm_dfs_data_block_dir dm),
        (''dfs_raw_data_dir'', dm_dfs_raw_data_dir dm)]
       (dm_block_id dm) info create tb"

definition update_data_block_meta_status ::
  "(row \<Rightarrow> exn + row) \<Rightarrow> clock \<Rightarrow> bool \<Rightarrow> jval \<Rightarrow> jval \<Rightarrow> jval \<Rightarrow> (string, jval) dict \<Rightarrow> bool \<Rightarrow> table \<Rightarrow> (unit, table) eff" where
  "update_data_block_meta_status commit ck connected bid pid version info create tb =
     save_data_block_meta_info commit ck connected
       \<lparr>dm_block_id = bid, dm_partition_id = pid, dm_file_version = version, dm_data_source_name = JNull,
        dm_dfs_data_block_dir = JNull, dm_dfs_raw_data_dir = JNull, dm_data_source_role = JNull, dm_data_source_state = JNull\<rparr>
       info create tb"

subsection \<open>RedisManage\<close>

text \<open>Values with the time at which they expire; \<open>rs_up\<close> tells whether the server answers.\<close>

record redis_state =
  rs_up :: bool
  rs_data :: "string \<rightharpoonup> bytes \<times> nat"

definition live_value :: "redis_state \<Rightarrow> nat \<Rightarrow> string \<Rightarrow> bytes option" where
  "live_value s now k = (case rs_data s k of None \<Rightarrow> None | Some (v, until) \<Rightarrow> if now < until then Some v else None)"

definition redis_get :: "redis_state \<Rightarrow> nat \<Rightarrow> string \<Rightarrow> (bool \<times> bytes option) option" where
  "redis_get s now key =
     (if rs_up s
      then (case live_value s now key of
              Some v \<Rightarrow> Some (v \<noteq> [], Some v)
            | None \<Rightarrow> Some (False, None))
      else None)"

definition default_expire_seconds :: nat where
  "default_expire_seconds = 108000 * 24 * 5"

text \<open>\<^verbatim>\<open>setex\<close> refuses an expiry of zero seconds; every error is logged and dropped.\<close>

definition redis_set :: "nat \<Rightarrow> string \<Rightarrow> bytes \<Rightarrow> nat \<Rightarrow> redis_state \<Rightarrow> redis_state" where
  "redis_set now key value expire_seconds s =
     (if rs_up s \<and> 0 < expire_seconds then s\<lparr>rs_data := (rs_data s)(key \<mapsto> (value, now + expire_seconds))\<rparr> else s)"

text \<open>Without a key the server answers an error, and the handler formats a missing argument.\<close>

definition redis_delete :: "string list \<Rightarrow> redis_state \<Rightarrow> (unit, redis_state) eff" where
  "redis_delete keys s =
     (if keys = [] then (Inl IndexError, s)
      else if rs_up s then (Inr (), s\<lparr>rs_data := (\<lambda>k. if k \<in> set keys then None else rs_data s k)\<rparr>)
      else (Inr (), s))"

subsection \<open>What a save leaves\<close>

fun value_fits :: "column_type \<Rightarrow> jval \<Rightarrow> bool" where
  "value_fits (CharField n) (JStr s) \<longleftrightarrow> length s \<le> n"
| "value_fits TextField (JStr s) \<longleftrightarrow> length s < 2 ^ 16"
| "value_fits IntegerField (JInt i) \<longleftrightarrow> - (2 ^ 31) \<le> i \<and> i < 2 ^ 31"
| "value_fits BigIntegerField (JInt i) \<longleftrightarrow> int64_ok i"
| "value_fits _ _ \<longleftrightarrow> False"

definition row_fits :: "db_model \<Rightarrow> row \<Rightarrow> bool" where
  "row_fits model r \<longleftrightarrow> (\<forall>(k, f) \<in> set model. if row_get r k = JNull then f_null f else value_fits (f_type f) (row_get r k))"

definition stored_row :: "db_model \<Rightarrow> row \<Rightarrow> row" where
  "stored_row model r k = (if k \<in> fst ` set model then Some (row_get r k) else None)"

definition commit_ok :: "db_model \<Rightarrow> (row \<Rightarrow> exn + row) \<Rightarrow> bool" where
  "commit_ok model commit \<longleftrightarrow> (\<forall>r. row_fits model r \<longrightarrow> commit r = Inr (stored_row model r))"

lemma stored_get: "k \<in> fst ` set model \<Longrightarrow> row_get (stored_row model r) k = row_get r k"
  by (simp add: stored_row_def row_get_def)

lemma block_columns:
  "map_of DataBlockMeta_model ''block_id'' = Some (char_field 500)" "map_of DataBlockMeta_model ''dfs_data_block_dir'' = Some (char_field 500)" "map_of DataBlockMeta_model ''partition_id'' = Some (int_field (JInt 0))"
  "map_of DataBlockMeta_model ''file_version'' = Some (int_field (JInt 0))" "map_of DataBlockMeta_model ''start_time'' = Some (big_field)" "map_of DataBlockMeta_model ''end_time'' = Some (big_field)"
  "map_of DataBlockMeta_model ''example_ids'' = Some (text_field)" "map_of DataBlockMeta_model ''leader_start_index'' = Some (big_field)" "map_of DataBlockMeta_model ''leader_end_index'' = Some (big_field)"
  "map_of DataBlockMeta_model ''follower_start_index'' = Some (big_field)" "map_of DataBlockMeta_model ''follower_end_index'' = Some (big_field)" "map_of DataBlockMeta_model ''data_block_index'' = Some (big_field)"
  "map_of DataBlockMeta_model ''follower_restart_index'' = Some (big_field)" "map_of DataBlockMeta_model ''create_time'' = Some (big_field)" "map_of DataBlockMeta_model ''update_time'' = Some (big_field)"
  "map_of DataBlockMeta_model ''create_status'' = Some (int_field (JInt 0))" "map_of DataBlockMeta_model ''consumed_status'' = Some (int_field (JInt 0))" "map_of DataBlockMeta_model ''data_source_name'' = Some (char_field 300)"
  "map_of DataBlockMeta_model ''update_date'' = None"
  by (simp_all add: DataBlockMeta_model_def)

lemma column_name: "k \<in> fst ` set model \<longleftrightarrow> map_of model k \<noteq> None"
  by (simp add: map_of_eq_None_iff)

lemma row_get_update [simp]: "row_get (r(c \<mapsto> v)) k = (if k = c then v else row_get r k)"
  by (simp add: row_get_def)

lemma stored_row_update: "c \<in> fst ` set model \<Longrightarrow> stored_row model (r(c \<mapsto> v)) = (stored_row model r)(c \<mapsto> v)"
  by (auto simp: stored_row_def fun_eq_iff)

lemma row_fits_update:
  assumes "row_fits model r" "\<forall>f. (c, f) \<in> set model \<longrightarrow> (if v = JNull then f_null f else value_fits (f_type f) v)"
  shows "row_fits model (r(c \<mapsto> v))"
  unfolding row_fits_def
proof (intro ballI, clarify)
  fix k f assume "(k, f) \<in> set model"
  with assms show "if row_get (r(c \<mapsto> v)) k = JNull then f_null f else value_fits (f_type f) (row_get (r(c \<mapsto> v)) k)"
    unfolding row_fits_def by (cases "k = c") (force simp del: fun_upd_apply)+
qed

lemma set_fields_other: "k \<in> set skipped \<or> map_of model k = None \<Longrightarrow> set_fields model skipped info r k = r k"
  by (induction info arbitrary: r) (auto split: option.split)

lemma set_fields_column:
  assumes "k \<notin> set skipped" "map_of model k = Some f" "distinct (map fst info)"
  shows "set_fields model skipped info r k =
    (case dict_get info k of None \<Rightarrow> r k | Some v \<Rightarrow> if py_equal v (f_default f) then r k else Some v)"
  using assms(3)
proof (induction info arbitrary: r)
  case (Cons kv info)
  obtain k' v where kv: "kv = (k', v)" by fastforce
  show ?case
  proof (cases "k' = k")
    case True
    then have "dict_get info k = None" using Cons.prems kv by (auto simp: dict_get_None_notin)
    with Cons True kv assms(1,2) show ?thesis by simp
  next
    case False
    have "(if k' \<in> set skipped then r else case map_of model k' of None \<Rightarrow> r
        | Some f \<Rightarrow> if py_equal v (f_default f) then r else r(k' \<mapsto> v)) k = r k" using False by (auto split: option.split)
    with Cons False kv show ?thesis by (simp split: option.split)
  qed
qed simp

lemma saved_row:
  assumes ok: "commit_ok model commit" and key: "map_of model ''block_id'' \<noteq> None"
    and time: "''update_time'' \<in> fst ` set model" "''update_date'' \<notin> fst ` set model"
    and old: "tb key = Some r \<or> (tb key = None \<and> create \<and>
        r = (new_row model)(''create_time'' \<mapsto> JInt (ck_stamp ck), ''update_time'' \<mapsto> JInt (ck_stamp ck)))"
    and fits: "row_fits model ((set_fields model skipped info (preset presets r))(''update_time'' \<mapsto> JInt (ck_stamp ck)))"
  shows "save_info commit ck True model skipped presets key info create tb =
    (Inr (), tb(key \<mapsto> stored_row model ((set_fields model skipped info (preset presets r))(''update_time'' \<mapsto> JInt (ck_stamp ck)))))"
proof -
  have "model_save commit ck model (set_fields model skipped info (preset presets r)) =
      Inr (stored_row model ((set_fields model skipped info (preset presets r))(''update_time'' \<mapsto> JInt (ck_stamp ck))))"
    using ok fits time by (simp add: model_save_def commit_ok_def)
  with old key show ?thesis by (auto simp: save_info_def)
qed

end
