(* ===== verification/Management_Properties.thy ===== *)
theory Management_Properties
  imports Meta_Database Sample_World
begin

section \<open>Properties of the registration of blocks\<close>

text \<open>
  C26. The registration of stored blocks: for a partition directory that holds the blocks of the
  data join, the controller starts one process per block, in the order of the indices and with the
  meta file and the data file of the same block; the process of a block requests the entry with the
  id, partition and version of its meta. The notification of a single block leads to the
  same process.
\<close>

theorem registration_requests_blocks:
  assumes "metas_on_disk E m w ms" "prints_ok E" "listed_blocks E m w ms" "numbered_names E m ms"
  shows "data_block_controller E w ts (data_block_dir_wrap E m) [] = (Inr (),
       map (\<lambda>i. ConvertProcess ts (acquire_data_block_meta_path E m (int i)) (block_path E m (ms ! i))) [0..<length ms]) \<and>
     (\<forall>i < length ms. run_process E w ts (ConvertProcess ts (acquire_data_block_meta_path E m (int i)) (block_path E m (ms ! i))) =
        (Inr (Some (block_request (ms ! i) (block_path E m (ms ! i)))), [])) \<and>
     (\<forall>mp dp host. mp \<noteq> [] \<and> dp \<noteq> [] \<longrightarrow>
        parse_data_block_meta (rq_json (save_data_block_info host mp dp)) [] = (Inr (0, ''success''), [ParseProcess [] mp dp]) \<and>
        run_process E w ts (ParseProcess [] mp dp) = (Inr None, [ConvertProcess ts mp dp]))"
proof (intro conjI allI impI)
  show "data_block_controller E w ts (data_block_dir_wrap E m) [] = (Inr (),
       map (\<lambda>i. ConvertProcess ts (acquire_data_block_meta_path E m (int i)) (block_path E m (ms ! i))) [0..<length ms])"
    using controller_launches [OF assms(3,4), of ts "[]"] by simp
next
  fix i assume "i < length ms"
  from convert_requests [OF assms(1,2) this]
  show "run_process E w ts (ConvertProcess ts (acquire_data_block_meta_path E m (int i)) (block_path E m (ms ! i))) =
        (Inr (Some (block_request (ms ! i) (block_path E m (ms ! i)))), [])" by simp
next
  fix mp dp host :: string assume "mp \<noteq> [] \<and> dp \<noteq> []"
  then show "parse_data_block_meta (rq_json (save_data_block_info host mp dp)) [] = (Inr (0, ''success''), [ParseProcess [] mp dp])"
    "run_process E w ts (ParseProcess [] mp dp) = (Inr None, [ConvertProcess ts mp dp])"
    by (simp_all add: parse_data_block_meta_def json_get_def save_data_block_info_def truthy_def parse_task_def)
qed

definition numbered_ext :: "sample_world ext" where
  "numbered_ext = sample_ext\<lparr>ex_meta_name := (\<lambda>s p i. s @ ''.'' @ zfill 8 (str_of_int i) @ ''.meta''),
     ex_block_name := (\<lambda>s m. s @ ''.'' @ zfill 8 (str_of_int (data_block_index m)) @ ''.0-0.data'')\<rparr>"

definition registry_manager :: data_block_manager where
  "registry_manager = \<lparr>dbm_partition_id = 0, dbm_data_block_dir = ''b'', dbm_data_source_name = ''s'', dbm_buffer = [],
     dbm_saved = Some 1, dbm_saving = None\<rparr>"

definition registry_metas :: "data_block_meta list" where
  "registry_metas = [empty_data_block_meta\<lparr>block_id := ''s0'', example_ids := [''a'']\<rparr>,
     empty_data_block_meta\<lparr>block_id := ''s1'', example_ids := [''c''], data_block_index := 1\<rparr>]"

definition registry_disk :: sample_world where
  "registry_disk = \<lparr>sw_files =
     [(''b/partition_0/s.00000001.0-0.data'', [''c'']), (''b/partition_0/s.00000000.meta'', [meta_out (registry_metas ! 0)]),
      (''b/partition_0/s.00000000.0-0.data'', [''a'']), (''b/partition_0/s.00000001.meta'', [meta_out (registry_metas ! 1)])],
     sw_dirs = [''b/partition_0''], sw_clock = 0\<rparr>"

lemma registry_paths:
  "data_block_dir_wrap numbered_ext registry_manager = ''b/partition_0''"
  "acquire_data_block_meta_path numbered_ext registry_manager (int i) = ''b/partition_0/s.'' @ zfill 8 (str_of_nat i) @ ''.meta''"
  "i < 2 \<Longrightarrow> block_path numbered_ext registry_manager (registry_metas ! i) = ''b/partition_0/s.'' @ zfill 8 (str_of_nat i) @ ''.0-0.data''"
proof -
  show d: "data_block_dir_wrap numbered_ext registry_manager = ''b/partition_0''" by code_simp
  show "acquire_data_block_meta_path numbered_ext registry_manager (int i) = ''b/partition_0/s.'' @ zfill 8 (str_of_nat i) @ ''.meta''"
    by (simp add: acquire_data_block_meta_path_def d) (simp add: numbered_ext_def registry_manager_def path_join_def str_of_int_def)
  show "i < 2 \<Longrightarrow> block_path numbered_ext registry_manager (registry_metas ! i) = ''b/partition_0/s.'' @ zfill 8 (str_of_nat i) @ ''.0-0.data''"
    by (simp add: block_path_def d)
       (auto simp: numbered_ext_def registry_manager_def registry_metas_def path_join_def str_of_int_def empty_data_block_meta_def less_2_cases_iff)
qed

lemma numbers: "zfill 8 (str_of_nat 0) = ''00000000''" "zfill 8 (str_of_nat 1) = ''00000001''" "zfill 8 (str_of_nat (Suc 0)) = ''00000001''"
  by code_simp+

lemma numbers_else: "2 \<le> i \<Longrightarrow> zfill 8 (str_of_nat i) \<noteq> ''00000000'' \<and> zfill 8 (str_of_nat i) \<noteq> ''00000001''"
  unfolding numbers(1,2) [symmetric] by (simp add: zfill_inject del: numbers)

lemma registry_on_disk: "metas_on_disk numbered_ext registry_manager registry_disk registry_metas"
proof -
  have disk: "ex_file numbered_ext = sw_file" "ex_isdir numbered_ext registry_disk p \<longleftrightarrow> p = ''b/partition_0''"
    "ex_meta_to_string numbered_ext = meta_out" for p by (simp_all add: numbered_ext_def registry_disk_def)
  have free: "\<not> ex_exists numbered_ext registry_disk (''b/partition_0/s.'' @ zfill 8 (str_of_nat i) @ ''.meta'')" if "2 \<le> i" for i
  proof -
    let ?p = "''b/partition_0/s.'' @ zfill 8 (str_of_nat i) @ ''.meta''"
    have "last ?p = CHR ''a''" by simp
    moreover have "?p \<noteq> ''b/partition_0/s.'' @ ''00000000'' @ ''.meta''" "?p \<noteq> ''b/partition_0/s.'' @ ''00000001'' @ ''.meta''"
      using numbers_else [OF that] by (simp_all only: append_same_eq same_append_eq simp_thms)
    moreover have "rev ?p \<noteq> rev (x @ ''.data'')" for x by simp
    then have "?p \<noteq> x @ ''.data''" for x by metis
    from this [of "''b/partition_0/s.00000000.0-0''"] this [of "''b/partition_0/s.00000001.0-0''"]
    have "?p \<noteq> ''b/partition_0/s.00000000.0-0.data''" "?p \<noteq> ''b/partition_0/s.00000001.0-0.data''" by simp_all
    ultimately show ?thesis unfolding ex_exists_def disk by (simp add: sw_file_def registry_disk_def)
  qed
  have "length registry_metas = 2" by (simp add: registry_metas_def)
  moreover have "sw_file registry_disk (''b/partition_0/s.'' @ zfill 8 (str_of_nat i) @ ''.meta'') = Some [meta_out (registry_metas ! i)] \<and>
      data_block_index (registry_metas ! i) = int i" if "i < 2" for i
    using that by (auto simp: less_2_cases_iff numbers registry_disk_def sw_file_def registry_metas_def empty_data_block_meta_def)
  ultimately show ?thesis
    using free by (simp add: metas_on_disk_def registry_paths disk data_block_index_threshold_def)
qed

lemma registry_listed: "listed_blocks numbered_ext registry_manager registry_disk registry_metas"
  "numbered_names numbered_ext registry_manager registry_metas"
proof -
  have len: "length registry_metas = 2" by (simp add: registry_metas_def)
  have blocks: "block_path numbered_ext registry_manager (registry_metas ! 0) = ''b/partition_0/s.00000000.0-0.data''"
    "block_path numbered_ext registry_manager (registry_metas ! Suc 0) = ''b/partition_0/s.00000001.0-0.data''"
    using registry_paths(3) [of 0] registry_paths(3) [of 1] by (simp_all add: numbers)
  let ?names = "[''s.00000001.0-0.data'', ''s.00000000.meta'', ''s.00000000.0-0.data'', ''s.00000001.meta'']"
  have names: "ex_listdir numbered_ext registry_disk ''b/partition_0'' = Some ?names"
    by (simp add: numbered_ext_def sample_ext_def registry_disk_def)
  have "files_ending numbered_ext registry_disk ''b/partition_0'' ?names ''.meta'' = [''b/partition_0/s.00000000.meta'', ''b/partition_0/s.00000001.meta'']"
    "files_ending numbered_ext registry_disk ''b/partition_0'' ?names ''.data'' = [''b/partition_0/s.00000001.0-0.data'', ''b/partition_0/s.00000000.0-0.data'']"
    by (simp_all add: files_ending_def numbered_ext_def registry_disk_def endswith_def path_join_def)
  then show "listed_blocks numbered_ext registry_manager registry_disk registry_metas"
    unfolding listed_blocks_def registry_paths using names blocks len by (simp add: registry_paths(2) numbers upt_rec)
  show "numbered_names numbered_ext registry_manager registry_metas"
    unfolding numbered_names_def len by (auto simp: registry_paths(2) blocks less_2_cases_iff numbers from_end_def)
qed

theorem registration_requests_blocks_witness:
  "data_block_controller numbered_ext registry_disk ''t'' ''b/partition_0'' [] = (Inr (),
     [ConvertProcess ''t'' ''b/partition_0/s.00000000.meta'' ''b/partition_0/s.00000000.0-0.data'',
      ConvertProcess ''t'' ''b/partition_0/s.00000001.meta'' ''b/partition_0/s.00000001.0-0.data''])"
proof -
  have "prints_ok numbered_ext" by (simp add: prints_ok_def numbered_ext_def sample_ext_def)
  from registration_requests_blocks [OF registry_on_disk this registry_listed, of "''t''"]
  have "data_block_controller numbered_ext registry_disk ''t'' (data_block_dir_wrap numbered_ext registry_manager) [] = (Inr (),
     map (\<lambda>i. ConvertProcess ''t'' (acquire_data_block_meta_path numbered_ext registry_manager (int i))
        (block_path numbered_ext registry_manager (registry_metas ! i))) [0..<length registry_metas])" by blast
  moreover have "[0..<length registry_metas] = [0, 1]" by (simp add: registry_metas_def upt_rec)
  ultimately show ?thesis
    using registry_paths(3) [of 0] registry_paths(3) [of 1] registry_paths(2) [of 0] registry_paths(2) [of 1]
    by (simp add: registry_paths(1) numbers)
qed

subsection \<open>The entry of a block\<close>

definition entry_fits :: "data_block_meta \<Rightarrow> string \<Rightarrow> int \<Rightarrow> bool" where
  "entry_fits meta path stamp \<longleftrightarrow> length (block_id meta) \<le> 500 \<and> length path \<le> 500 \<and> length (data_source_name_of path) \<le> 300 \<and>
     - (2 ^ 31) \<le> partition_id meta \<and> partition_id meta < 2 ^ 31 \<and> - (2 ^ 31) \<le> file_version meta \<and> file_version meta < 2 ^ 31 \<and>
     int64_ok (start_time meta) \<and> int64_ok (end_time meta) \<and> int64_ok (leader_start_index meta) \<and> int64_ok (leader_end_index meta) \<and>
     int64_ok (follower_restart_index meta) \<and> int64_ok (data_block_index meta) \<and> int64_ok stamp"

text \<open>
  C27. The entry of a block that the database does not have yet is created with everything the request
  says: reading the row of its id gives the values of the request, the partition and the version,
  the time of the save, and the defaults of the other columns; the other rows stay.
\<close>

theorem registered_block_reads_back:
  assumes ok: "commit_ok DataBlockMeta_model commit" and new: "tb (JStr (block_id meta)) = None"
    and fits: "entry_fits meta path (ck_stamp ck)"
  shows "\<exists>r. update_data_block_meta_status commit ck True (JStr (block_id meta)) (JInt (partition_id meta)) (JInt (file_version meta))
       (rq_json (block_request meta path)) True tb = (Inr (), tb(JStr (block_id meta) \<mapsto> r)) \<and>
     (\<forall>(k, v) \<in> set (rq_json (block_request meta path)). r k = Some v) \<and>
     r ''block_id'' = Some (JStr (block_id meta)) \<and> r ''partition_id'' = Some (JInt (partition_id meta)) \<and>
     r ''file_version'' = Some (JInt (file_version meta)) \<and> r ''create_time'' = Some (JInt (ck_stamp ck)) \<and>
     r ''update_time'' = Some (JInt (ck_stamp ck)) \<and> r ''example_ids'' = Some (JStr []) \<and>
     r ''follower_start_index'' = Some JNull \<and> r ''follower_end_index'' = Some JNull"
proof -
  let ?new = "(new_row DataBlockMeta_model)(''create_time'' \<mapsto> JInt (ck_stamp ck), ''update_time'' \<mapsto> JInt (ck_stamp ck))"
  let ?presets = "[(''block_id'', JStr (block_id meta)), (''partition_id'', JInt (partition_id meta)), (''file_version'', JInt (file_version meta))]"
  let ?r = "(set_fields DataBlockMeta_model [''block_id'', ''partition_id'', ''file_version''] (rq_json (block_request meta path))
      (preset ?presets ?new))(''update_time'' \<mapsto> JInt (ck_stamp ck))"
  note vals = block_request_def block_columns new_row_def row_get_def char_field_def int_field_def big_field_def text_field_def
  have row: "row_fits DataBlockMeta_model ?r" using fits by (simp add: row_fits_def entry_fits_def vals DataBlockMeta_model_def)
  have columns: "map_of DataBlockMeta_model ''block_id'' \<noteq> None" "''update_time'' \<in> fst ` set DataBlockMeta_model"
    "''update_date'' \<notin> fst ` set DataBlockMeta_model" by (simp_all add: DataBlockMeta_model_def)
  have "tb (JStr (block_id meta)) = Some ?new \<or> tb (JStr (block_id meta)) = None \<and> True \<and> ?new = ?new" using new by blast
  from saved_row [where tb = tb and key = "JStr (block_id meta)" and r = ?new, OF ok columns this row]
  have "update_data_block_meta_status commit ck True (JStr (block_id meta)) (JInt (partition_id meta)) (JInt (file_version meta))
       (rq_json (block_request meta path)) True tb = (Inr (), tb(JStr (block_id meta) \<mapsto> stored_row DataBlockMeta_model ?r))"
    unfolding update_data_block_meta_status_def save_data_block_meta_info_def data_managers.select_convs .
  moreover have "\<forall>(k, v) \<in> set (rq_json (block_request meta path)). stored_row DataBlockMeta_model ?r k = Some v"
    by (simp add: stored_row_def column_name vals)
  moreover have "stored_row DataBlockMeta_model ?r ''block_id'' = Some (JStr (block_id meta))"
    "stored_row DataBlockMeta_model ?r ''partition_id'' = Some (JInt (partition_id meta))"
    "stored_row DataBlockMeta_model ?r ''file_version'' = Some (JInt (file_version meta))"
    "stored_row DataBlockMeta_model ?r ''create_time'' = Some (JInt (ck_stamp ck))"
    "stored_row DataBlockMeta_model ?r ''update_time'' = Some (JInt (ck_stamp ck))"
    "stored_row DataBlockMeta_model ?r ''example_ids'' = Some (JStr [])"
    "stored_row DataBlockMeta_model ?r ''follower_start_index'' = Some JNull"
    "stored_row DataBlockMeta_model ?r ''follower_end_index'' = Some JNull"
    by (simp_all add: stored_row_def column_name vals)
  ultimately show ?thesis by blast
qed

definition sample_clock :: clock where
  "sample_clock = \<lparr>ck_stamp = 5, ck_date = JNull\<rparr>"

definition plain_commit :: "row \<Rightarrow> exn + row" where
  "plain_commit r = Inr (stored_row DataBlockMeta_model r)"

lemma plain_commit_ok: "commit_ok DataBlockMeta_model plain_commit"
  by (simp add: commit_ok_def plain_commit_def)

theorem registered_block_reads_back_witness:
  "\<exists>r. update_data_block_meta_status plain_commit sample_clock True (JStr ''s1'') (JInt 0) (JInt 0)
       (rq_json (block_request (registry_metas ! 1) ''b/s.1.data'')) True Map.empty = (Inr (), [JStr ''s1'' \<mapsto> r]) \<and>
     r ''data_block_index'' = Some (JInt 1) \<and> r ''data_source_name'' = Some (JStr ''s'')"
proof -
  have meta: "block_id (registry_metas ! 1) = ''s1''" "partition_id (registry_metas ! 1) = 0" "file_version (registry_metas ! 1) = 0"
    by (simp_all add: registry_metas_def empty_data_block_meta_def)
  have fits: "entry_fits (registry_metas ! 1) ''b/s.1.data'' (ck_stamp sample_clock)" by code_simp
  have entries: "(''data_block_index'', JInt 1) \<in> set (rq_json (block_request (registry_metas ! 1) ''b/s.1.data''))"
    "(''data_source_name'', JStr ''s'') \<in> set (rq_json (block_request (registry_metas ! 1) ''b/s.1.data''))"
    by (simp_all add: block_request_def registry_metas_def data_source_name_of_def)
  from registered_block_reads_back [OF plain_commit_ok _ fits, of Map.empty, unfolded meta] entries show ?thesis by fastforce
qed

text \<open>
  A column cannot be set back to its default: when the database has the block, a value that equals the
  default of its column is skipped, so a save that should reset \<^verbatim>\<open>consumed_status\<close> or \<^verbatim>\<open>create_status\<close> to 0 leaves the old
  status and reports success.
\<close>

theorem default_value_is_ignored:
  assumes ok: "commit_ok DataBlockMeta_model commit" and old: "tb key = Some r" "stored_row DataBlockMeta_model r = r"
    and fits: "row_fits DataBlockMeta_model r" "int64_ok (ck_stamp ck)" and key: "row_get r ''block_id'' = key"
    and k: "map_of DataBlockMeta_model k = Some f" "k \<notin> {''block_id'', ''partition_id'', ''file_version'', ''update_time''}"
    and v: "py_equal v (f_default f)"
  shows "update_data_block_meta_status commit ck True key (row_get r ''partition_id'') (row_get r ''file_version'') [(k, v)] create tb =
    (Inr (), tb(key \<mapsto> r(''update_time'' \<mapsto> JInt (ck_stamp ck))))"
proof -
  let ?presets = "[(''block_id'', key), (''partition_id'', row_get r ''partition_id''), (''file_version'', row_get r ''file_version'')]"
  have get: "r c = Some (row_get r c)" if "c \<in> fst ` set DataBlockMeta_model" for c
    using fun_cong [OF old(2), of c] that by (simp add: stored_row_def)
  have "r ''block_id'' = Some key" "r ''partition_id'' = Some (row_get r ''partition_id'')" "r ''file_version'' = Some (row_get r ''file_version'')"
    using get key by (simp_all add: DataBlockMeta_model_def)
  then have "preset ?presets r = r" by (simp add: map_upd_triv fun_upd_idem)
  then have row: "set_fields DataBlockMeta_model [''block_id'', ''partition_id'', ''file_version''] [(k, v)] (preset ?presets r) = r"
    using k v by simp
  let ?r = "r(''update_time'' \<mapsto> JInt (ck_stamp ck))"
  have "row_fits DataBlockMeta_model ?r"
    using fits by (intro row_fits_update) (auto simp: DataBlockMeta_model_def big_field_def)
  moreover have columns: "map_of DataBlockMeta_model ''block_id'' \<noteq> None" "''update_time'' \<in> fst ` set DataBlockMeta_model"
    "''update_date'' \<notin> fst ` set DataBlockMeta_model" by (simp_all add: DataBlockMeta_model_def)
  moreover have "stored_row DataBlockMeta_model ?r = ?r"
    using stored_row_update [OF columns(2)] old(2) by simp
  ultimately show ?thesis
    using saved_row [of DataBlockMeta_model commit tb key r create ck "[''block_id'', ''partition_id'', ''file_version'']" "[(k, v)]" ?presets,
        OF ok columns] old(1)
    by (simp only: row update_data_block_meta_status_def save_data_block_meta_info_def data_managers.select_convs simp_thms)
qed

definition consumed_row :: row where
  "consumed_row = stored_row DataBlockMeta_model
     [''block_id'' \<mapsto> JStr ''s1'', ''dfs_data_block_dir'' \<mapsto> JStr ''b'', ''data_source_name'' \<mapsto> JStr ''s'', ''partition_id'' \<mapsto> JInt 0,
      ''file_version'' \<mapsto> JInt 0, ''consumed_status'' \<mapsto> JInt 1]"

theorem default_value_is_ignored_witness:
  "\<exists>r. update_data_block_meta_status plain_commit sample_clock True (JStr ''s1'') (JInt 0) (JInt 0) [(''consumed_status'', JInt 0)] True
       [JStr ''s1'' \<mapsto> consumed_row] = (Inr (), [JStr ''s1'' \<mapsto> r]) \<and> r ''consumed_status'' = Some (JInt 1)"
proof -
  have stored: "stored_row DataBlockMeta_model consumed_row = consumed_row"
    by (simp add: fun_eq_iff consumed_row_def stored_row_def row_get_def)
  have get: "row_get consumed_row ''block_id'' = JStr ''s1''" "row_get consumed_row ''partition_id'' = JInt 0"
    "row_get consumed_row ''file_version'' = JInt 0" "consumed_row ''consumed_status'' = Some (JInt 1)"
    by (simp_all add: consumed_row_def row_get_def stored_row_def column_name block_columns)
  have "row_fits DataBlockMeta_model consumed_row" by code_simp
  moreover have "int64_ok (ck_stamp sample_clock)" by code_simp
  moreover have "py_equal (JInt 0) (f_default (int_field (JInt 0)))" by (simp add: int_field_def)
  ultimately have "update_data_block_meta_status plain_commit sample_clock True (JStr ''s1'') (row_get consumed_row ''partition_id'')
      (row_get consumed_row ''file_version'') [(''consumed_status'', JInt 0)] True [JStr ''s1'' \<mapsto> consumed_row] =
      (Inr (), [JStr ''s1'' \<mapsto> consumed_row, JStr ''s1'' \<mapsto> consumed_row(''update_time'' \<mapsto> JInt (ck_stamp sample_clock))])"
    using stored get(1) block_columns(17) by (intro default_value_is_ignored [OF plain_commit_ok]) simp_all
  then show ?thesis using get by (intro exI [of _ "consumed_row(''update_time'' \<mapsto> JInt (ck_stamp sample_clock))"]) simp
qed

subsection \<open>Data sources and keys\<close>

text \<open>
  Data sources are never saved: both methods select by the column \<^verbatim>\<open>block_id\<close>, which their models do not have, and
  raise \<^verbatim>\<open>AttributeError\<close> before they touch the table, with and without a connection.
\<close>

theorem data_sources_never_saved:
  "save_data_source_meta_info commit ck connected dm info create tb = (Inl AttributeError, tb) \<and>
   save_data_source_info commit ck connected dm info create tb = (Inl AttributeError, tb)"
  by (simp add: save_data_source_meta_info_def save_data_source_info_def save_info_def DataSourceMeta_model_def DataSource_model_def)

text \<open>
  The key store while its server answers: a value that was set is read until it expires and not
  afterwards, other keys keep their values, and a deleted key is not found; an empty value
  is reported as not found.
\<close>

theorem redis_store_roundtrip:
  assumes "rs_up s" "0 < e"
  shows "(\<forall>t. redis_get (redis_set now k v e s) t k = (if t < now + e then Some (v \<noteq> [], Some v) else Some (False, None))) \<and>
     (\<forall>t k'. k' \<noteq> k \<longrightarrow> redis_get (redis_set now k v e s) t k' = redis_get s t k') \<and>
     (\<exists>s'. redis_delete [k] (redis_set now k v e s) = (Inr (), s') \<and>
        (\<forall>t. redis_get s' t k = Some (False, None)) \<and> (\<forall>t k'. k' \<noteq> k \<longrightarrow> redis_get s' t k' = redis_get s t k'))"
  using assms by (auto simp: redis_get_def redis_set_def redis_delete_def live_value_def)

theorem redis_store_roundtrip_witness:
  "redis_get (redis_set 10 ''k'' ''v'' default_expire_seconds \<lparr>rs_up = True, rs_data = Map.empty\<rparr>) 20 ''k'' = Some (True, Some ''v'')"
  using redis_store_roundtrip [of "\<lparr>rs_up = True, rs_data = Map.empty\<rparr>" default_expire_seconds 10 "''k''" "''v''"]
  by (simp add: default_expire_seconds_def)

subsection \<open>Directories given with a slash at the end\<close>

text \<open>
  An absolute directory that is given with a slash at its end is looked up relative to the working
  directory: the slashes are stripped at both ends. The files below the absolute path are never looked at.
\<close>

theorem trailing_slash_makes_relative:
  assumes "d \<noteq> []" "hd d \<noteq> CHR ''/''" "last d \<noteq> CHR ''/''"
  shows "parse_task E w ts (''/'' @ d @ ''/'') meta_arg block_arg ps = parse_task E w ts d meta_arg block_arg ps"
proof -
  have "dropWhile (\<lambda>c. c = CHR ''/'') (d @ ''/'') = d @ ''/''" using assms(1,2) by (cases d) auto
  moreover have "dropWhile (\<lambda>c. c = CHR ''/'') (rev d) = rev d" using assms(1,3) by (cases d rule: rev_cases) auto
  ultimately have strip: "strip_slashes (''/'' @ d @ ''/'') = d" by (simp add: strip_slashes_def)
  have "endswith (''/'' @ d @ ''/'') ''/''" using endswith_append [of "''/'' @ d" "''/''"] by simp
  moreover have "\<not> endswith d ''/''" using assms(3) by (auto simp: endswith_iff)
  ultimately show ?thesis using strip assms(1) by (simp add: parse_task_def)
qed

theorem trailing_slash_makes_relative_witness:
  "parse_task numbered_ext registry_disk ''t'' ''/b/'' [] [] [] = parse_task numbered_ext registry_disk ''t'' ''b'' [] [] []"
  using trailing_slash_makes_relative [of "''b''" numbered_ext registry_disk "''t''" "[]" "[]" "[]"] by simp

end
