(* ===== verification/Psi_Handshake.thy ===== *)
theory Psi_Handshake
  imports DJ_Prelude
begin

section \<open>The handshake of the private set intersection\<close>

text \<open>
  \<^verbatim>\<open>PSI/psi/interconnection_psi/base.py\<close> and \<^verbatim>\<open>config.py\<close>. Both parties build a \<^verbatim>\<open>Context\<close>; the
  sender sends a request with what it supports, the receiver intersects it with its own request
  and answers with one choice, and both take their parameters from the answer. Messages are
  records, a packed \<^verbatim>\<open>Any\<close> is the sum of the message types that the code packs. The order in
  which Python lists the elements of a set is the parameter \<open>so\<close>, the random key is a parameter
  of the operation that draws it.
\<close>

subsection \<open>Messages\<close>

record ec_suit =
  es_curve :: int
  es_hash :: int
  es_hash2curve_strategy :: int

record ecc_protocol_proposal =
  ep_supported_versions :: "int list"
  ep_ec_suits :: "ec_suit list"
  ep_point_octet_formats :: "int list"
  ep_support_point_truncation :: bool

record ecc_protocol_result =
  er_version :: int
  er_ec_suit :: ec_suit
  er_point_octet_format :: int
  er_bit_length_after_truncated :: int
  er_result_to_rank :: int

record psi_data_info_proposal =
  pp_supported_versions :: "int list"
  pp_item_num :: int
  pp_result_to_rank :: int

record psi_data_info_result =
  pq_version :: int
  pq_result_to_rank :: int

datatype any_message =
    AnyEccProposal ecc_protocol_proposal | AnyEccResult ecc_protocol_result
  | AnyPsiProposal psi_data_info_proposal | AnyPsiResult psi_data_info_result
  | AnyOther bytes

record handshake_request =
  rq_version :: int
  rq_requester_rank :: int
  rq_supported_algos :: "int list"
  rq_protocol_families :: "int list"
  rq_protocol_family_params :: "any_message list"
  rq_io_param :: any_message

record handshake_response =
  rs_algo :: int
  rs_protocol_families :: "int list"
  rs_protocol_family_params :: "any_message list"
  rs_io_param :: any_message

definition ALGO_TYPE_ECDH_PSI :: int where "ALGO_TYPE_ECDH_PSI = 1"
definition PROTOCOL_FAMILY_ECC :: int where "PROTOCOL_FAMILY_ECC = 1"
definition CURVE_TYPE_CURVE25519 :: int where "CURVE_TYPE_CURVE25519 = 1"
definition HASH_TYPE_SHAKE_256 :: int where "HASH_TYPE_SHAKE_256 = 30"
definition HASH_TO_CURVE_STRATEGY_DIRECT_HASH_AS_POINT_X :: int where
  "HASH_TO_CURVE_STRATEGY_DIRECT_HASH_AS_POINT_X = 3"
definition POINT_OCTET_FORMAT_UNCOMPRESSED :: int where "POINT_OCTET_FORMAT_UNCOMPRESSED = 1"
definition UNSUPPORTED_VERSION :: int where "UNSUPPORTED_VERSION = 31100201"
definition UNSUPPORTED_ALGO :: int where "UNSUPPORTED_ALGO = 31100202"
definition UNSUPPORTED_PARAMS :: int where "UNSUPPORTED_PARAMS = 31100203"
definition SENDER_RANK :: int where "SENDER_RANK = 0"
definition RECEIVER_RANK :: int where "RECEIVER_RANK = 1"

subsection \<open>base.py\<close>

text \<open>
  The callers pass the field path as a list; formatting it into the expression
  \<^verbatim>\<open>lst.['version']\<close> gives a \<^verbatim>\<open>SyntaxError\<close> for the first input. Only without inputs is the
  exception that is meant raised.
\<close>

definition raise_exception :: "int \<Rightarrow> 'a list \<Rightarrow> exn + 'b" where
  "raise_exception error_code input = (if input = [] then Inl (PsiException error_code) else Inl SyntaxError)"

definition intersection_int :: "('a \<Rightarrow> int) \<Rightarrow> 'a list \<Rightarrow> exn + bool" where
  "intersection_int field input =
     (if input = [] then Inl IndexError
      else Inr ((\<Sum>lst \<leftarrow> input. field lst) = field (hd input) * int (length input)))"

definition intersection_bool :: "('a \<Rightarrow> bool) \<Rightarrow> 'a list \<Rightarrow> exn + bool" where
  "intersection_bool field input =
     (if input = [] then Inl IndexError else Inr (\<forall>lst \<in> set input. field lst))"

text \<open>Hashable elements (numbers) go through a set, unhashable ones (messages) keep their order.\<close>

definition intersection_set :: "(int set \<Rightarrow> int list) \<Rightarrow> ('a \<Rightarrow> int list) \<Rightarrow> 'a list \<Rightarrow> exn + int list" where
  "intersection_set so field input =
     (case input of
        [] \<Rightarrow> Inl IndexError
      | x # xs \<Rightarrow>
          if field x = [] then Inl IndexError
          else Inr (so (fold (\<lambda>lst s. s \<inter> set (field lst)) xs (set (field x)))))"

definition intersection_list :: "('a \<Rightarrow> 'b list) \<Rightarrow> 'a list \<Rightarrow> exn + 'b list" where
  "intersection_list field input =
     (case input of
        [] \<Rightarrow> Inl IndexError
      | x # xs \<Rightarrow>
          if field x = [] then Inl IndexError
          else Inr (filter (\<lambda>element. \<forall>lst \<in> set xs. element \<in> set (field lst)) (field x)))"

text \<open>\<open>unpack_params\<close> keeps the messages of the wanted type, given by a partial projection.\<close>

definition unpack_params_list :: "(any_message \<Rightarrow> 'b option) \<Rightarrow> ('a \<Rightarrow> any_message list) \<Rightarrow> 'a list \<Rightarrow> 'b list" where
  "unpack_params_list proj field input = List.map_filter proj (concat (map field input))"

definition unpack_param :: "(any_message \<Rightarrow> 'b option) \<Rightarrow> ('a \<Rightarrow> any_message list) \<Rightarrow> 'a \<Rightarrow> exn + 'b" where
  "unpack_param proj field input =
     (case unpack_params_list proj field [input] of [] \<Rightarrow> Inl IndexError | x # _ \<Rightarrow> Inr x)"

fun as_ecc_proposal :: "any_message \<Rightarrow> ecc_protocol_proposal option" where
  "as_ecc_proposal (AnyEccProposal p) = Some p"
| "as_ecc_proposal _ = None"

fun as_ecc_result :: "any_message \<Rightarrow> ecc_protocol_result option" where
  "as_ecc_result (AnyEccResult p) = Some p"
| "as_ecc_result _ = None"

fun as_psi_proposal :: "any_message \<Rightarrow> psi_data_info_proposal option" where
  "as_psi_proposal (AnyPsiProposal p) = Some p"
| "as_psi_proposal _ = None"

subsection \<open>Context\<close>

record psi_context =
  cx_version :: int
  cx_protocol_families :: "int list"
  cx_protocol_family_params :: "ecc_protocol_proposal list"
  cx_supported_algos :: "int list"
  cx_supported_versions :: "int list"
  cx_need_recv_cipher :: bool
  cx_need_send_cipher :: bool
  cx_rank :: int
  cx_item_num :: int
  cx_result_to_rank :: int
  cx_domain_list :: "string list"
  cx_ecc_param :: "ecc_protocol_result option"
  cx_key :: "bytes option"

definition default_ec_suit :: ec_suit where
  "default_ec_suit = \<lparr>es_curve = CURVE_TYPE_CURVE25519, es_hash = HASH_TYPE_SHAKE_256,
     es_hash2curve_strategy = HASH_TO_CURVE_STRATEGY_DIRECT_HASH_AS_POINT_X\<rparr>"

definition init_context :: "int \<Rightarrow> int \<Rightarrow> int \<Rightarrow> string list \<Rightarrow> psi_context" where
  "init_context rank item_num result_to_rank domain_list =
     \<lparr>cx_version = 1, cx_protocol_families = [PROTOCOL_FAMILY_ECC],
      cx_protocol_family_params =
        [\<lparr>ep_supported_versions = [1], ep_ec_suits = [default_ec_suit],
          ep_point_octet_formats = [POINT_OCTET_FORMAT_UNCOMPRESSED], ep_support_point_truncation = False\<rparr>],
      cx_supported_algos = [ALGO_TYPE_ECDH_PSI], cx_supported_versions = [1],
      cx_need_recv_cipher = False, cx_need_send_cipher = False, cx_rank = rank, cx_item_num = item_num,
      cx_result_to_rank = result_to_rank, cx_domain_list = domain_list, cx_ecc_param = None, cx_key = None\<rparr>"

definition make_handshake_request :: "psi_context \<Rightarrow> handshake_request" where
  "make_handshake_request cx =
     \<lparr>rq_version = cx_version cx, rq_requester_rank = cx_rank cx, rq_supported_algos = cx_supported_algos cx,
      rq_protocol_families = cx_protocol_families cx,
      rq_protocol_family_params = map AnyEccProposal (cx_protocol_family_params cx),
      rq_io_param = AnyPsiProposal \<lparr>pp_supported_versions = cx_supported_versions cx,
        pp_item_num = cx_item_num cx, pp_result_to_rank = cx_result_to_rank cx\<rparr>\<rparr>"

text \<open>
  The attributes that are functions (hashing, the curve, the octet formats) are determined by the parameter
  message and the key, which the record keeps. The name of the curve is looked up at once, and the
  constructor of \<^verbatim>\<open>crypto.Curve\<close> (\<^verbatim>\<open>PSI/crypto/src/curve.rs\<close>) panics for a curve that it does not support; the other
  names are looked up when the functions are called.
\<close>

definition curve_numbers :: "int list" where
  "curve_numbers = [0, CURVE_TYPE_CURVE25519, 2]"

definition make_curve :: "int \<Rightarrow> exn + unit" where
  "make_curve curve =
     (if curve \<notin> set curve_numbers then Inl KeyError
      else if curve \<noteq> CURVE_TYPE_CURVE25519 then Inl PanicException else Inr ())"

definition reset_from_response :: "bytes \<Rightarrow> handshake_response \<Rightarrow> psi_context \<Rightarrow> (unit, psi_context) eff" where
  "reset_from_response urandom rsp cx =
     (case unpack_param as_ecc_result rs_protocol_family_params rsp of
        Inl e \<Rightarrow> (Inl e, cx)
      | Inr ecc_param \<Rightarrow>
          let cx1 = cx\<lparr>cx_ecc_param := Some ecc_param, cx_key := Some urandom\<rparr>
          in case make_curve (es_curve (er_ec_suit ecc_param)) of
               Inl e \<Rightarrow> (Inl e, cx1)
             | Inr _ \<Rightarrow>
                 (Inr (),
                  if cx_result_to_rank cx1 = -1
                  then cx1\<lparr>cx_need_recv_cipher := True, cx_need_send_cipher := True\<rparr>
                  else if cx_rank cx1 = SENDER_RANK then cx1\<lparr>cx_need_send_cipher := True\<rparr>
                  else cx1\<lparr>cx_need_recv_cipher := True\<rparr>))"

definition bind_sum :: "exn + 'a \<Rightarrow> ('a \<Rightarrow> exn + 'b) \<Rightarrow> exn + 'b" where
  "bind_sum r k = (case r of Inl e \<Rightarrow> Inl e | Inr x \<Rightarrow> k x)"

lemma bind_sum_simps [simp, eff_simps]: "bind_sum (Inr x) k = k x" "bind_sum (Inl e) k = Inl e"
  by (simp_all add: bind_sum_def)

lemma bind_sum_Inr_iff: "bind_sum r k = Inr y \<longleftrightarrow> (\<exists>x. r = Inr x \<and> k x = Inr y)"
  by (cases r) simp_all

definition negotiate :: "(int set \<Rightarrow> int list) \<Rightarrow> psi_context \<Rightarrow> handshake_request \<Rightarrow> exn + handshake_response" where
  "negotiate so cx req =
     (let reqs = [make_handshake_request cx, req];
          io_param = unpack_params_list as_psi_proposal (\<lambda>r. [rq_io_param r]) reqs;
          params = unpack_params_list as_ecc_proposal rq_protocol_family_params reqs
      in bind_sum (intersection_int rq_version reqs) (\<lambda>same_version.
         if \<not> same_version then raise_exception UNSUPPORTED_VERSION reqs else
         bind_sum (intersection_set so rq_supported_algos reqs) (\<lambda>supported_algos.
         if ALGO_TYPE_ECDH_PSI \<notin> set supported_algos then raise_exception UNSUPPORTED_ALGO reqs else
         bind_sum (intersection_set so pp_supported_versions io_param) (\<lambda>supported_versions.
         if length supported_versions = 0 then raise_exception UNSUPPORTED_VERSION io_param else
         bind_sum (intersection_int pp_result_to_rank io_param) (\<lambda>same_rank.
         if \<not> same_rank then raise_exception UNSUPPORTED_PARAMS io_param else
         bind_sum (intersection_set so rq_protocol_families reqs) (\<lambda>protocol_families.
         if PROTOCOL_FAMILY_ECC \<notin> set protocol_families then raise_exception UNSUPPORTED_PARAMS reqs else
         if length params = 0 then raise_exception UNSUPPORTED_PARAMS reqs else
         bind_sum (intersection_set so ep_supported_versions params) (\<lambda>ecc_versions.
         if length ecc_versions = 0 then raise_exception UNSUPPORTED_VERSION params else
         bind_sum (intersection_list ep_ec_suits params) (\<lambda>ec_suits.
         if length ec_suits = 0 then raise_exception UNSUPPORTED_PARAMS params else
         bind_sum (intersection_set so ep_point_octet_formats params) (\<lambda>point_octet_formats.
         if length point_octet_formats = 0 then raise_exception UNSUPPORTED_PARAMS params else
         bind_sum (intersection_bool ep_support_point_truncation params) (\<lambda>support_point_truncation.
         if support_point_truncation then raise_exception UNSUPPORTED_PARAMS ([] :: unit list) else
         Inr \<lparr>rs_algo = ALGO_TYPE_ECDH_PSI, rs_protocol_families = [PROTOCOL_FAMILY_ECC],
              rs_protocol_family_params =
                [AnyEccResult \<lparr>er_version = hd ecc_versions, er_ec_suit = hd ec_suits,
                   er_point_octet_format = hd point_octet_formats, er_bit_length_after_truncated = 0,
                   er_result_to_rank = cx_result_to_rank cx\<rparr>],
              rs_io_param = AnyPsiResult \<lparr>pq_version = hd supported_versions,
                pq_result_to_rank = cx_result_to_rank cx\<rparr>\<rparr>))))))))))"

definition negotiate_handshake ::
  "(int set \<Rightarrow> int list) \<Rightarrow> bytes \<Rightarrow> handshake_request \<Rightarrow> psi_context \<Rightarrow> (handshake_response, psi_context) eff" where
  "negotiate_handshake so urandom req cx =
     (case negotiate so cx req of
        Inl e \<Rightarrow> (Inl e, cx)
      | Inr rsp \<Rightarrow> and_then (reset_from_response urandom rsp cx) (\<lambda>_ cx'. (Inr rsp, cx')))"

text \<open>
  A receive takes what the peer has sent. When the peer has ended without sending anything, the link gives up
  after its \<^verbatim>\<open>recv_timeout_ms\<close>, an hour by the default of \<^verbatim>\<open>CreateContext\<close> in \<^verbatim>\<open>link_py.cc\<close>, which the callers keep,
  and its C++ exception becomes a \<^verbatim>\<open>RuntimeError\<close>.
\<close>

definition lctx_recv_proto :: "'m list \<Rightarrow> exn + 'm" where
  "lctx_recv_proto sent = (case sent of [] \<Rightarrow> Inl RuntimeError | protomsg # _ \<Rightarrow> Inr protomsg)"

text \<open>
  \<open>shakehand_flow\<close> by its two branches, each with what the party has received and what it sends: the
  receiver answers a request, the sender takes its parameters from the answer.
\<close>

definition shakehand_receiver ::
  "(int set \<Rightarrow> int list) \<Rightarrow> bytes \<Rightarrow> handshake_request list \<Rightarrow> psi_context \<Rightarrow> (unit, psi_context) eff \<times> handshake_response list" where
  "shakehand_receiver so urandom requests ctx =
     (case lctx_recv_proto requests of
        Inl e \<Rightarrow> ((Inl e, ctx), [])
      | Inr req \<Rightarrow>
          (case negotiate_handshake so urandom req ctx of
             (Inl e, ctx') \<Rightarrow> ((Inl e, ctx'), [])
           | (Inr rsp, ctx') \<Rightarrow> ((Inr (), ctx'), [rsp])))"

definition shakehand_sender :: "bytes \<Rightarrow> handshake_response list \<Rightarrow> psi_context \<Rightarrow> (unit, psi_context) eff" where
  "shakehand_sender urandom responses ctx =
     (case lctx_recv_proto responses of
        Inl e \<Rightarrow> (Inl e, ctx)
      | Inr rsp \<Rightarrow> reset_from_response urandom rsp ctx)"

definition shakehand_flow ::
  "(int set \<Rightarrow> int list) \<Rightarrow> bytes \<Rightarrow> bytes \<Rightarrow> psi_context \<Rightarrow> psi_context \<Rightarrow>
     (exn + unit) \<times> psi_context \<times> (exn + unit) \<times> psi_context" where
  "shakehand_flow so sender_key receiver_key s r =
     (case shakehand_receiver so receiver_key [make_handshake_request s] r of
        ((res_r, r'), responses) \<Rightarrow>
          (case shakehand_sender sender_key responses s of (res_s, s') \<Rightarrow> (res_s, s', res_r, r')))"

lemmas shakehand_defs = shakehand_flow_def shakehand_receiver_def shakehand_sender_def lctx_recv_proto_def

subsection \<open>What a negotiation guarantees\<close>

definition set_order_ok :: "(int set \<Rightarrow> int list) \<Rightarrow> bool" where
  "set_order_ok so \<longleftrightarrow> (\<forall>S. finite S \<longrightarrow> set (so S) = S \<and> distinct (so S))"

lemma set_order_single:
  assumes "set_order_ok so"
  shows "so {a} = [a]"
proof -
  have so: "set (so {a}) = {a}" "distinct (so {a})" using assms by (simp_all add: set_order_ok_def)
  then have "length (so {a}) = Suc 0" using distinct_card [of "so {a}"] by simp
  then obtain x where "so {a} = [x]" by (auto simp: length_Suc_conv)
  with so(1) show ?thesis by simp
qed

lemma fold_inter: "fold (\<lambda>lst s. s \<inter> f lst) xs S = {e \<in> S. \<forall>lst \<in> set xs. e \<in> f lst}"
  by (induction xs arbitrary: S) auto

lemma intersection_set_mem:
  assumes "set_order_ok so" "intersection_set so field input = Inr vs" "v \<in> set vs" "lst \<in> set input"
  shows "v \<in> set (field lst)"
proof (cases input)
  case (Cons x xs)
  let ?S = "{e \<in> set (field x). \<forall>lst \<in> set xs. e \<in> set (field lst)}"
  have "vs = so ?S" using assms(2) Cons by (auto simp: intersection_set_def fold_inter split: if_splits)
  then have "set vs = ?S" using assms(1) by (simp add: set_order_ok_def)
  with assms(3,4) Cons show ?thesis by auto
qed (use assms in simp)

lemma intersection_list_mem:
  assumes "intersection_list field input = Inr vs" "v \<in> set vs" "lst \<in> set input"
  shows "v \<in> set (field lst)"
  using assms by (cases input) (auto simp: intersection_list_def split: if_splits)

lemma intersection_int_two: "intersection_int field [a, b] = Inr (field b = field a)"
  by (simp add: intersection_int_def)

lemma map_filter_mem: "p \<in> set (List.map_filter f xs) \<longleftrightarrow> (\<exists>x \<in> set xs. f x = Some p)"
  by (induction xs) (auto simp: List.map_filter_simps split: option.splits)

lemma unpack_mem:
  "p \<in> set (unpack_params_list proj field input) \<longleftrightarrow>
     (\<exists>lst \<in> set input. \<exists>a \<in> set (field lst). proj a = Some p)"
  by (auto simp: unpack_params_list_def map_filter_mem)

lemma hd_mem: "length xs \<noteq> 0 \<Longrightarrow> hd xs \<in> set xs"
  by simp

lemma negotiate_choice:
  assumes "negotiate so cx req = Inr rsp"
  obtains algos versions families ecc_versions suits formats where
    "rq_version req = cx_version cx"
    "intersection_set so rq_supported_algos [make_handshake_request cx, req] = Inr algos" "ALGO_TYPE_ECDH_PSI \<in> set algos"
    "intersection_set so pp_supported_versions
       (unpack_params_list as_psi_proposal (\<lambda>r. [rq_io_param r]) [make_handshake_request cx, req]) = Inr versions"
    "intersection_int pp_result_to_rank
       (unpack_params_list as_psi_proposal (\<lambda>r. [rq_io_param r]) [make_handshake_request cx, req]) = Inr True"
    "intersection_set so rq_protocol_families [make_handshake_request cx, req] = Inr families" "PROTOCOL_FAMILY_ECC \<in> set families"
    "intersection_set so ep_supported_versions
       (unpack_params_list as_ecc_proposal rq_protocol_family_params [make_handshake_request cx, req]) = Inr ecc_versions"
    "intersection_list ep_ec_suits
       (unpack_params_list as_ecc_proposal rq_protocol_family_params [make_handshake_request cx, req]) = Inr suits"
    "intersection_set so ep_point_octet_formats
       (unpack_params_list as_ecc_proposal rq_protocol_family_params [make_handshake_request cx, req]) = Inr formats"
    "ecc_versions \<noteq> []" "suits \<noteq> []" "formats \<noteq> []"
    "rs_protocol_family_params rsp =
       [AnyEccResult \<lparr>er_version = hd ecc_versions, er_ec_suit = hd suits, er_point_octet_format = hd formats,
          er_bit_length_after_truncated = 0, er_result_to_rank = cx_result_to_rank cx\<rparr>]"
    "rs_algo rsp = ALGO_TYPE_ECDH_PSI" "rs_protocol_families rsp = [PROTOCOL_FAMILY_ECC]" "versions \<noteq> []"
    "rs_io_param rsp = AnyPsiResult \<lparr>pq_version = hd versions, pq_result_to_rank = cx_result_to_rank cx\<rparr>"
  using assms that
  by (auto simp: negotiate_def Let_def bind_sum_Inr_iff raise_exception_def intersection_int_two
      make_handshake_request_def split: if_splits)

end
