(* ===== verification/Psi_Flow.thy ===== *)
theory Psi_Flow
  imports Psi_Handshake
begin

section \<open>The Diffie-Hellman flow of the private set intersection\<close>

text \<open>
  \<^verbatim>\<open>PSI/psi/interconnection_psi/flow.py\<close> and \<^verbatim>\<open>cipher_store.py\<close>. Each party runs up to four
  threads: one sends its encrypted ids in batches, one receives the peer's batches, encrypts them
  again and puts them into a queue and a set, one takes arrays from the queue and sends them back,
  and one receives its own doubly encrypted ids and records the positions of those that are in the
  set. The threads communicate through the store and two pairs of first-in first-out channels. One
  step of \<open>party_step\<close> is what one thread does between two blocking operations; \<open>net_step\<close>
  interleaves the steps of both parties in any order. A returned batch that is received before
  the set is complete stays at the head of its channel until the wait for the set is over, which
  is when \<^verbatim>\<open>recv_duaenc_local_cipher\<close> looks at it. The queue and the set are updated together in
  \<open>recv_enc\<close>: no other thread reads the set before it is complete.

  The extension \<^verbatim>\<open>crypto\<close> is written in Rust (\<^verbatim>\<open>PSI/crypto/src\<close>) over the dalek curve library and is not
  modelled: it works elementwise on arrays of octets, and its functions on one element, for the enumeration values
  that it supports, are the fields of \<open>crypto\<close>. Nor is the C++ of the link (\<^verbatim>\<open>PSI/link_py/link_py.cc\<close>): its
  channels deliver in order, and its receive timeout of an hour is left out of the flow, where a party
  that waits is a party whose peer goes on.
\<close>

record crypto =
  cy_hash :: "int \<Rightarrow> bytes \<Rightarrow> bytes"
  cy_hash_to_curve :: "int \<Rightarrow> bytes \<Rightarrow> bytes"
  cy_encrypt :: "int \<Rightarrow> bytes \<Rightarrow> bytes \<Rightarrow> bytes" \<comment> \<open>curve, key, point\<close>
  cy_diffie_hellman :: "int \<Rightarrow> bytes \<Rightarrow> bytes \<Rightarrow> bytes" \<comment> \<open>curve, key, point\<close>
  cy_point_octet_marshal :: "int \<Rightarrow> bytes \<Rightarrow> bytes"
  cy_point_octet_unmarshal :: "int \<Rightarrow> bytes \<Rightarrow> nat \<Rightarrow> bytes list"

text \<open>What the flow reads of the context after the handshake.\<close>

record flow_context =
  fc_ecc :: ecc_protocol_result
  fc_key :: bytes
  fc_need_recv_cipher :: bool
  fc_need_send_cipher :: bool

definition flow_context_of :: "psi_context \<Rightarrow> flow_context option" where
  "flow_context_of cx =
     (case (cx_ecc_param cx, cx_key cx) of
        (Some ecc, Some key) \<Rightarrow> Some \<lparr>fc_ecc = ecc, fc_key = key, fc_need_recv_cipher = cx_need_recv_cipher cx,
          fc_need_send_cipher = cx_need_send_cipher cx\<rparr>
      | _ \<Rightarrow> None)"

definition hash_and_encrypt :: "crypto \<Rightarrow> flow_context \<Rightarrow> bytes list \<Rightarrow> bytes list" where
  "hash_and_encrypt Y fc array =
     (let suit = er_ec_suit (fc_ecc fc);
          array1 = map (cy_hash Y (es_hash suit)) array;
          array2 = map (cy_hash_to_curve Y (es_hash2curve_strategy suit)) array1
      in map (cy_encrypt Y (es_curve suit) (fc_key fc)) array2)"

definition diffie_hellman :: "crypto \<Rightarrow> flow_context \<Rightarrow> bytes list \<Rightarrow> bytes list" where
  "diffie_hellman Y fc array = map (cy_diffie_hellman Y (es_curve (er_ec_suit (fc_ecc fc))) (fc_key fc)) array"

definition point_octet_marshal :: "crypto \<Rightarrow> flow_context \<Rightarrow> bytes list \<Rightarrow> bytes list" where
  "point_octet_marshal Y fc array = map (cy_point_octet_marshal Y (er_point_octet_format (fc_ecc fc))) array"

definition point_octet_unmarshal :: "crypto \<Rightarrow> flow_context \<Rightarrow> bytes \<Rightarrow> nat \<Rightarrow> bytes list" where
  "point_octet_unmarshal Y fc octets count = cy_point_octet_unmarshal Y (er_point_octet_format (fc_ecc fc)) octets count"

subsection \<open>Sending the encrypted ids\<close>

record cipher_batch =
  cb_type :: string
  cb_batch_index :: nat
  cb_is_last_batch :: bool
  cb_count :: nat
  cb_ciphertext :: bytes

definition BATCH :: nat where "BATCH = 10 * 10000"

fun cipher_batches :: "crypto \<Rightarrow> flow_context \<Rightarrow> nat \<Rightarrow> nat \<Rightarrow> bytes list \<Rightarrow> cipher_batch list" where
  "cipher_batches Y fc batch batch_index array =
     (if array = [] \<or> batch = 0 then []
      else \<lparr>cb_type = ''enc'', cb_batch_index = batch_index, cb_is_last_batch = (length array \<le> batch),
            cb_count = length (take batch array), cb_ciphertext = concat (hash_and_encrypt Y fc (take batch array))\<rparr> #
           cipher_batches Y fc batch (batch_index + 1) (drop batch array))"

declare cipher_batches.simps [simp del]

definition calcucipher_and_send :: "crypto \<Rightarrow> flow_context \<Rightarrow> nat \<Rightarrow> bytes list \<Rightarrow> cipher_batch list" where
  "calcucipher_and_send Y fc batch array =
     (if length array = 0
      then [\<lparr>cb_type = ''enc'', cb_batch_index = 0, cb_is_last_batch = True, cb_count = 0, cb_ciphertext = []\<rparr>]
      else cipher_batches Y fc batch 0 array)"

subsection \<open>CipherStore\<close>

record cipher_store =
  cs_peer_cipher :: "bytes list option list" \<comment> \<open>the queue; \<open>None\<close> marks that the next array is the last\<close>
  cs_peer_cipher_set :: "bytes set"
  cs_peer_cipher_set_done :: bool
  cs_local_index_record :: nat
  cs_local_take_index :: "nat list"

definition init_cipher_store :: cipher_store where
  "init_cipher_store = \<lparr>cs_peer_cipher = [], cs_peer_cipher_set = {}, cs_peer_cipher_set_done = False,
     cs_local_index_record = 0, cs_local_take_index = []\<rparr>"

definition calcu_add_peer_cipher ::
  "crypto \<Rightarrow> flow_context \<Rightarrow> bytes list \<Rightarrow> bool \<Rightarrow> cipher_store \<Rightarrow> cipher_store" where
  "calcu_add_peer_cipher Y fc array finished st =
     (let array' = diffie_hellman Y fc array;
          st1 = st\<lparr>cs_peer_cipher := cs_peer_cipher st @ (if finished then [None] else []) @ [Some array']\<rparr>
      in if fc_need_recv_cipher fc
         then st1\<lparr>cs_peer_cipher_set := cs_peer_cipher_set st1 \<union> set array',
                  cs_peer_cipher_set_done := (cs_peer_cipher_set_done st1 \<or> finished)\<rparr>
         else st1)"

definition dual_batch :: "crypto \<Rightarrow> flow_context \<Rightarrow> bool \<Rightarrow> nat \<Rightarrow> bytes list \<Rightarrow> cipher_batch" where
  "dual_batch Y fc is_last batch_index arr =
     (let arr' = point_octet_marshal Y fc arr
      in \<lparr>cb_type = ''dual.enc'', cb_batch_index = batch_index, cb_is_last_batch = is_last, cb_count = length arr',
          cb_ciphertext = concat arr'\<rparr>)"

fun record_positions :: "bytes set \<Rightarrow> bytes list \<Rightarrow> nat \<Rightarrow> nat list \<Rightarrow> nat \<times> nat list" where
  "record_positions S [] n take_index = (n, take_index)"
| "record_positions S (cipher # array) n take_index =
     record_positions S array (n + 1) (if cipher \<in> S then take_index @ [n] else take_index)"

definition recv_duaenc_local_cipher :: "bytes list \<Rightarrow> cipher_store \<Rightarrow> cipher_store" where
  "recv_duaenc_local_cipher array st =
     (case record_positions (cs_peer_cipher_set st) array (cs_local_index_record st) (cs_local_take_index st) of
        (n, take_index) \<Rightarrow> st\<lparr>cs_local_index_record := n, cs_local_take_index := take_index\<rparr>)"

subsection \<open>The threads of a party\<close>

record psi_party =
  py_todo :: "cipher_batch list" \<comment> \<open>batches \<open>calcucipher_and_send\<close> has not sent yet\<close>
  py_recv_done :: bool \<comment> \<open>the loop of \<open>recv_and_calcu\<close> over the peer's batches is over\<close>
  py_store :: cipher_store
  py_marker :: bool \<comment> \<open>\<open>send_dualenc\<close> has taken the marker\<close>
  py_batch_index :: nat
  py_send_done :: bool
  py_dual_done :: bool \<comment> \<open>the loop of \<open>recv_and_calcu\<close> over the returned batches is over\<close>

definition init_party :: "crypto \<Rightarrow> flow_context \<Rightarrow> nat \<Rightarrow> bytes list \<Rightarrow> psi_party" where
  "init_party Y fc batch ids =
     \<lparr>py_todo = calcucipher_and_send Y fc batch ids, py_recv_done = False, py_store = init_cipher_store,
      py_marker = False, py_batch_index = 0, py_send_done = False, py_dual_done = False\<rparr>"

text \<open>The channels a party sees: incoming and outgoing, for the ids and for the returned ids.\<close>

record channels =
  ch_in :: "cipher_batch list"
  ch_dual_in :: "cipher_batch list"
  ch_out :: "cipher_batch list"
  ch_dual_out :: "cipher_batch list"

inductive party_step ::
  "crypto \<Rightarrow> flow_context \<Rightarrow> psi_party \<times> channels \<Rightarrow> psi_party \<times> channels \<Rightarrow> bool" for Y fc where
  send_enc: "py_todo p = m # ms \<Longrightarrow>
     party_step Y fc (p, ch) (p\<lparr>py_todo := ms\<rparr>, ch\<lparr>ch_out := ch_out ch @ [m]\<rparr>)"
| recv_enc: "\<not> py_recv_done p \<Longrightarrow> ch_in ch = m # ms \<Longrightarrow>
     party_step Y fc (p, ch)
       (p\<lparr>py_store := calcu_add_peer_cipher Y fc
             (point_octet_unmarshal Y fc (cb_ciphertext m) (cb_count m)) (cb_is_last_batch m) (py_store p),
          py_recv_done := cb_is_last_batch m\<rparr>,
        ch\<lparr>ch_in := ms\<rparr>)"
| take_marker: "fc_need_send_cipher fc \<Longrightarrow> \<not> py_send_done p \<Longrightarrow> \<not> py_marker p \<Longrightarrow>
     cs_peer_cipher (py_store p) = None # q \<Longrightarrow>
     party_step Y fc (p, ch) (p\<lparr>py_marker := True, py_store := (py_store p)\<lparr>cs_peer_cipher := q\<rparr>\<rparr>, ch)"
| send_dual: "fc_need_send_cipher fc \<Longrightarrow> \<not> py_send_done p \<Longrightarrow>
     cs_peer_cipher (py_store p) = Some arr # q \<Longrightarrow>
     party_step Y fc (p, ch)
       (p\<lparr>py_store := (py_store p)\<lparr>cs_peer_cipher := q\<rparr>, py_batch_index := py_batch_index p + 1,
          py_send_done := py_marker p\<rparr>,
        ch\<lparr>ch_dual_out := ch_dual_out ch @ [dual_batch Y fc (py_marker p) (py_batch_index p) arr]\<rparr>)"
| recv_dual: "fc_need_recv_cipher fc \<Longrightarrow> \<not> py_dual_done p \<Longrightarrow> ch_dual_in ch = m # ms \<Longrightarrow>
     cs_peer_cipher_set_done (py_store p) \<Longrightarrow>
     party_step Y fc (p, ch)
       (p\<lparr>py_store := recv_duaenc_local_cipher (point_octet_unmarshal Y fc (cb_ciphertext m) (cb_count m)) (py_store p),
          py_dual_done := cb_is_last_batch m\<rparr>,
        ch\<lparr>ch_dual_in := ms\<rparr>)"

record psi_net =
  nt_a :: psi_party
  nt_b :: psi_party
  nt_enc_ab :: "cipher_batch list"
  nt_enc_ba :: "cipher_batch list"
  nt_dual_ab :: "cipher_batch list"
  nt_dual_ba :: "cipher_batch list"

definition channels_a :: "psi_net \<Rightarrow> channels" where
  "channels_a nt = \<lparr>ch_in = nt_enc_ba nt, ch_dual_in = nt_dual_ba nt, ch_out = nt_enc_ab nt, ch_dual_out = nt_dual_ab nt\<rparr>"

definition channels_b :: "psi_net \<Rightarrow> channels" where
  "channels_b nt = \<lparr>ch_in = nt_enc_ab nt, ch_dual_in = nt_dual_ab nt, ch_out = nt_enc_ba nt, ch_dual_out = nt_dual_ba nt\<rparr>"

definition put_a :: "psi_party \<Rightarrow> channels \<Rightarrow> psi_net \<Rightarrow> psi_net" where
  "put_a p ch nt = nt\<lparr>nt_a := p, nt_enc_ba := ch_in ch, nt_dual_ba := ch_dual_in ch, nt_enc_ab := ch_out ch,
     nt_dual_ab := ch_dual_out ch\<rparr>"

definition put_b :: "psi_party \<Rightarrow> channels \<Rightarrow> psi_net \<Rightarrow> psi_net" where
  "put_b p ch nt = nt\<lparr>nt_b := p, nt_enc_ab := ch_in ch, nt_dual_ab := ch_dual_in ch, nt_enc_ba := ch_out ch,
     nt_dual_ba := ch_dual_out ch\<rparr>"

inductive net_step :: "crypto \<Rightarrow> flow_context \<Rightarrow> flow_context \<Rightarrow> psi_net \<Rightarrow> psi_net \<Rightarrow> bool" for Y fa fb where
  step_a: "party_step Y fa (nt_a nt, channels_a nt) (p, ch) \<Longrightarrow> net_step Y fa fb nt (put_a p ch nt)"
| step_b: "party_step Y fb (nt_b nt, channels_b nt) (p, ch) \<Longrightarrow> net_step Y fa fb nt (put_b p ch nt)"

definition init_net :: "crypto \<Rightarrow> flow_context \<Rightarrow> flow_context \<Rightarrow> nat \<Rightarrow> bytes list \<Rightarrow> bytes list \<Rightarrow> psi_net" where
  "init_net Y fa fb batch xs ys =
     \<lparr>nt_a = init_party Y fa batch xs, nt_b = init_party Y fb batch ys, nt_enc_ab = [], nt_enc_ba = [],
      nt_dual_ab = [], nt_dual_ba = []\<rparr>"

text \<open>All threads of a party have ended: the point where \<^verbatim>\<open>join\<close> returns.\<close>

definition party_done :: "flow_context \<Rightarrow> psi_party \<Rightarrow> bool" where
  "party_done fc p \<longleftrightarrow> py_todo p = [] \<and> py_recv_done p \<and> (fc_need_send_cipher fc \<longrightarrow> py_send_done p) \<and>
     (fc_need_recv_cipher fc \<longrightarrow> py_dual_done p)"

definition flow_result :: "flow_context \<Rightarrow> psi_party \<Rightarrow> 'r list \<Rightarrow> 'r list option" where
  "flow_result fc p psi_in =
     (if fc_need_recv_cipher fc then Some (map ((!) psi_in) (cs_local_take_index (py_store p))) else None)"

subsection \<open>What the flow relies on\<close>

definition enc_point :: "crypto \<Rightarrow> flow_context \<Rightarrow> bytes \<Rightarrow> bytes" where
  "enc_point Y fc x =
     (let suit = er_ec_suit (fc_ecc fc)
      in cy_encrypt Y (es_curve suit) (fc_key fc)
           (cy_hash_to_curve Y (es_hash2curve_strategy suit) (cy_hash Y (es_hash suit) x)))"

definition dh_point :: "crypto \<Rightarrow> flow_context \<Rightarrow> bytes \<Rightarrow> bytes" where
  "dh_point Y fc = cy_diffie_hellman Y (es_curve (er_ec_suit (fc_ecc fc))) (fc_key fc)"

definition shared_point :: "crypto \<Rightarrow> flow_context \<Rightarrow> flow_context \<Rightarrow> bytes \<Rightarrow> bytes" where
  "shared_point Y fS fR x = dh_point Y fR (enc_point Y fS x)"

text \<open>The octets of a batch, joined, can be split again: of the encrypted points, which are joined as they
  are, and of the marshalled ones.\<close>

definition octets_ok :: "crypto \<Rightarrow> flow_context \<Rightarrow> flow_context \<Rightarrow> bool" where
  "octets_ok Y fS fR \<longleftrightarrow>
     (\<forall>xs. point_octet_unmarshal Y fR (concat (map (enc_point Y fS) xs)) (length xs) = map (enc_point Y fS) xs) \<and>
     (\<forall>xs. point_octet_unmarshal Y fS (concat (point_octet_marshal Y fR (map (shared_point Y fS fR) xs))) (length xs)
        = map (shared_point Y fS fR) xs)"

text \<open>The double encryption commutes and separates the ids of both parties.\<close>

definition crypto_ok :: "crypto \<Rightarrow> flow_context \<Rightarrow> flow_context \<Rightarrow> bytes set \<Rightarrow> bool" where
  "crypto_ok Y fa fb ids \<longleftrightarrow> octets_ok Y fa fb \<and> octets_ok Y fb fa \<and>
     (\<forall>x. shared_point Y fa fb x = shared_point Y fb fa x) \<and> inj_on (shared_point Y fa fb) ids"

text \<open>One party wants the returned ids exactly when the other sends them.\<close>

definition flags_match :: "flow_context \<Rightarrow> flow_context \<Rightarrow> bool" where
  "flags_match fa fb \<longleftrightarrow> (fc_need_recv_cipher fa \<longleftrightarrow> fc_need_send_cipher fb) \<and>
     (fc_need_recv_cipher fb \<longleftrightarrow> fc_need_send_cipher fa)"

lemma hash_and_encrypt_map: "hash_and_encrypt Y fc xs = map (enc_point Y fc) xs"
  by (simp add: hash_and_encrypt_def enc_point_def Let_def)

lemma diffie_hellman_map: "diffie_hellman Y fc xs = map (dh_point Y fc) xs"
  by (simp add: diffie_hellman_def dh_point_def)

lemma record_positions_filter:
  "record_positions S xs n ts = (n + length xs, ts @ filter (\<lambda>i. xs ! (i - n) \<in> S) [n..<n + length xs])"
proof (induction xs arbitrary: n ts)
  case (Cons x xs)
  have tail: "filter (\<lambda>i. xs ! (i - Suc n) \<in> S) [Suc n..<Suc n + length xs] =
        filter (\<lambda>i. (x # xs) ! (i - n) \<in> S) [Suc n..<Suc n + length xs]"
    by (rule filter_cong) (auto simp: nth_Cons' Suc_le_eq)
  have "[n..<n + length (x # xs)] = n # [Suc n..<Suc n + length xs]" by (subst upt_conv_Cons) simp_all
  with Cons.IH [of "Suc n"] tail show ?case by simp
qed simp

subsection \<open>Streams whose last element is marked\<close>

fun ends_with :: "('a \<Rightarrow> bool) \<Rightarrow> 'a list \<Rightarrow> bool" where
  "ends_with f [] = False"
| "ends_with f [x] = f x"
| "ends_with f (x # y # zs) = (\<not> f x \<and> ends_with f (y # zs))"

lemma ends_with_Cons: "ends_with f (x # xs) \<longleftrightarrow> (if xs = [] then f x else \<not> f x \<and> ends_with f xs)"
  by (cases xs) simp_all

lemma ends_with_snoc: "ends_with f (xs @ [x]) \<longleftrightarrow> f x \<and> (\<forall>y \<in> set xs. \<not> f y)"
  by (induction xs) (auto simp: ends_with_Cons)

definition batch_points :: "crypto \<Rightarrow> flow_context \<Rightarrow> cipher_batch \<Rightarrow> bytes list" where
  "batch_points Y fc m = point_octet_unmarshal Y fc (cb_ciphertext m) (cb_count m)"

definition stream_points :: "crypto \<Rightarrow> flow_context \<Rightarrow> cipher_batch list \<Rightarrow> bytes list" where
  "stream_points Y fc ms = concat (map (batch_points Y fc) ms)"

lemma stream_points_simps [simp]:
  "stream_points Y fc [] = []"
  "stream_points Y fc (m # ms) = batch_points Y fc m @ stream_points Y fc ms"
  "stream_points Y fc (ms @ ns) = stream_points Y fc ms @ stream_points Y fc ns"
  by (simp_all add: stream_points_def)

lemma batch_points_enc:
  assumes "octets_ok Y fS fR"
  shows "batch_points Y fR \<lparr>cb_type = t, cb_batch_index = i, cb_is_last_batch = l, cb_count = length xs,
    cb_ciphertext = concat (hash_and_encrypt Y fS xs)\<rparr> = map (enc_point Y fS) xs"
  using assms by (simp add: batch_points_def octets_ok_def hash_and_encrypt_map)

lemma batch_points_dual:
  assumes "octets_ok Y fS fR"
  shows "batch_points Y fS (dual_batch Y fR l i (map (shared_point Y fS fR) xs)) = map (shared_point Y fS fR) xs"
  using assms by (simp add: batch_points_def octets_ok_def dual_batch_def point_octet_marshal_def Let_def)

lemma cipher_batches_stream:
  assumes "octets_ok Y fS fR" "0 < batch" "xs \<noteq> []"
  shows "stream_points Y fR (cipher_batches Y fS batch i xs) = map (enc_point Y fS) xs \<and>
    ends_with cb_is_last_batch (cipher_batches Y fS batch i xs)"
  using assms(3)
proof (induction "length xs" arbitrary: i xs rule: less_induct)
  case less
  note eqn = cipher_batches.simps [of Y fS batch i xs]
  show ?case
  proof (cases "length xs \<le> batch")
    case True
    with less.prems assms(2) show ?thesis
      by (simp add: eqn cipher_batches.simps [of _ _ _ _ "[]"] batch_points_enc [OF assms(1)])
  next
    case False
    then have rest: "drop batch xs \<noteq> []" "length (drop batch xs) < length xs" using assms(2) by auto
    note IH = less.hyps [OF rest(2,1), of "i + 1"]
    have parts: "map (enc_point Y fS) (take batch xs) @ map (enc_point Y fS) (drop batch xs) = map (enc_point Y fS) xs"
      by (metis append_take_drop_id map_append)
    from IH have "cipher_batches Y fS batch (i + 1) (drop batch xs) \<noteq> []" by auto
    with IH False less.prems assms(2) show ?thesis
      by (simp add: eqn batch_points_enc [OF assms(1)] ends_with_Cons parts del: length_take)
  qed
qed

lemma calcucipher_stream:
  assumes "octets_ok Y fS fR" "0 < batch"
  shows "stream_points Y fR (calcucipher_and_send Y fS batch xs) = map (enc_point Y fS) xs"
    and "ends_with cb_is_last_batch (calcucipher_and_send Y fS batch xs)"
  using cipher_batches_stream [OF assms, of xs 0] batch_points_enc [OF assms(1), of _ _ _ "[]"]
  by (auto simp: calcucipher_and_send_def hash_and_encrypt_map)

lemma cipher_batches_length:
  assumes "0 < batch"
  shows "length (cipher_batches Y fc batch i xs) = (length xs + batch - 1) div batch"
proof (induction "length xs" arbitrary: i xs rule: less_induct)
  case less
  note eqn = cipher_batches.simps [of Y fc batch i xs]
  show ?case
  proof (cases "xs = []")
    case True
    with assms show ?thesis by (simp add: cipher_batches.simps [of _ _ _ _ "[]"])
  next
    case False
    then have "length (drop batch xs) < length xs" using assms by simp
    note IH = less.hyps [OF this, of "i + 1"]
    show ?thesis
    proof (cases "length xs \<le> batch")
      case True
      then have "(length xs + batch - 1) div batch = 1" using False assms by (intro div_nat_eqI) (auto simp: neq_Nil_conv)
      with True False IH assms show ?thesis by (simp add: eqn)
    next
      case False
      then have "(length xs + batch - 1) div batch = Suc ((length xs - batch + batch - 1) div batch)"
        using assms div_add_self2 [of batch "length xs - 1"] by simp
      with False IH assms \<open>xs \<noteq> []\<close> show ?thesis by (simp add: eqn)
    qed
  qed
qed

lemma calcucipher_length:
  assumes "0 < batch"
  shows "length (calcucipher_and_send Y fc batch xs) = max 1 ((length xs + batch - 1) div batch)"
proof (cases xs)
  case (Cons x ys)
  then have "1 \<le> (length xs + batch - 1) div batch" using assms by (simp add: div_greater_zero_iff Suc_le_eq)
  with Cons cipher_batches_length [OF assms] show ?thesis by (simp add: calcucipher_and_send_def)
qed (use assms in \<open>simp add: calcucipher_and_send_def\<close>)

subsection \<open>The invariant of one direction\<close>

text \<open>
  The ids of the party \<open>p\<close> travel over \<open>enc\<close> to \<open>q\<close> and, encrypted twice, over \<open>dual\<close> back.
  \<open>enc_inv\<close> says where the stream of ids ends, \<open>set_inv\<close> that the set of \<open>q\<close> and what is
  still to come make up all ids, \<open>dual_inv\<close> that the batches on their way back, the queue and
  what is still to come are, in order, the ids of \<open>p\<close> that have not returned yet.
\<close>

definition future_enc :: "psi_party \<Rightarrow> cipher_batch list \<Rightarrow> cipher_batch list" where
  "future_enc p enc = enc @ py_todo p"

definition enc_inv :: "psi_party \<Rightarrow> psi_party \<Rightarrow> cipher_batch list \<Rightarrow> bool" where
  "enc_inv p q enc \<longleftrightarrow>
     (if py_recv_done q then future_enc p enc = [] else ends_with cb_is_last_batch (future_enc p enc))"

definition set_inv ::
  "crypto \<Rightarrow> flow_context \<Rightarrow> flow_context \<Rightarrow> bytes list \<Rightarrow> psi_party \<Rightarrow> psi_party \<Rightarrow> cipher_batch list \<Rightarrow> bool" where
  "set_inv Y fS fR xs p q enc \<longleftrightarrow> (fc_need_recv_cipher fR \<longrightarrow>
     cs_peer_cipher_set (py_store q) \<union> dh_point Y fR ` set (stream_points Y fR (future_enc p enc)) =
       shared_point Y fS fR ` set xs \<and>
     cs_peer_cipher_set_done (py_store q) = py_recv_done q)"

definition queue_points :: "bytes list option list \<Rightarrow> bytes list" where
  "queue_points qs = concat (map (case_option [] (\<lambda>arr. arr)) qs)"

definition queue_ok :: "bool \<Rightarrow> bool \<Rightarrow> bool \<Rightarrow> bytes list option list \<Rightarrow> bool" where
  "queue_ok recv_done marker send_done qs \<longleftrightarrow>
     (if \<not> recv_done then None \<notin> set qs \<and> \<not> marker \<and> \<not> send_done
      else if send_done then qs = []
      else if marker then (\<exists>arr. qs = [Some arr])
      else (\<exists>front arr. qs = front @ [None, Some arr] \<and> None \<notin> set front))"

definition queue_shape :: "psi_party \<Rightarrow> bool" where
  "queue_shape q \<longleftrightarrow> queue_ok (py_recv_done q) (py_marker q) (py_send_done q) (cs_peer_cipher (py_store q))"

definition dual_shape :: "psi_party \<Rightarrow> psi_party \<Rightarrow> cipher_batch list \<Rightarrow> bool" where
  "dual_shape p q dual \<longleftrightarrow>
     (if \<not> py_send_done q then \<not> py_dual_done p \<and> (\<forall>m \<in> set dual. \<not> cb_is_last_batch m)
      else if py_dual_done p then dual = [] else ends_with cb_is_last_batch dual)"

definition dual_inv ::
  "crypto \<Rightarrow> flow_context \<Rightarrow> flow_context \<Rightarrow> bytes list \<Rightarrow> bytes set \<Rightarrow> psi_party \<Rightarrow> psi_party \<Rightarrow>
     cipher_batch list \<Rightarrow> cipher_batch list \<Rightarrow> bool" where
  "dual_inv Y fS fR xs S p q enc dual \<longleftrightarrow> (fc_need_send_cipher fR \<longrightarrow>
     queue_shape q \<and> dual_shape p q dual \<and> cs_local_index_record (py_store p) \<le> length xs \<and>
     stream_points Y fS dual @ queue_points (cs_peer_cipher (py_store q)) @
       map (dh_point Y fR) (stream_points Y fR (future_enc p enc)) =
       map (shared_point Y fS fR) (drop (cs_local_index_record (py_store p)) xs) \<and>
     cs_local_take_index (py_store p) =
       filter (\<lambda>i. shared_point Y fS fR (xs ! i) \<in> S) [0..<cs_local_index_record (py_store p)])"

lemmas direction_defs = enc_inv_def set_inv_def dual_inv_def queue_shape_def queue_ok_def dual_shape_def
  future_enc_def

lemma queue_points_simps [simp]:
  "queue_points [] = []" "queue_points (None # qs) = queue_points qs"
  "queue_points (Some arr # qs) = arr @ queue_points qs"
  "queue_points (qs @ rs) = queue_points qs @ queue_points rs"
  by (simp_all add: queue_points_def)

lemma add_peer_store:
  "cs_peer_cipher (calcu_add_peer_cipher Y fc arr fin st) =
     cs_peer_cipher st @ (if fin then [None] else []) @ [Some (map (dh_point Y fc) arr)]"
  "cs_local_index_record (calcu_add_peer_cipher Y fc arr fin st) = cs_local_index_record st"
  "cs_local_take_index (calcu_add_peer_cipher Y fc arr fin st) = cs_local_take_index st"
  "fc_need_recv_cipher fc \<Longrightarrow> cs_peer_cipher_set (calcu_add_peer_cipher Y fc arr fin st) =
     cs_peer_cipher_set st \<union> dh_point Y fc ` set arr"
  "fc_need_recv_cipher fc \<Longrightarrow> cs_peer_cipher_set_done (calcu_add_peer_cipher Y fc arr fin st) =
     (cs_peer_cipher_set_done st \<or> fin)"
  by (simp_all add: calcu_add_peer_cipher_def Let_def diffie_hellman_map)

lemma recv_duaenc_store:
  "cs_peer_cipher (recv_duaenc_local_cipher arr st) = cs_peer_cipher st"
  "cs_peer_cipher_set (recv_duaenc_local_cipher arr st) = cs_peer_cipher_set st"
  "cs_peer_cipher_set_done (recv_duaenc_local_cipher arr st) = cs_peer_cipher_set_done st"
  "cs_local_index_record (recv_duaenc_local_cipher arr st) = cs_local_index_record st + length arr"
  "cs_local_take_index (recv_duaenc_local_cipher arr st) = cs_local_take_index st @
     filter (\<lambda>i. arr ! (i - cs_local_index_record st) \<in> cs_peer_cipher_set st)
       [cs_local_index_record st..<cs_local_index_record st + length arr]"
  by (simp_all add: recv_duaenc_local_cipher_def record_positions_filter)

inductive_cases party_stepE: "party_step Y fc (p, ch) (p', ch')"

inductive_cases net_stepE: "net_step Y fa fb nt nt'"

subsection \<open>Every step keeps the invariant of both directions\<close>

lemma sender_keeps_future:
  assumes "party_step Y fS (p, ch) (p', ch')"
  shows "future_enc p' (ch_out ch') = future_enc p (ch_out ch)"
  using assms by cases (simp_all add: future_enc_def)

lemma sender_keeps_enc:
  assumes "party_step Y fS (p, ch) (p', ch')" "enc_inv p q (ch_out ch)"
  shows "enc_inv p' q (ch_out ch')"
  using assms(2) by (simp add: enc_inv_def sender_keeps_future [OF assms(1)])

lemma sender_keeps_set:
  assumes "party_step Y fS (p, ch) (p', ch')" "set_inv Y fS fR xs p q (ch_out ch)"
  shows "set_inv Y fS fR xs p' q (ch_out ch')"
  using assms(2) by (simp add: set_inv_def sender_keeps_future [OF assms(1)])

lemma take_index_extends:
  assumes "arr @ rest = map f (drop n xs)" "n \<le> length xs"
  shows "filter (\<lambda>i. f (xs ! i) \<in> S) [0..<n] @ filter (\<lambda>i. arr ! (i - n) \<in> S) [n..<n + length arr] =
      filter (\<lambda>i. f (xs ! i) \<in> S) [0..<n + length arr]"
    and "n + length arr \<le> length xs" and "rest = map f (drop (n + length arr) xs)"
proof -
  have len: "length arr + length rest = length xs - n" using arg_cong [OF assms(1), of length] by simp
  then show "n + length arr \<le> length xs" using assms(2) by simp
  have nth: "arr ! (i - n) = f (xs ! i)" if "i \<in> set [n..<n + length arr]" for i
  proof -
    have "arr ! (i - n) = (arr @ rest) ! (i - n)" using that by (auto simp: nth_append)
    also have "\<dots> = f (xs ! i)" using that len unfolding assms(1) by auto
    finally show ?thesis .
  qed
  then have "filter (\<lambda>i. arr ! (i - n) \<in> S) [n..<n + length arr] = filter (\<lambda>i. f (xs ! i) \<in> S) [n..<n + length arr]"
    by (intro filter_cong) auto
  then show "filter (\<lambda>i. f (xs ! i) \<in> S) [0..<n] @ filter (\<lambda>i. arr ! (i - n) \<in> S) [n..<n + length arr] =
      filter (\<lambda>i. f (xs ! i) \<in> S) [0..<n + length arr]"
    by (simp add: upt_add_eq_append [of 0 n])
  have "rest = drop (length arr) (arr @ rest)" by simp
  then show "rest = map f (drop (n + length arr) xs)" unfolding assms(1) by (simp add: drop_map add.commute)
qed

lemma sender_keeps_dual:
  assumes step: "party_step Y fS (p, ch) (p', ch')"
    and inv: "dual_inv Y fS fR xs S p q (ch_out ch) (ch_dual_in ch)"
    and complete: "fc_need_recv_cipher fS \<Longrightarrow> cs_peer_cipher_set_done (py_store p) \<Longrightarrow> cs_peer_cipher_set (py_store p) = S"
  shows "dual_inv Y fS fR xs S p' q (ch_out ch') (ch_dual_in ch')"
  using step
proof cases
  case (recv_dual m ms)
  note [simp] = recv_dual(1,2)
  let ?arr = "batch_points Y fS m" and ?st = "py_store p"
  let ?rest = "stream_points Y fS ms @ queue_points (cs_peer_cipher (py_store q)) @
    map (dh_point Y fR) (stream_points Y fR (future_enc p (ch_out ch)))"
  note S = complete [OF recv_dual(3,6)]
  show ?thesis
  proof (unfold dual_inv_def, intro impI)
    assume need: "fc_need_send_cipher fR"
    note I = inv [unfolded dual_inv_def, rule_format, OF need]
    have arr: "?arr @ ?rest = map (shared_point Y fS fR) (drop (cs_local_index_record ?st) xs)"
      using I recv_dual(5) by simp
    have le: "cs_local_index_record ?st \<le> length xs" using I by simp
    note ext = take_index_extends(1) [OF arr le, of S] take_index_extends(2,3) [OF arr le]
    have "dual_shape p' q ms" using I recv_dual(4,5) by (auto simp: dual_shape_def ends_with_Cons split: if_splits)
    with I ext S recv_dual(5) show "queue_shape q \<and> dual_shape p' q (ch_dual_in ch') \<and>
      cs_local_index_record (py_store p') \<le> length xs \<and>
      stream_points Y fS (ch_dual_in ch') @ queue_points (cs_peer_cipher (py_store q)) @
        map (dh_point Y fR) (stream_points Y fR (future_enc p' (ch_out ch'))) =
        map (shared_point Y fS fR) (drop (cs_local_index_record (py_store p')) xs) \<and>
      cs_local_take_index (py_store p') =
        filter (\<lambda>i. shared_point Y fS fR (xs ! i) \<in> S) [0..<cs_local_index_record (py_store p')]"
      by (simp add: recv_duaenc_store batch_points_def [symmetric] future_enc_def)
  qed
qed (use inv in \<open>simp_all add: dual_inv_def dual_shape_def future_enc_def add_peer_store\<close>)

lemma receiver_keeps_enc:
  assumes "party_step Y fR (q, ch) (q', ch')" "enc_inv p q (ch_in ch)"
  shows "enc_inv p q' (ch_in ch')"
  using assms(1)
  by cases (use assms(2) in \<open>auto simp: enc_inv_def future_enc_def ends_with_Cons split: if_splits\<close>)

lemma receiver_keeps_set:
  assumes "party_step Y fR (q, ch) (q', ch')" "set_inv Y fS fR xs p q (ch_in ch)" "enc_inv p q (ch_in ch)"
  shows "set_inv Y fS fR xs p q' (ch_in ch')"
  using assms(1)
  by cases (use assms(2,3) in \<open>auto simp: set_inv_def future_enc_def add_peer_store recv_duaenc_store
      batch_points_def [symmetric] image_Un Un_assoc\<close>)

lemma receiver_queue_shape:
  assumes "party_step Y fR (q, ch) (q', ch')" "queue_shape q" "fc_need_send_cipher fR"
  shows "queue_shape q'"
  using assms(1)
proof cases
  case (recv_enc m ms)
  with assms(2) show ?thesis by (auto simp: queue_shape_def queue_ok_def add_peer_store split: if_splits)
next
  case (take_marker qs)
  with assms(2) show ?thesis by (auto simp: queue_shape_def queue_ok_def Cons_eq_append_conv split: if_splits)
next
  case (send_dual arr qs)
  with assms(2) show ?thesis
    by (auto simp: queue_shape_def queue_ok_def Cons_eq_append_conv split: if_splits)
qed (use assms in \<open>simp_all add: queue_shape_def recv_duaenc_store\<close>)

lemma receiver_dual_shape:
  assumes "party_step Y fR (q, ch) (q', ch')" "dual_shape p q (ch_dual_out ch)" "queue_shape q"
  shows "dual_shape p q' (ch_dual_out ch')"
  using assms(1)
proof cases
  case (send_dual arr qs)
  with assms(2) show ?thesis by (auto simp: dual_shape_def dual_batch_def ends_with_snoc Let_def)
qed (use assms in \<open>simp_all add: dual_shape_def recv_duaenc_store\<close>)

text \<open>What is still to return does not change when the peer moves.\<close>

lemma receiver_keeps_rest:
  assumes step: "party_step Y fR (q, ch) (q', ch')" and oct: "octets_ok Y fS fR"
    and rest: "stream_points Y fS (ch_dual_out ch) @ queue_points (cs_peer_cipher (py_store q)) @
       map (dh_point Y fR) (stream_points Y fR (future_enc p (ch_in ch))) = map (shared_point Y fS fR) zs"
  shows "stream_points Y fS (ch_dual_out ch') @ queue_points (cs_peer_cipher (py_store q')) @
       map (dh_point Y fR) (stream_points Y fR (future_enc p (ch_in ch'))) = map (shared_point Y fS fR) zs"
  using step
proof cases
  case (send_dual arr qs)
  have "stream_points Y fS (ch_dual_out ch) @ arr @ queue_points qs @
      map (dh_point Y fR) (stream_points Y fR (future_enc p (ch_in ch))) = map (shared_point Y fS fR) zs"
    using rest send_dual by simp
  then obtain vs where "arr = map (shared_point Y fS fR) vs"
    by (elim append_eq_map_conv [THEN iffD1, elim_format] exE conjE) metis
  with send_dual rest show ?thesis by (simp add: batch_points_dual [OF oct])
qed (use rest in \<open>simp_all add: future_enc_def add_peer_store recv_duaenc_store batch_points_def\<close>)

lemma receiver_keeps_dual:
  assumes step: "party_step Y fR (q, ch) (q', ch')" and oct: "octets_ok Y fS fR"
    and inv: "dual_inv Y fS fR xs S p q (ch_in ch) (ch_dual_out ch)"
  shows "dual_inv Y fS fR xs S p q' (ch_in ch') (ch_dual_out ch')"
  using inv receiver_queue_shape [OF step] receiver_dual_shape [OF step] receiver_keeps_rest [OF step oct]
  by (simp add: dual_inv_def)

subsection \<open>The whole flow\<close>

definition dir_inv ::
  "crypto \<Rightarrow> flow_context \<Rightarrow> flow_context \<Rightarrow> bytes list \<Rightarrow> bytes set \<Rightarrow> psi_party \<Rightarrow> psi_party \<Rightarrow>
     cipher_batch list \<Rightarrow> cipher_batch list \<Rightarrow> bool" where
  "dir_inv Y fS fR xs S p q enc dual \<longleftrightarrow>
     enc_inv p q enc \<and> set_inv Y fS fR xs p q enc \<and> dual_inv Y fS fR xs S p q enc dual"

definition flow_inv ::
  "crypto \<Rightarrow> flow_context \<Rightarrow> flow_context \<Rightarrow> bytes list \<Rightarrow> bytes list \<Rightarrow> psi_net \<Rightarrow> bool" where
  "flow_inv Y fa fb xs ys nt \<longleftrightarrow>
     dir_inv Y fa fb xs (shared_point Y fb fa ` set ys) (nt_a nt) (nt_b nt) (nt_enc_ab nt) (nt_dual_ba nt) \<and>
     dir_inv Y fb fa ys (shared_point Y fa fb ` set xs) (nt_b nt) (nt_a nt) (nt_enc_ba nt) (nt_dual_ab nt)"

lemma set_inv_complete:
  assumes "set_inv Y fS fR xs p q enc" "enc_inv p q enc" "fc_need_recv_cipher fR" "cs_peer_cipher_set_done (py_store q)"
  shows "cs_peer_cipher_set (py_store q) = shared_point Y fS fR ` set xs"
  using assms by (simp add: set_inv_def enc_inv_def split: if_splits)

lemma channels_sel [simp]:
  "ch_in (channels_a nt) = nt_enc_ba nt" "ch_dual_in (channels_a nt) = nt_dual_ba nt"
  "ch_out (channels_a nt) = nt_enc_ab nt" "ch_dual_out (channels_a nt) = nt_dual_ab nt"
  "ch_in (channels_b nt) = nt_enc_ab nt" "ch_dual_in (channels_b nt) = nt_dual_ab nt"
  "ch_out (channels_b nt) = nt_enc_ba nt" "ch_dual_out (channels_b nt) = nt_dual_ba nt"
  by (simp_all add: channels_a_def channels_b_def)

lemma put_sel [simp]:
  "nt_a (put_a p ch nt) = p" "nt_b (put_a p ch nt) = nt_b nt" "nt_enc_ba (put_a p ch nt) = ch_in ch"
  "nt_dual_ba (put_a p ch nt) = ch_dual_in ch" "nt_enc_ab (put_a p ch nt) = ch_out ch"
  "nt_dual_ab (put_a p ch nt) = ch_dual_out ch"
  "nt_b (put_b p ch nt) = p" "nt_a (put_b p ch nt) = nt_a nt" "nt_enc_ab (put_b p ch nt) = ch_in ch"
  "nt_dual_ab (put_b p ch nt) = ch_dual_in ch" "nt_enc_ba (put_b p ch nt) = ch_out ch"
  "nt_dual_ba (put_b p ch nt) = ch_dual_out ch"
  by (simp_all add: put_a_def put_b_def)

lemma sender_keeps_dir:
  assumes "party_step Y fS (p, ch) (p', ch')" "dir_inv Y fS fR xs (shared_point Y fR fS ` set ys) p q (ch_out ch) (ch_dual_in ch)"
    "dir_inv Y fR fS ys S' q p (ch_in ch) (ch_dual_out ch)"
  shows "dir_inv Y fS fR xs (shared_point Y fR fS ` set ys) p' q (ch_out ch') (ch_dual_in ch')"
  using assms(2,3) sender_keeps_enc [OF assms(1)] sender_keeps_set [OF assms(1)]
    sender_keeps_dual [OF assms(1)] set_inv_complete
  by (metis dir_inv_def)

lemma receiver_keeps_dir:
  assumes "party_step Y fR (q, ch) (q', ch')" "octets_ok Y fS fR" "dir_inv Y fS fR xs S p q (ch_in ch) (ch_dual_out ch)"
  shows "dir_inv Y fS fR xs S p q' (ch_in ch') (ch_dual_out ch')"
  using assms(3) receiver_keeps_enc [OF assms(1)] receiver_keeps_set [OF assms(1)]
    receiver_keeps_dual [OF assms(1,2)]
  by (simp add: dir_inv_def)

lemma net_step_keeps:
  assumes "net_step Y fa fb nt nt'" "octets_ok Y fa fb" "octets_ok Y fb fa" "flow_inv Y fa fb xs ys nt"
  shows "flow_inv Y fa fb xs ys nt'"
  using assms(1)
proof cases
  case (step_a p ch)
  show ?thesis unfolding flow_inv_def step_a(1) put_sel
    using sender_keeps_dir [OF step_a(2)] receiver_keeps_dir [OF step_a(2) assms(3)] assms(4)
    unfolding flow_inv_def channels_sel by blast
next
  case (step_b p ch)
  show ?thesis unfolding flow_inv_def step_b(1) put_sel
    using sender_keeps_dir [OF step_b(2)] receiver_keeps_dir [OF step_b(2) assms(2)] assms(4)
    unfolding flow_inv_def channels_sel by blast
qed

lemma init_dir_inv:
  assumes "octets_ok Y fS fR" "0 < batch"
  shows "dir_inv Y fS fR xs S (init_party Y fS batch xs) (init_party Y fR batch ys) [] []"
  using calcucipher_stream [OF assms]
  by (simp add: dir_inv_def init_party_def init_cipher_store_def direction_defs shared_point_def image_image)

lemma init_flow_inv:
  assumes "octets_ok Y fa fb" "octets_ok Y fb fa" "0 < batch"
  shows "flow_inv Y fa fb xs ys (init_net Y fa fb batch xs ys)"
  using assms by (simp add: flow_inv_def init_net_def init_dir_inv)

lemma reachable_flow_inv:
  assumes "(net_step Y fa fb)\<^sup>*\<^sup>* (init_net Y fa fb batch xs ys) nt" "octets_ok Y fa fb" "octets_ok Y fb fa" "0 < batch"
  shows "flow_inv Y fa fb xs ys nt"
  using assms(1)
proof induction
  case base
  show ?case by (rule init_flow_inv [OF assms(2-4)])
next
  case (step nt nt')
  then show ?case using net_step_keeps assms(2,3) by blast
qed

subsection \<open>Progress\<close>

definition flow_done :: "flow_context \<Rightarrow> flow_context \<Rightarrow> psi_net \<Rightarrow> bool" where
  "flow_done fa fb nt \<longleftrightarrow> party_done fa (nt_a nt) \<and> party_done fb (nt_b nt)"

definition can_step :: "crypto \<Rightarrow> flow_context \<Rightarrow> psi_party \<Rightarrow> channels \<Rightarrow> bool" where
  "can_step Y fc p ch \<longleftrightarrow> (\<exists>r. party_step Y fc (p, ch) r)"

lemma can_step_cases:
  "py_todo p \<noteq> [] \<Longrightarrow> can_step Y fc p ch"
  "\<not> py_recv_done p \<Longrightarrow> ch_in ch \<noteq> [] \<Longrightarrow> can_step Y fc p ch"
  "fc_need_send_cipher fc \<Longrightarrow> \<not> py_send_done p \<Longrightarrow> queue_shape p \<Longrightarrow> py_recv_done p \<Longrightarrow> can_step Y fc p ch"
  "fc_need_recv_cipher fc \<Longrightarrow> \<not> py_dual_done p \<Longrightarrow> cs_peer_cipher_set_done (py_store p) \<Longrightarrow> ch_dual_in ch \<noteq> [] \<Longrightarrow>
     can_step Y fc p ch"
proof -
  show "can_step Y fc p ch" if "fc_need_send_cipher fc" "\<not> py_send_done p" "queue_shape p" "py_recv_done p"
  proof (cases "cs_peer_cipher (py_store p)")
    case Nil
    with that show ?thesis by (auto simp: queue_shape_def queue_ok_def split: if_splits)
  next
    case (Cons c qs)
    show ?thesis
    proof (cases c)
      case None
      with Cons that have "\<not> py_marker p" by (auto simp: queue_shape_def queue_ok_def)
      with None Cons that show ?thesis unfolding can_step_def by (blast intro: take_marker)
    next
      case (Some arr)
      with Cons that show ?thesis unfolding can_step_def by (blast intro: send_dual)
    qed
  qed
qed (auto simp: can_step_def neq_Nil_conv intro: send_enc recv_enc recv_dual)

lemma net_can_step:
  "can_step Y fa (nt_a nt) (channels_a nt) \<Longrightarrow> \<exists>nt'. net_step Y fa fb nt nt'"
  "can_step Y fb (nt_b nt) (channels_b nt) \<Longrightarrow> \<exists>nt'. net_step Y fa fb nt nt'"
  by (auto simp: can_step_def intro: step_a step_b)

lemma stuck_receiver_done:
  assumes "enc_inv p q (ch_in ch)" "py_todo p = []" "\<not> can_step Y fR q ch"
  shows "py_recv_done q"
proof (rule ccontr)
  assume not_done: "\<not> py_recv_done q"
  with assms(1,2) have "ch_in ch \<noteq> []" by (auto simp: enc_inv_def future_enc_def)
  with not_done can_step_cases(2) assms(3) show False by blast
qed

lemma stuck_dual_done:
  assumes "\<not> can_step Y fS p ch" "dual_shape p q (ch_dual_in ch)" "py_send_done q" "cs_peer_cipher_set_done (py_store p)"
    "fc_need_recv_cipher fS"
  shows "py_dual_done p"
proof (rule ccontr)
  assume not_done: "\<not> py_dual_done p"
  with assms(2,3) have "ch_dual_in ch \<noteq> []" by (auto simp: dual_shape_def)
  with not_done assms can_step_cases(4) show False by blast
qed

lemma stuck_flow_done:
  assumes "flow_inv Y fa fb xs ys nt" "flags_match fa fb" "\<not> (\<exists>nt'. net_step Y fa fb nt nt')"
  shows "flow_done fa fb nt"
proof -
  note inv = assms(1) [unfolded flow_inv_def dir_inv_def]
  have a: "\<not> can_step Y fa (nt_a nt) (channels_a nt)" and b: "\<not> can_step Y fb (nt_b nt) (channels_b nt)"
    using assms(3) net_can_step by blast+
  have todo: "py_todo (nt_a nt) = []" "py_todo (nt_b nt) = []" using a b can_step_cases(1) by blast+
  have recv: "py_recv_done (nt_a nt)" "py_recv_done (nt_b nt)"
    using stuck_receiver_done [OF _ todo(2) a] stuck_receiver_done [OF _ todo(1) b] inv by simp_all
  have send: "fc_need_send_cipher fa \<longrightarrow> py_send_done (nt_a nt)" "fc_need_send_cipher fb \<longrightarrow> py_send_done (nt_b nt)"
    using a b can_step_cases(3) recv inv by (auto simp: dual_inv_def)
  have "fc_need_recv_cipher fa \<longrightarrow> py_dual_done (nt_a nt)" "fc_need_recv_cipher fb \<longrightarrow> py_dual_done (nt_b nt)"
    using stuck_dual_done [OF a, of "nt_b nt"] stuck_dual_done [OF b, of "nt_a nt"] recv send inv assms(2)
    unfolding set_inv_def dual_inv_def flags_match_def by simp_all
  with todo recv send show ?thesis by (simp add: flow_done_def party_done_def)
qed

subsection \<open>Every run is finite\<close>

definition flow_size :: "psi_net \<Rightarrow> nat" where
  "flow_size nt =
     6 * (length (py_todo (nt_a nt)) + length (py_todo (nt_b nt))) + 5 * (length (nt_enc_ab nt) + length (nt_enc_ba nt)) +
     2 * (length (cs_peer_cipher (py_store (nt_a nt))) + length (cs_peer_cipher (py_store (nt_b nt)))) +
     (length (nt_dual_ab nt) + length (nt_dual_ba nt))"

lemma party_step_size:
  assumes "party_step Y fc (p, ch) (p', ch')"
  shows "6 * length (py_todo p') + 5 * (length (ch_in ch') + length (ch_out ch')) +
       2 * length (cs_peer_cipher (py_store p')) + length (ch_dual_in ch') + length (ch_dual_out ch') <
     6 * length (py_todo p) + 5 * (length (ch_in ch) + length (ch_out ch)) +
       2 * length (cs_peer_cipher (py_store p)) + length (ch_dual_in ch) + length (ch_dual_out ch)"
  using assms by cases (simp_all add: add_peer_store recv_duaenc_store)

lemma net_step_size:
  assumes "net_step Y fa fb nt nt'"
  shows "flow_size nt' < flow_size nt"
  using assms
proof cases
  case (step_a p ch)
  from party_step_size [OF step_a(2)] show ?thesis by (simp add: step_a(1) flow_size_def)
next
  case (step_b p ch)
  from party_step_size [OF step_b(2)] show ?thesis by (simp add: step_b(1) flow_size_def)
qed

lemma run_length:
  assumes "((net_step Y fa fb) ^^ n) nt nt'"
  shows "n + flow_size nt' \<le> flow_size nt"
  using assms
proof (induction n arbitrary: nt')
  case (Suc n)
  then obtain mid where "((net_step Y fa fb) ^^ n) nt mid" "net_step Y fa fb mid nt'" by auto
  with Suc.IH net_step_size [of Y fa fb mid nt'] show ?case by fastforce
qed simp

lemma run_to_end: "\<exists>nt'. (net_step Y fa fb)\<^sup>*\<^sup>* nt nt' \<and> \<not> (\<exists>nt''. net_step Y fa fb nt' nt'')"
proof (induction "flow_size nt" arbitrary: nt rule: less_induct)
  case less
  show ?case
  proof (cases "\<exists>mid. net_step Y fa fb nt mid")
    case True
    then obtain mid where mid: "net_step Y fa fb nt mid" by blast
    from less [OF net_step_size [OF mid]] mid show ?thesis by (meson converse_rtranclp_into_rtranclp)
  qed blast
qed

subsection \<open>What the party has at the end\<close>

lemma done_take_index:
  assumes inv: "dir_inv Y fS fR xs S p q enc dual" and fin: "party_done fS p" "party_done fR q"
    and need: "fc_need_recv_cipher fS" "fc_need_send_cipher fR"
  shows "cs_local_take_index (py_store p) = filter (\<lambda>i. shared_point Y fS fR (xs ! i) \<in> S) [0..<length xs]"
proof -
  note flags = fin [unfolded party_done_def]
  note I = inv [unfolded dir_inv_def dual_inv_def, THEN conjunct2, THEN conjunct2, rule_format, OF need(2)]
  from I flags need have "dual = []" "cs_peer_cipher (py_store q) = []" "future_enc p enc = []"
    using inv by (auto simp: dir_inv_def dual_shape_def queue_shape_def queue_ok_def enc_inv_def)
  with I have "drop (cs_local_index_record (py_store p)) xs = []" by simp
  with I have "cs_local_index_record (py_store p) = length xs" by simp
  with I show ?thesis by simp
qed

lemma shared_mem:
  assumes "inj_on (shared_point Y fa fb) (set xs \<union> set ys)" "\<And>x. shared_point Y fa fb x = shared_point Y fb fa x"
    "x \<in> set xs"
  shows "shared_point Y fa fb x \<in> shared_point Y fb fa ` set ys \<longleftrightarrow> x \<in> set ys"
  using assms by (auto simp: inj_on_def)

lemma positions_rows: "map ((!) rows) (filter (\<lambda>i. P (rows ! i)) [0..<length rows]) = filter P rows"
proof -
  have "filter P (map ((!) rows) [0..<length rows]) = map ((!) rows) (filter (\<lambda>i. P (rows ! i)) [0..<length rows])"
    by (simp add: filter_map comp_def)
  then show ?thesis by (simp add: map_nth)
qed

lemma done_flow_result:
  assumes "dir_inv Y fS fR (map ident rows) (shared_point Y fR fS ` set ys) p q enc dual"
    and "party_done fS p" "party_done fR q" "fc_need_recv_cipher fS" "fc_need_send_cipher fR"
    and inj: "inj_on (shared_point Y fS fR) (ident ` set rows \<union> set ys)"
    and comm: "\<And>x. shared_point Y fS fR x = shared_point Y fR fS x"
  shows "flow_result fS p rows = Some (filter (\<lambda>row. ident row \<in> set ys) rows)"
proof -
  have "cs_local_take_index (py_store p) =
      filter (\<lambda>i. shared_point Y fS fR (map ident rows ! i) \<in> shared_point Y fR fS ` set ys) [0..<length rows]"
    using done_take_index [OF assms(1-5)] by simp
  also have "\<dots> = filter (\<lambda>i. ident (rows ! i) \<in> set ys) [0..<length rows]"
    using shared_mem [of Y fS fR "map ident rows" ys, OF _ comm] inj by (intro filter_cong) simp_all
  finally show ?thesis
    using assms(4) positions_rows [of rows "\<lambda>row. ident row \<in> set ys"] by (simp add: flow_result_def)
qed

end
