(* ===== verification/Psi_Api.thy ===== *)
theory Psi_Api
  imports Psi_Flow
begin

section \<open>The two entry points of the private set intersection\<close>

text \<open>
  \<^verbatim>\<open>PSI/psi/interconnection_psi/api.py\<close>: \<^verbatim>\<open>psi_sender\<close> and \<^verbatim>\<open>psi_receiver\<close> build a context each, shake
  hands and run the flow. The link between the parties (\<^verbatim>\<open>link_py\<close>) is the pair of channels of
  \<^verbatim>\<open>Psi_Flow\<close>. \<open>psi_link\<close> is the handshake of both entry points; the flow starts from its result.
\<close>

definition psi_sender_context :: "int \<Rightarrow> string \<Rightarrow> string \<Rightarrow> bool \<Rightarrow> psi_context" where
  "psi_sender_context num_rows self_domain target_domain send_back =
     init_context SENDER_RANK num_rows (if send_back then -1 else RECEIVER_RANK) [self_domain, target_domain]"

definition psi_receiver_context :: "int \<Rightarrow> string \<Rightarrow> string \<Rightarrow> bool \<Rightarrow> psi_context" where
  "psi_receiver_context num_rows self_domain target_domain send_back =
     init_context RECEIVER_RANK num_rows (if send_back then -1 else RECEIVER_RANK) [target_domain, self_domain]"

definition psi_link ::
  "(int set \<Rightarrow> int list) \<Rightarrow> bytes \<Rightarrow> bytes \<Rightarrow> psi_context \<Rightarrow> psi_context \<Rightarrow> (flow_context \<times> flow_context) option" where
  "psi_link so sender_key receiver_key s r =
     (case shakehand_flow so sender_key receiver_key s r of
        (Inr _, s', Inr _, r') \<Rightarrow>
          (case (flow_context_of s', flow_context_of r') of
             (Some fs, Some fr) \<Rightarrow> Some (fs, fr)
           | _ \<Rightarrow> None)
      | _ \<Rightarrow> None)"

text \<open>The parameters on which two default contexts agree.\<close>

definition agreed_ecc :: "bool \<Rightarrow> ecc_protocol_result" where
  "agreed_ecc send_back =
     \<lparr>er_version = 1, er_ec_suit = default_ec_suit, er_point_octet_format = POINT_OCTET_FORMAT_UNCOMPRESSED,
      er_bit_length_after_truncated = 0, er_result_to_rank = (if send_back then -1 else RECEIVER_RANK)\<rparr>"

lemmas context_defs = psi_sender_context_def psi_receiver_context_def init_context_def make_handshake_request_def

lemma unpack_two:
  "unpack_params_list proj field [a, b] = List.map_filter proj (field a) @ List.map_filter proj (field b)"
  by (simp add: unpack_params_list_def List.map_filter_def)

lemma intersection_set_two:
  "intersection_set so field [a, b] =
     (if field a = [] then Inl IndexError else Inr (so (set (field a) \<inter> set (field b))))"
  by (simp add: intersection_set_def)

lemma negotiate_default:
  assumes "set_order_ok so"
  shows "negotiate so (psi_receiver_context m d1 d2 send_back)
       (make_handshake_request (psi_sender_context n d3 d4 send_back)) =
     Inr \<lparr>rs_algo = ALGO_TYPE_ECDH_PSI, rs_protocol_families = [PROTOCOL_FAMILY_ECC],
       rs_protocol_family_params = [AnyEccResult (agreed_ecc send_back)],
       rs_io_param = AnyPsiResult \<lparr>pq_version = 1, pq_result_to_rank = (if send_back then -1 else RECEIVER_RANK)\<rparr>\<rparr>"
  by (simp add: negotiate_def context_defs unpack_two List.map_filter_simps intersection_set_two intersection_int_two
      intersection_list_def intersection_bool_def set_order_single [OF assms] agreed_ecc_def Let_def)

lemma psi_link_default:
  assumes "set_order_ok so"
  shows "psi_link so ks kr (psi_sender_context n d3 d4 send_back) (psi_receiver_context m d1 d2 send_back) =
     Some (\<lparr>fc_ecc = agreed_ecc send_back, fc_key = ks, fc_need_recv_cipher = send_back, fc_need_send_cipher = True\<rparr>,
           \<lparr>fc_ecc = agreed_ecc send_back, fc_key = kr, fc_need_recv_cipher = True, fc_need_send_cipher = send_back\<rparr>)"
  using negotiate_default [OF assms, of m d1 d2 send_back n d3 d4]
  by (simp add: psi_link_def shakehand_defs make_curve_def curve_numbers_def agreed_ecc_def default_ec_suit_def negotiate_handshake_def reset_from_response_def unpack_param_def
      unpack_params_list_def List.map_filter_simps flow_context_of_def SENDER_RANK_def RECEIVER_RANK_def
      psi_sender_context_def psi_receiver_context_def init_context_def Let_def)

lemma rank_mismatch:
  assumes "set_order_ok so" "sb \<noteq> rb"
  shows "negotiate so (psi_receiver_context m d1 d2 rb) (make_handshake_request (psi_sender_context n d3 d4 sb)) =
    Inl SyntaxError"
  using assms(2)
  by (auto simp: negotiate_def context_defs unpack_two List.map_filter_simps intersection_set_two intersection_int_two
      set_order_single [OF assms(1)] raise_exception_def RECEIVER_RANK_def Let_def)

end
