(* ===== verification/Psi_Properties.thy ===== *)
theory Psi_Properties
  imports Psi_Api
begin

section \<open>Properties of the private set intersection\<close>

subsection \<open>A library that meets the hypotheses\<close>

text \<open>Points of two octets, keys that rotate them.\<close>

fun octet_pairs :: "bytes \<Rightarrow> nat \<Rightarrow> bytes list" where
  "octet_pairs octets 0 = []"
| "octet_pairs octets (Suc n) = take 2 octets # octet_pairs (drop 2 octets) n"

definition sample_crypto :: crypto where
  "sample_crypto = \<lparr>cy_hash = (\<lambda>_ x. take 2 (x @ ''  '')), cy_hash_to_curve = (\<lambda>_ x. x),
     cy_encrypt = (\<lambda>_ key. rotate (length key)), cy_diffie_hellman = (\<lambda>_ key. rotate (length key)),
     cy_point_octet_marshal = (\<lambda>_ x. x), cy_point_octet_unmarshal = (\<lambda>_. octet_pairs)\<rparr>"

lemma octet_pairs_concat: "\<forall>x \<in> set xs. length x = 2 \<Longrightarrow> octet_pairs (concat xs) (length xs) = xs"
  by (induction xs) auto

lemma sample_shared: "shared_point sample_crypto fa fb x =
    rotate (length (fc_key fb)) (rotate (length (fc_key fa)) (take 2 (x @ ''  '')))"
  by (simp add: shared_point_def enc_point_def dh_point_def sample_crypto_def Let_def)

lemma sample_octet_functions:
  "point_octet_marshal sample_crypto fc xs = xs" "point_octet_unmarshal sample_crypto fc = octet_pairs"
  "enc_point sample_crypto fc = (\<lambda>x. rotate (length (fc_key fc)) (take 2 (x @ ''  '')))"
  by (simp_all add: fun_eq_iff point_octet_marshal_def point_octet_unmarshal_def enc_point_def sample_crypto_def Let_def)

lemma sample_octets: "octets_ok sample_crypto fa fb"
proof -
  have pairs: "octet_pairs (concat (map f xs)) (length xs) = map f xs" if "\<And>x. length (f x) = 2" for f :: "bytes \<Rightarrow> bytes" and xs
    using octet_pairs_concat [of "map f xs"] that by simp
  show ?thesis unfolding octets_ok_def sample_octet_functions by (simp add: pairs sample_shared)
qed

lemma rotate_inj: "rotate n xs = rotate n ys \<longleftrightarrow> xs = ys"
  by (induction n) (simp_all add: inj_eq [OF inj_rotate1])

lemma sample_crypto_ok:
  assumes "\<forall>x \<in> ids. length x = 2"
  shows "crypto_ok sample_crypto fa fb ids"
proof -
  have "inj_on (shared_point sample_crypto fa fb) ids"
    using assms by (auto simp: inj_on_def sample_shared rotate_inj)
  then show ?thesis by (simp add: crypto_ok_def sample_octets) (simp add: sample_shared rotate_rotate add.commute)
qed

lemma sorted_order_ok: "set_order_ok sorted_list_of_set"
  by (simp add: set_order_ok_def)

subsection \<open>The handshake\<close>

text \<open>
  C17. When both entry points are started with the same \<^verbatim>\<open>send_back\<close>, the handshake succeeds on both
  sides: the parties hold the same curve parameters, each its own key, the receiver takes the
  result, the sender takes it exactly when \<^verbatim>\<open>send_back\<close> is set, and a party sends the doubly
  encrypted ids back exactly when the other one waits for them.
\<close>

theorem handshake_agrees:
  assumes "set_order_ok so"
  shows "\<exists>fs fr. psi_link so ks kr (psi_sender_context n ds dr send_back) (psi_receiver_context m dr ds send_back) = Some (fs, fr) \<and>
     fc_ecc fs = fc_ecc fr \<and> fc_key fs = ks \<and> fc_key fr = kr \<and> flags_match fs fr \<and>
     fc_need_recv_cipher fr \<and> (fc_need_recv_cipher fs \<longleftrightarrow> send_back)"
  using psi_link_default [OF assms, of ks kr n ds dr send_back m dr ds] by (simp add: flags_match_def)

theorem handshake_agrees_witness:
  "\<exists>fs fr. psi_link sorted_list_of_set ''k'' ''kk'' (psi_sender_context 2 ''s'' ''r'' True)
        (psi_receiver_context 3 ''r'' ''s'' True) = Some (fs, fr) \<and> flags_match fs fr"
  using handshake_agrees [OF sorted_order_ok, of "''k''" "''kk''" 2 "''s''" "''r''" True 3] by blast

lemma refused_with_syntax_error:
  assumes "set_order_ok so" "negotiate so (psi_receiver_context m dr ds rb) req = Inl e"
  shows "e = SyntaxError"
  using assms(2)
  by (auto simp: negotiate_def context_defs unpack_two List.map_filter_simps intersection_set_def intersection_int_def
      intersection_list_def intersection_bool_def raise_exception_def bind_sum_def Let_def split: if_splits sum.splits list.splits)

lemma answer_has_default_curve:
  assumes "negotiate so (psi_receiver_context m dr ds rb) req = Inr rsp"
  obtains ecc where "rs_protocol_family_params rsp = [AnyEccResult ecc]" "er_ec_suit ecc = default_ec_suit"
proof -
  let ?cx = "psi_receiver_context m dr ds rb"
  let ?params = "unpack_params_list as_ecc_proposal rq_protocol_family_params [make_handshake_request ?cx, req]"
  from assms obtain suits ecc_versions formats where N: "intersection_list ep_ec_suits ?params = Inr suits" "suits \<noteq> []"
    "rs_protocol_family_params rsp = [AnyEccResult \<lparr>er_version = hd ecc_versions, er_ec_suit = hd suits,
       er_point_octet_format = hd formats, er_bit_length_after_truncated = 0, er_result_to_rank = cx_result_to_rank ?cx\<rparr>]"
    by (rule negotiate_choice)
  have "set suits \<subseteq> {default_ec_suit}"
    using N(1) by (auto simp: context_defs unpack_two List.map_filter_simps intersection_list_def split: if_splits)
  then have "hd suits = default_ec_suit" using N(2) hd_in_set by blast
  with N(3) that show thesis by simp
qed

text \<open>
  C40. Whatever a sender requests, when the receiver does not take part in the intersection the reason is always the
  same \<^verbatim>\<open>SyntaxError\<close>, never one of the exceptions with an error code that the code names: formatting their
  message fails. The receiver keeps its context and sends no answer, so the receive of the sender ends with
  the \<^verbatim>\<open>RuntimeError\<close> of the link's timeout and its context is as before. This is what happens when the parties
  disagree on \<^verbatim>\<open>send_back\<close>.
\<close>

theorem refused_handshake_fails:
  assumes "set_order_ok so"
  shows "(\<forall>s res_s s' e r'. shakehand_flow so ks kr s (psi_receiver_context m dr ds receiver_back) = (res_s, s', Inl e, r') \<longrightarrow>
       e = SyntaxError \<and> r' = psi_receiver_context m dr ds receiver_back \<and> res_s = Inl RuntimeError \<and> s' = s) \<and>
     (sender_back \<noteq> receiver_back \<longrightarrow>
       fst (snd (snd (shakehand_flow so ks kr (psi_sender_context n ds dr sender_back) (psi_receiver_context m dr ds receiver_back)))) =
         Inl SyntaxError)"
proof -
  let ?r = "psi_receiver_context m dr ds receiver_back"
  have "e = SyntaxError \<and> r' = ?r \<and> res_s = Inl RuntimeError \<and> s' = s"
    if flow: "shakehand_flow so ks kr s ?r = (res_s, s', Inl e, r')" for s res_s s' e r'
  proof (cases "negotiate so ?r (make_handshake_request s)")
    case (Inl e')
    with refused_with_syntax_error [OF assms Inl] flow show ?thesis by (simp add: shakehand_defs negotiate_handshake_def)
  next
    case (Inr rsp)
    obtain ecc where "rs_protocol_family_params rsp = [AnyEccResult ecc]" "er_ec_suit ecc = default_ec_suit"
      by (rule answer_has_default_curve [OF Inr])
    with Inr flow show ?thesis
      by (auto simp: shakehand_defs negotiate_handshake_def reset_from_response_def unpack_param_def unpack_params_list_def
          List.map_filter_simps make_curve_def curve_numbers_def default_ec_suit_def Let_def split: if_splits prod.splits)
  qed
  moreover have "fst (snd (snd (shakehand_flow so ks kr (psi_sender_context n ds dr sender_back) (psi_receiver_context m dr ds receiver_back)))) =
      Inl SyntaxError" if "sender_back \<noteq> receiver_back"
    using rank_mismatch [OF assms that, of m dr ds n ds dr] by (simp add: shakehand_defs negotiate_handshake_def)
  ultimately show ?thesis by blast
qed

theorem refused_handshake_fails_witness:
  "shakehand_flow sorted_list_of_set ''k'' ''kk'' (psi_sender_context 2 ''s'' ''r'' True) (psi_receiver_context 3 ''r'' ''s'' False) =
     (Inl RuntimeError, psi_sender_context 2 ''s'' ''r'' True, Inl SyntaxError, psi_receiver_context 3 ''r'' ''s'' False)"
proof -
  let ?flow = "shakehand_flow sorted_list_of_set ''k'' ''kk'' (psi_sender_context 2 ''s'' ''r'' True) (psi_receiver_context 3 ''r'' ''s'' False)"
  note fails = refused_handshake_fails [OF sorted_order_ok, of "''k''" "''kk''" 3 "''r''" "''s''" False True 2]
  have "fst (snd (snd ?flow)) = Inl SyntaxError" using fails by simp
  then have "?flow = (fst ?flow, fst (snd ?flow), Inl SyntaxError, snd (snd (snd ?flow)))" by (metis prod.collapse)
  with conjunct1 [OF fails] show ?thesis by metis
qed

text \<open>
  C18. Whatever a peer requests, everything that an answer of the receiver names was proposed by both
  sides: the algorithm, the protocol family and the version of the data exchange, and the version, the
  curve suit and the point format of the curve parameters, which are in the receiver's own proposals and in
  every proposal of the request. The request has the receiver's protocol version, and its result rank,
  where it carries one, is the receiver's, which is the one in both parts of the answer.
\<close>

theorem negotiate_sound:
  assumes "set_order_ok so" "negotiate so cx req = Inr rsp"
  shows "\<exists>ecc io. rs_protocol_family_params rsp = [AnyEccResult ecc] \<and> rs_io_param rsp = AnyPsiResult io \<and>
     rq_version req = cx_version cx \<and>
     rs_algo rsp \<in> set (cx_supported_algos cx) \<and> rs_algo rsp \<in> set (rq_supported_algos req) \<and>
     rs_protocol_families rsp \<noteq> [] \<and>
     set (rs_protocol_families rsp) \<subseteq> set (cx_protocol_families cx) \<inter> set (rq_protocol_families req) \<and>
     pq_version io \<in> set (cx_supported_versions cx) \<and>
     (\<forall>p. rq_io_param req = AnyPsiProposal p \<longrightarrow>
        pq_version io \<in> set (pp_supported_versions p) \<and> pp_result_to_rank p = cx_result_to_rank cx) \<and>
     pq_result_to_rank io = cx_result_to_rank cx \<and> er_result_to_rank ecc = cx_result_to_rank cx \<and>
     (\<forall>p. p \<in> set (cx_protocol_family_params cx) \<or> AnyEccProposal p \<in> set (rq_protocol_family_params req) \<longrightarrow>
        er_version ecc \<in> set (ep_supported_versions p) \<and> er_ec_suit ecc \<in> set (ep_ec_suits p) \<and>
        er_point_octet_format ecc \<in> set (ep_point_octet_formats p))"
proof -
  let ?reqs = "[make_handshake_request cx, req]"
  let ?params = "unpack_params_list as_ecc_proposal rq_protocol_family_params ?reqs"
  let ?ios = "unpack_params_list as_psi_proposal (\<lambda>r. [rq_io_param r]) ?reqs"
  from assms(2) obtain algos versions families ecc_versions suits formats where N:
    "rq_version req = cx_version cx"
    "intersection_set so rq_supported_algos ?reqs = Inr algos" "ALGO_TYPE_ECDH_PSI \<in> set algos"
    "intersection_set so pp_supported_versions ?ios = Inr versions" "intersection_int pp_result_to_rank ?ios = Inr True"
    "intersection_set so rq_protocol_families ?reqs = Inr families" "PROTOCOL_FAMILY_ECC \<in> set families"
    "intersection_set so ep_supported_versions ?params = Inr ecc_versions"
    "intersection_list ep_ec_suits ?params = Inr suits"
    "intersection_set so ep_point_octet_formats ?params = Inr formats"
    "ecc_versions \<noteq> []" "suits \<noteq> []" "formats \<noteq> []"
    "rs_protocol_family_params rsp =
       [AnyEccResult \<lparr>er_version = hd ecc_versions, er_ec_suit = hd suits, er_point_octet_format = hd formats,
          er_bit_length_after_truncated = 0, er_result_to_rank = cx_result_to_rank cx\<rparr>]"
    "rs_algo rsp = ALGO_TYPE_ECDH_PSI" "rs_protocol_families rsp = [PROTOCOL_FAMILY_ECC]" "versions \<noteq> []"
    "rs_io_param rsp = AnyPsiResult \<lparr>pq_version = hd versions, pq_result_to_rank = cx_result_to_rank cx\<rparr>"
    by (rule negotiate_choice)
  have params: "p \<in> set ?params" if "p \<in> set (cx_protocol_family_params cx) \<or> AnyEccProposal p \<in> set (rq_protocol_family_params req)" for p
    using that by (fastforce simp: unpack_mem make_handshake_request_def)
  have rank: "pp_result_to_rank io = cx_result_to_rank cx" if "rq_io_param req = AnyPsiProposal io" for io
    using N(5) that by (simp add: unpack_two List.map_filter_simps make_handshake_request_def intersection_int_two)
  have algo: "ALGO_TYPE_ECDH_PSI \<in> set (rq_supported_algos r)" "PROTOCOL_FAMILY_ECC \<in> set (rq_protocol_families r)"
    if "r \<in> set ?reqs" for r
    using intersection_set_mem [OF assms(1) N(2,3) that] intersection_set_mem [OF assms(1) N(6,7) that] by simp_all
  have version: "hd versions \<in> set (pp_supported_versions p)" if "p \<in> set ?ios" for p
    using intersection_set_mem [OF assms(1) N(4) _ that] N(17) by simp
  have own: "hd versions \<in> set (cx_supported_versions cx)"
    using version [of "\<lparr>pp_supported_versions = cx_supported_versions cx, pp_item_num = cx_item_num cx, pp_result_to_rank = cx_result_to_rank cx\<rparr>"]
    by (simp add: unpack_two List.map_filter_simps make_handshake_request_def)
  have theirs: "hd versions \<in> set (pp_supported_versions p)" if "rq_io_param req = AnyPsiProposal p" for p
    using version that by (simp add: unpack_two List.map_filter_simps make_handshake_request_def)
  have ecc: "hd ecc_versions \<in> set (ep_supported_versions p) \<and> hd suits \<in> set (ep_ec_suits p) \<and>
      hd formats \<in> set (ep_point_octet_formats p)" if "p \<in> set ?params" for p
    using intersection_set_mem [OF assms(1) N(8) _ that] intersection_list_mem [OF N(9) _ that]
      intersection_set_mem [OF assms(1) N(10) _ that] N(11-13) by simp
  have offered: "cx_supported_algos cx = rq_supported_algos (make_handshake_request cx)"
    "cx_protocol_families cx = rq_protocol_families (make_handshake_request cx)" by (simp_all add: make_handshake_request_def)
  show ?thesis
    unfolding offered N(14-16,18) using N(1) algo own theirs rank params ecc by simp
qed

theorem negotiate_sound_witness:
  "\<exists>rsp io. negotiate sorted_list_of_set (psi_receiver_context 3 ''r'' ''s'' True)
       (make_handshake_request (psi_sender_context 2 ''s'' ''r'' True)) = Inr rsp \<and>
     rs_io_param rsp = AnyPsiResult io \<and> pq_version io = 1 \<and> rs_algo rsp = ALGO_TYPE_ECDH_PSI"
proof -
  note N = negotiate_default [OF sorted_order_ok, of 3 "''r''" "''s''" True 2 "''s''" "''r''"]
  from negotiate_sound [OF sorted_order_ok N] show ?thesis unfolding N by (auto simp: context_defs)
qed

text \<open>
  The check that some curve parameters were proposed never fires, because the receiver adds
  its own proposal before it counts: a request without any curve proposal and with an
  io parameter of another type is answered as if the parties had agreed.
\<close>

theorem negotiate_accepts_no_proposal:
  assumes "set_order_ok so" "rq_version req = 1" "rq_supported_algos req = [ALGO_TYPE_ECDH_PSI]"
    and "rq_protocol_families req = [PROTOCOL_FAMILY_ECC]" "rq_protocol_family_params req = []" "rq_io_param req = AnyOther b"
  shows "\<exists>rsp. negotiate so (psi_receiver_context m dr ds send_back) req = Inr rsp \<and>
     rs_protocol_family_params rsp = [AnyEccResult (agreed_ecc send_back)]"
  using assms(2-)
  by (simp add: negotiate_def context_defs unpack_two List.map_filter_simps intersection_set_two intersection_int_def
      intersection_set_def intersection_list_def intersection_bool_def set_order_single [OF assms(1)] agreed_ecc_def Let_def)

theorem negotiate_accepts_no_proposal_witness:
  "\<exists>rsp. negotiate sorted_list_of_set (psi_receiver_context 3 ''r'' ''s'' False)
       \<lparr>rq_version = 1, rq_requester_rank = 0, rq_supported_algos = [ALGO_TYPE_ECDH_PSI],
        rq_protocol_families = [PROTOCOL_FAMILY_ECC], rq_protocol_family_params = [], rq_io_param = AnyOther []\<rparr> = Inr rsp"
  using negotiate_accepts_no_proposal [OF sorted_order_ok, of
      "\<lparr>rq_version = 1, rq_requester_rank = 0, rq_supported_algos = [ALGO_TYPE_ECDH_PSI],
        rq_protocol_families = [PROTOCOL_FAMILY_ECC], rq_protocol_family_params = [], rq_io_param = AnyOther []\<rparr>"
      "[]" 3 "''r''" "''s''" False]
  by auto

subsection \<open>The flow\<close>

lemma BATCH_pos: "0 < BATCH"
  by (simp add: BATCH_def)

lemma link_flags:
  assumes "set_order_ok so"
    and "psi_link so ks kr (psi_sender_context n ds dr send_back) (psi_receiver_context m dr ds send_back) = Some (fs, fr)"
  shows "flags_match fs fr" "fc_need_recv_cipher fr" "fc_need_recv_cipher fs \<longleftrightarrow> send_back"
    "fc_need_send_cipher fs" "fc_need_send_cipher fr \<longleftrightarrow> send_back"
  using assms(2) psi_link_default [OF assms(1), of ks kr n ds dr send_back m dr ds] by (auto simp: flags_match_def)

text \<open>
  C5. Private set intersection, for every interleaving of the eight threads: whenever all of them have
  ended, the receiver holds exactly its rows whose id is among the sender's ids, in their
  order and with their repetitions; the sender holds the corresponding rows of its own when
  \<^verbatim>\<open>send_back\<close> is set and nothing otherwise.
\<close>

theorem psi_intersects:
  fixes s_rows :: "'r list" and r_rows :: "'q list"
  assumes "set_order_ok so"
    and "psi_link so ks kr (psi_sender_context (int (length s_rows)) ds dr send_back)
       (psi_receiver_context (int (length r_rows)) dr ds send_back) = Some (fs, fr)"
    and "crypto_ok Y fs fr (s_id ` set s_rows \<union> r_id ` set r_rows)"
    and "(net_step Y fs fr)\<^sup>*\<^sup>* (init_net Y fs fr BATCH (map s_id s_rows) (map r_id r_rows)) nt"
    and "flow_done fs fr nt"
  shows "flow_result fr (nt_b nt) r_rows = Some (filter (\<lambda>row. r_id row \<in> s_id ` set s_rows) r_rows) \<and>
     flow_result fs (nt_a nt) s_rows =
       (if send_back then Some (filter (\<lambda>row. s_id row \<in> r_id ` set r_rows) s_rows) else None)"
proof -
  have oct: "octets_ok Y fs fr" "octets_ok Y fr fs" and inj: "inj_on (shared_point Y fs fr) (s_id ` set s_rows \<union> r_id ` set r_rows)"
    and comm: "\<And>x. shared_point Y fr fs x = shared_point Y fs fr x"
    using assms(3) unfolding crypto_ok_def by metis+
  have inj': "inj_on (shared_point Y fr fs) (r_id ` set r_rows \<union> s_id ` set s_rows)"
    using inj unfolding inj_on_def comm by blast
  have inv: "flow_inv Y fs fr (map s_id s_rows) (map r_id r_rows) nt"
    using reachable_flow_inv [OF assms(4) oct BATCH_pos] .
  note dirs = inv [unfolded flow_inv_def]
  have fin: "party_done fs (nt_a nt)" "party_done fr (nt_b nt)" using assms(5) by (simp_all add: flow_done_def)
  note flags = link_flags [OF assms(1,2)]
  have "flow_result fr (nt_b nt) r_rows = Some (filter (\<lambda>row. r_id row \<in> s_id ` set s_rows) r_rows)"
    using done_flow_result [OF dirs [THEN conjunct2] fin(2,1) flags(2,4) _ comm] inj' by simp
  moreover have "flow_result fs (nt_a nt) s_rows = Some (filter (\<lambda>row. s_id row \<in> r_id ` set r_rows) s_rows)" if send_back
    using done_flow_result [OF dirs [THEN conjunct1] fin _ _ _ comm [symmetric]] inj flags that by simp
  moreover have "flow_result fs (nt_a nt) s_rows = None" if "\<not> send_back"
    using flags that by (simp add: flow_result_def)
  ultimately show ?thesis by simp
qed

text \<open>
  C6. The flow cannot deadlock and cannot run for ever: after any number of steps of any
  interleaving, either all threads have ended or one of them can go on, and the number of steps
  is at most six times the number of batches of both parties.
\<close>

theorem psi_flow_ends:
  assumes "set_order_ok so"
    and "psi_link so ks kr (psi_sender_context (int (length xs)) ds dr send_back)
       (psi_receiver_context (int (length ys)) dr ds send_back) = Some (fs, fr)"
    and "crypto_ok Y fs fr (set xs \<union> set ys)"
    and "((net_step Y fs fr) ^^ k) (init_net Y fs fr BATCH xs ys) nt"
  shows "(flow_done fs fr nt \<or> (\<exists>nt'. net_step Y fs fr nt nt')) \<and>
     k \<le> 6 * (max 1 ((length xs + BATCH - 1) div BATCH) + max 1 ((length ys + BATCH - 1) div BATCH))"
proof -
  have "flow_inv Y fs fr xs ys nt"
    using reachable_flow_inv [OF relpowp_imp_rtranclp [OF assms(4)] _ _ BATCH_pos] assms(3) by (simp add: crypto_ok_def)
  then have "flow_done fs fr nt \<or> (\<exists>nt'. net_step Y fs fr nt nt')"
    using stuck_flow_done link_flags(1) [OF assms(1,2)] by blast
  moreover have "flow_size (init_net Y fs fr BATCH xs ys) =
      6 * (max 1 ((length xs + BATCH - 1) div BATCH) + max 1 ((length ys + BATCH - 1) div BATCH))"
    by (simp add: flow_size_def init_net_def init_party_def init_cipher_store_def calcucipher_length [OF BATCH_pos])
  ultimately show ?thesis using run_length [OF assms(4)] by simp
qed

definition sample_link :: "(flow_context \<times> flow_context) option" where
  "sample_link = psi_link sorted_list_of_set ''k'' ''kk'' (psi_sender_context (int (length [''ab'', ''cd''])) ''s'' ''r'' True)
     (psi_receiver_context (int (length [''cd'', ''ef'', ''cd''])) ''r'' ''s'' True)"

lemma sample_run:
  obtains fs fr nt where "sample_link = Some (fs, fr)"
    "(net_step sample_crypto fs fr)\<^sup>*\<^sup>* (init_net sample_crypto fs fr BATCH [''ab'', ''cd''] [''cd'', ''ef'', ''cd'']) nt"
    "flow_done fs fr nt"
proof -
  obtain fs fr where link: "sample_link = Some (fs, fr)"
    using psi_link_default [OF sorted_order_ok] by (simp add: sample_link_def)
  have oct: "octets_ok sample_crypto fs fr" "octets_ok sample_crypto fr fs" by (rule sample_octets)+
  obtain nt where nt:
    "(net_step sample_crypto fs fr)\<^sup>*\<^sup>* (init_net sample_crypto fs fr BATCH [''ab'', ''cd''] [''cd'', ''ef'', ''cd'']) nt"
    "\<not> (\<exists>nt'. net_step sample_crypto fs fr nt nt')"
    using run_to_end by blast
  have "flow_done fs fr nt"
    using stuck_flow_done [OF reachable_flow_inv [OF nt(1) oct BATCH_pos] _ nt(2)]
      link_flags(1) [OF sorted_order_ok link [unfolded sample_link_def]] by simp
  with link nt(1) that show thesis by blast
qed

theorem psi_intersects_witness:
  "\<exists>fs fr nt. sample_link = Some (fs, fr) \<and>
     (net_step sample_crypto fs fr)\<^sup>*\<^sup>* (init_net sample_crypto fs fr BATCH [''ab'', ''cd''] [''cd'', ''ef'', ''cd'']) nt \<and>
     flow_done fs fr nt \<and>
     flow_result fr (nt_b nt) [''cd'', ''ef'', ''cd''] = Some [''cd'', ''cd''] \<and>
     flow_result fs (nt_a nt) [''ab'', ''cd''] = Some [''cd'']"
proof -
  obtain fs fr nt where run: "sample_link = Some (fs, fr)"
    "(net_step sample_crypto fs fr)\<^sup>*\<^sup>* (init_net sample_crypto fs fr BATCH [''ab'', ''cd''] [''cd'', ''ef'', ''cd'']) nt"
    "flow_done fs fr nt" by (rule sample_run)
  have ok: "crypto_ok sample_crypto fs fr ((\<lambda>x. x) ` set [''ab'', ''cd''] \<union> (\<lambda>x. x) ` set [''cd'', ''ef'', ''cd''])"
    by (rule sample_crypto_ok) simp
  have reach: "(net_step sample_crypto fs fr)\<^sup>*\<^sup>*
      (init_net sample_crypto fs fr BATCH (map (\<lambda>x. x) [''ab'', ''cd'']) (map (\<lambda>x. x) [''cd'', ''ef'', ''cd''])) nt"
    using run(2) by simp
  note res = psi_intersects [OF sorted_order_ok run(1) [unfolded sample_link_def] ok reach run(3)]
  from res run show ?thesis by auto
qed

theorem psi_flow_ends_witness:
  "\<exists>fs fr. sample_link = Some (fs, fr) \<and>
     (\<exists>nt'. net_step sample_crypto fs fr (init_net sample_crypto fs fr BATCH [''ab'', ''cd''] [''cd'', ''ef'', ''cd'']) nt')"
proof -
  obtain fs fr nt where run: "sample_link = Some (fs, fr)" by (rule sample_run)
  have ok: "crypto_ok sample_crypto fs fr (set [''ab'', ''cd''] \<union> set [''cd'', ''ef'', ''cd''])"
    by (rule sample_crypto_ok) simp
  let ?init = "init_net sample_crypto fs fr BATCH [''ab'', ''cd''] [''cd'', ''ef'', ''cd'']"
  have "((net_step sample_crypto fs fr) ^^ 0) ?init ?init" by simp
  note ends = psi_flow_ends [OF sorted_order_ok run(1) [unfolded sample_link_def] ok this]
  have "\<not> flow_done fs fr ?init" by (simp add: flow_done_def party_done_def init_net_def init_party_def)
  with ends run show ?thesis by blast
qed

end
