(* ===== verification/Psi_Blocks.thy ===== *)
theory Psi_Blocks
  imports Psi_Files
begin

section \<open>Hashing the ids and cutting a table into blocks\<close>

text \<open>
  The part of \<^verbatim>\<open>PSI/psi_actors.py\<close> that adds the hash columns to a table and splits it by the hash
  of the id. The digest functions and the packing of floats are the fields of \<open>digests\<close>.
\<close>

record digests =
  dg_blake2b16 :: "bytes \<Rightarrow> bytes" \<comment> \<open>\<^verbatim>\<open>hashlib.blake2b(digest_size=16)\<close>\<close>
  dg_crc32 :: "bytes \<Rightarrow> nat"
  dg_pack_f :: "bytes \<Rightarrow> exn + bytes" \<comment> \<open>\<^verbatim>\<open>struct.pack('f', x)\<close>\<close>

fun map_sum_list :: "('a \<Rightarrow> exn + 'b) \<Rightarrow> 'a list \<Rightarrow> exn + 'b list" where
  "map_sum_list f [] = Inr []"
| "map_sum_list f (x # xs) =
     (case f x of Inl e \<Rightarrow> Inl e | Inr y \<Rightarrow> (case map_sum_list f xs of Inl e \<Rightarrow> Inl e | Inr ys \<Rightarrow> Inr (y # ys)))"

lemma map_sum_list_Inr: "map_sum_list f xs = Inr ys \<longleftrightarrow> map f xs = map Inr ys"
proof (induction xs arbitrary: ys)
  case (Cons x xs)
  have "map_sum_list f xs = Inr zs \<longleftrightarrow> map f xs = map Inr zs" for zs by (rule Cons.IH)
  then show ?case by (cases ys; cases "f x"; cases "map_sum_list f xs") auto
qed auto

lemma map_sum_list_all: "(\<And>x. x \<in> set xs \<Longrightarrow> f x = Inr (g x)) \<Longrightarrow> map_sum_list f xs = Inr (map g xs)"
  by (simp add: map_sum_list_Inr)

subsection \<open>Hashes\<close>

text \<open>\<open>x.to_bytes(8, byteorder='big', signed=False)\<close>\<close>

fun big_endian :: "nat \<Rightarrow> nat \<Rightarrow> bytes" where
  "big_endian 0 n = []"
| "big_endian (Suc k) n = big_endian k (n div 256) @ [char_of (n mod 256)]"

definition to_bytes8 :: "int \<Rightarrow> exn + bytes" where
  "to_bytes8 x = (if x < 0 \<or> 2 ^ 64 \<le> x then Inl OverflowError else Inr (big_endian 8 (nat x)))"

text \<open>\<open>int(bytes.hex(x), 16)\<close>\<close>

definition from_bytes :: "bytes \<Rightarrow> nat" where
  "from_bytes b = foldl (\<lambda>n c. n * 256 + of_char c) 0 b"

definition hash16 :: "digests \<Rightarrow> bytes \<Rightarrow> bytes" where
  "hash16 D b = dg_blake2b16 D b"

text \<open>The values of a column are of one type or missing; a value of another type is read as a missing one would be.\<close>

fun hash_str :: "digests \<Rightarrow> pyval \<Rightarrow> exn + bytes" where
  "hash_str D (VStr s) = Inr (hash16 D s)"
| "hash_str D _ = Inl TypeError"

fun hash_int :: "digests \<Rightarrow> pyval \<Rightarrow> exn + bytes" where
  "hash_int D (VInt x) = (case to_bytes8 x of Inl e \<Rightarrow> Inl e | Inr b \<Rightarrow> Inr (hash16 D b))"
| "hash_int D _ = Inl AttributeError"

fun hash_bytes :: "digests \<Rightarrow> pyval \<Rightarrow> exn + bytes" where
  "hash_bytes D (VBytes b) = Inr (hash16 D b)"
| "hash_bytes D _ = Inl TypeError"

fun hash_float :: "digests \<Rightarrow> pyval \<Rightarrow> exn + bytes" where
  "hash_float D (VFloat x) = (case dg_pack_f D x of Inl e \<Rightarrow> Inl e | Inr b \<Rightarrow> Inr (hash16 D b))"
| "hash_float D _ = Inl GenericException"

definition get_hash :: "digests \<Rightarrow> pyval list \<Rightarrow> string \<Rightarrow> exn + bytes list" where
  "get_hash D arr ty =
     (if ty = ''str'' then map_sum_list (hash_str D) arr
      else if ty = ''int'' then map_sum_list (hash_int D) arr
      else if ty = ''bytes'' then map_sum_list (hash_bytes D) arr
      else if ty = ''float'' then map_sum_list (hash_float D) arr
      else Inl GenericException)"

fun hash_type :: "pyval \<Rightarrow> exn + string" where
  "hash_type (VStr s) = Inr ''str''"
| "hash_type (VInt x) = Inr ''int''"
| "hash_type (VBytes b) = Inr ''bytes''"
| "hash_type (VFloat x) = Inr ''float''"
| "hash_type VNone = Inl GenericException"

definition hash_ids :: "digests \<Rightarrow> pyval list \<Rightarrow> exn + bytes list" where
  "hash_ids D id_list =
     (case id_list of
        [] \<Rightarrow> Inl IndexError
      | x # _ \<Rightarrow> (case hash_type x of Inl e \<Rightarrow> Inl e | Inr ty \<Rightarrow> get_hash D id_list ty))"

definition hash_mods :: "int \<Rightarrow> bytes list \<Rightarrow> int list" where
  "hash_mods n hashed_id = map (\<lambda>x. int (from_bytes x) mod n) hashed_id"

definition add_hash_column ::
  "'t arrow \<Rightarrow> digests \<Rightarrow> 't \<Rightarrow> string \<Rightarrow> string \<Rightarrow> (string \<times> int) option \<Rightarrow> exn + 't" where
  "add_hash_column A D df hashed_column_name to_hash_column_name hashed_mod =
     bind_exn (ar_column A df to_hash_column_name) (\<lambda>id_list.
     bind_exn (hash_ids D id_list) (\<lambda>hashed_id.
     bind_exn
       (case hashed_mod of
          None \<Rightarrow> Inr df
        | Some (hashed_mod_column_name, n) \<Rightarrow>
            if hashed_mod_column_name = [] \<or> n = 0 then Inr df
            else bind_exn (ar_int16 A (hash_mods n hashed_id)) (ar_add_column0 A df hashed_mod_column_name))
       (\<lambda>df'. ar_add_column0 A df' hashed_column_name (map VBytes hashed_id))))"

text \<open>\<open>add_hash_mod\<close> on the values of one column.\<close>

definition crc_mod :: "digests \<Rightarrow> int \<Rightarrow> bytes \<Rightarrow> exn + int" where
  "crc_mod D n b = (if n = 0 then Inl ZeroDivisionError else Inr (int (dg_crc32 D b) mod n))"

fun func_hash :: "digests \<Rightarrow> int \<Rightarrow> pyval \<Rightarrow> exn + int" where
  "func_hash D n (VStr s) = crc_mod D n s"
| "func_hash D n (VInt x) = bind_exn (to_bytes8 x) (crc_mod D n)"
| "func_hash D n (VBytes b) = crc_mod D n b"
| "func_hash D n _ = Inl GenericException"

definition add_hash_mod :: "digests \<Rightarrow> int \<Rightarrow> pyval list \<Rightarrow> exn + int list" where
  "add_hash_mod D n values = map_sum_list (func_hash D n) values"

subsection \<open>Columns\<close>

definition STATIC_HASHED_VALUE_COLUMN_NAMES :: string where
  "STATIC_HASHED_VALUE_COLUMN_NAMES = ''___hashed_id''"

definition STATIC_HASHED_MOD_VALUE_COLUMN_NAMES :: string where
  "STATIC_HASHED_MOD_VALUE_COLUMN_NAMES = ''___hashed_mod_id''"

datatype column_ref = ColumnName string | ColumnIndex int

definition has_column_by_name :: "'t arrow \<Rightarrow> 't \<Rightarrow> string \<Rightarrow> bool" where
  "has_column_by_name A data column_name \<longleftrightarrow> column_name \<in> set (ar_column_names A data)"

text \<open>Python's list indexing: negative indices count from the end.\<close>

definition py_index :: "'a list \<Rightarrow> int \<Rightarrow> exn + 'a" where
  "py_index xs i =
     (if 0 \<le> i \<and> i < int (length xs) then Inr (xs ! nat i)
      else if i < 0 \<and> - int (length xs) \<le> i then Inr (xs ! nat (int (length xs) + i))
      else Inl IndexError)"

definition get_column_name_by_index :: "'t arrow \<Rightarrow> 't \<Rightarrow> int \<Rightarrow> exn + string" where
  "get_column_name_by_index A data column_index = py_index (ar_column_names A data) column_index"

fun get_actual_column_name :: "'t arrow \<Rightarrow> 't \<Rightarrow> column_ref \<Rightarrow> int \<Rightarrow> exn + string" where
  "get_actual_column_name A data (ColumnIndex i) added_columns = get_column_name_by_index A data (i + added_columns)"
| "get_actual_column_name A data (ColumnName s) added_columns = Inr s"

definition large_types :: "schema \<Rightarrow> schema" where
  "large_types = map (\<lambda>(name, type).
     (name, if type = ''string'' then ''large_string'' else if type = ''binary'' then ''large_binary'' else type))"

definition convert_string_to_large_string :: "'t arrow \<Rightarrow> 't \<Rightarrow> exn + 't" where
  "convert_string_to_large_string A ori_table =
     ar_cast A ori_table (large_types (ar_schema A ori_table))"

subsection \<open>The sort stage\<close>

text \<open>
  A stage of a data set of ray: the blocks of the data set are sorted and cut at the boundaries. The list
  of boundaries belongs to the stage and is reversed in place for a descending key, so a run of the stage
  returns the list it leaves. A key is a name or a list of names with their directions.
\<close>

datatype sort_key = KeyName string | KeyList "(string \<times> string) list"

definition sort_impl_with_boundaries ::
  "'t arrow \<Rightarrow> 't list \<Rightarrow> sort_key \<Rightarrow> bool \<Rightarrow> int list \<Rightarrow> ('t list, int list) eff" where
  "sort_impl_with_boundaries A blocks key descending boundaries =
     (if blocks = [] then (Inr [], boundaries)
      else let key' = (case key of KeyName k \<Rightarrow> [(k, if descending then ''descending'' else ''ascending'')] | KeyList ks \<Rightarrow> ks)
           in case key' of
                [] \<Rightarrow> (Inl IndexError, boundaries)
              | (_, direction) # _ \<Rightarrow>
                  let num_reducers = length boundaries + 1;
                      boundaries' = (if direction = ''descending'' then rev boundaries else boundaries)
                  in (ar_simple_sort A boundaries' key' (direction = ''descending'') blocks num_reducers, boundaries'))"

fun validate_keys :: "'t arrow \<Rightarrow> 't list \<Rightarrow> (string + string \<times> string) list \<Rightarrow> exn + unit" where
  "validate_keys A ds [] = Inr ()"
| "validate_keys A ds (k # ks) = bind_exn (ar_validate_key A ds k) (\<lambda>_. validate_keys A ds ks)"

definition do_sort_with_boundaries ::
  "'t arrow \<Rightarrow> 't list \<Rightarrow> sort_key \<Rightarrow> bool \<Rightarrow> int list \<Rightarrow> ('t list, int list) eff" where
  "do_sort_with_boundaries A ds key descending boundaries =
     (if ds = [] then (Inr [], boundaries)
      else case (case key of
                   KeyList ks \<Rightarrow> if ks = [] then Inl ValueError else validate_keys A ds (map Inr ks)
                 | KeyName k \<Rightarrow> ar_validate_key A ds (Inl k)) of
             Inl e \<Rightarrow> (Inl e, boundaries)
           | Inr _ \<Rightarrow> sort_impl_with_boundaries A ds key descending boundaries)"

text \<open>The new data set, as what its blocks are when the plan is executed for the first time.\<close>

definition repartition_by_key_value :: "'t arrow \<Rightarrow> 't list \<Rightarrow> sort_key \<Rightarrow> int list \<Rightarrow> bool \<Rightarrow> exn + 't list" where
  "repartition_by_key_value A ds key boundaries descending = fst (do_sort_with_boundaries A ds key descending boundaries)"

lemma repartition_by_name:
  "ar_validate_key A [t] (Inl k) = Inr () \<Longrightarrow>
     repartition_by_key_value A [t] (KeyName k) boundaries False =
       ar_simple_sort A boundaries [(k, ''ascending'')] False [t] (length boundaries + 1)"
  by (simp add: repartition_by_key_value_def do_sort_with_boundaries_def sort_impl_with_boundaries_def)

text \<open>A stage with a descending key that is executed twice cuts at the right boundaries only once.\<close>

lemma descending_stage_alternates:
  assumes "ds \<noteq> []" "ar_validate_key A ds (Inl k) = Inr ()"
  shows "snd (do_sort_with_boundaries A ds (KeyName k) True boundaries) = rev boundaries"
    and "do_sort_with_boundaries A ds (KeyName k) True (snd (do_sort_with_boundaries A ds (KeyName k) True boundaries)) =
      (ar_simple_sort A boundaries [(k, ''descending'')] True ds (length boundaries + 1), boundaries)"
  using assms by (simp_all add: do_sort_with_boundaries_def sort_impl_with_boundaries_def Let_def)

subsection \<open>Repartition\<close>

definition repartition_by_hash ::
  "'t arrow \<Rightarrow> digests \<Rightarrow> 't \<Rightarrow> string \<Rightarrow> int \<Rightarrow> string \<Rightarrow> string \<Rightarrow> exn + 't list" where
  "repartition_by_hash A D dataTable example_id_name partition_num hashed_mod_column_name hashed_column_name =
     bind_exn (add_hash_column A D dataTable hashed_column_name example_id_name (Some (hashed_mod_column_name, partition_num)))
       (\<lambda>dataTable'. repartition_by_key_value A [dataTable'] (KeyName hashed_mod_column_name) [1..partition_num - 1] False)"

definition repartition_for_existed_data ::
  "'t arrow \<Rightarrow> digests \<Rightarrow> string \<Rightarrow> string \<Rightarrow> bool \<Rightarrow> column_ref \<Rightarrow> int \<Rightarrow> string \<Rightarrow> file_store \<Rightarrow> exn + 't list" where
  "repartition_for_existed_data A D data_protocol file_path with_head example_id_name data_block_count csv_delimiter st =
     bind_exn
       (if data_protocol = ''hdfs'' then read_data_from_hdfs A file_path with_head csv_delimiter st
        else if data_protocol = ''nfs'' then read_data_from_file A file_path with_head csv_delimiter st
        else Inl ValueError)
       (\<lambda>dataTable.
     bind_exn (get_actual_column_name A dataTable example_id_name 0) (\<lambda>real_example_id_name.
     bind_exn (convert_string_to_large_string A dataTable) (\<lambda>dataTable'.
     bind_exn (repartition_by_hash A D dataTable' real_example_id_name data_block_count
        STATIC_HASHED_MOD_VALUE_COLUMN_NAMES STATIC_HASHED_VALUE_COLUMN_NAMES) (\<lambda>data_blocks.
     if data_blocks = [] then Inl IndexError else Inr data_blocks))))"

text \<open>An empty block takes the (empty) slice of the last block that has rows.\<close>

definition last_schema :: "'t arrow \<Rightarrow> 't list \<Rightarrow> 't option" where
  "last_schema A blocks =
     fold (\<lambda>block new_empty_block. if ar_num_rows A block > 0 then Some (ar_slice00 A block) else new_empty_block) blocks None"

definition add_schema_to_all_empty_blocks :: "'t arrow \<Rightarrow> 't list \<Rightarrow> exn + 't list" where
  "add_schema_to_all_empty_blocks A blocks =
     (case last_schema A blocks of
        None \<Rightarrow> Inl GenericException
      | Some new_empty_block \<Rightarrow> Inr (map (\<lambda>block. if ar_num_rows A block > 0 then block else new_empty_block) blocks))"

end
