(* ===== verification/Psi_Dispatch.thy ===== *)
theory Psi_Dispatch
  imports Psi_Blocks
begin

section \<open>BlockDispatchActor\<close>

text \<open>
  The actor of \<^verbatim>\<open>PSI/psi_actors.py\<close> that lists the input, hands out one block after the other, keeps
  the state of every block and writes the single output file. Its methods run one at a time.
\<close>

datatype block_status = INIT | PREPARED | PROCSSING | PROCESSED | FAILED

type_synonym counts = "nat \<times> nat \<times> nat" \<comment> \<open>rows, feature values, null values\<close>

type_synonym status_entry = "block_status \<times> counts option \<times> counts option"

datatype 't block_data = PathBlock data_path | TableBlock 't

record 't block_dispatch_actor =
  dp_data_protocol :: "string option"
  dp_base_path :: string
  dp_with_head :: bool
  dp_data_paths :: "data_path list"
  dp_data_format :: "string option"
  dp_data_block_count :: int
  dp_data_blocks :: "'t option list"
  dp_data_status :: "status_entry list"
  dp_data_type :: file_type
  dp_example_id_name :: column_ref

definition init_block_dispatch_actor ::
  "string \<Rightarrow> bool \<Rightarrow> string option \<Rightarrow> string option \<Rightarrow> int \<Rightarrow> column_ref \<Rightarrow> 't block_dispatch_actor" where
  "init_block_dispatch_actor data_dir_or_path with_head data_protocol data_format data_block_count_if_file example_id_name =
     \<lparr>dp_data_protocol = data_protocol, dp_base_path = data_dir_or_path, dp_with_head = with_head, dp_data_paths = [],
      dp_data_format = (case data_format of None \<Rightarrow> None | Some f \<Rightarrow> if f = [] then None else Some (lower f)),
      dp_data_block_count = data_block_count_if_file, dp_data_blocks = [], dp_data_status = [],
      dp_data_type = FileT, dp_example_id_name = example_id_name\<rparr>"

subsection \<open>Listing the input\<close>

definition prepare_data_protocol_and_format :: "'t block_dispatch_actor \<Rightarrow> (unit, 't block_dispatch_actor) eff" where
  "prepare_data_protocol_and_format dp =
     (let infered_protocol = infer_protocol (dp_base_path dp);
          dp' = dp\<lparr>dp_data_protocol := Some infered_protocol\<rparr>
      in case dp_data_protocol dp of
           None \<Rightarrow> (Inr (), dp')
         | Some p \<Rightarrow>
             if p = [] then (Inr (), dp')
             else if lower p \<notin> {''hdfs'', ''nfs'', ''http''} then (Inl ValueError, dp)
             else if lower p \<noteq> infered_protocol then (Inl ValueError, dp)
             else (Inr (), dp'))"

definition is_data_single_file :: "'t block_dispatch_actor \<Rightarrow> bool" where
  "is_data_single_file dp \<longleftrightarrow> dp_data_type dp = FileT"

text \<open>Python sorts strings, and lists of strings, but raises on a mixture.\<close>

fun is_one_path :: "data_path \<Rightarrow> bool" where
  "is_one_path (OnePath p) = True"
| "is_one_path (PathList ps) = False"

fun path_key :: "data_path \<Rightarrow> string list" where
  "path_key (OnePath p) = [p]"
| "path_key (PathList ps) = ps"

definition sort_data_paths :: "data_path list \<Rightarrow> exn + data_path list" where
  "sort_data_paths ps =
     (if (\<forall>p \<in> set ps. is_one_path p) \<or> (\<forall>p \<in> set ps. \<not> is_one_path p) then Inr (sort_key path_key ps)
      else Inl TypeError)"

definition path_format :: "data_path \<Rightarrow> exn + string" where
  "path_format p =
     (case p of
        OnePath s \<Rightarrow> Inr (infer_format s)
      | PathList [] \<Rightarrow> Inl IndexError
      | PathList (s # _) \<Rightarrow> Inr (infer_format s))"

definition init_data_status :: "'t block_dispatch_actor \<Rightarrow> 't block_dispatch_actor" where
  "init_data_status dp =
     dp\<lparr>dp_data_status :=
          replicate (if is_data_single_file dp then nat (dp_data_block_count dp) else length (dp_data_paths dp)) (INIT, None, None)\<rparr>"

definition init_data_path_and_format_with_hdfs ::
  "(string \<Rightarrow> filesystem) \<Rightarrow> filesystem \<Rightarrow> 't block_dispatch_actor \<Rightarrow> (unit, 't block_dispatch_actor) eff" where
  "init_data_path_and_format_with_hdfs hdfs local dp =
     (let net = path_net (dp_base_path dp); path = url_path (dp_base_path dp); file_system = hdfs net;
          dp1 = (if fs_type file_system path = FileT
                 then dp\<lparr>dp_data_paths := [OnePath path], dp_data_type := FileT\<rparr>
                 else dp\<lparr>dp_data_paths :=
                            refetch_if_has_directory hdfs local ''hdfs'' (filter_data_paths net (fs_list file_system path False) True),
                          dp_data_type := DirectoryT\<rparr>)
      in case dp_data_paths dp1 of
           [] \<Rightarrow> (Inl ValueError, dp1)
         | p # _ \<Rightarrow>
             (case path_format p of
                Inl e \<Rightarrow> (Inl e, dp1)
              | Inr f \<Rightarrow>
                  if is_one_path p
                  then (case sort_data_paths (dp_data_paths dp1) of
                          Inl e \<Rightarrow> (Inl e, dp1\<lparr>dp_data_format := Some f\<rparr>)
                        | Inr ps \<Rightarrow> (Inr (), init_data_status (dp1\<lparr>dp_data_format := Some f, dp_data_paths := ps\<rparr>)))
                  else (Inr (), init_data_status (dp1\<lparr>dp_data_format := Some f\<rparr>))))"

definition init_data_path_and_format_with_http :: "'t block_dispatch_actor \<Rightarrow> (unit, 't block_dispatch_actor) eff" where
  "init_data_path_and_format_with_http dp = (Inl ValueError, dp)"

definition init_data_path_and_format_with_locals ::
  "(string \<Rightarrow> filesystem) \<Rightarrow> filesystem \<Rightarrow> 't block_dispatch_actor \<Rightarrow> (unit, 't block_dispatch_actor) eff" where
  "init_data_path_and_format_with_locals hdfs local dp =
     (let path = dp_base_path dp;
          protocol = (case dp_data_protocol dp of None \<Rightarrow> [] | Some s \<Rightarrow> s);
          dp1 = (if fs_type local path = FileT
                 then dp\<lparr>dp_data_paths := [OnePath path], dp_data_type := FileT\<rparr>
                 else dp\<lparr>dp_data_paths :=
                            refetch_if_has_directory hdfs local protocol (filter_data_paths [] (fs_list local path False) True),
                          dp_data_type := DirectoryT\<rparr>)
      in case dp_data_paths dp1 of
           [] \<Rightarrow> (Inl ValueError, dp1)
         | p # _ \<Rightarrow>
             (case path_format p of
                Inl e \<Rightarrow> (Inl e, dp1)
              | Inr f \<Rightarrow>
                  (case sort_data_paths (dp_data_paths dp1) of
                     Inl e \<Rightarrow> (Inl e, dp1\<lparr>dp_data_format := Some f\<rparr>)
                   | Inr ps \<Rightarrow> (Inr (), init_data_status (dp1\<lparr>dp_data_format := Some f, dp_data_paths := ps\<rparr>)))))"

definition init_data_path_and_format ::
  "(string \<Rightarrow> filesystem) \<Rightarrow> filesystem \<Rightarrow> 't block_dispatch_actor \<Rightarrow> (unit, 't block_dispatch_actor) eff" where
  "init_data_path_and_format hdfs local dp =
     (if dp_data_protocol dp = Some ''hdfs'' then init_data_path_and_format_with_hdfs hdfs local dp
      else if dp_data_protocol dp = Some ''http'' then init_data_path_and_format_with_http dp
      else init_data_path_and_format_with_locals hdfs local dp)"

definition init_data ::
  "(string \<Rightarrow> filesystem) \<Rightarrow> filesystem \<Rightarrow> 't block_dispatch_actor \<Rightarrow> (unit, 't block_dispatch_actor) eff" where
  "init_data hdfs local dp =
     and_then (prepare_data_protocol_and_format dp) (\<lambda>_ dp'. init_data_path_and_format hdfs local dp')"

subsection \<open>Handing out blocks\<close>

definition update_blocks :: "'t list \<Rightarrow> 't block_dispatch_actor \<Rightarrow> 't block_dispatch_actor" where
  "update_blocks data_blocks dp = dp\<lparr>dp_data_blocks := map Some data_blocks\<rparr>"

definition get_data_block_count :: "'t block_dispatch_actor \<Rightarrow> nat" where
  "get_data_block_count dp = length (dp_data_status dp)"

fun find_init :: "nat \<Rightarrow> status_entry list \<Rightarrow> nat option" where
  "find_init i [] = None"
| "find_init i (s # ss) = (if fst s = INIT then Some i else find_init (i + 1) ss)"

definition mark_prepared :: "nat \<Rightarrow> 't block_dispatch_actor \<Rightarrow> 't block_dispatch_actor" where
  "mark_prepared i dp = dp\<lparr>dp_data_status := (dp_data_status dp)[i := (PREPARED, snd (dp_data_status dp ! i))]\<rparr>"

text \<open>The result is the index and the data of the block; the data of a block of a single file is \<open>None\<close> when
  it was handed out before.\<close>

definition get_next_unprocessed_data_and_use ::
  "'t block_dispatch_actor \<Rightarrow> ((nat \<times> 't block_data option) option, 't block_dispatch_actor) eff" where
  "get_next_unprocessed_data_and_use dp =
     (case find_init 0 (dp_data_status dp) of
        None \<Rightarrow> (Inr None, dp)
      | Some i \<Rightarrow>
          let dp' = mark_prepared i dp
          in if is_data_single_file dp
             then if i < length (dp_data_blocks dp)
                  then (Inr (Some (i, map_option TableBlock (dp_data_blocks dp ! i))),
                        dp'\<lparr>dp_data_blocks := (dp_data_blocks dp)[i := None]\<rparr>)
                  else (Inl IndexError, dp')
             else if i < length (dp_data_paths dp) then (Inr (Some (i, Some (PathBlock (dp_data_paths dp ! i)))), dp')
             else (Inl IndexError, dp'))"

definition change_data_status ::
  "int \<Rightarrow> block_status \<Rightarrow> counts option \<Rightarrow> counts option \<Rightarrow> 't block_dispatch_actor \<Rightarrow> (unit, 't block_dispatch_actor) eff" where
  "change_data_status block_id status original_data_status joined_data_status dp =
     (if block_id < 0 \<or> int (length (dp_data_status dp)) \<le> block_id then (Inl ValueError, dp)
      else (Inr (), dp\<lparr>dp_data_status := (dp_data_status dp)[nat block_id := (status, original_data_status, joined_data_status)]\<rparr>))"

subsection \<open>Results\<close>

definition add_counts :: "counts option \<Rightarrow> counts \<Rightarrow> counts" where
  "add_counts c acc =
     (case (c, acc) of
        (None, _) \<Rightarrow> acc
      | (Some (a, b, c), (x, y, z)) \<Rightarrow> (x + a, y + b, z + c))"

definition get_results :: "'t block_dispatch_actor \<Rightarrow> counts \<times> counts" where
  "get_results dp =
     fold (\<lambda>e (origin, joined). (add_counts (fst (snd e)) origin, add_counts (snd (snd e)) joined))
       (dp_data_status dp) ((0, 0, 0), (0, 0, 0))"

text \<open>One block of the text formats: the first one starts the file, the others are appended.\<close>

fun output_blocks ::
  "'t arrow \<Rightarrow> bool \<Rightarrow> string \<Rightarrow> string \<Rightarrow> nat \<Rightarrow> 't option list \<Rightarrow> file_store \<Rightarrow> (unit, file_store) eff" where
  "output_blocks A global_head output_dir csv_delimiter i [] st = (Inr (), st)"
| "output_blocks A global_head output_dir csv_delimiter i (None # refs) st =
     output_blocks A global_head output_dir csv_delimiter (i + 1) refs st"
| "output_blocks A global_head output_dir csv_delimiter i (Some data_output # refs) st =
     (let with_head = (i = 0 \<and> global_head); appending = (i \<noteq> 0)
      in and_then
           (if infer_protocol output_dir = ''hdfs''
            then write_data_to_hdfs A data_output output_dir appending with_head csv_delimiter st
            else write_data_to_file A data_output output_dir appending with_head csv_delimiter st)
           (\<lambda>_ st'. output_blocks A global_head output_dir csv_delimiter (i + 1) refs st'))"

definition output_single_output_file ::
  "'t arrow \<Rightarrow> 't option list \<Rightarrow> string \<Rightarrow> string \<Rightarrow> 't block_dispatch_actor \<Rightarrow> file_store \<Rightarrow> (unit, file_store) eff" where
  "output_single_output_file A data_output_refs output_dir csv_delimiter dp st =
     (if data_output_refs = [] then (Inr (), st)
      else if dp_data_format dp = Some ''parquet'' \<or> dp_data_format dp = Some ''gz.parquet''
      then if None \<in> set data_output_refs then (Inl ValueError, st)
           else (case ar_concat_tables A (map the data_output_refs) of
                   Inl e \<Rightarrow> (Inl e, st)
                 | Inr all_table \<Rightarrow>
                     if infer_protocol output_dir = ''hdfs''
                     then write_data_to_hdfs A all_table output_dir False (dp_with_head dp) csv_delimiter st
                     else write_data_to_file A all_table output_dir False (dp_with_head dp) csv_delimiter st)
      else output_blocks A (dp_with_head dp) output_dir csv_delimiter 0 data_output_refs st)"

subsection \<open>The blocks that are left\<close>

definition block_datum :: "'t block_dispatch_actor \<Rightarrow> nat \<Rightarrow> 't block_data option" where
  "block_datum dp i =
     (if is_data_single_file dp then map_option TableBlock (dp_data_blocks dp ! i)
      else Some (PathBlock (dp_data_paths dp ! i)))"

definition blocks_left :: "'t block_dispatch_actor \<Rightarrow> (nat \<times> 't block_data option) list" where
  "blocks_left dp =
     map (\<lambda>i. (i, block_datum dp i)) (filter (\<lambda>i. fst (dp_data_status dp ! i) = INIT) [0..<length (dp_data_status dp)])"

definition dispatch_ok :: "'t block_dispatch_actor \<Rightarrow> bool" where
  "dispatch_ok dp \<longleftrightarrow>
     length (dp_data_status dp) \<le> (if is_data_single_file dp then length (dp_data_blocks dp) else length (dp_data_paths dp))"

lemma find_init_filter:
  "find_init k ss = (case filter (\<lambda>i. fst (ss ! (i - k)) = INIT) [k..<k + length ss] of [] \<Rightarrow> None | i # _ \<Rightarrow> Some i)"
proof (induction ss arbitrary: k)
  case (Cons s ss)
  have "[k..<k + length (s # ss)] = k # [Suc k..<Suc k + length ss]" by (subst upt_conv_Cons) simp_all
  moreover have "filter (\<lambda>i. fst ((s # ss) ! (i - k)) = INIT) [Suc k..<Suc k + length ss] =
      filter (\<lambda>i. fst (ss ! (i - Suc k)) = INIT) [Suc k..<Suc k + length ss]"
    by (rule filter_cong) (auto simp: nth_Cons' Suc_le_eq)
  ultimately show ?case using Cons.IH [of "Suc k"] by simp
qed simp

lemma filter_update_other:
  assumes "\<not> P x" "\<not> P (ss ! i)"
  shows "filter (\<lambda>j. P (ss[i := x] ! j)) [0..<length ss] = filter (\<lambda>j. P (ss ! j)) [0..<length ss]"
proof (cases "i < length ss")
  case True
  with assms show ?thesis by (intro filter_cong) (auto simp: nth_list_update)
qed (simp add: list_update_beyond)

lemma filter_upt_Cons:
  assumes "filter P [0..<n] = i # is"
  shows "filter (\<lambda>j. j \<noteq> i \<and> P j) [0..<n] = is" "i < n" "P i"
proof -
  have "i \<in> set (filter P [0..<n])" using assms by simp
  then show "i < n" "P i" by simp_all
  have "distinct (i # is)" using assms by (metis distinct_filter distinct_upt)
  then have "filter (\<lambda>j. j \<noteq> i) (i # is) = is" by (auto simp: filter_id_conv)
  then show "filter (\<lambda>j. j \<noteq> i \<and> P j) [0..<n] = is" unfolding assms [symmetric] by (simp add: conj_commute)
qed

lemma next_when_none:
  assumes "blocks_left dp = []"
  shows "get_next_unprocessed_data_and_use dp = (Inr None, dp)"
  using assms by (simp add: get_next_unprocessed_data_and_use_def find_init_filter blocks_left_def)

lemma next_when_some:
  assumes ok: "dispatch_ok dp" and left: "blocks_left dp = x # xs"
  shows "\<exists>dp'. get_next_unprocessed_data_and_use dp = (Inr (Some x), dp') \<and> blocks_left dp' = xs \<and> dispatch_ok dp'"
proof -
  let ?P = "\<lambda>i. fst (dp_data_status dp ! i) = INIT" and ?n = "length (dp_data_status dp)"
  obtain i "is" where idx: "filter ?P [0..<?n] = i # is" and x: "x = (i, block_datum dp i)" and xs: "xs = map (\<lambda>i. (i, block_datum dp i)) is"
    using left by (auto simp: blocks_left_def map_eq_Cons_conv)
  note i = filter_upt_Cons [OF idx]
  have found: "find_init 0 (dp_data_status dp) = Some i" using idx by (simp add: find_init_filter)
  have new: "filter (\<lambda>j. fst ((dp_data_status dp)[i := (PREPARED, c)] ! j) = INIT) [0..<?n] = is" for c
    unfolding i(1) [symmetric] using i(2) by (intro filter_cong) (auto simp: nth_list_update)
  have notin: "i \<noteq> j" if "j \<in> set is" for j using that unfolding i(1) [symmetric] by auto
  show ?thesis
  proof (cases "is_data_single_file dp")
    case True
    then have "i < length (dp_data_blocks dp)" using ok i(2) by (simp add: dispatch_ok_def)
    with True found ok x xs new notin show ?thesis
      by (simp add: get_next_unprocessed_data_and_use_def mark_prepared_def blocks_left_def block_datum_def dispatch_ok_def
          is_data_single_file_def)
  next
    case False
    then have "i < length (dp_data_paths dp)" using ok i(2) by (simp add: dispatch_ok_def)
    with False found ok x xs new notin show ?thesis
      by (simp add: get_next_unprocessed_data_and_use_def mark_prepared_def blocks_left_def block_datum_def dispatch_ok_def
          is_data_single_file_def)
  qed
qed

lemma next_cases:
  assumes "dispatch_ok dp"
  shows "(\<exists>i dp'. get_next_unprocessed_data_and_use dp = (Inr (Some (i, block_datum dp i)), dp') \<and> i < length (dp_data_status dp) \<and>
       fst (dp_data_status dp ! i) = INIT \<and> dp_data_status dp' = (dp_data_status dp)[i := (PREPARED, snd (dp_data_status dp ! i))]) \<or>
     get_next_unprocessed_data_and_use dp = (Inr None, dp)"
proof (cases "blocks_left dp")
  case Nil
  then show ?thesis by (simp add: next_when_none)
next
  case (Cons x xs)
  then obtain i "is" where idx: "filter (\<lambda>i. fst (dp_data_status dp ! i) = INIT) [0..<length (dp_data_status dp)] = i # is"
    by (auto simp: blocks_left_def map_eq_Cons_conv)
  note i = filter_upt_Cons [OF idx]
  have "find_init 0 (dp_data_status dp) = Some i" using idx by (simp add: find_init_filter)
  with i assms show ?thesis
    by (auto simp: get_next_unprocessed_data_and_use_def mark_prepared_def block_datum_def dispatch_ok_def Let_def split: if_splits)
qed

end
