(* ===== verification/Psi_Actor.thy ===== *)
theory Psi_Actor
  imports Psi_Dispatch
begin

section \<open>PsiPirActor\<close>

text \<open>
  The worker of \<^verbatim>\<open>PSI/psi_actors.py\<close>: it reads a block, runs the intersection with the peer's worker
  of the same block and writes or returns what is left of the block. The call of the
  intersection (\<^verbatim>\<open>psi_sender\<close> and \<^verbatim>\<open>psi_receiver\<close> of \<^verbatim>\<open>Psi_Api\<close>, which involves the peer) is the
  parameter \<open>psi\<close>, by role and task id. \<open>process_block\<close> is the part of \<open>do_action\<close> without effects,
  from the block that was read to the counts and the joined table. The worker reports the state of
  its block to the dispatcher without waiting; the reports are taken to arrive before the driver,
  which has the worker's result by then, asks the dispatcher again.
\<close>

datatype join_type = PSI | PIR

datatype role_type = SENDER | RECEIVER

type_synonym 't psi_call = "role_type \<Rightarrow> string \<Rightarrow> 't \<Rightarrow> exn + 't option"

record psi_pir_actor =
  ac_actor_index :: nat
  ac_example_id_name :: column_ref
  ac_with_head :: bool
  ac_join_type :: join_type
  ac_role :: role_type
  ac_data_type :: file_type
  ac_app_id :: string
  ac_local_address :: string
  ac_proxy_address :: string
  ac_local_domain :: string
  ac_remote_domain :: string
  ac_redis_addr :: string
  ac_redis_pwd :: string

definition count_values :: "'t arrow \<Rightarrow> 't \<Rightarrow> string list \<Rightarrow> counts" where
  "count_values A data excludes =
     (let rows = ar_num_rows A data; names = filter (\<lambda>n. n \<notin> set excludes) (ar_column_names A data)
      in (rows, \<Sum>n \<leftarrow> names. rows, \<Sum>n \<leftarrow> names. ar_null_count A data n))"

text \<open>Reading the files of a block.\<close>

definition read_one :: "'t arrow \<Rightarrow> psi_pir_actor \<Rightarrow> string \<Rightarrow> string \<Rightarrow> file_store \<Rightarrow> string \<Rightarrow> exn + 't" where
  "read_one A ac data_protocol csv_delimiter st path =
     (if data_protocol = ''hdfs'' then read_data_from_hdfs A path (ac_with_head ac) csv_delimiter st
      else read_data_from_file A path (ac_with_head ac) csv_delimiter st)"

fun read_list :: "'t arrow \<Rightarrow> (string \<Rightarrow> exn + 't) \<Rightarrow> 't option \<Rightarrow> string list \<Rightarrow> exn + 't" where
  "read_list A rd None [] = Inl UnboundLocalError"
| "read_list A rd (Some data) [] = Inr data"
| "read_list A rd None (p # ps) = bind_exn (rd p) (\<lambda>sub. read_list A rd (Some sub) ps)"
| "read_list A rd (Some data) (p # ps) =
     bind_exn (rd p) (\<lambda>sub. bind_exn (ar_concat_tables A [data, sub]) (\<lambda>data'. read_list A rd (Some data') ps))"

definition finish_read :: "'t arrow \<Rightarrow> digests \<Rightarrow> string \<Rightarrow> 't \<Rightarrow> exn + 't \<times> string" where
  "finish_read A D real_example_name data =
     bind_exn
       (if ar_num_rows A data > 0 \<and> length (ar_column_names A data) > 0
        then bind_exn
               (if has_column_by_name A data STATIC_HASHED_VALUE_COLUMN_NAMES then Inr data
                else add_hash_column A D data STATIC_HASHED_VALUE_COLUMN_NAMES real_example_name None)
               (\<lambda>data1. if has_column_by_name A data1 STATIC_HASHED_MOD_VALUE_COLUMN_NAMES
                        then ar_drop A data1 [STATIC_HASHED_MOD_VALUE_COLUMN_NAMES] else Inr data1)
        else Inr data)
       (\<lambda>data'. Inr (ar_combine_chunks A data', real_example_name))"

definition read_block_data ::
  "'t arrow \<Rightarrow> digests \<Rightarrow> psi_pir_actor \<Rightarrow> string \<Rightarrow> string \<Rightarrow> 't block_data option \<Rightarrow> file_store \<Rightarrow> exn + 't \<times> string" where
  "read_block_data A D ac data_protocol csv_delimiter block_data st =
     (case block_data of
        None \<Rightarrow> Inl AttributeError
      | Some (TableBlock data) \<Rightarrow>
          bind_exn (get_actual_column_name A data (ac_example_id_name ac) 2) (\<lambda>name. finish_read A D name data)
      | Some (PathBlock p) \<Rightarrow>
          bind_exn
            (case p of
               OnePath path \<Rightarrow> read_one A ac data_protocol csv_delimiter st path
             | PathList paths \<Rightarrow> read_list A (read_one A ac data_protocol csv_delimiter st) None paths)
            (\<lambda>data.
          bind_exn (get_actual_column_name A data (ac_example_id_name ac) 0) (\<lambda>name.
          bind_exn (convert_string_to_large_string A data) (finish_read A D name))))"

definition task_id :: "psi_pir_actor \<Rightarrow> nat \<Rightarrow> string" where
  "task_id ac block_id = ac_app_id ac @ ''_'' @ str_of_nat block_id"

definition do_psi :: "'t psi_call \<Rightarrow> psi_pir_actor \<Rightarrow> nat \<Rightarrow> 't \<Rightarrow> exn + 't option" where
  "do_psi psi ac block_id block_data = psi (ac_role ac) (task_id ac block_id) block_data"

definition do_pir :: "psi_pir_actor \<Rightarrow> nat \<Rightarrow> 't \<Rightarrow> exn + 't option" where
  "do_pir ac block_id block_data = Inl GenericException"

definition batch_in :: "'t arrow \<Rightarrow> 't \<Rightarrow> 't \<Rightarrow> 't" where
  "batch_in A emptyOut recTableData = (case ar_to_batches A recTableData of [] \<Rightarrow> emptyOut | b # _ \<Rightarrow> b)"

definition process_block ::
  "'t arrow \<Rightarrow> 't psi_call \<Rightarrow> psi_pir_actor \<Rightarrow> nat \<Rightarrow> 't \<times> string \<Rightarrow> exn + counts \<times> counts \<times> 't" where
  "process_block A psi ac block_id r =
     (case r of (recTableData, real_example_id_name) \<Rightarrow>
        let emptyOut = ar_from_pydict_empty A (ar_schema A recTableData);
            excludes = [STATIC_HASHED_VALUE_COLUMN_NAMES, real_example_id_name]
        in bind_exn
             (if ac_role ac = SENDER \<and> ac_join_type ac = PIR then ar_drop A recTableData [real_example_id_name]
              else Inr recTableData)
             (\<lambda>data.
           bind_exn
             (if ac_join_type ac = PSI then do_psi psi ac block_id (batch_in A emptyOut data)
              else do_pir ac block_id (batch_in A emptyOut data))
             (\<lambda>recBatchOut.
           bind_exn (ar_from_batches A [case recBatchOut of None \<Rightarrow> emptyOut | Some b \<Rightarrow> b]) (\<lambda>out.
           Inr (count_values A data excludes, count_values A out excludes, out)))))"

definition sync_block_status ::
  "nat \<Rightarrow> block_status \<Rightarrow> counts option \<Rightarrow> counts option \<Rightarrow> 't block_dispatch_actor \<Rightarrow> 't block_dispatch_actor" where
  "sync_block_status block_id status original joined dp = snd (change_data_status (int block_id) status original joined dp)"

definition output_part :: "string \<Rightarrow> nat \<Rightarrow> string \<Rightarrow> string" where
  "output_part output_base_path block_id data_format =
     output_base_path @ ''/part_'' @ zfill 6 (str_of_nat block_id) @ ''.'' @ data_format"

definition write_block_data ::
  "'t arrow \<Rightarrow> psi_pir_actor \<Rightarrow> nat \<Rightarrow> string \<Rightarrow> 't \<Rightarrow> file_type \<Rightarrow> string \<Rightarrow> bool \<Rightarrow> string \<Rightarrow> file_store \<Rightarrow> (unit, file_store) eff" where
  "write_block_data A ac block_id data_format block_data output_path_type output_base_path appending csv_delimiter st =
     (case ar_drop A block_data [STATIC_HASHED_VALUE_COLUMN_NAMES] of
        Inl e \<Rightarrow> (Inl e, st)
      | Inr data \<Rightarrow>
          let output_path = (if output_path_type = DirectoryT then output_part output_base_path block_id data_format
                             else output_base_path);
              infered_protocol = infer_protocol output_path
          in if infered_protocol = ''hdfs'' then write_data_to_hdfs A data output_path appending (ac_with_head ac) csv_delimiter st
             else if infered_protocol = ''nfs'' then write_data_to_file A data output_path appending (ac_with_head ac) csv_delimiter st
             else (Inl ValueError, st))"

type_synonym 't app_state = "'t block_dispatch_actor \<times> file_store"

definition deliver_block ::
  "'t arrow \<Rightarrow> psi_pir_actor \<Rightarrow> nat \<Rightarrow> string \<Rightarrow> string \<Rightarrow> string \<Rightarrow> counts \<times> counts \<times> 't \<Rightarrow> 't app_state \<Rightarrow>
     (nat \<times> nat \<times> 't option, 't app_state) eff" where
  "deliver_block A ac block_id data_format output_path csv_delimiter r s =
     (case r of (original, joined, out) \<Rightarrow>
      case s of (dp, st) \<Rightarrow>
        let finish = (\<lambda>ref st'. (Inr (ac_actor_index ac, block_id, ref),
                        (sync_block_status block_id PROCESSED (Some original) (Some joined) dp, st')))
        in if ac_data_type ac = DirectoryT
           then (case write_block_data A ac block_id data_format out (ac_data_type ac) output_path False csv_delimiter st of
                   (Inl e, st') \<Rightarrow> (Inl e, (dp, st'))
                 | (Inr _, st') \<Rightarrow> finish None st')
           else (case ar_drop A out [STATIC_HASHED_VALUE_COLUMN_NAMES] of
                   Inl e \<Rightarrow> (Inl e, (dp, st))
                 | Inr out' \<Rightarrow> finish (Some out') st))"

definition do_action ::
  "'t arrow \<Rightarrow> digests \<Rightarrow> 't psi_call \<Rightarrow> psi_pir_actor \<Rightarrow> nat \<Rightarrow> string \<Rightarrow> string \<Rightarrow> 't block_data option \<Rightarrow> string \<Rightarrow> string \<Rightarrow>
     't app_state \<Rightarrow> (nat \<times> nat \<times> 't option, 't app_state) eff" where
  "do_action A D psi ac block_id data_protocol data_format block_data output_path csv_delimiter s =
     (case s of (dp, st) \<Rightarrow>
        let dp1 = sync_block_status block_id PROCSSING None None dp
        in case bind_exn (read_block_data A D ac data_protocol csv_delimiter block_data st) (process_block A psi ac block_id) of
             Inl e \<Rightarrow> (Inl e, (dp1, st))
           | Inr r \<Rightarrow> deliver_block A ac block_id data_format output_path csv_delimiter r (dp1, st))"

end
