(* ===== verification/Job_Pool.thy ===== *)
theory Job_Pool
  imports DJ_Prelude "HOL-Library.Multiset"
begin

section \<open>The job loop of the driver\<close>

text \<open>
  The loops of \<^verbatim>\<open>run_app\<close> of \<^verbatim>\<open>PSI/psi_actors.py\<close> that give every worker one block, wait for any
  of them and give the worker that is ready the next block. What the driver calls of the
  dispatcher and the workers is the record \<open>pool\<close>; the locale \<open>block_pool\<close> states what it relies on
  and proves once that every block is worked on exactly once, whatever the order in which the
  workers get ready. A worker's job runs when \<^verbatim>\<open>ray.wait\<close> reports it: the jobs of different blocks
  do not read what another one writes. The argument \<open>js\<close> of \<open>wait_loop\<close> holds the choices of
  \<^verbatim>\<open>ray.wait\<close>; a wait that times out changes nothing and is left out.
\<close>

record ('s, 'd, 'o) pool =
  pl_next :: "'s \<Rightarrow> ((nat \<times> 'd) option, 's) eff"
  pl_act :: "nat \<Rightarrow> nat \<Rightarrow> 'd \<Rightarrow> 's \<Rightarrow> (nat \<times> nat \<times> 'o option, 's) eff" \<comment> \<open>worker, block, data\<close>

record ('s, 'd, 'o) jobs =
  jb_state :: 's
  jb_refs :: "(nat \<times> nat \<times> 'd) list" \<comment> \<open>\<^verbatim>\<open>result_refs\<close>: worker, block, data\<close>
  jb_outputs :: "'o option list" \<comment> \<open>\<^verbatim>\<open>data_output_refs\<close>\<close>
  jb_completed :: "'o option" \<comment> \<open>\<^verbatim>\<open>completed_block_data\<close>\<close>

fun start_jobs :: "('s, 'd, 'o) pool \<Rightarrow> nat list \<Rightarrow> ('s, 'd, 'o) jobs \<Rightarrow> (unit, ('s, 'd, 'o) jobs) eff" where
  "start_jobs M [] jb = (Inr (), jb)"
| "start_jobs M (i # ks) jb =
     (case pl_next M (jb_state jb) of
        (Inl e, s) \<Rightarrow> (Inl e, jb\<lparr>jb_state := s\<rparr>)
      | (Inr None, s) \<Rightarrow> (Inl TypeError, jb\<lparr>jb_state := s\<rparr>)
      | (Inr (Some (b, d)), s) \<Rightarrow> start_jobs M ks (jb\<lparr>jb_state := s, jb_refs := jb_refs jb @ [(i, b, d)]\<rparr>))"

definition remove_nth :: "nat \<Rightarrow> 'a list \<Rightarrow> 'a list" where
  "remove_nth j xs = take j xs @ drop (Suc j) xs"

definition complete_job :: "('s, 'd, 'o) pool \<Rightarrow> bool \<Rightarrow> nat \<Rightarrow> ('s, 'd, 'o) jobs \<Rightarrow> (unit, ('s, 'd, 'o) jobs) eff" where
  "complete_job M single_file j jb =
     (case jb_refs jb ! j of (a, b, d) \<Rightarrow>
        (case pl_act M a b d (jb_state jb) of
           (Inl e, s) \<Rightarrow> (Inl e, jb\<lparr>jb_state := s\<rparr>)
         | (Inr (completed_actor_index, completed_block_id, completed_block_data), s) \<Rightarrow>
             let jb1 = jb\<lparr>jb_state := s, jb_completed := completed_block_data,
                          jb_outputs := (if single_file \<and> completed_block_data \<noteq> None
                                         then (jb_outputs jb)[completed_block_id := completed_block_data] else jb_outputs jb)\<rparr>
             in case pl_next M s of
                  (Inl e, s') \<Rightarrow> (Inl e, jb1\<lparr>jb_state := s'\<rparr>)
                | (Inr None, s') \<Rightarrow> (Inr (), jb1\<lparr>jb_state := s', jb_refs := remove_nth j (jb_refs jb)\<rparr>)
                | (Inr (Some (b', d')), s') \<Rightarrow>
                    if completed_actor_index < length (jb_refs jb)
                    then (Inr (), jb1\<lparr>jb_state := s',
                                      jb_refs := (jb_refs jb)[completed_actor_index := (completed_actor_index, b', d')]\<rparr>)
                    else (Inl IndexError, jb1\<lparr>jb_state := s'\<rparr>)))"

text \<open>
  \<open>True\<close>: the loop was left; \<open>False\<close>: it goes on after these waits. A wait for no job returns at once with
  no result, and the test that leaves the loop is only made after a result.
\<close>

fun wait_loop :: "('s, 'd, 'o) pool \<Rightarrow> bool \<Rightarrow> nat list \<Rightarrow> ('s, 'd, 'o) jobs \<Rightarrow> (bool, ('s, 'd, 'o) jobs) eff" where
  "wait_loop M single_file [] jb = (Inr False, jb)"
| "wait_loop M single_file (j # js) jb =
     (if jb_refs jb = [] then wait_loop M single_file js jb
      else and_then (complete_job M single_file (j mod length (jb_refs jb)) jb)
             (\<lambda>_ jb'. if jb_refs jb' = [] then (Inr True, jb') else wait_loop M single_file js jb'))"

lemma start_jobs_keeps:
  assumes "\<And>s r s'. I s \<Longrightarrow> pl_next M s = (r, s') \<Longrightarrow> I s'" "I (jb_state jb)"
  shows "I (jb_state (snd (start_jobs M ks jb)))"
  using assms(2)
proof (induction ks arbitrary: jb)
  case (Cons i ks)
  obtain r s where nx: "pl_next M (jb_state jb) = (r, s)" by fastforce
  from assms(1) [OF Cons.prems nx] Cons.IH nx show ?case by (auto split: sum.split option.split)
qed simp

lemma remove_nth_length: "j < length xs \<Longrightarrow> length (remove_nth j xs) = length xs - 1"
  by (simp add: remove_nth_def)

lemma mset_remove_nth: "j < length xs \<Longrightarrow> mset xs = add_mset (xs ! j) (mset (remove_nth j xs))"
  unfolding remove_nth_def by (subst id_take_nth_drop [of j xs]) simp_all

lemma map_remove_nth: "map f (remove_nth j xs) = remove_nth j (map f xs)"
  by (simp add: remove_nth_def take_map drop_map)

lemma mset_replace_nth:
  assumes "j < length xs"
  shows "mset (xs @ y # ys) = add_mset (xs ! j) (mset (xs[j := y] @ ys))"
  using assms by (simp add: mset_update)

subsection \<open>What the driver relies on\<close>

locale block_pool =
  fixes M :: "('s, 'd, 'o) pool" and todo :: "'s \<Rightarrow> (nat \<times> 'd) list" and ok :: "'s \<Rightarrow> bool"
  assumes next_none: "ok s \<Longrightarrow> todo s = [] \<Longrightarrow> pl_next M s = (Inr None, s)"
    and next_some: "ok s \<Longrightarrow> todo s = x # xs \<Longrightarrow> \<exists>s'. pl_next M s = (Inr (Some x), s') \<and> todo s' = xs \<and> ok s'"
    and act_keeps: "ok s \<Longrightarrow> b \<notin> fst ` set (todo s) \<Longrightarrow> pl_act M a b d s = (Inr (a', b', out), s') \<Longrightarrow> ok s' \<and> todo s' = todo s \<and> a' = a \<and> b' = b"
begin

lemma start_jobs_takes:
  assumes "ok (jb_state jb)" "length ks \<le> length (todo (jb_state jb))"
  shows "\<exists>s'. start_jobs M ks jb = (Inr (), jb\<lparr>jb_state := s', jb_refs := jb_refs jb @ zip ks (take (length ks) (todo (jb_state jb)))\<rparr>) \<and>
     ok s' \<and> todo s' = drop (length ks) (todo (jb_state jb))"
  using assms
proof (induction ks arbitrary: jb)
  case (Cons i ks)
  then obtain b d xs where todo: "todo (jb_state jb) = (b, d) # xs" by (cases "todo (jb_state jb)") auto
  from next_some [OF Cons.prems(1) todo] obtain s where s: "pl_next M (jb_state jb) = (Inr (Some (b, d)), s)" "todo s = xs" "ok s"
    by blast
  have "length ks \<le> length xs" using Cons.prems(2) todo by simp
  with Cons.IH [of "jb\<lparr>jb_state := s, jb_refs := jb_refs jb @ [(i, b, d)]\<rparr>"] s todo show ?case by auto
next
  case Nil
  then show ?case by (intro exI [of _ "jb_state jb"]) simp
qed

text \<open>The blocks that are running or not handed out yet.\<close>

definition jobs_left :: "('s, 'd, 'o) jobs \<Rightarrow> (nat \<times> 'd) list" where
  "jobs_left jb = map snd (jb_refs jb) @ todo (jb_state jb)"

text \<open>While blocks are left, the job of worker \<open>i\<close> is at position \<open>i\<close>.\<close>

definition aligned :: "('s, 'd, 'o) jobs \<Rightarrow> bool" where
  "aligned jb \<longleftrightarrow> (todo (jb_state jb) \<noteq> [] \<longrightarrow> map fst (jb_refs jb) = [0..<length (jb_refs jb)])"

lemma complete_job_step:
  assumes ok: "ok (jb_state jb)" and al: "aligned jb" and j: "j < length (jb_refs jb)" and ref: "jb_refs jb ! j = (a, b, d)"
    and act: "pl_act M a b d (jb_state jb) = (Inr (a, b, out), s)" and new: "b \<notin> fst ` set (todo (jb_state jb))"
  obtains jb' where "complete_job M f j jb = (Inr (), jb')" "ok (jb_state jb')" "aligned jb'"
    "mset (jobs_left jb) = add_mset (b, d) (mset (jobs_left jb'))" "jb_refs jb' = [] \<longrightarrow> jobs_left jb' = []"
    "\<exists>r. pl_next M s = (r, jb_state jb')"
    "jb_outputs jb' = (if f \<and> out \<noteq> None then (jb_outputs jb)[b := out] else jb_outputs jb)" "jb_completed jb' = out"
proof (cases "todo (jb_state jb)")
  case Nil
  from act_keeps [OF ok new act] Nil have s: "ok s" "todo s = []" by auto
  from next_none [OF s] act ref Nil s mset_remove_nth [of j "map snd (jb_refs jb)"] j
  show thesis
    by (intro that [of "jb\<lparr>jb_state := s, jb_completed := out,
          jb_outputs := (if f \<and> out \<noteq> None then (jb_outputs jb)[b := out] else jb_outputs jb),
          jb_refs := remove_nth j (jb_refs jb)\<rparr>"])
       (simp_all add: complete_job_def aligned_def jobs_left_def map_remove_nth Let_def)
next
  case (Cons x xs)
  obtain b' d' where x: "x = (b', d')" by fastforce
  from act_keeps [OF ok new act] Cons x have s: "ok s" "todo s = (b', d') # xs" by auto
  from next_some [OF s] obtain s' where s': "pl_next M s = (Inr (Some (b', d')), s')" "todo s' = xs" "ok s'" by blast
  have idx: "map fst (jb_refs jb) = [0..<length (jb_refs jb)]" using al Cons by (simp add: aligned_def)
  then have "map fst (jb_refs jb) ! j = j" using j by simp
  then have a: "a = j" using ref j by simp
  have idx': "map fst ((jb_refs jb)[j := (j, b', d')]) = [0..<length (jb_refs jb)]"
    using idx j by (simp add: map_update list_update_same_conv)
  have "jb_refs jb \<noteq> []" using j by auto
  with act j ref Cons x s' a idx' mset_replace_nth [of j "map snd (jb_refs jb)" x xs] show thesis
    by (intro that [of "jb\<lparr>jb_state := s', jb_completed := out,
          jb_outputs := (if f \<and> out \<noteq> None then (jb_outputs jb)[b := out] else jb_outputs jb),
          jb_refs := (jb_refs jb)[j := (j, b', d')]\<rparr>"])
       (simp_all add: complete_job_def aligned_def jobs_left_def map_update Let_def)
qed

text \<open>
  \<open>Q b out s\<close> is what the job of block \<open>b\<close> with result \<open>out\<close> leaves in the state. When no other job and
  no hand-out destroys it, it holds for every block when the loop is left, and the
  loop is left after as many waits as there are blocks.
\<close>

lemma wait_loop_all:
  assumes acts: "\<And>a b d s. (b, d) \<in> J \<Longrightarrow> ok s \<Longrightarrow> I s \<Longrightarrow>
      \<exists>out s'. pl_act M a b d s = (Inr (a, b, out), s') \<and> Q b out s' \<and> I s'"
    and keep: "\<And>a b d s r s' b' out'. (b, d) \<in> J \<Longrightarrow> ok s \<Longrightarrow> I s \<Longrightarrow> Q b' out' s \<Longrightarrow> b \<noteq> b' \<Longrightarrow> pl_act M a b d s = (Inr r, s') \<Longrightarrow> Q b' out' s'"
    and keep_next: "\<And>s r s' b out. ok s \<Longrightarrow> Q b out s \<Longrightarrow> pl_next M s = (r, s') \<Longrightarrow> Q b out s'"
    and next_I: "\<And>s r s'. ok s \<Longrightarrow> I s \<Longrightarrow> pl_next M s = (r, s') \<Longrightarrow> I s'"
    and "ok (jb_state jb)" "I (jb_state jb)" "aligned jb" "jb_refs jb \<noteq> []" "length js = length (jobs_left jb)"
    and "set (jobs_left jb) \<subseteq> J" "distinct (map fst (jobs_left jb))" "fst ` set (jobs_left jb) \<subseteq> {..<length (jb_outputs jb)}"
  shows "\<exists>jb'. wait_loop M f js jb = (Inr True, jb') \<and> ok (jb_state jb') \<and> I (jb_state jb') \<and> length (jb_outputs jb') = length (jb_outputs jb) \<and>
     (\<forall>b \<in> fst ` set (jobs_left jb). \<exists>out. Q b out (jb_state jb') \<and> (f \<and> out \<noteq> None \<longrightarrow> jb_outputs jb' ! b = out)) \<and>
     (\<forall>b out. b \<notin> fst ` set (jobs_left jb) \<and> Q b out (jb_state jb) \<longrightarrow> Q b out (jb_state jb')) \<and>
     (\<forall>b. b \<notin> fst ` set (jobs_left jb) \<longrightarrow> jb_outputs jb' ! b = jb_outputs jb ! b) \<and>
     (\<exists>b s. Q b (jb_completed jb') s)"
  using assms(5-)
proof (induction js arbitrary: jb)
  case Nil
  then show ?case by (simp add: jobs_left_def)
next
  case (Cons j0 js)
  let ?j = "j0 mod length (jb_refs jb)"
  have j: "?j < length (jb_refs jb)" using Cons.prems(4) by simp
  obtain a b d where ref: "jb_refs jb ! ?j = (a, b, d)" by (metis prod_cases3)
  have bd: "(b, d) \<in> set (jobs_left jb)" using ref nth_mem [OF j] by (force simp: jobs_left_def)
  with Cons.prems(6) acts [OF _ Cons.prems(1,2), of b d a] obtain out s where
    act: "pl_act M a b d (jb_state jb) = (Inr (a, b, out), s)" and Qb: "Q b out s" and Is: "I s" by blast
  have new: "b \<notin> fst ` set (todo (jb_state jb))"
    using Cons.prems(7) ref nth_mem [OF j] by (force simp: jobs_left_def)
  obtain jb' where step: "complete_job M f ?j jb = (Inr (), jb')" "ok (jb_state jb')" "aligned jb'"
    "mset (jobs_left jb) = add_mset (b, d) (mset (jobs_left jb'))" "jb_refs jb' = [] \<longrightarrow> jobs_left jb' = []"
    "\<exists>r. pl_next M s = (r, jb_state jb')"
    "jb_outputs jb' = (if f \<and> out \<noteq> None then (jb_outputs jb)[b := out] else jb_outputs jb)" "jb_completed jb' = out"
    by (rule complete_job_step [OF Cons.prems(1,3) j ref act new])
  have ids: "mset (map fst (jobs_left jb)) = add_mset b (mset (map fst (jobs_left jb')))"
    using arg_cong [OF step(4), of "image_mset fst"] by simp
  have dist: "distinct (b # map fst (jobs_left jb'))"
    using Cons.prems(7) mset_eq_imp_distinct_iff [of "map fst (jobs_left jb)" "b # map fst (jobs_left jb')"] ids by simp
  have set_ids: "fst ` set (jobs_left jb) = insert b (fst ` set (jobs_left jb'))"
    using arg_cong [OF ids, of set_mset] by simp
  have sub: "set (jobs_left jb') \<subseteq> J" using Cons.prems(6) arg_cong [OF step(4), of set_mset] by auto
  have oks: "ok s" using act_keeps [OF Cons.prems(1) new act] by simp
  have kept: "Q b' out' (jb_state jb')" if "Q b' out' (jb_state jb)" "b \<noteq> b'" for b' out'
    using keep [OF _ Cons.prems(1,2) that act] keep_next [OF oks] step(6) bd Cons.prems(6) by blast
  have Qb': "Q b out (jb_state jb')" using keep_next [OF oks Qb] step(6) by blast
  have I': "I (jb_state jb')" using next_I [OF oks Is] step(6) by blast
  have len: "length js = length (jobs_left jb')" using Cons.prems(5) arg_cong [OF step(4), of size] by simp
  have outs: "jb_outputs jb' ! b = out" if "f" "out \<noteq> None"
    using that step(7) Cons.prems(8) set_ids by simp
  have outs': "jb_outputs jb' ! b' = jb_outputs jb ! b'" if "b' \<noteq> b" for b' using that step(7) by simp
  have length_outs: "length (jb_outputs jb') = length (jb_outputs jb)" using step(7) by simp
  show ?case
  proof (cases "jb_refs jb' = []")
    case True
    then have nil: "jobs_left jb' = []" using step(5) by simp
    have "wait_loop M f (j0 # js) jb = (Inr True, jb')" using step(1) True Cons.prems(4) by simp
    with nil step(2,8) I' Qb Qb' kept outs outs' set_ids length_outs show ?thesis by (intro exI [of _ jb']) auto
  next
    case False
    have b: "fst ` set (jobs_left jb') \<subseteq> {..<length (jb_outputs jb')}" using Cons.prems(8) set_ids length_outs by auto
    obtain jb'' where IH: "wait_loop M f js jb' = (Inr True, jb'')" "ok (jb_state jb'')" "I (jb_state jb'')"
      "length (jb_outputs jb'') = length (jb_outputs jb')"
      "\<forall>b \<in> fst ` set (jobs_left jb'). \<exists>out. Q b out (jb_state jb'') \<and> (f \<and> out \<noteq> None \<longrightarrow> jb_outputs jb'' ! b = out)"
      "\<forall>b out. b \<notin> fst ` set (jobs_left jb') \<and> Q b out (jb_state jb') \<longrightarrow> Q b out (jb_state jb'')"
      "\<forall>b. b \<notin> fst ` set (jobs_left jb') \<longrightarrow> jb_outputs jb'' ! b = jb_outputs jb' ! b"
      "\<exists>b s. Q b (jb_completed jb'') s"
      using Cons.IH [OF step(2) I' step(3) False len sub _ b] dist by auto
    have nb: "b \<notin> fst ` set (jobs_left jb')" using dist by simp
    have run: "wait_loop M f (j0 # js) jb = (Inr True, jb'')" using step(1) False Cons.prems(4) IH(1) by simp
    have first: "Q b out (jb_state jb'') \<and> (f \<and> out \<noteq> None \<longrightarrow> jb_outputs jb'' ! b = out)"
      using IH(6,7) nb Qb' outs by simp
    obtain b1 s1 where last: "Q b1 (jb_completed jb'') s1" using IH(8) by blast
    show ?thesis
    proof (intro exI conjI)
      show "\<forall>b \<in> fst ` set (jobs_left jb). \<exists>out. Q b out (jb_state jb'') \<and> (f \<and> out \<noteq> None \<longrightarrow> jb_outputs jb'' ! b = out)"
        unfolding set_ids using first IH(5) by blast
      show "\<forall>b out. b \<notin> fst ` set (jobs_left jb) \<and> Q b out (jb_state jb) \<longrightarrow> Q b out (jb_state jb'')"
        unfolding set_ids using kept IH(6) by auto
      show "\<forall>b. b \<notin> fst ` set (jobs_left jb) \<longrightarrow> jb_outputs jb'' ! b = jb_outputs jb ! b"
        unfolding set_ids using outs' IH(7) by simp
      show "Q b1 (jb_completed jb'') s1" by (rule last)
    qed (use run IH(2-4) length_outs in simp_all)
  qed
qed

end

end
