(* ===== verification/Psi_App.thy ===== *)
theory Psi_App
  imports Psi_Actor Job_Pool
begin

section \<open>The intersection job\<close>

text \<open>
  \<^verbatim>\<open>run_app\<close>, \<^verbatim>\<open>generate_result\<close> and the main program of \<^verbatim>\<open>PSI/psi_actors.py\<close>. \<open>app_pool\<close> gives the job
  loop of \<^verbatim>\<open>Job_Pool\<close> the methods of the dispatcher and of the workers.
\<close>

definition next_block :: "'t app_state \<Rightarrow> ((nat \<times> 't block_data option) option, 't app_state) eff" where
  "next_block s = (case get_next_unprocessed_data_and_use (fst s) of (r, dp) \<Rightarrow> (r, (dp, snd s)))"

lemma next_blockE:
  assumes "next_block (dp, st) = (r, s')"
  obtains dp' where "get_next_unprocessed_data_and_use dp = (r, dp')" "s' = (dp', st)"
  using assms by (auto simp: next_block_def split: prod.splits)

definition app_pool ::
  "'t arrow \<Rightarrow> digests \<Rightarrow> 't psi_call \<Rightarrow> (nat \<Rightarrow> psi_pir_actor) \<Rightarrow> string \<Rightarrow> string \<Rightarrow> string \<Rightarrow> string \<Rightarrow>
     ('t app_state, 't block_data option, 't) pool" where
  "app_pool A D psi actors data_protocol data_format output_dir csv_delimiter =
     \<lparr>pl_next = next_block,
      pl_act = (\<lambda>a b d s. do_action A D psi (actors a) b data_protocol data_format d output_dir csv_delimiter s)\<rparr>"

lemma blocks_left_update:
  assumes "fst (dp_data_status dp ! b) \<noteq> INIT" "status \<noteq> INIT"
  shows "blocks_left (dp\<lparr>dp_data_status := (dp_data_status dp)[b := (status, o1, o2)]\<rparr>) = blocks_left dp"
  using filter_update_other [of "\<lambda>e. fst e = INIT" "(status, o1, o2)" "dp_data_status dp" b] assms
  by (simp add: blocks_left_def block_datum_def is_data_single_file_def)

lemma sync_status_keeps:
  assumes "b \<notin> fst ` set (blocks_left dp)" "status \<noteq> INIT"
  shows "blocks_left (sync_block_status b status o1 o2 dp) = blocks_left dp"
    "dispatch_ok (sync_block_status b status o1 o2 dp) = dispatch_ok dp"
proof -
  have "fst (dp_data_status dp ! b) \<noteq> INIT" if "b < length (dp_data_status dp)"
    using assms(1) that by (force simp: blocks_left_def)
  then show "blocks_left (sync_block_status b status o1 o2 dp) = blocks_left dp"
    using blocks_left_update [of dp b status o1 o2] assms(2)
    by (simp add: sync_block_status_def change_data_status_def)
  show "dispatch_ok (sync_block_status b status o1 o2 dp) = dispatch_ok dp"
    by (simp add: sync_block_status_def change_data_status_def dispatch_ok_def is_data_single_file_def)
qed

lemma deliver_block_Inr:
  assumes "deliver_block A ac b data_format output_path csv_delimiter r (dp, st) = (Inr (a', b', out), (dp', st'))"
  shows "a' = ac_actor_index ac \<and> b' = b \<and>
     dp' = sync_block_status b PROCESSED (Some (fst r)) (Some (fst (snd r))) dp"
  using assms by (auto simp: deliver_block_def Let_def split: prod.splits sum.splits if_splits)

lemma do_action_Inr:
  assumes "do_action A D psi ac b data_protocol data_format d output_path csv_delimiter (dp, st) = (Inr (a', b', out), (dp', st'))"
  shows "a' = ac_actor_index ac \<and> b' = b \<and>
     (\<exists>o1 o2. dp' = sync_block_status b PROCESSED o1 o2 (sync_block_status b PROCSSING None None dp))"
  using assms by (auto simp: do_action_def Let_def split: sum.splits dest!: deliver_block_Inr)

lemma sync_twice_keeps:
  assumes new: "b \<notin> fst ` set (blocks_left dp)"
  shows "blocks_left (sync_block_status b PROCESSED o1 o2 (sync_block_status b PROCSSING None None dp)) = blocks_left dp"
    "dispatch_ok (sync_block_status b PROCESSED o1 o2 (sync_block_status b PROCSSING None None dp)) = dispatch_ok dp"
proof -
  note first = sync_status_keeps [OF new, of PROCSSING None None, simplified]
  have "b \<notin> fst ` set (blocks_left (sync_block_status b PROCSSING None None dp))" using new first(1) by simp
  from sync_status_keeps [OF this, of PROCESSED o1 o2] first
  show "blocks_left (sync_block_status b PROCESSED o1 o2 (sync_block_status b PROCSSING None None dp)) = blocks_left dp"
    "dispatch_ok (sync_block_status b PROCESSED o1 o2 (sync_block_status b PROCSSING None None dp)) = dispatch_ok dp"
    by simp_all
qed

interpretation app: block_pool "app_pool A D psi actors data_protocol data_format output_dir csv_delimiter"
  "\<lambda>s. blocks_left (fst s)" "\<lambda>s. dispatch_ok (fst s) \<and> (\<forall>a. ac_actor_index (actors a) = a)"
  for A :: "'t arrow" and D psi actors data_protocol data_format output_dir csv_delimiter
proof unfold_locales
  fix s :: "'t app_state"
  assume "blocks_left (fst s) = []"
  then show "pl_next (app_pool A D psi actors data_protocol data_format output_dir csv_delimiter) s = (Inr None, s)"
    by (simp add: app_pool_def next_block_def next_when_none)
next
  fix s :: "'t app_state" and x xs
  assume "dispatch_ok (fst s) \<and> (\<forall>a. ac_actor_index (actors a) = a)" "blocks_left (fst s) = x # xs"
  with next_when_some [of "fst s" x xs]
  show "\<exists>s'. pl_next (app_pool A D psi actors data_protocol data_format output_dir csv_delimiter) s = (Inr (Some x), s') \<and>
      blocks_left (fst s') = xs \<and> dispatch_ok (fst s') \<and> (\<forall>a. ac_actor_index (actors a) = a)"
    by (auto simp: app_pool_def next_block_def)
next
  fix s :: "'t app_state" and a b d a' b' out s'
  assume inv: "dispatch_ok (fst s) \<and> (\<forall>a. ac_actor_index (actors a) = a)" and new: "b \<notin> fst ` set (blocks_left (fst s))"
    and act: "pl_act (app_pool A D psi actors data_protocol data_format output_dir csv_delimiter) a b d s = (Inr (a', b', out), s')"
  obtain dp st dp' st' where s: "s = (dp, st)" "s' = (dp', st')" by fastforce
  have "do_action A D psi (actors a) b data_protocol data_format d output_dir csv_delimiter (dp, st) = (Inr (a', b', out), (dp', st'))"
    using act by (simp add: app_pool_def s)
  from do_action_Inr [OF this] inv sync_twice_keeps [of b dp] new [unfolded s]
  show "(dispatch_ok (fst s') \<and> (\<forall>a. ac_actor_index (actors a) = a)) \<and> blocks_left (fst s') = blocks_left (fst s) \<and> a' = a \<and> b' = b"
    by (auto simp: s)
qed

subsection \<open>The report\<close>

record job_result =
  jr_local :: nat
  jr_join :: nat
  jr_percent :: "nat \<times> nat" \<comment> \<open>numerator and denominator of the quotient\<close>
  jr_local_values :: "(nat \<times> nat) option"
  jr_join_values :: "(nat \<times> nat) option"
  jr_output :: string

definition join_percent :: "counts \<Rightarrow> counts \<Rightarrow> nat \<times> nat" where
  "join_percent origin joined = (if fst origin = 0 then (0, 1) else (fst joined, fst origin))"

text \<open>The pir branch reads the global \<^verbatim>\<open>role_type\<close>, which only the main program sets.\<close>

definition generate_result :: "role_type option \<Rightarrow> join_type \<Rightarrow> counts \<times> counts \<Rightarrow> string \<Rightarrow> exn + job_result" where
  "generate_result global_role jt aggre_results output_dir =
     (case aggre_results of (origin, joined) \<Rightarrow>
        if jt = PSI
        then Inr \<lparr>jr_local = fst origin, jr_join = fst joined, jr_percent = join_percent origin joined,
                  jr_local_values = None, jr_join_values = None, jr_output = output_dir\<rparr>
        else (case global_role of
                None \<Rightarrow> Inl NameError
              | Some SENDER \<Rightarrow>
                  Inr \<lparr>jr_local = fst origin, jr_join = 0, jr_percent = (0, 1), jr_local_values = Some (snd origin),
                       jr_join_values = None, jr_output = output_dir\<rparr>
              | Some RECEIVER \<Rightarrow>
                  Inr \<lparr>jr_local = fst origin, jr_join = fst joined, jr_percent = join_percent origin joined,
                       jr_local_values = Some (snd origin), jr_join_values = Some (snd joined), jr_output = output_dir\<rparr>))"

subsection \<open>run_app\<close>

record app_args =
  ap_app_id :: string
  ap_join_type :: join_type
  ap_data_path :: string
  ap_example_id_name :: column_ref
  ap_with_head :: bool
  ap_local_ip :: string
  ap_local_start_port :: int
  ap_remote_proxy_address :: "string + int"
  ap_bucket_num :: int
  ap_role_type :: role_type
  ap_local_domain :: string
  ap_remote_domain :: string
  ap_redis_addr :: string
  ap_redis_pwd :: string
  ap_output_dir :: string
  ap_max_actors :: int
  ap_csv_delimiter :: string

definition make_actor :: "app_args \<Rightarrow> file_type \<Rightarrow> nat \<Rightarrow> psi_pir_actor" where
  "make_actor args data_type i =
     \<lparr>ac_actor_index = i, ac_example_id_name = ap_example_id_name args, ac_with_head = ap_with_head args,
      ac_join_type = ap_join_type args, ac_role = ap_role_type args, ac_data_type = data_type,
      ac_app_id = ap_app_id args,
      ac_local_address = ap_local_ip args @ '':'' @ str_of_int (ap_local_start_port args + int i),
      ac_proxy_address = (case ap_remote_proxy_address args of
         Inl s \<Rightarrow> s | Inr p \<Rightarrow> ''0.0.0.0:'' @ str_of_int (p + int i)),
      ac_local_domain = ap_local_domain args, ac_remote_domain = ap_remote_domain args,
      ac_redis_addr = ap_redis_addr args, ac_redis_pwd = ap_redis_pwd args\<rparr>"

text \<open>The table of a single file is cut before the jobs start.\<close>

definition prepare_blocks ::
  "'t arrow \<Rightarrow> digests \<Rightarrow> app_args \<Rightarrow> string \<Rightarrow> 't app_state \<Rightarrow> (unit, 't app_state) eff" where
  "prepare_blocks A D args data_protocol s =
     (case s of (dp, st) \<Rightarrow>
        if dp_data_type dp = FileT
        then (case bind_exn
                (repartition_for_existed_data A D data_protocol (ap_data_path args) (ap_with_head args) (ap_example_id_name args)
                   (ap_bucket_num args) (ap_csv_delimiter args) st)
                (add_schema_to_all_empty_blocks A) of
                Inl e \<Rightarrow> (Inl e, s)
              | Inr blocks \<Rightarrow> (Inr (), (update_blocks blocks dp, st)))
        else (Inr (), s))"

definition adjust_max_actors :: "app_args \<Rightarrow> nat \<Rightarrow> nat" where
  "adjust_max_actors args data_block_num =
     (if int data_block_num \<le> ap_max_actors args then data_block_num else nat (ap_max_actors args))"

definition start_state :: "'t app_state \<Rightarrow> nat \<Rightarrow> ('t app_state, 't block_data option, 't) jobs" where
  "start_state s data_block_num =
     \<lparr>jb_state = s, jb_refs = [], jb_outputs = replicate data_block_num None, jb_completed = None\<rparr>"

definition finish_app ::
  "'t arrow \<Rightarrow> role_type option \<Rightarrow> app_args \<Rightarrow> file_type \<Rightarrow> ('t app_state, 't block_data option, 't) jobs \<Rightarrow>
     (job_result option, 't app_state) eff" where
  "finish_app A global_role args data_type jb =
     (case jb_state jb of (dp, st) \<Rightarrow>
        case (if data_type = FileT \<and> jb_completed jb \<noteq> None
              then output_single_output_file A (jb_outputs jb) (ap_output_dir args) (ap_csv_delimiter args) dp st
              else (Inr (), st)) of
          (Inl e, st') \<Rightarrow> (Inl e, (dp, st'))
        | (Inr _, st') \<Rightarrow>
            (case generate_result global_role (ap_join_type args) (get_results dp) (ap_output_dir args) of
               Inl e \<Rightarrow> (Inl e, (dp, st'))
             | Inr r \<Rightarrow> (Inr (Some r), (dp, st'))))"

definition run_jobs ::
  "'t arrow \<Rightarrow> digests \<Rightarrow> 't psi_call \<Rightarrow> role_type option \<Rightarrow> app_args \<Rightarrow> nat list \<Rightarrow> 't app_state \<Rightarrow>
     (job_result option, 't app_state) eff" where
  "run_jobs A D psi global_role args js s =
     (let dp = fst s;
          data_type = dp_data_type dp;
          data_block_num = get_data_block_count dp;
          data_protocol = (case dp_data_protocol dp of None \<Rightarrow> [] | Some p \<Rightarrow> p);
          data_format = (case dp_data_format dp of None \<Rightarrow> ''None'' | Some f \<Rightarrow> f);
          max_actors = adjust_max_actors args data_block_num;
          M = app_pool A D psi (make_actor args data_type) data_protocol data_format (ap_output_dir args) (ap_csv_delimiter args)
      in and_then (prepare_blocks A D args data_protocol s) (\<lambda>_ s1.
         case start_jobs M [0..<max_actors] (start_state s1 data_block_num) of
           (Inl e, jb) \<Rightarrow> (Inl e, jb_state jb)
         | (Inr _, jb) \<Rightarrow>
             (case wait_loop M (data_type = FileT) js jb of
                (Inl e, jb') \<Rightarrow> (Inl e, jb_state jb')
              | (Inr False, jb') \<Rightarrow> (Inr None, jb_state jb')
              | (Inr True, jb') \<Rightarrow> finish_app A global_role args data_type jb')))"

text \<open>The result \<open>None\<close> means that the loop is still waiting after the waits \<open>js\<close>.\<close>

definition run_app ::
  "'t arrow \<Rightarrow> digests \<Rightarrow> 't psi_call \<Rightarrow> (string \<Rightarrow> filesystem) \<Rightarrow> filesystem \<Rightarrow> role_type option \<Rightarrow> app_args \<Rightarrow> nat list \<Rightarrow>
     file_store \<Rightarrow> (job_result option, 't app_state) eff" where
  "run_app A D psi hdfs local global_role args js st =
     (case init_data hdfs local
             (init_block_dispatch_actor (ap_data_path args) (ap_with_head args) None None (ap_bucket_num args) (ap_example_id_name args)) of
        (Inl e, dp) \<Rightarrow> (Inl e, (dp, st))
      | (Inr _, dp) \<Rightarrow> run_jobs A D psi global_role args js (dp, st))"

subsection \<open>The main program\<close>

record main_args =
  ma_input :: string
  ma_output :: string
  ma_cluster_id :: string
  ma_input_col :: string
  ma_proxy_listen :: int
  ma_proxy_remote :: string
  ma_redis_server :: string
  ma_redis_password :: string
  ma_target :: string
  ma_status_server :: string
  ma_party_id :: string
  ma_parallels :: int
  ma_work_mode :: string
  ma_buckets :: int
  ma_csv_header :: bool
  ma_csv_delimiter :: string

text \<open>The options the program reads, with the defaults of \<open>create_argment_parser\<close>; the options without a default
  are parameters.\<close>

definition create_argment_parser :: "string \<Rightarrow> string \<Rightarrow> string \<Rightarrow> string \<Rightarrow> string \<Rightarrow> string \<Rightarrow> string \<Rightarrow> main_args" where
  "create_argment_parser inp out cluster_id proxy_remote target status_server party_id =
     \<lparr>ma_input = inp, ma_output = out, ma_cluster_id = cluster_id, ma_input_col = ''0'', ma_proxy_listen = 22020,
      ma_proxy_remote = proxy_remote, ma_redis_server = [], ma_redis_password = [], ma_target = target, ma_status_server = status_server, ma_party_id = party_id, ma_parallels = 0, ma_work_mode = ''pir'',
      ma_buckets = 0, ma_csv_header = True, ma_csv_delimiter = '',''\<rparr>"

record environment =
  en_cpu :: "int option" \<comment> \<open>\<^verbatim>\<open>CPU\<close>\<close>
  en_task_id :: string \<comment> \<open>\<^verbatim>\<open>TASK_ID\<close>, empty when unset\<close>
  en_local_domain :: string
  en_local_ip :: string
  en_cluster_id :: "string option" \<comment> \<open>\<^verbatim>\<open>CLUSTER_ID\<close>\<close>
  en_node_id :: "string option" \<comment> \<open>\<^verbatim>\<open>NODE_ID\<close>\<close>

definition cpu_count :: "environment \<Rightarrow> int" where
  "cpu_count env = (case en_cpu env of None \<Rightarrow> 1 | Some n \<Rightarrow> n)"

definition n_parallels :: "environment \<Rightarrow> main_args \<Rightarrow> int" where
  "n_parallels env args =
     (let n = (if ma_parallels args = 0 then cpu_count env else ma_parallels args)
      in if n > cpu_count env then cpu_count env else n)"

text \<open>The role: \<open>None\<close> when no branch assigns it. A single target raises \<^verbatim>\<open>IndexError\<close>.\<close>

definition choose_role :: "string list \<Rightarrow> string \<Rightarrow> exn + role_type option" where
  "choose_role targets local_domain =
     (if targets ! 0 = local_domain then (if length targets < 2 then Inl IndexError else Inr (Some RECEIVER))
      else if length targets < 2 then Inl IndexError
      else if targets ! 1 = local_domain then Inr (Some SENDER)
      else Inr None)"

definition choose_remote :: "string list \<Rightarrow> string \<Rightarrow> string" where
  "choose_remote targets local_domain =
     (case filter (\<lambda>t. t \<noteq> local_domain) targets of
        t # _ \<Rightarrow> t
      | [] \<Rightarrow> targets ! 1)"

text \<open>
  \<open>int(s)\<close> of a text: white space around it, a sign, and digits with single underscores between them. Digits and white
  space beyond ASCII, which Python takes too, are left out.
\<close>

definition py_space :: "char \<Rightarrow> bool" where
  "py_space c \<longleftrightarrow> (of_char c :: nat) \<in> {9, 10, 11, 12, 13, 32}"

definition py_strip :: "string \<Rightarrow> string" where
  "py_strip s = rev (dropWhile py_space (rev (dropWhile py_space s)))"

definition is_decimal :: "string \<Rightarrow> bool" where
  "is_decimal s \<longleftrightarrow> (\<forall>p \<in> set (split_on CHR ''_'' s). p \<noteq> [] \<and> (\<forall>c \<in> set p. 48 \<le> (of_char c :: nat) \<and> (of_char c :: nat) \<le> 57))"

definition decimal_value :: "string \<Rightarrow> int" where
  "decimal_value s = foldl (\<lambda>n c. 10 * n + (of_char c - 48)) 0 (filter (\<lambda>c. c \<noteq> CHR ''_'') s)"

definition parse_int :: "string \<Rightarrow> int option" where
  "parse_int s =
     (case py_strip s of
        c # rest \<Rightarrow>
          if c = CHR ''-'' then (if is_decimal rest then Some (- decimal_value rest) else None)
          else if c = CHR ''+'' then (if is_decimal rest then Some (decimal_value rest) else None)
          else if is_decimal (c # rest) then Some (decimal_value (c # rest)) else None
      | [] \<Rightarrow> None)"

definition local_domain_of :: "environment \<Rightarrow> main_args \<Rightarrow> string" where
  "local_domain_of env args = (if en_local_domain env \<noteq> [] then en_local_domain env else ma_party_id args)"

definition app_args_of :: "environment \<Rightarrow> main_args \<Rightarrow> role_type \<Rightarrow> app_args" where
  "app_args_of env args role =
     (let local_domain = local_domain_of env args;
          col = ma_input_col args
      in \<lparr>ap_app_id = (if en_task_id env \<noteq> [] then en_task_id env else ma_cluster_id args),
          ap_join_type = (if ma_work_mode args = ''pir'' then PIR else PSI),
          ap_data_path = ma_input args,
          ap_example_id_name = (case parse_int col of Some i \<Rightarrow> ColumnIndex i | None \<Rightarrow> ColumnName col),
          ap_with_head = ma_csv_header args,
          ap_local_ip = (if en_local_ip env = [] then ''0.0.0.0'' else en_local_ip env),
          ap_local_start_port = ma_proxy_listen args,
          ap_remote_proxy_address = (case parse_int (ma_proxy_remote args) of Some p \<Rightarrow> Inr p | None \<Rightarrow> Inl (ma_proxy_remote args)),
          ap_bucket_num = (if ma_buckets args = 0 then n_parallels env args else ma_buckets args),
          ap_role_type = role,
          ap_local_domain = local_domain,
          ap_remote_domain = choose_remote (split_on CHR '','' (ma_target args)) local_domain,
          ap_redis_addr = ma_redis_server args, ap_redis_pwd = ma_redis_password args,
          ap_output_dir = ma_output args,
          ap_max_actors = n_parallels env args,
          ap_csv_delimiter = ma_csv_delimiter args\<rparr>)"


end
