(* ===== verification/Psi_Job.thy ===== *)
theory Psi_Job
  imports Psi_App
begin

section \<open>A job over one file\<close>

text \<open>
  What \<^verbatim>\<open>run_app\<close> does when the input is one file: the table is cut into blocks, every block is
  worked on by some worker, the results are written to the output file in the order of the
  blocks. \<open>table_result\<close> is what one block gives, independently of the worker and of the order.
\<close>

definition table_result ::
  "'t arrow \<Rightarrow> digests \<Rightarrow> 't psi_call \<Rightarrow> psi_pir_actor \<Rightarrow> nat \<Rightarrow> 't \<Rightarrow> exn + counts \<times> counts \<times> 't" where
  "table_result A D psi ac b data =
     bind_exn (get_actual_column_name A data (ac_example_id_name ac) 2) (\<lambda>name.
     bind_exn (finish_read A D name data) (\<lambda>r.
     bind_exn (process_block A psi ac b r) (\<lambda>(original, joined, out).
     bind_exn (ar_drop A out [STATIC_HASHED_VALUE_COLUMN_NAMES]) (\<lambda>out'. Inr (original, joined, out')))))"

lemma table_action:
  assumes "ac_data_type ac = FileT" "table_result A D psi ac b data = Inr (original, joined, out)"
  shows "do_action A D psi ac b data_protocol data_format (Some (TableBlock data)) output_path csv_delimiter (dp, st) =
    (Inr (ac_actor_index ac, b, Some out),
     (sync_block_status b PROCESSED (Some original) (Some joined) (sync_block_status b PROCSSING None None dp), st))"
  using assms
  by (auto simp: table_result_def bind_exn_Inr do_action_def read_block_data_def deliver_block_def Let_def)

lemma make_actor_sel [simp]:
  "ac_actor_index (make_actor args data_type a) = a" "ac_example_id_name (make_actor args data_type a) = ap_example_id_name args"
  "ac_join_type (make_actor args data_type a) = ap_join_type args" "ac_role (make_actor args data_type a) = ap_role_type args"
  "ac_data_type (make_actor args data_type a) = data_type" "ac_app_id (make_actor args data_type a) = ap_app_id args"
  "ac_with_head (make_actor args data_type a) = ap_with_head args"
  by (simp_all add: make_actor_def)

lemma table_result_actor:
  "table_result A D psi (make_actor args data_type a) b data = table_result A D psi (make_actor args data_type a') b data"
proof -
  have "process_block A psi (make_actor args data_type a) b r = process_block A psi (make_actor args data_type a') b r" for r
    by (cases r) (simp add: process_block_def do_psi_def do_pir_def task_id_def cong: if_cong)
  then show ?thesis by (simp add: table_result_def)
qed

lemma sync_status_nth:
  "dp_data_status (sync_block_status b status o1 o2 dp) = (dp_data_status dp)[b := (status, o1, o2)]"
  by (simp add: sync_block_status_def change_data_status_def list_update_beyond)

subsection \<open>The output file\<close>

definition text_format :: "string \<Rightarrow> bool" where
  "text_format path \<longleftrightarrow> infer_format path \<in> {''csv'', ''txt'', ''csv.gz''}"

text \<open>What a stream at \<open>path\<close> adds to the file for one table.\<close>

abbreviation csv_stream :: "'t arrow \<Rightarrow> string \<Rightarrow> bool \<Rightarrow> string \<Rightarrow> 't \<Rightarrow> bytes" where
  "csv_stream A path with_head csv_delimiter t \<equiv> ar_pack A path (ar_write_csv A with_head csv_delimiter t)"

lemma write_text:
  assumes "text_format path"
  shows "write_data_to_file A data path appending with_head csv_delimiter st =
    (Inr (), st(([], path) \<mapsto> (if appending then (case st ([], path) of None \<Rightarrow> [] | Some old \<Rightarrow> old) else []) @
        csv_stream A path with_head csv_delimiter data))"
  using assms by (simp add: text_format_def write_data_to_file_def write_data_to_filesystem_def Let_def)

lemma output_blocks_append:
  assumes "text_format path" "infer_protocol path \<noteq> ''hdfs''" "st ([], path) = Some old" "0 < i"
  shows "output_blocks A h path csv_delimiter i (map Some ts) st =
    (Inr (), st(([], path) \<mapsto> old @ concat (map (\<lambda>t. csv_stream A path False csv_delimiter t) ts)))"
  using assms(3,4)
proof (induction ts arbitrary: i st old)
  case (Cons t ts)
  let ?st = "st(([], path) \<mapsto> old @ csv_stream A path False csv_delimiter t)"
  have IH: "output_blocks A h path csv_delimiter (Suc i) (map Some ts) ?st =
      (Inr (), ?st(([], path) \<mapsto> (old @ csv_stream A path False csv_delimiter t) @ concat (map (\<lambda>t. csv_stream A path False csv_delimiter t) ts)))"
    by (rule Cons.IH) simp_all
  from Cons.prems assms(2) show ?case by (simp add: write_text [OF assms(1)] Let_def IH) (simp add: fun_eq_iff)
qed (simp add: fun_upd_idem)

lemma output_blocks_all:
  assumes "text_format path" "infer_protocol path \<noteq> ''hdfs''"
  shows "output_blocks A h path csv_delimiter 0 (map Some (t # ts)) st =
    (Inr (), st(([], path) \<mapsto> csv_stream A path h csv_delimiter t @ concat (map (\<lambda>t. csv_stream A path False csv_delimiter t) ts)))"
  using output_blocks_append [OF assms, of "st(([], path) \<mapsto> csv_stream A path h csv_delimiter t)" _ 1 A h csv_delimiter ts] assms(2)
  by (simp add: write_text [OF assms(1)] Let_def)

subsection \<open>Totals\<close>

lemma get_results_fst:
  "fst (fst (fold (\<lambda>e (origin, joined). (add_counts (fst (snd e)) origin, add_counts (snd (snd e)) joined))
      (map (\<lambda>b. (PROCESSED, Some (orig b), Some (join b))) bs) (x, y))) = fst x + (\<Sum>b \<leftarrow> bs. fst (orig b))"
  "fst (snd (fold (\<lambda>e (origin, joined). (add_counts (fst (snd e)) origin, add_counts (snd (snd e)) joined))
      (map (\<lambda>b. (PROCESSED, Some (orig b), Some (join b))) bs) (x, y))) = fst y + (\<Sum>b \<leftarrow> bs. fst (join b))"
proof (induction bs arbitrary: x y)
  case (Cons b bs)
  { case 1 show ?case using Cons.IH(1) by (cases x; cases y) (simp add: add_counts_def split: prod.splits) }
  { case 2 show ?case using Cons.IH(2) by (cases x; cases y) (simp add: add_counts_def split: prod.splits) }
qed simp_all

lemma get_results_processed:
  assumes "dp_data_status dp = map (\<lambda>b. (PROCESSED, Some (orig b), Some (join b))) bs"
  shows "fst (fst (get_results dp)) = (\<Sum>b \<leftarrow> bs. fst (orig b))" "fst (snd (get_results dp)) = (\<Sum>b \<leftarrow> bs. fst (join b))"
  using get_results_fst [of orig join bs "(0, 0, 0)" "(0, 0, 0)"] by (simp_all add: get_results_def assms)

subsection \<open>The loop\<close>

definition block_processed ::
  "nat \<Rightarrow> (nat \<Rightarrow> counts) \<Rightarrow> (nat \<Rightarrow> counts) \<Rightarrow> (nat \<Rightarrow> 't) \<Rightarrow> file_store \<Rightarrow> bool \<Rightarrow> string option \<Rightarrow> nat \<Rightarrow> 't option \<Rightarrow> 't app_state \<Rightarrow> bool" where
  "block_processed n orig join res st0 h f b out s \<longleftrightarrow>
     length (dp_data_status (fst s)) = n \<and> dp_data_status (fst s) ! b = (PROCESSED, Some (orig b), Some (join b)) \<and>
     dp_with_head (fst s) = h \<and> dp_data_format (fst s) = f \<and> out = Some (res b) \<and> snd s = st0 \<and> b < n"


lemma block_job:
  assumes "table_result A D psi (make_actor args FileT 0) b data = Inr (orig b, join b, res b)" "b < n"
    and "length (dp_data_status dp) = n" "dp_with_head dp = h" "dp_data_format dp = f"
  shows "\<exists>s'. do_action A D psi (make_actor args FileT a) b data_protocol data_format (Some (TableBlock data)) output_path csv_delimiter (dp, st0) =
      (Inr (a, b, Some (res b)), s') \<and> block_processed n orig join res st0 h f b (Some (res b)) s'"
  using table_action [of "make_actor args FileT a" A D psi b data "orig b" "join b" "res b"] assms
    table_result_actor [of A D psi args FileT a b data 0]
  by (simp add: block_processed_def sync_status_nth) (simp add: sync_block_status_def change_data_status_def)

lemma block_processed_other:
  assumes "block_processed n orig join res st0 h f b' out s" "b \<noteq> b'" "snd s' = snd s"
    and "fst s' = sync_block_status b PROCESSED o1 o2 (sync_block_status b PROCSSING None None (fst s))"
  shows "block_processed n orig join res st0 h f b' out s'"
  using assms by (simp add: block_processed_def sync_status_nth) (simp add: sync_block_status_def change_data_status_def)

lemma next_keeps_fields:
  assumes "get_next_unprocessed_data_and_use dp = (r, dp')"
  shows "dp_with_head dp' = dp_with_head dp" "dp_data_format dp' = dp_data_format dp"
    "length (dp_data_status dp') = length (dp_data_status dp)" "dp_data_type dp' = dp_data_type dp"
  using assms
  by (auto simp: get_next_unprocessed_data_and_use_def mark_prepared_def Let_def split: option.splits if_splits)

lemma block_processed_next:
  assumes "block_processed n orig join res st0 h f b out s" "dispatch_ok (fst s)" "next_block s = (r, s')"
  shows "block_processed n orig join res st0 h f b out s'"
proof -
  obtain dp st where s: "s = (dp, st)" by fastforce
  obtain dp' where s': "get_next_unprocessed_data_and_use dp = (r, dp')" "s' = (dp', st)"
    using assms(3) unfolding s by (rule next_blockE)
  have "dp_data_status dp' ! b = dp_data_status dp ! b"
    using next_cases [of dp] assms(1,2) s'(1) by (auto simp: s block_processed_def nth_list_update)
  with assms(1) next_keeps_fields [OF s'(1)] show ?thesis by (simp add: block_processed_def s s'(2))
qed

definition file_state :: "nat \<Rightarrow> file_store \<Rightarrow> bool \<Rightarrow> string option \<Rightarrow> 't app_state \<Rightarrow> bool" where
  "file_state n st0 h f s \<longleftrightarrow>
     length (dp_data_status (fst s)) = n \<and> dp_with_head (fst s) = h \<and> dp_data_format (fst s) = f \<and> snd s = st0"

lemma processed_file_state: "block_processed n orig join res st0 h f b out s \<Longrightarrow> file_state n st0 h f s"
  by (simp add: block_processed_def file_state_def)

lemma next_keeps_file_state:
  assumes "file_state n st0 h f s" "next_block s = (r, s')"
  shows "file_state n st0 h f s'"
proof -
  obtain dp st where s: "s = (dp, st)" by fastforce
  obtain dp' where "get_next_unprocessed_data_and_use dp = (r, dp')" "s' = (dp', st)"
    using assms(2) unfolding s by (rule next_blockE)
  with next_keeps_fields [of dp r dp'] assms(1) show ?thesis by (simp add: file_state_def s)
qed

lemma fresh_blocks_left:
  assumes "dp_data_type dp = FileT" "dp_data_status dp = replicate n (INIT, None, None)" "dp_data_blocks dp = map Some blocks"
    and "length blocks = n"
  shows "blocks_left dp = map (\<lambda>b. (b, Some (TableBlock (blocks ! b)))) [0..<n]" "dispatch_ok dp"
  using assms by (auto simp: blocks_left_def block_datum_def dispatch_ok_def is_data_single_file_def filter_id_conv)

text \<open>The jobs of a file, as the pool sees them.\<close>

definition file_jobs :: "'t list \<Rightarrow> (nat \<times> 't block_data option) list" where
  "file_jobs blocks = map (\<lambda>b. (b, Some (TableBlock (blocks ! b)))) [0..<length blocks]"

definition results_ok ::
  "'t arrow \<Rightarrow> digests \<Rightarrow> 't psi_call \<Rightarrow> app_args \<Rightarrow> 't list \<Rightarrow> (nat \<Rightarrow> counts) \<Rightarrow> (nat \<Rightarrow> counts) \<Rightarrow> (nat \<Rightarrow> 't) \<Rightarrow> bool" where
  "results_ok A D psi args blocks orig join res \<longleftrightarrow>
     (\<forall>b < length blocks. table_result A D psi (make_actor args FileT 0) b (blocks ! b) = Inr (orig b, join b, res b))"

lemma file_job_act:
  assumes "results_ok A D psi args blocks orig join res" "(b, d) \<in> set (file_jobs blocks)" "file_state (length blocks) st h f s"
    and "M = app_pool A D psi (make_actor args FileT) data_protocol data_format output_dir csv_delimiter"
  shows "\<exists>s'. pl_act M a b d s = (Inr (a, b, Some (res b)), s') \<and>
    block_processed (length blocks) orig join res st h f b (Some (res b)) s'"
  using assms block_job [where res = res and orig = orig and join = join and n = "length blocks"]
  by (cases s) (auto simp: app_pool_def file_state_def file_jobs_def results_ok_def)

lemma file_job_keep:
  assumes ok: "results_ok A D psi args blocks orig join res" and job: "(b, d) \<in> set (file_jobs blocks)"
    and I: "file_state (length blocks) st h f s" and Q: "block_processed (length blocks) orig join res st h f b' out' s" "b \<noteq> b'"
    and M: "M = app_pool A D psi (make_actor args FileT) data_protocol data_format output_dir csv_delimiter"
    and act: "pl_act M a b d s = (Inr r, s')"
  shows "block_processed (length blocks) orig join res st h f b' out' s'"
proof -
  have "block_processed (length blocks) orig join res st h f b (Some (res b)) s'"
    using file_job_act [OF ok job I M, of a] act by auto
  then have snd: "snd s' = snd s" using I by (simp add: block_processed_def file_state_def)
  obtain o1 o2 where "fst s' = sync_block_status b PROCESSED o1 o2 (sync_block_status b PROCSSING None None (fst s))"
    using act do_action_Inr [of A D psi "make_actor args FileT a" b data_protocol data_format d output_dir csv_delimiter "fst s" "snd s"]
    by (cases s'; cases r) (auto simp: M app_pool_def)
  from block_processed_other [OF Q snd this] show ?thesis .
qed

lemma file_wait:
  assumes ok: "results_ok A D psi args blocks orig join res"
    and M: "M = app_pool A D psi (make_actor args FileT) data_protocol data_format output_dir csv_delimiter"
    and jb: "dispatch_ok (fst (jb_state jb))" "file_state (length blocks) st h f (jb_state jb)" "app.aligned jb" "jb_refs jb \<noteq> []"
      "app.jobs_left jb = file_jobs blocks" "length (jb_outputs jb) = length blocks"
    and js: "length js = length blocks"
  shows "\<exists>jb'. wait_loop M True js jb = (Inr True, jb') \<and> file_state (length blocks) st h f (jb_state jb') \<and>
     length (jb_outputs jb') = length blocks \<and> jb_completed jb' \<noteq> None \<and>
     (\<forall>b < length blocks. block_processed (length blocks) orig join res st h f b (jb_outputs jb' ! b) (jb_state jb'))"
proof -
  let ?Q = "block_processed (length blocks) orig join res st h f" and ?I = "file_state (length blocks) st h f"
  have ids: "fst ` set (file_jobs blocks) = {..<length blocks}" "distinct (map fst (file_jobs blocks))"
    by (auto simp: file_jobs_def image_image comp_def)
  have "\<exists>jb'. wait_loop M True js jb = (Inr True, jb') \<and> (dispatch_ok (fst (jb_state jb')) \<and> (\<forall>a. ac_actor_index (make_actor args FileT a) = a)) \<and>
     ?I (jb_state jb') \<and> length (jb_outputs jb') = length (jb_outputs jb) \<and>
     (\<forall>b \<in> fst ` set (app.jobs_left jb). \<exists>out. ?Q b out (jb_state jb') \<and> (True \<and> out \<noteq> None \<longrightarrow> jb_outputs jb' ! b = out)) \<and>
     (\<forall>b out. b \<notin> fst ` set (app.jobs_left jb) \<and> ?Q b out (jb_state jb) \<longrightarrow> ?Q b out (jb_state jb')) \<and>
     (\<forall>b. b \<notin> fst ` set (app.jobs_left jb) \<longrightarrow> jb_outputs jb' ! b = jb_outputs jb ! b) \<and>
     (\<exists>b s. ?Q b (jb_completed jb') s)"
    unfolding M
  proof (rule app.wait_loop_all [where J = "set (file_jobs blocks)"], goal_cases)
    case (1 a b d s)
    from file_job_act [OF ok 1(1,3) refl] processed_file_state show ?case by metis
  next
    case (2 a b d s r s' b' out')
    then show ?case by (intro file_job_keep [OF ok 2(1,3-5) refl])
  next
    case (3 s r s' b out)
    then show ?case using block_processed_next by (simp add: app_pool_def)
  next
    case (4 s r s')
    then show ?case using next_keeps_file_state by (simp add: app_pool_def)
  qed (use jb js ids in \<open>simp_all add: file_jobs_def\<close>)
  then obtain jb' where run: "wait_loop M True js jb = (Inr True, jb')" "?I (jb_state jb')" "length (jb_outputs jb') = length blocks"
    "\<forall>b < length blocks. \<exists>out. ?Q b out (jb_state jb') \<and> (out \<noteq> None \<longrightarrow> jb_outputs jb' ! b = out)"
    "\<exists>b s. ?Q b (jb_completed jb') s"
    using ids jb(5,6) by auto
  have "?Q b (jb_outputs jb' ! b) (jb_state jb')" if "b < length blocks" for b
  proof -
    from run(4) that obtain out where out: "?Q b out (jb_state jb')" "out \<noteq> None \<longrightarrow> jb_outputs jb' ! b = out" by blast
    moreover from out(1) have "out = Some (res b)" by (simp add: block_processed_def)
    ultimately show ?thesis by simp
  qed
  with run(1-3,5) show ?thesis by (auto simp: block_processed_def)
qed

lemma file_start:
  fixes A :: "'t arrow" and dp :: "'t block_dispatch_actor"
  assumes dp: "dp_data_type dp = FileT" "dp_data_status dp = replicate (length blocks) (INIT, None, None)"
      "dp_data_blocks dp = map Some blocks"
    and k: "0 < k" "k \<le> length blocks"
    and M: "M = app_pool A D psi (make_actor args FileT) data_protocol data_format output_dir csv_delimiter"
  obtains jb where "start_jobs M [0..<k] (start_state (dp, st) (length blocks)) = (Inr (), jb)"
    "dispatch_ok (fst (jb_state jb))" "file_state (length blocks) st (dp_with_head dp) (dp_data_format dp) (jb_state jb)"
    "app.aligned jb" "jb_refs jb \<noteq> []" "app.jobs_left jb = file_jobs blocks" "length (jb_outputs jb) = length blocks"
proof -
  let ?jb0 = "start_state (dp, st) (length blocks)"
  let ?I = "file_state (length blocks) st (dp_with_head dp) (dp_data_format dp) :: 't app_state \<Rightarrow> bool"
  note left = fresh_blocks_left [OF dp refl]
  obtain s where start: "start_jobs M [0..<k] ?jb0 = (Inr (), ?jb0\<lparr>jb_state := s, jb_refs := zip [0..<k] (take k (file_jobs blocks))\<rparr>)"
    "dispatch_ok (fst s)" "blocks_left (fst s) = drop k (file_jobs blocks)"
    using app.start_jobs_takes [where A = A and D = D and psi = psi and actors = "make_actor args FileT" and data_protocol = data_protocol
        and data_format = data_format and output_dir = output_dir and csv_delimiter = csv_delimiter
        and jb = ?jb0 and ks = "[0..<k]"] left k(2)
    by (auto simp: M start_state_def file_jobs_def)
  have "?I (jb_state (snd (start_jobs M [0..<k] ?jb0)))"
  proof (rule start_jobs_keeps)
    show "?I s'" if "?I s" "pl_next M s = (r, s')" for s r s'
      using next_keeps_file_state that by (simp add: M app_pool_def)
  qed (simp add: start_state_def file_state_def dp(2))
  moreover have "blocks \<noteq> []" using k by auto
  ultimately show thesis
    using start k
    by (intro that [of "?jb0\<lparr>jb_state := s, jb_refs := zip [0..<k] (take k (file_jobs blocks))\<rparr>"])
       (simp_all add: app.jobs_left_def app.aligned_def start_state_def file_jobs_def map_snd_zip map_fst_zip)
qed

definition joined_file :: "'t arrow \<Rightarrow> string \<Rightarrow> bool \<Rightarrow> string \<Rightarrow> 't list \<Rightarrow> bytes" where
  "joined_file A path h csv_delimiter ts =
     (case ts of [] \<Rightarrow> [] | t # ts' \<Rightarrow> csv_stream A path h csv_delimiter t @ concat (map (\<lambda>t. csv_stream A path False csv_delimiter t) ts'))"

lemma output_text_file:
  assumes "text_format path" "infer_protocol path \<noteq> ''hdfs''" "ts \<noteq> []"
    and "dp_data_format dp = Some ''csv'' \<or> dp_data_format dp = Some ''csv.gz''"
  shows "output_single_output_file A (map Some ts) path csv_delimiter dp st =
    (Inr (), st(([], path) \<mapsto> joined_file A path (dp_with_head dp) csv_delimiter ts))"
proof (cases ts)
  case (Cons t ts')
  with output_blocks_all [OF assms(1,2), of A "dp_with_head dp" csv_delimiter t ts' st] assms(4)
  show ?thesis by (auto simp: output_single_output_file_def joined_file_def)
qed (use assms in simp)

text \<open>A job over a text file on the local file system.\<close>

definition cut_blocks :: "'t arrow \<Rightarrow> digests \<Rightarrow> app_args \<Rightarrow> file_store \<Rightarrow> exn + 't list" where
  "cut_blocks A D args st =
     bind_exn
       (repartition_for_existed_data A D ''nfs'' (ap_data_path args) (ap_with_head args) (ap_example_id_name args)
          (ap_bucket_num args) (ap_csv_delimiter args) st)
       (add_schema_to_all_empty_blocks A)"

definition file_job_ok :: "filesystem \<Rightarrow> app_args \<Rightarrow> bool" where
  "file_job_ok local args \<longleftrightarrow>
     infer_protocol (ap_data_path args) = ''nfs'' \<and> fs_type local (ap_data_path args) = FileT \<and>
     text_format (ap_data_path args) \<and> text_format (ap_output_dir args) \<and> infer_protocol (ap_output_dir args) \<noteq> ''hdfs'' \<and>
     0 < ap_bucket_num args \<and> 0 < ap_max_actors args \<and> ap_join_type args = PSI"

lemma init_file_job:
  assumes "infer_protocol (ap_data_path args) = ''nfs''" "fs_type local (ap_data_path args) = FileT"
  obtains dp where "init_data hdfs local
      (init_block_dispatch_actor (ap_data_path args) (ap_with_head args) None None (ap_bucket_num args) (ap_example_id_name args)) = (Inr (), dp)"
    "dp_data_type dp = FileT" "dp_data_protocol dp = Some ''nfs''" "dp_with_head dp = ap_with_head args"
    "dp_data_format dp = Some (infer_format (ap_data_path args))"
    "dp_data_status dp = replicate (nat (ap_bucket_num args)) (INIT, None, None)"
  using assms
  by (auto simp: init_data_def init_block_dispatch_actor_def prepare_data_protocol_and_format_def
      init_data_path_and_format_def init_data_path_and_format_with_locals_def path_format_def sort_data_paths_def
      init_data_status_def is_data_single_file_def Let_def)

lemma text_format_cases: "text_format path \<Longrightarrow> infer_format path = ''csv'' \<or> infer_format path = ''csv.gz''"
  by (auto simp: text_format_def infer_format_def Let_def split: if_splits)

text \<open>The loop of a file job, from the blocks to the state in which it is left.\<close>

lemma file_loop:
  fixes A :: "'t arrow" and dp :: "'t block_dispatch_actor"
  assumes dp: "dp_data_type dp = FileT" "dp_data_status dp = replicate (length blocks) (INIT, None, None)"
      "dp_data_blocks dp = map Some blocks"
    and k: "0 < k" "k \<le> length blocks" and res: "results_ok A D psi args blocks orig join res" and js: "length js = length blocks"
    and M: "M = app_pool A D psi (make_actor args FileT) data_protocol data_format output_dir csv_delimiter"
  obtains jb jb' where "start_jobs M [0..<k] (start_state (dp, st) (length blocks)) = (Inr (), jb)"
    "wait_loop M True js jb = (Inr True, jb')" "jb_outputs jb' = map Some (map res [0..<length blocks])" "jb_completed jb' \<noteq> None"
    "file_state (length blocks) st (dp_with_head dp) (dp_data_format dp) (jb_state jb')"
    "dp_data_status (fst (jb_state jb')) = map (\<lambda>b. (PROCESSED, Some (orig b), Some (join b))) [0..<length blocks]"
proof -
  obtain jb where start: "start_jobs M [0..<k] (start_state (dp, st) (length blocks)) = (Inr (), jb)"
    "dispatch_ok (fst (jb_state jb))" "file_state (length blocks) st (dp_with_head dp) (dp_data_format dp) (jb_state jb)"
    "app.aligned jb" "jb_refs jb \<noteq> []" "app.jobs_left jb = file_jobs blocks" "length (jb_outputs jb) = length blocks"
    by (rule file_start [OF dp k M])
  obtain jb' where loop: "wait_loop M True js jb = (Inr True, jb')"
    "file_state (length blocks) st (dp_with_head dp) (dp_data_format dp) (jb_state jb')"
    "length (jb_outputs jb') = length blocks" "jb_completed jb' \<noteq> None"
    "\<forall>b < length blocks. block_processed (length blocks) orig join res st (dp_with_head dp) (dp_data_format dp) b (jb_outputs jb' ! b) (jb_state jb')"
    using file_wait [OF res M start(2-) js] by blast
  have outs: "jb_outputs jb' = map Some (map res [0..<length blocks])"
    using loop(3,5) by (intro nth_equalityI) (auto simp: block_processed_def)
  have status: "dp_data_status (fst (jb_state jb')) = map (\<lambda>b. (PROCESSED, Some (orig b), Some (join b))) [0..<length blocks]"
    using loop(2,5) by (intro nth_equalityI) (auto simp: block_processed_def file_state_def)
  show thesis by (rule that [OF start(1) loop(1) outs loop(4,2) status])
qed

lemma finish_file_job:
  assumes "file_job_ok local args" "file_state (length blocks) st (ap_with_head args) (Some (infer_format (ap_data_path args))) (jb_state jb)"
    and "jb_outputs jb = map Some ts" "ts \<noteq> []" "jb_completed jb \<noteq> None"
  shows "finish_app A global_role args FileT jb =
    (Inr (Some \<lparr>jr_local = fst (fst (get_results (fst (jb_state jb)))), jr_join = fst (snd (get_results (fst (jb_state jb)))),
       jr_percent = join_percent (fst (get_results (fst (jb_state jb)))) (snd (get_results (fst (jb_state jb)))),
       jr_local_values = None, jr_join_values = None, jr_output = ap_output_dir args\<rparr>),
     (fst (jb_state jb), st(([], ap_output_dir args) \<mapsto> joined_file A (ap_output_dir args) (ap_with_head args) (ap_csv_delimiter args) ts)))"
proof -
  obtain dp st' where jb: "jb_state jb = (dp, st')" by fastforce
  have "output_single_output_file A (map Some ts) (ap_output_dir args) (ap_csv_delimiter args) dp st =
      (Inr (), st(([], ap_output_dir args) \<mapsto> joined_file A (ap_output_dir args) (dp_with_head dp) (ap_csv_delimiter args) ts))"
    using assms(1,2,4) text_format_cases [of "ap_data_path args"]
    by (intro output_text_file) (auto simp: jb file_job_ok_def file_state_def)
  with assms show ?thesis by (simp add: finish_app_def jb file_job_ok_def file_state_def generate_result_def split: prod.split)
qed

lemma run_file_job:
  fixes A :: "'t arrow"
  assumes ok: "file_job_ok local args" and cut: "cut_blocks A D args st = Inr blocks"
    and len: "length blocks = nat (ap_bucket_num args)" and res: "results_ok A D psi args blocks orig join res"
    and js: "length js = length blocks"
  shows "\<exists>dp result. run_app A D psi hdfs local global_role args js st =
      (Inr (Some result), (dp, st(([], ap_output_dir args) \<mapsto>
         joined_file A (ap_output_dir args) (ap_with_head args) (ap_csv_delimiter args) (map res [0..<length blocks])))) \<and>
     jr_local result = (\<Sum>b \<leftarrow> [0..<length blocks]. fst (orig b)) \<and> jr_join result = (\<Sum>b \<leftarrow> [0..<length blocks]. fst (join b)) \<and>
     jr_output result = ap_output_dir args \<and>
     dp_data_status dp = map (\<lambda>b. (PROCESSED, Some (orig b), Some (join b))) [0..<length blocks]"
proof -
  obtain dp :: "'t block_dispatch_actor" where init: "init_data hdfs local
      (init_block_dispatch_actor (ap_data_path args) (ap_with_head args) None None (ap_bucket_num args) (ap_example_id_name args)) = (Inr (), dp)"
    and dp: "dp_data_type dp = FileT" "dp_data_protocol dp = Some ''nfs''" "dp_with_head dp = ap_with_head args"
      "dp_data_format dp = Some (infer_format (ap_data_path args))"
      "dp_data_status dp = replicate (nat (ap_bucket_num args)) (INIT, None, None)"
    by (rule init_file_job [of args local]) (use ok in \<open>simp_all add: file_job_ok_def\<close>)
  let ?dp = "update_blocks blocks dp"
  let ?M = "app_pool A D psi (make_actor args FileT) ''nfs'' (infer_format (ap_data_path args)) (ap_output_dir args) (ap_csv_delimiter args)"
  let ?k = "adjust_max_actors args (length blocks)"
  have n: "blocks \<noteq> []" "get_data_block_count dp = length blocks" using ok len dp(5) by (auto simp: file_job_ok_def get_data_block_count_def)
  have k: "0 < ?k" "?k \<le> length blocks" using n(1) ok by (auto simp: file_job_ok_def adjust_max_actors_def)
  obtain jb jb' where loop: "start_jobs ?M [0..<?k] (start_state (?dp, st) (length blocks)) = (Inr (), jb)"
    "wait_loop ?M True js jb = (Inr True, jb')" "jb_outputs jb' = map Some (map res [0..<length blocks])" "jb_completed jb' \<noteq> None"
    "file_state (length blocks) st (dp_with_head ?dp) (dp_data_format ?dp) (jb_state jb')"
    "dp_data_status (fst (jb_state jb')) = map (\<lambda>b. (PROCESSED, Some (orig b), Some (join b))) [0..<length blocks]"
    by (rule file_loop [where dp = ?dp and blocks = blocks, OF _ _ _ k res js refl]) (use dp len in \<open>simp_all add: update_blocks_def\<close>)
  have fin: "finish_app A global_role args FileT jb' =
      (Inr (Some \<lparr>jr_local = fst (fst (get_results (fst (jb_state jb')))), jr_join = fst (snd (get_results (fst (jb_state jb')))),
         jr_percent = join_percent (fst (get_results (fst (jb_state jb')))) (snd (get_results (fst (jb_state jb')))),
         jr_local_values = None, jr_join_values = None, jr_output = ap_output_dir args\<rparr>),
       (fst (jb_state jb'), st(([], ap_output_dir args) \<mapsto> joined_file A (ap_output_dir args) (ap_with_head args) (ap_csv_delimiter args) (map res [0..<length blocks]))))"
    by (rule finish_file_job [OF ok]) (use loop(3-5) dp n in \<open>simp_all add: update_blocks_def\<close>)
  have "prepare_blocks A D args ''nfs'' (dp, st) = (Inr (), (?dp, st))"
    using cut dp(1) by (simp add: prepare_blocks_def cut_blocks_def)
  with init dp n loop(1,2) fin
  have "run_app A D psi hdfs local global_role args js st = finish_app A global_role args FileT jb'"
    by (simp add: run_app_def run_jobs_def Let_def)
  with fin get_results_processed [OF loop(6)] loop(6) show ?thesis by simp
qed

end
