(* ===== verification/Psi_Partition.thy ===== *)
theory Psi_Partition
  imports Psi_Job
begin

section \<open>Cutting by the hash of the id loses no common row\<close>

text \<open>
  A job intersects block by block: the rows of a party whose id hashes to \<open>b\<close> modulo the number of
  blocks meet only the peer's rows of its block \<open>b\<close>. The theory shows that the blocks together give the
  intersection of the whole tables. \<open>table_laws\<close> states what is documented of the table
  operations, through the columns \<open>cols\<close> of a table.
\<close>

type_synonym columns = "(string \<times> pyval list) list"

definition take_cols :: "columns \<Rightarrow> nat list \<Rightarrow> columns" where
  "take_cols cs ps = map (\<lambda>(n, vs). (n, map ((!) vs) ps)) cs"

definition key_block :: "int list \<Rightarrow> int \<Rightarrow> nat" where
  "key_block boundaries key = length (filter (\<lambda>x. x \<le> key) boundaries)"

subsection \<open>What is relied on\<close>

text \<open>
  \<open>good\<close> tables have named columns without repeated names, of texts, octets, integers or doubles; a column
  of 32-bit offsets holds less than two gigabytes. Reading a name that is not there raises.
\<close>

definition column_laws :: "'t arrow \<Rightarrow> ('t \<Rightarrow> columns) \<Rightarrow> ('t \<Rightarrow> bool) \<Rightarrow> bool" where
  "column_laws A cols good \<longleftrightarrow> (\<forall>t. good t \<longrightarrow>
     cols t \<noteq> [] \<and> distinct (map fst (cols t)) \<and>
     (\<forall>n. ar_column A t n = (case map_of (cols t) n of None \<Rightarrow> Inl KeyError | Some vs \<Rightarrow> Inr vs)) \<and>
     ar_column_names A t = map fst (cols t) \<and> (\<forall>c \<in> set (cols t). length (snd c) = ar_num_rows A t) \<and>
     (\<forall>n bs. hd (cols t) = (n, map VBytes bs) \<longrightarrow> ar_column0 A t = bs))"

text \<open>The columns that the job adds: octets that fit in one array, or 16-bit integers.\<close>

definition one_array :: "bytes list \<Rightarrow> bool" where
  "one_array bs \<longleftrightarrow> sum_list (map length bs) < 2 ^ 31"

definition typed_values :: "pyval list \<Rightarrow> bool" where
  "typed_values vs \<longleftrightarrow> (\<exists>bs. vs = map VBytes bs \<and> one_array bs) \<or>
     (\<exists>ks. vs = map VInt ks \<and> (\<forall>k \<in> set ks. - 32768 \<le> k \<and> k \<le> 32767))"

text \<open>
  A column is added under a name that is not taken, with as many values as there are rows; a column is
  dropped beside others; rows are taken at distinct positions; the only cast is the one to the large types of the
  same columns.
\<close>

definition edit_laws :: "'t arrow \<Rightarrow> ('t \<Rightarrow> columns) \<Rightarrow> ('t \<Rightarrow> bool) \<Rightarrow> bool" where
  "edit_laws A cols good \<longleftrightarrow> (\<forall>t. good t \<longrightarrow>
     (\<forall>n vs. length vs = ar_num_rows A t \<longrightarrow> typed_values vs \<longrightarrow> n \<notin> fst ` set (cols t) \<longrightarrow>
        (\<exists>t'. ar_add_column0 A t n vs = Inr t' \<and> good t' \<and> cols t' = (n, vs) # cols t)) \<and>
     (\<forall>n. n \<in> fst ` set (cols t) \<longrightarrow> filter (\<lambda>c. fst c \<noteq> n) (cols t) \<noteq> [] \<longrightarrow>
        (\<exists>t'. ar_drop A t [n] = Inr t' \<and> good t' \<and> cols t' = filter (\<lambda>c. fst c \<noteq> n) (cols t))) \<and>
     (\<forall>ps. (\<forall>p \<in> set ps. p < ar_num_rows A t) \<longrightarrow> distinct ps \<longrightarrow> good (ar_take A t ps) \<and> cols (ar_take A t ps) = take_cols (cols t) ps) \<and>
     (\<exists>t'. ar_cast A t (large_types (ar_schema A t)) = Inr t' \<and> good t' \<and> cols t' = cols t) \<and>
     good (ar_slice00 A t) \<and> cols (ar_slice00 A t) = take_cols (cols t) [])"

text \<open>A table whose chunks are combined is one batch, or none when it has no rows.\<close>

definition batch_laws :: "'t arrow \<Rightarrow> ('t \<Rightarrow> columns) \<Rightarrow> ('t \<Rightarrow> bool) \<Rightarrow> bool" where
  "batch_laws A cols good \<longleftrightarrow> (\<forall>t. good t \<longrightarrow>
     good (ar_combine_chunks A t) \<and> cols (ar_combine_chunks A t) = cols t \<and>
     (ar_num_rows A t = 0 \<longrightarrow> ar_to_batches A (ar_combine_chunks A t) = []) \<and>
     (ar_num_rows A t > 0 \<longrightarrow> (\<exists>b. ar_to_batches A (ar_combine_chunks A t) = [b] \<and> good b \<and> cols b = cols t)) \<and>
     good (ar_from_pydict_empty A (ar_schema A t)) \<and> cols (ar_from_pydict_empty A (ar_schema A t)) = take_cols (cols t) [] \<and>
     (\<exists>t'. ar_from_batches A [t] = Inr t' \<and> good t' \<and> cols t' = cols t))"

text \<open>
  Ray's sort of a table with rows by a column of integers: one block per interval between boundaries, each row
  in the block of its key. A block without rows is a table without rows, and nothing else is known of it: ray
  builds it without columns.
\<close>

definition sort_laws :: "'t arrow \<Rightarrow> ('t \<Rightarrow> columns) \<Rightarrow> ('t \<Rightarrow> bool) \<Rightarrow> bool" where
  "sort_laws A cols good \<longleftrightarrow> (\<forall>t key ks boundaries.
     good t \<longrightarrow> map_of (cols t) key = Some (map VInt ks) \<longrightarrow> ks \<noteq> [] \<longrightarrow> sorted boundaries \<longrightarrow>
     ar_validate_key A [t] (Inl key) = Inr () \<and>
     (\<exists>blocks. ar_simple_sort A boundaries [(key, ''ascending'')] False [t] (length boundaries + 1) = Inr blocks \<and>
        length blocks = length boundaries + 1 \<and>
        (\<forall>b < length blocks. \<exists>ps. distinct ps \<and> set ps = {i. i < length ks \<and> key_block boundaries (ks ! i) = b} \<and>
           (if ps = [] then ar_num_rows A (blocks ! b) = 0 else good (blocks ! b) \<and> cols (blocks ! b) = take_cols (cols t) ps))))"

definition int16_law :: "'t arrow \<Rightarrow> bool" where
  "int16_law A \<longleftrightarrow> (\<forall>vs. (\<forall>v \<in> set vs. - 32768 \<le> v \<and> v \<le> 32767) \<longrightarrow> ar_int16 A vs = Inr (map VInt vs))"

definition table_laws :: "'t arrow \<Rightarrow> ('t \<Rightarrow> columns) \<Rightarrow> ('t \<Rightarrow> bool) \<Rightarrow> bool" where
  "table_laws A cols good \<longleftrightarrow> column_laws A cols good \<and> edit_laws A cols good \<and> batch_laws A cols good \<and> sort_laws A cols good \<and> int16_law A"

lemma law_names: "table_laws A cols good \<Longrightarrow> good t \<Longrightarrow> ar_column_names A t = map fst (cols t)"
  by (simp add: table_laws_def column_laws_def)

lemma law_some: "table_laws A cols good \<Longrightarrow> good t \<Longrightarrow> cols t \<noteq> []"
  by (simp add: table_laws_def column_laws_def)

lemma law_rows: "table_laws A cols good \<Longrightarrow> good t \<Longrightarrow> cols t = (n, vs) # cs \<Longrightarrow> ar_num_rows A t = length vs"
  by (force simp: table_laws_def column_laws_def)

lemma law_column0: "table_laws A cols good \<Longrightarrow> good t \<Longrightarrow> cols t = (n, map VBytes bs) # cs \<Longrightarrow> ar_column0 A t = bs"
  by (simp add: table_laws_def column_laws_def)

lemma law_add:
  assumes "table_laws A cols good" "good t" "length vs = ar_num_rows A t" "typed_values vs" "n \<notin> fst ` set (cols t)"
  obtains t' where "ar_add_column0 A t n vs = Inr t'" "good t'" "cols t' = (n, vs) # cols t"
  using assms unfolding table_laws_def edit_laws_def by blast

lemma law_drop:
  assumes "table_laws A cols good" "good t" "n \<in> fst ` set (cols t)" "filter (\<lambda>c. fst c \<noteq> n) (cols t) \<noteq> []"
  obtains t' where "ar_drop A t [n] = Inr t'" "good t'" "cols t' = filter (\<lambda>c. fst c \<noteq> n) (cols t)"
  using assms unfolding table_laws_def edit_laws_def by blast

lemma law_take:
  assumes "table_laws A cols good" "good t" "\<forall>p \<in> set ps. p < ar_num_rows A t" "distinct ps"
  shows "good (ar_take A t ps)" "cols (ar_take A t ps) = take_cols (cols t) ps"
  using assms by (simp_all add: table_laws_def edit_laws_def)

lemma law_combine:
  "table_laws A cols good \<Longrightarrow> good t \<Longrightarrow> good (ar_combine_chunks A t)"
  "table_laws A cols good \<Longrightarrow> good t \<Longrightarrow> cols (ar_combine_chunks A t) = cols t"
  by (simp_all add: table_laws_def batch_laws_def)

lemma law_from_batches:
  assumes "table_laws A cols good" "good t"
  obtains t' where "ar_from_batches A [t] = Inr t'" "good t'" "cols t' = cols t"
  using assms unfolding table_laws_def batch_laws_def by blast

subsection \<open>Positions\<close>

lemma take_cols_simps [simp]:
  "take_cols [] ps = []" "take_cols ((n, vs) # cs) ps = (n, map ((!) vs) ps) # take_cols cs ps"
  "map fst (take_cols cs ps) = map fst cs"
  by (auto simp: take_cols_def)

lemma take_cols_empty [simp]: "take_cols cs ps = [] \<longleftrightarrow> cs = []"
  by (simp add: take_cols_def)

lemma take_cols_filter: "filter (\<lambda>c. fst c \<noteq> n) (take_cols cs ps) = take_cols (filter (\<lambda>c. fst c \<noteq> n) cs) ps"
  by (induction cs) (auto simp: take_cols_def)

lemma filter_other_name: "n \<notin> fst ` set cs \<Longrightarrow> filter (\<lambda>c. fst c \<noteq> n) cs = cs"
  by (induction cs) auto

lemma take_cols_names [simp]: "fst ` set (take_cols cs ps) = fst ` set cs"
  by (metis list.set_map take_cols_simps(3))

lemma take_cols_twice:
  assumes "\<forall>q \<in> set qs. q < length ps"
  shows "take_cols (take_cols cs ps) qs = take_cols cs (map ((!) ps) qs)"
  using assms by (auto simp: take_cols_def)

lemma map_of_take_cols: "map_of (take_cols cs ps) n = map_option (\<lambda>vs. map ((!) vs) ps) (map_of cs n)"
  by (induction cs) (auto simp: take_cols_def)

lemma positions_of_filter: "map ((!) ps) (filter (\<lambda>q. P (ps ! q)) [0..<length ps]) = filter P ps"
proof -
  have "filter P (map ((!) ps) [0..<length ps]) = map ((!) ps) (filter (\<lambda>q. P (ps ! q)) [0..<length ps])"
    by (simp add: filter_map comp_def)
  then show ?thesis by (simp add: map_nth)
qed

lemma count_distinct: "distinct xs \<Longrightarrow> count (mset xs) x = (if x \<in> set xs then 1 else 0)"
  by (simp add: distinct_count_atmost_1)

lemma blocks_partition:
  assumes "length pss = n" "\<And>b. b < n \<Longrightarrow> distinct (pss ! b) \<and> set (pss ! b) = {i. i < m \<and> blk i = b}" "\<And>i. i < m \<Longrightarrow> blk i < n"
  shows "mset (concat (map (filter P) pss)) = mset (filter P [0..<m])"
proof (rule multiset_eqI)
  fix x
  have one: "count (mset (filter P (pss ! b))) x = (if x < m \<and> blk x = b \<and> P x then 1 else 0)" if "b < n" for b
  proof -
    have "distinct (filter P (pss ! b))" using assms(2) [OF that] by simp
    from count_distinct [OF this, of x] show ?thesis using assms(2) [OF that] by auto
  qed
  have "count (mset (concat (map (filter P) pss))) x = (\<Sum>ps \<leftarrow> pss. count (mset (filter P ps)) x)"
    by (induction pss) simp_all
  also have "\<dots> = (\<Sum>b \<leftarrow> [0..<n]. count (mset (filter P (pss ! b))) x)"
    using assms(1) by (intro arg_cong [of _ _ sum_list] nth_equalityI) simp_all
  also have "\<dots> = (\<Sum>b \<leftarrow> [0..<n]. if x < m \<and> blk x = b \<and> P x then 1 else 0)"
    using one by (intro arg_cong [of _ _ sum_list] map_cong) auto
  also have "\<dots> = (if x < m \<and> P x then 1 else 0)"
    using assms(3) by (auto simp: interv_sum_list_conv_sum_set_nat)
  also have "\<dots> = count (mset (filter P [0..<m])) x"
    using count_distinct [of "filter P [0..<m]" x] by simp
  finally show "count (mset (concat (map (filter P) pss))) x = count (mset (filter P [0..<m])) x" .
qed

subsection \<open>Hashes and buckets\<close>

lemma get_hash_length: "hash_ids D ids = Inr hs \<Longrightarrow> length hs = length ids"
  by (auto simp: hash_ids_def get_hash_def map_sum_list_Inr split: list.splits sum.splits if_splits dest: map_eq_imp_length_eq)

text \<open>The hash of one value, by its type.\<close>

fun hash_value :: "digests \<Rightarrow> pyval \<Rightarrow> exn + bytes" where
  "hash_value D (VStr s) = hash_str D (VStr s)"
| "hash_value D (VInt x) = hash_int D (VInt x)"
| "hash_value D (VBytes b) = hash_bytes D (VBytes b)"
| "hash_value D (VFloat x) = hash_float D (VFloat x)"
| "hash_value D VNone = Inl GenericException"

lemma hash_one:
  "hash_str D v = Inr h \<Longrightarrow> hash_value D v = Inr h" "hash_int D v = Inr h \<Longrightarrow> hash_value D v = Inr h"
  "hash_bytes D v = Inr h \<Longrightarrow> hash_value D v = Inr h" "hash_float D v = Inr h \<Longrightarrow> hash_value D v = Inr h"
  by (cases v; simp)+

lemma hash_ids_nth:
  assumes "hash_ids D ids = Inr hs" "i < length ids"
  shows "hash_value D (ids ! i) = Inr (hs ! i)"
proof -
  have len: "length hs = length ids" by (rule get_hash_length [OF assms(1)])
  from assms(1) obtain f where f: "map f ids = map Inr hs" "f \<in> {hash_str D, hash_int D, hash_bytes D, hash_float D}"
    by (auto simp: hash_ids_def get_hash_def map_sum_list_Inr split: list.splits sum.splits if_splits)
  have "f (ids ! i) = Inr (hs ! i)" using arg_cong [OF f(1), of "\<lambda>xs. xs ! i"] assms(2) len by simp
  with f(2) hash_one show ?thesis by auto
qed

text \<open>Equal ids have equal hashes at both parties; without collisions the hashes decide membership.\<close>

definition no_collision :: "bytes list \<Rightarrow> pyval list \<Rightarrow> bytes list \<Rightarrow> pyval list \<Rightarrow> bool" where
  "no_collision hs ids phs pids \<longleftrightarrow>
     (\<forall>i < length ids. \<forall>j < length pids. hs ! i = phs ! j \<longrightarrow> ids ! i = pids ! j)"

lemma hash_member:
  assumes "hash_ids D ids = Inr hs" "hash_ids D pids = Inr phs" "no_collision hs ids phs pids" "i < length ids"
  shows "hs ! i \<in> set phs \<longleftrightarrow> ids ! i \<in> set pids"
proof -
  have len: "length phs = length pids" by (rule get_hash_length [OF assms(2)])
  have "phs ! j = hs ! i \<longleftrightarrow> pids ! j = ids ! i" if "j < length pids" for j
    using hash_ids_nth [OF assms(1,4)] hash_ids_nth [OF assms(2) that] assms(3,4) that by (auto simp: no_collision_def)
  then show ?thesis using len by (auto simp: in_set_conv_nth)
qed

definition bucket :: "int \<Rightarrow> bytes \<Rightarrow> nat" where
  "bucket n h = nat (int (from_bytes h) mod n)"

lemma key_block_upto:
  assumes "0 \<le> k" "k < n"
  shows "key_block [1..n - 1] k = nat k"
proof (cases "k = 0")
  case True
  then show ?thesis by (simp add: key_block_def filter_empty_conv)
next
  case False
  then have parts: "[1..n - 1] = [1..k] @ [k + 1..n - 1]" using assms by (intro upto_split2) simp_all
  have "filter (\<lambda>x. x \<le> k) [1..k] = [1..k]" "filter (\<lambda>x. x \<le> k) [k + 1..n - 1] = []" by (auto simp: filter_empty_conv)
  then show ?thesis by (simp add: key_block_def parts)
qed

lemma hash_mods_block:
  assumes "0 < n" "i < length hs"
  shows "key_block [1..n - 1] (hash_mods n hs ! i) = bucket n (hs ! i)" "bucket n (hs ! i) < nat n"
  using assms by (simp_all add: hash_mods_def bucket_def key_block_upto)

subsection \<open>From the table to the blocks\<close>

lemma reserved_names: "STATIC_HASHED_VALUE_COLUMN_NAMES \<noteq> STATIC_HASHED_MOD_VALUE_COLUMN_NAMES" "STATIC_HASHED_MOD_VALUE_COLUMN_NAMES \<noteq> []"
  by (simp_all add: STATIC_HASHED_VALUE_COLUMN_NAMES_def STATIC_HASHED_MOD_VALUE_COLUMN_NAMES_def)

definition hashed_cols :: "int \<Rightarrow> bytes list \<Rightarrow> columns \<Rightarrow> columns" where
  "hashed_cols n hs cs = (STATIC_HASHED_VALUE_COLUMN_NAMES, map VBytes hs) #
     (STATIC_HASHED_MOD_VALUE_COLUMN_NAMES, map VInt (hash_mods n hs)) # cs"

lemma add_hash_columns:
  assumes laws: "table_laws A cols good" and t: "good t" "map_of (cols t) idn = Some ids" "hash_ids D ids = Inr hs"
    and n: "0 < n" "n \<le> 32768" and size: "one_array hs"
    and fresh: "STATIC_HASHED_MOD_VALUE_COLUMN_NAMES \<notin> fst ` set (cols t)" "STATIC_HASHED_VALUE_COLUMN_NAMES \<notin> fst ` set (cols t)"
  obtains t' where "add_hash_column A D t STATIC_HASHED_VALUE_COLUMN_NAMES idn (Some (STATIC_HASHED_MOD_VALUE_COLUMN_NAMES, n)) = Inr t'"
    "good t'" "cols t' = hashed_cols n hs (cols t)"
proof -
  have col: "ar_column A t idn = Inr ids" and rows: "length ids = ar_num_rows A t"
    using laws t(1,2) by (force simp: table_laws_def column_laws_def dest: map_of_SomeD)+
  have len: "length hs = ar_num_rows A t" using get_hash_length [OF t(3)] rows by simp
  have small: "- 32768 \<le> v \<and> v \<le> 32767" if v: "v \<in> set (hash_mods n hs)" for v
  proof -
    obtain h where "v = int (from_bytes h) mod n" using v by (auto simp: hash_mods_def)
    then have "0 \<le> v" "v < n" using n(1) by simp_all
    then show ?thesis using n(2) by simp
  qed
  then have mods: "ar_int16 A (hash_mods n hs) = Inr (map VInt (hash_mods n hs))"
    using laws unfolding table_laws_def int16_law_def by blast
  have typed: "typed_values (map VInt (hash_mods n hs))" "typed_values (map VBytes hs)"
    using small size unfolding typed_values_def by blast+
  obtain t1 where t1: "ar_add_column0 A t STATIC_HASHED_MOD_VALUE_COLUMN_NAMES (map VInt (hash_mods n hs)) = Inr t1" "good t1"
    "cols t1 = (STATIC_HASHED_MOD_VALUE_COLUMN_NAMES, map VInt (hash_mods n hs)) # cols t"
    by (rule law_add [OF laws t(1) _ typed(1) fresh(1)]) (use len in \<open>simp_all add: hash_mods_def\<close>)
  have rows1: "length (map VBytes hs) = ar_num_rows A t1" using law_rows [OF laws t1(2,3)] by (simp add: hash_mods_def)
  obtain t2 where t2: "ar_add_column0 A t1 STATIC_HASHED_VALUE_COLUMN_NAMES (map VBytes hs) = Inr t2" "good t2"
    "cols t2 = (STATIC_HASHED_VALUE_COLUMN_NAMES, map VBytes hs) # cols t1"
    by (rule law_add [OF laws t1(2) rows1 typed(2)]) (use t1(3) fresh(2) reserved_names(1) in auto)
  show thesis
    by (rule that [of t2]) (use col t(3) mods t1 t2 n(1) reserved_names in \<open>simp_all add: add_hash_column_def hashed_cols_def\<close>)
qed

text \<open>The blocks of a table: block \<open>b\<close> holds the rows at the positions \<open>pss ! b\<close>.\<close>

definition blocks_of ::
  "('t \<Rightarrow> columns) \<Rightarrow> ('t \<Rightarrow> bool) \<Rightarrow> int \<Rightarrow> bytes list \<Rightarrow> columns \<Rightarrow> nat list list \<Rightarrow> 't list \<Rightarrow> bool" where
  "blocks_of cols good n hs cs pss blocks \<longleftrightarrow> length blocks = nat n \<and> length pss = nat n \<and>
     (\<forall>b < nat n. good (blocks ! b) \<and> cols (blocks ! b) = take_cols (hashed_cols n hs cs) (pss ! b) \<and> distinct (pss ! b) \<and>
        set (pss ! b) = {i. i < length hs \<and> bucket n (hs ! i) = b})"

text \<open>The blocks as the sort leaves them: of a block without rows only that is known.\<close>

definition cut_at ::
  "'t arrow \<Rightarrow> ('t \<Rightarrow> columns) \<Rightarrow> ('t \<Rightarrow> bool) \<Rightarrow> int \<Rightarrow> bytes list \<Rightarrow> columns \<Rightarrow> nat list list \<Rightarrow> 't list \<Rightarrow> bool" where
  "cut_at A cols good n hs cs pss blocks \<longleftrightarrow> length blocks = nat n \<and> length pss = nat n \<and>
     (\<forall>b < nat n. distinct (pss ! b) \<and> set (pss ! b) = {i. i < length hs \<and> bucket n (hs ! i) = b} \<and>
        (if pss ! b = [] then ar_num_rows A (blocks ! b) = 0
         else good (blocks ! b) \<and> cols (blocks ! b) = take_cols (hashed_cols n hs cs) (pss ! b)))"

lemma cut_rows:
  assumes "table_laws A cols good" "cut_at A cols good n hs cs pss blocks" "b < nat n"
  shows "ar_num_rows A (blocks ! b) = length (pss ! b)"
proof (cases "pss ! b = []")
  case False
  then have "good (blocks ! b)" "cols (blocks ! b) = take_cols (hashed_cols n hs cs) (pss ! b)"
    using assms(2,3) by (simp_all add: cut_at_def)
  then show ?thesis using law_rows [OF assms(1)] by (simp add: hashed_cols_def)
qed (use assms(2,3) in \<open>simp add: cut_at_def\<close>)

lemma repartition_blocks:
  assumes laws: "table_laws A cols good" and t: "good t" "map_of (cols t) idn = Some ids" "hash_ids D ids = Inr hs"
    and n: "0 < n" "n \<le> 32768" and size: "one_array hs" and hs: "hs \<noteq> []"
    and fresh: "STATIC_HASHED_MOD_VALUE_COLUMN_NAMES \<notin> fst ` set (cols t)" "STATIC_HASHED_VALUE_COLUMN_NAMES \<notin> fst ` set (cols t)"
  obtains blocks pss where
    "repartition_by_hash A D t idn n STATIC_HASHED_MOD_VALUE_COLUMN_NAMES STATIC_HASHED_VALUE_COLUMN_NAMES = Inr blocks"
    "cut_at A cols good n hs (cols t) pss blocks"
proof -
  obtain t' where t': "add_hash_column A D t STATIC_HASHED_VALUE_COLUMN_NAMES idn (Some (STATIC_HASHED_MOD_VALUE_COLUMN_NAMES, n)) = Inr t'"
    "good t'" "cols t' = hashed_cols n hs (cols t)"
    by (rule add_hash_columns [OF laws t n size fresh])
  let ?ks = "hash_mods n hs" and ?bs = "[1..n - 1]"
  have key: "map_of (cols t') STATIC_HASHED_MOD_VALUE_COLUMN_NAMES = Some (map VInt ?ks)"
    using reserved_names by (simp add: t'(3) hashed_cols_def)
  have sort: "sort_laws A cols good" using laws by (simp add: table_laws_def)
  have ks: "?ks \<noteq> []" using hs by (simp add: hash_mods_def)
  note at_key = sort [unfolded sort_laws_def, rule_format, OF t'(2) key ks sorted_upto, of 1 "n - 1"]
  define at where "at b ps blk \<longleftrightarrow> distinct ps \<and> set ps = {i. i < length ?ks \<and> key_block ?bs (?ks ! i) = b} \<and>
      (if ps = [] then ar_num_rows A blk = 0 else good blk \<and> cols blk = take_cols (cols t') ps)" for b ps blk
  obtain blocks where blocks: "repartition_by_key_value A [t'] (KeyName STATIC_HASHED_MOD_VALUE_COLUMN_NAMES) ?bs False = Inr blocks"
    "length blocks = length ?bs + 1" "\<forall>b < length blocks. \<exists>ps. at b ps (blocks ! b)"
    unfolding repartition_by_name [OF conjunct1 [OF at_key]] using conjunct2 [OF at_key] unfolding at_def by blast
  have len: "length blocks = nat n" using blocks(2) n(1) by simp
  have eq: "{i. i < length ?ks \<and> key_block ?bs (?ks ! i) = b} = {i. i < length hs \<and> bucket n (hs ! i) = b}" for b
    using hash_mods_block(1) [OF n(1)] by (auto simp: hash_mods_def)
  from blocks(3) have "\<forall>b. \<exists>ps. b < length blocks \<longrightarrow> at b ps (blocks ! b)" by blast
  from choice [OF this] obtain f where f: "\<forall>b < length blocks. at b (f b) (blocks ! b)" by blast
  have "cut_at A cols good n hs (cols t) (map f [0..<nat n]) blocks"
    using f len unfolding cut_at_def at_def eq by (auto simp: t'(3))
  with t'(1) blocks(1) show thesis by (intro that [of blocks "map f [0..<nat n]"]) (simp_all add: repartition_by_hash_def)
qed

lemma fold_last:
  assumes "\<exists>b \<in> set bs. P b"
  shows "\<exists>b \<in> set bs. P b \<and> fold (\<lambda>b acc. if P b then Some (g b) else acc) bs acc = Some (g b)"
  using assms by (induction bs rule: rev_induct) auto

lemma schema_blocks:
  assumes laws: "table_laws A cols good" and blocks: "cut_at A cols good n hs cs pss blocks" and "hs \<noteq> []" "0 < n"
  obtains blocks' where "add_schema_to_all_empty_blocks A blocks = Inr blocks'" "blocks_of cols good n hs cs pss blocks'"
proof -
  let ?P = "\<lambda>b. ar_num_rows A b > 0"
  have rows: "ar_num_rows A (blocks ! b) = length (pss ! b)" if "b < nat n" for b by (rule cut_rows [OF laws blocks that])
  let ?b0 = "bucket n (hs ! 0)"
  have b0: "?b0 < nat n" using hash_mods_block(2) [OF assms(4)] assms(3) by simp
  then have "0 \<in> set (pss ! ?b0)" using blocks assms(3) by (simp add: cut_at_def)
  then have "pss ! ?b0 \<noteq> []" by (metis list.set_intros list.set(1) empty_iff)
  then have "?P (blocks ! ?b0)" "blocks ! ?b0 \<in> set blocks" using rows [OF b0] b0 blocks by (simp_all add: cut_at_def)
  then obtain t where t: "t \<in> set blocks" "?P t" "last_schema A blocks = Some (ar_slice00 A t)"
    unfolding last_schema_def using fold_last [of blocks ?P "ar_slice00 A" None] by blast
  then obtain b where b: "b < nat n" "t = blocks ! b" using blocks by (auto simp: cut_at_def in_set_conv_nth)
  then have at_b: "good t" "cols t = take_cols (hashed_cols n hs cs) (pss ! b)"
    using blocks rows [OF b(1)] t(2) by (auto simp: cut_at_def)
  have "take_cols (take_cols xs ps) [] = take_cols xs []" for xs ps by (simp add: take_cols_def case_prod_unfold)
  then have slice: "good (ar_slice00 A t)" "cols (ar_slice00 A t) = take_cols (hashed_cols n hs cs) []"
    using laws at_b unfolding table_laws_def edit_laws_def by auto
  let ?bs = "map (\<lambda>block. if ar_num_rows A block > 0 then block else ar_slice00 A t) blocks"
  have len: "length blocks = nat n" "length pss = nat n" using blocks by (simp_all add: cut_at_def)
  have "good (?bs ! b) \<and> cols (?bs ! b) = take_cols (hashed_cols n hs cs) (pss ! b) \<and> distinct (pss ! b) \<and>
      set (pss ! b) = {i. i < length hs \<and> bucket n (hs ! i) = b}" if b: "b < nat n" for b
  proof -
    have ps: "distinct (pss ! b)" "set (pss ! b) = {i. i < length hs \<and> bucket n (hs ! i) = b}"
      "pss ! b \<noteq> [] \<longrightarrow> good (blocks ! b) \<and> cols (blocks ! b) = take_cols (hashed_cols n hs cs) (pss ! b)"
      using blocks b by (simp_all add: cut_at_def)
    have "good (?bs ! b) \<and> cols (?bs ! b) = take_cols (hashed_cols n hs cs) (pss ! b)"
      using ps(3) rows [OF b] slice len b by (cases "pss ! b = []") simp_all
    with ps show ?thesis by blast
  qed
  then show thesis
    by (intro that [of ?bs]) (use t(3) len in \<open>simp_all add: add_schema_to_all_empty_blocks_def blocks_of_def\<close>)
qed

subsection \<open>What a block gives\<close>

text \<open>The batch that is handed to the intersection has the columns of the block.\<close>

lemma law_batch_in:
  assumes "table_laws A cols good" "good t" "cols t = (n, vs) # cs"
  shows "good (batch_in A (ar_from_pydict_empty A (ar_schema A (ar_combine_chunks A t))) (ar_combine_chunks A t))"
    and "cols (batch_in A (ar_from_pydict_empty A (ar_schema A (ar_combine_chunks A t))) (ar_combine_chunks A t)) = cols t"
proof -
  let ?c = "ar_combine_chunks A t"
  have c: "good ?c" "cols ?c = cols t" using assms by (simp_all add: law_combine)
  have empty: "good (ar_from_pydict_empty A (ar_schema A ?c))" "cols (ar_from_pydict_empty A (ar_schema A ?c)) = take_cols (cols t) []"
    using assms(1) c by (simp_all add: table_laws_def batch_laws_def)
  have zero: "take_cols (cols t) [] = cols t" if "ar_num_rows A t = 0"
  proof -
    have "\<forall>c \<in> set (cols t). length (snd c) = ar_num_rows A t"
      using assms(1,2) unfolding table_laws_def column_laws_def by blast
    with that show ?thesis unfolding take_cols_def by (intro map_idI) auto
  qed
  have "good (batch_in A (ar_from_pydict_empty A (ar_schema A ?c)) ?c) \<and>
    cols (batch_in A (ar_from_pydict_empty A (ar_schema A ?c)) ?c) = cols t"
  proof (cases "ar_num_rows A t = 0")
    case True
    then have "ar_to_batches A ?c = []" using assms by (simp add: table_laws_def batch_laws_def)
    with empty zero [OF True] show ?thesis by (simp add: batch_in_def)
  next
    case False
    then obtain b where "ar_to_batches A ?c = [b]" "good b" "cols b = cols t"
      using assms unfolding table_laws_def batch_laws_def by blast
    then show ?thesis by (simp add: batch_in_def)
  qed
  then show "good (batch_in A (ar_from_pydict_empty A (ar_schema A ?c)) ?c)"
    "cols (batch_in A (ar_from_pydict_empty A (ar_schema A ?c)) ?c) = cols t" by simp_all
qed

text \<open>
  The call of the intersection, on a table whose first column is the hash column, keeps the rows whose
  hash is among the peer's hashes of the block.
\<close>

definition psi_keeps ::
  "'t arrow \<Rightarrow> ('t \<Rightarrow> columns) \<Rightarrow> ('t \<Rightarrow> bool) \<Rightarrow> 't psi_call \<Rightarrow> role_type \<Rightarrow> string \<Rightarrow> bytes set \<Rightarrow> bool" where
  "psi_keeps A cols good psi role tid peer \<longleftrightarrow>
     (\<forall>t bs. good t \<longrightarrow> hd (cols t) = (STATIC_HASHED_VALUE_COLUMN_NAMES, map VBytes bs) \<longrightarrow> psi role tid t = Inr (Some (ar_take A t (filter (\<lambda>i. ar_column0 A t ! i \<in> peer) [0..<ar_num_rows A t]))))"

lemma process_hashed:
  assumes laws: "table_laws A cols good" and t: "good t" "cols t = (STATIC_HASHED_VALUE_COLUMN_NAMES, map VBytes bs) # cs"
    and ac: "ac_join_type ac = PSI" "psi_keeps A cols good psi (ac_role ac) (task_id ac b) peer"
  obtains orig join out where "process_block A psi ac b (ar_combine_chunks A t, name) = Inr (orig, join, out)"
    "fst orig = length bs" "fst join = length (filter (\<lambda>h. h \<in> peer) bs)" "good out"
    "cols out = take_cols (cols t) (filter (\<lambda>i. bs ! i \<in> peer) [0..<length bs])"
proof -
  let ?c = "ar_combine_chunks A t" and ?qs = "filter (\<lambda>i. bs ! i \<in> peer) [0..<length bs]"
  let ?bt = "batch_in A (ar_from_pydict_empty A (ar_schema A ?c)) ?c"
  have bt: "good ?bt" "cols ?bt = cols t" by (rule law_batch_in [OF laws t])+
  have rows: "ar_num_rows A ?bt = length bs" "ar_column0 A ?bt = bs" "ar_num_rows A ?c = length bs"
    using law_rows [OF laws bt(1)] law_column0 [OF laws bt(1)] law_rows [OF laws law_combine(1) [OF laws t(1)]] law_combine(2) [OF laws t(1)]
      bt(2) t(2) by simp_all
  let ?o = "ar_take A ?bt ?qs"
  have "\<forall>p \<in> set ?qs. p < ar_num_rows A ?bt" "distinct ?qs" using rows(1) by simp_all
  note o = law_take [OF laws bt(1) this]
  obtain out where out: "ar_from_batches A [?o] = Inr out" "good out" "cols out = cols ?o" by (rule law_from_batches [OF laws o(1)])
  have psi: "psi (ac_role ac) (task_id ac b) ?bt = Inr (Some ?o)" using ac(2) [unfolded psi_keeps_def, rule_format, OF bt(1), of bs] rows bt(2) t(2) by simp
  have "ar_num_rows A out = length ?qs" using law_rows [OF laws out(2)] out(3) o(2) bt(2) t(2) by simp
  moreover have "length (filter (\<lambda>h. h \<in> peer) bs) = length ?qs" using positions_of_filter [of bs "\<lambda>h. h \<in> peer"] by (metis length_map)
  ultimately show thesis
    using ac(1) psi out o bt rows
    by (intro that [of "count_values A ?c [STATIC_HASHED_VALUE_COLUMN_NAMES, name]" "count_values A out [STATIC_HASHED_VALUE_COLUMN_NAMES, name]" out])
       (simp_all add: process_block_def do_psi_def count_values_def Let_def)
qed

lemma finish_read_rows:
  assumes laws: "table_laws A cols good"
    and t: "good t" "cols t = take_cols (hashed_cols n hs cs) ps" "ps \<noteq> []" "\<forall>p \<in> set ps. p < length hs"
    and cs: "STATIC_HASHED_MOD_VALUE_COLUMN_NAMES \<notin> fst ` set cs"
  obtains t' where "finish_read A D name t = Inr (ar_combine_chunks A t', name)" "good t'"
    "cols t' = (STATIC_HASHED_VALUE_COLUMN_NAMES, map VBytes (map ((!) hs) ps)) # take_cols cs ps"
proof -
  have names: "ar_column_names A t = STATIC_HASHED_VALUE_COLUMN_NAMES # STATIC_HASHED_MOD_VALUE_COLUMN_NAMES # map fst cs"
    using law_names [OF laws t(1)] t(2) by (simp add: hashed_cols_def)
  have "ar_num_rows A t = length ps" using law_rows [OF laws t(1)] t(2) by (simp add: hashed_cols_def)
  then have rows: "ar_num_rows A t > 0" using t(3) by simp
  have "STATIC_HASHED_MOD_VALUE_COLUMN_NAMES \<in> fst ` set (cols t)" using t(2) by (simp add: hashed_cols_def)
  then obtain t' where t': "ar_drop A t [STATIC_HASHED_MOD_VALUE_COLUMN_NAMES] = Inr t'" "good t'"
    "cols t' = filter (\<lambda>c. fst c \<noteq> STATIC_HASHED_MOD_VALUE_COLUMN_NAMES) (cols t)"
    by (rule law_drop [OF laws t(1)]) (use t(2) reserved_names(1) in \<open>simp add: hashed_cols_def\<close>)
  have "filter (\<lambda>c. fst c \<noteq> STATIC_HASHED_MOD_VALUE_COLUMN_NAMES) (take_cols cs ps) = take_cols cs ps"
    using cs by (intro filter_other_name) simp
  with t' t(2,4) reserved_names(1)
  have "cols t' = (STATIC_HASHED_VALUE_COLUMN_NAMES, map VBytes (map ((!) hs) ps)) # take_cols cs ps" by (simp add: hashed_cols_def)
  then show thesis using t' rows names
    by (intro that) (simp_all add: finish_read_def has_column_by_name_def)
qed

text \<open>Of an empty block the hash column stays, and so does the column of the bucket numbers.\<close>

lemma finish_read_empty:
  assumes "table_laws A cols good" "good t" "cols t = take_cols (hashed_cols n hs cs) []"
  shows "finish_read A D name t = Inr (ar_combine_chunks A t, name)"
  using law_rows [OF assms(1,2)] assms(3) by (simp add: finish_read_def hashed_cols_def)

definition id_name :: "column_ref \<Rightarrow> columns \<Rightarrow> string option" where
  "id_name r cs = (case r of
     ColumnName s \<Rightarrow> Some s
   | ColumnIndex i \<Rightarrow> if 0 \<le> i \<and> i < int (length cs) then Some (fst (cs ! nat i)) else None)"

lemma block_id_name:
  assumes "table_laws A cols good" "good t" "cols t = take_cols (hashed_cols n hs cs) ps" "id_name r cs = Some name"
  shows "get_actual_column_name A t r 2 = Inr name"
proof (cases r)
  case (ColumnIndex i)
  then have i: "0 \<le> i" "i < int (length cs)" "name = fst (cs ! nat i)" using assms(4) by (auto simp: id_name_def split: if_splits)
  have "nat (i + 2) = Suc (Suc (nat i))" using i(1) by simp
  with i law_names [OF assms(1,2)] assms(3) ColumnIndex show ?thesis
    by (simp add: get_column_name_by_index_def py_index_def hashed_cols_def)
qed (use assms(4) in \<open>simp add: id_name_def\<close>)

text \<open>The result of block \<open>b\<close>: the rows at its positions whose hash the peer's block has, without the
  hash columns when the block has rows.\<close>

definition kept_rows :: "bytes list \<Rightarrow> bytes set \<Rightarrow> nat list \<Rightarrow> nat list" where
  "kept_rows hs peer ps = filter (\<lambda>i. hs ! i \<in> peer) ps"

lemma block_result:
  assumes laws: "table_laws A cols good" and blocks: "blocks_of cols good n hs cs pss blocks" "b < nat n"
    and cs: "STATIC_HASHED_MOD_VALUE_COLUMN_NAMES \<notin> fst ` set cs" "STATIC_HASHED_VALUE_COLUMN_NAMES \<notin> fst ` set cs" "cs \<noteq> []"
    and ac: "ac_join_type ac = PSI" "psi_keeps A cols good psi (ac_role ac) (task_id ac b) peer" "id_name (ac_example_id_name ac) cs = Some name"
  obtains orig join res where "table_result A D psi ac b (blocks ! b) = Inr (orig, join, res)"
    "fst orig = length (pss ! b)" "fst join = length (kept_rows hs peer (pss ! b))"
    "cols res = (if pss ! b = [] then take_cols ((STATIC_HASHED_MOD_VALUE_COLUMN_NAMES, []) # cs) []
       else take_cols cs (kept_rows hs peer (pss ! b)))"
proof -
  let ?ps = "pss ! b" and ?t = "blocks ! b"
  have t: "good ?t" "cols ?t = take_cols (hashed_cols n hs cs) ?ps" and ps: "\<forall>p \<in> set ?ps. p < length hs"
    using blocks by (auto simp: blocks_of_def)
  obtain t' cs' where t': "finish_read A D name ?t = Inr (ar_combine_chunks A t', name)" "good t'"
    "cols t' = (STATIC_HASHED_VALUE_COLUMN_NAMES, map VBytes (map ((!) hs) ?ps)) # cs'"
    "cs' = (if ?ps = [] then take_cols ((STATIC_HASHED_MOD_VALUE_COLUMN_NAMES, []) # cs) [] else take_cols cs ?ps)"
  proof (cases "?ps = []")
    case True
    with finish_read_empty [OF laws t(1), of n hs cs D name] t that show thesis by (simp add: hashed_cols_def)
  next
    case False
    with finish_read_rows [OF laws t False ps cs(1), of D name] that show thesis by auto
  qed
  have no_hash: "filter (\<lambda>c. fst c \<noteq> STATIC_HASHED_VALUE_COLUMN_NAMES) cs' = cs'"
    using cs(2) reserved_names(1) by (intro filter_other_name) (simp add: t'(4))
  have others: "take_cols cs' qs \<noteq> []" for qs using cs(3) by (cases cs) (auto simp: t'(4))
  let ?bs = "map ((!) hs) ?ps" and ?qs = "filter (\<lambda>i. map ((!) hs) ?ps ! i \<in> peer) [0..<length (map ((!) hs) ?ps)]"
  obtain orig join out where out: "process_block A psi ac b (ar_combine_chunks A t', name) = Inr (orig, join, out)"
    "fst orig = length ?bs" "fst join = length (filter (\<lambda>h. h \<in> peer) ?bs)" "good out" "cols out = take_cols (cols t') ?qs"
    by (rule process_hashed [OF laws t'(2,3) ac(1,2)])
  have "STATIC_HASHED_VALUE_COLUMN_NAMES \<in> fst ` set (cols out)" using out(5) t'(3) by simp
  then obtain res where res: "ar_drop A out [STATIC_HASHED_VALUE_COLUMN_NAMES] = Inr res" "good res"
    "cols res = filter (\<lambda>c. fst c \<noteq> STATIC_HASHED_VALUE_COLUMN_NAMES) (cols out)"
    by (rule law_drop [OF laws out(4)]) (use out(5) t'(3) no_hash others in \<open>simp add: take_cols_filter\<close>)
  have "cols res = take_cols cs' ?qs" using res(3) out(5) t'(3) no_hash by (simp add: take_cols_filter)
  moreover have "?qs = filter (\<lambda>q. hs ! (?ps ! q) \<in> peer) [0..<length ?ps]" by (intro filter_cong) auto
  ultimately have "cols res = (if ?ps = [] then take_cols ((STATIC_HASHED_MOD_VALUE_COLUMN_NAMES, []) # cs) []
       else take_cols cs (kept_rows hs peer ?ps))"
    using positions_of_filter [of ?ps "\<lambda>i. hs ! i \<in> peer"] by (simp add: t'(4) take_cols_twice kept_rows_def)
  moreover have "fst join = length (kept_rows hs peer ?ps)" using out(3) by (simp add: kept_rows_def filter_map comp_def)
  ultimately show thesis
    using t'(1) out(1,2) res(1) block_id_name [OF laws t ac(3)] by (intro that) (simp_all add: table_result_def)
qed

subsection \<open>The whole table\<close>

lemma actual_id_name:
  assumes "table_laws A cols good" "good t" "id_name r (cols t) = Some name"
  shows "get_actual_column_name A t r 0 = Inr name"
proof (cases r)
  case (ColumnIndex i)
  then have "0 \<le> i" "i < int (length (cols t))" "name = fst (cols t ! nat i)" using assms(3) by (auto simp: id_name_def split: if_splits)
  with law_names [OF assms(1,2)] ColumnIndex show ?thesis by (simp add: get_column_name_by_index_def py_index_def)
qed (use assms(3) in \<open>simp add: id_name_def\<close>)

lemma convert_keeps:
  assumes "table_laws A cols good" "good t"
  obtains t' where "convert_string_to_large_string A t = Inr t'" "good t'" "cols t' = cols t"
  using assms unfolding table_laws_def edit_laws_def convert_string_to_large_string_def by blast

text \<open>A readable table with the id column \<open>ids\<close> and their hashes \<open>hs\<close>.\<close>

definition hashed_input ::
  "'t arrow \<Rightarrow> digests \<Rightarrow> ('t \<Rightarrow> columns) \<Rightarrow> ('t \<Rightarrow> bool) \<Rightarrow> app_args \<Rightarrow> file_store \<Rightarrow> 't \<Rightarrow> pyval list \<Rightarrow> bytes list \<Rightarrow> bool" where
  "hashed_input A D cols good args st t ids hs \<longleftrightarrow>
     read_data_from_file A (ap_data_path args) (ap_with_head args) (ap_csv_delimiter args) st = Inr t \<and> good t \<and>
     (\<exists>idn. id_name (ap_example_id_name args) (cols t) = Some idn \<and> map_of (cols t) idn = Some ids) \<and> hash_ids D ids = Inr hs \<and> one_array hs \<and>
     STATIC_HASHED_MOD_VALUE_COLUMN_NAMES \<notin> fst ` set (cols t) \<and> STATIC_HASHED_VALUE_COLUMN_NAMES \<notin> fst ` set (cols t) \<and>
     0 < ap_bucket_num args \<and> ap_bucket_num args \<le> 32768"

lemma cut_input:
  assumes laws: "table_laws A cols good" and inp: "hashed_input A D cols good args st t ids hs"
  obtains blocks pss where "cut_blocks A D args st = Inr blocks" "blocks_of cols good (ap_bucket_num args) hs (cols t) pss blocks"
proof -
  let ?n = "ap_bucket_num args"
  note I = inp [unfolded hashed_input_def]
  from I obtain idn where idn: "id_name (ap_example_id_name args) (cols t) = Some idn" "map_of (cols t) idn = Some ids" by blast
  have t: "good t" "hash_ids D ids = Inr hs" "one_array hs" and n: "0 < ?n" "?n \<le> 32768"
    and names: "STATIC_HASHED_MOD_VALUE_COLUMN_NAMES \<notin> fst ` set (cols t)" "STATIC_HASHED_VALUE_COLUMN_NAMES \<notin> fst ` set (cols t)"
    using I by simp_all
  have hs: "hs \<noteq> []" using t(2) get_hash_length [OF t(2)] by (cases ids) (auto simp: hash_ids_def)
  obtain t' where t': "convert_string_to_large_string A t = Inr t'" "good t'" "cols t' = cols t" by (rule convert_keeps [OF laws t(1)])
  have idn': "map_of (cols t') idn = Some ids" using idn(2) t'(3) by simp
  obtain blocks pss where B: "repartition_by_hash A D t' idn ?n STATIC_HASHED_MOD_VALUE_COLUMN_NAMES STATIC_HASHED_VALUE_COLUMN_NAMES = Inr blocks"
    "cut_at A cols good ?n hs (cols t') pss blocks"
    by (rule repartition_blocks [OF laws t'(2) idn' t(2) n t(3) hs names [folded t'(3)]])
  obtain blocks' where B': "add_schema_to_all_empty_blocks A blocks = Inr blocks'" "blocks_of cols good ?n hs (cols t') pss blocks'"
    by (rule schema_blocks [OF laws B(2) hs n(1)])
  have "blocks \<noteq> []" using B(2) n(1) by (auto simp: cut_at_def)
  with I actual_id_name [OF laws t(1) idn(1)] t' B B' show thesis
    by (intro that [of blocks' pss]) (simp_all add: cut_blocks_def repartition_for_existed_data_def)
qed

text \<open>The peer's hashes of block \<open>b\<close>.\<close>

definition peer_block :: "int \<Rightarrow> bytes list \<Rightarrow> nat \<Rightarrow> bytes set" where
  "peer_block n phs b = {h \<in> set phs. bucket n h = b}"

lemma kept_rows_peer:
  assumes "blocks_of cols good n hs cs pss blocks" "b < nat n"
  shows "kept_rows hs (peer_block n phs b) (pss ! b) = filter (\<lambda>i. hs ! i \<in> set phs) (pss ! b)"
  using assms by (auto simp: kept_rows_def peer_block_def blocks_of_def intro!: filter_cong)

lemma blocks_mset:
  assumes "blocks_of cols good n hs cs pss blocks" "0 < n"
  shows "mset (concat (map (filter P) pss)) = mset (filter P [0..<length hs])"
  using assms hash_mods_block(2) [OF assms(2)]
  by (intro blocks_partition [where blk = "\<lambda>i. bucket n (hs ! i)" and n = "nat n"]) (simp_all add: blocks_of_def)

lemma sum_lengths: "length xss = n \<Longrightarrow> (\<Sum>b \<leftarrow> [0..<n]. length (f (xss ! b))) = length (concat (map f xss))"
proof -
  assume n: "length xss = n"
  have "map (\<lambda>b. length (f (xss ! b))) [0..<n] = map length (map f xss)" using n by (intro nth_equalityI) simp_all
  then show ?thesis by (simp add: length_concat)
qed

text \<open>Counts and columns of the result of a block with the rows \<open>ps\<close>.\<close>

definition block_spec ::
  "('t \<Rightarrow> columns) \<Rightarrow> columns \<Rightarrow> bytes list \<Rightarrow> bytes list \<Rightarrow> nat list \<Rightarrow> counts \<times> counts \<times> 't \<Rightarrow> bool" where
  "block_spec cols cs hs phs ps r \<longleftrightarrow> fst (fst r) = length ps \<and>
     fst (fst (snd r)) = length (filter (\<lambda>i. hs ! i \<in> set phs) ps) \<and>
     cols (snd (snd r)) = (if ps = [] then take_cols ((STATIC_HASHED_MOD_VALUE_COLUMN_NAMES, []) # cs) []
        else take_cols cs (filter (\<lambda>i. hs ! i \<in> set phs) ps))"

definition peer_answers :: "'t arrow \<Rightarrow> ('t \<Rightarrow> columns) \<Rightarrow> ('t \<Rightarrow> bool) \<Rightarrow> 't psi_call \<Rightarrow> app_args \<Rightarrow> bytes list \<Rightarrow> bool" where
  "peer_answers A cols good psi args phs \<longleftrightarrow> (\<forall>b < nat (ap_bucket_num args).
     psi_keeps A cols good psi (ap_role_type args) (ap_app_id args @ ''_'' @ str_of_nat b) (peer_block (ap_bucket_num args) phs b))"

lemma input_block:
  assumes laws: "table_laws A cols good" and inp: "hashed_input A D cols good args st t ids hs"
    and blocks: "blocks_of cols good (ap_bucket_num args) hs (cols t) pss blocks" and PSI: "ap_join_type args = PSI"
    and psi: "peer_answers A cols good psi args phs" and b: "b < nat (ap_bucket_num args)"
  shows "\<exists>r. table_result A D psi (make_actor args FileT 0) b (blocks ! b) = Inr r \<and> block_spec cols (cols t) hs phs (pss ! b) r"
proof -
  let ?n = "ap_bucket_num args" and ?ac = "make_actor args FileT 0"
  note I = inp [unfolded hashed_input_def]
  from I obtain name where "id_name (ap_example_id_name args) (cols t) = Some name" by blast
  then have name: "id_name (ac_example_id_name ?ac) (cols t) = Some name" by simp
  have names: "STATIC_HASHED_MOD_VALUE_COLUMN_NAMES \<notin> fst ` set (cols t)" "STATIC_HASHED_VALUE_COLUMN_NAMES \<notin> fst ` set (cols t)"
      "cols t \<noteq> []"
    using I law_some [OF laws] by simp_all
  have keeps: "psi_keeps A cols good psi (ac_role ?ac) (task_id ?ac b) (peer_block ?n phs b)" using psi b by (simp add: task_id_def peer_answers_def)
  have "ac_join_type ?ac = PSI" using PSI by simp
  then obtain orig join res where "table_result A D psi ?ac b (blocks ! b) = Inr (orig, join, res)" "fst orig = length (pss ! b)"
    "fst join = length (kept_rows hs (peer_block ?n phs b) (pss ! b))"
    "cols res = (if pss ! b = [] then take_cols ((STATIC_HASHED_MOD_VALUE_COLUMN_NAMES, []) # cols t) []
       else take_cols (cols t) (kept_rows hs (peer_block ?n phs b) (pss ! b)))"
    by (rule block_result [OF laws blocks b names _ keeps name])
  then show ?thesis by (intro exI [of _ "(orig, join, res)"]) (simp add: block_spec_def kept_rows_peer [OF blocks b])
qed

lemma input_results:
  assumes "table_laws A cols good" "hashed_input A D cols good args st t ids hs"
    and blocks: "blocks_of cols good (ap_bucket_num args) hs (cols t) pss blocks"
    and "ap_join_type args = PSI" "peer_answers A cols good psi args phs"
  obtains orig join res where "results_ok A D psi args blocks orig join res"
    "\<forall>b < length blocks. block_spec cols (cols t) hs phs (pss ! b) (orig b, join b, res b)"
proof -
  have "\<forall>b. \<exists>r. b < length blocks \<longrightarrow>
      table_result A D psi (make_actor args FileT 0) b (blocks ! b) = Inr r \<and> block_spec cols (cols t) hs phs (pss ! b) r"
    using input_block [OF assms] blocks by (auto simp: blocks_of_def)
  from choice [OF this] obtain f where "\<forall>b. b < length blocks \<longrightarrow>
      table_result A D psi (make_actor args FileT 0) b (blocks ! b) = Inr (f b) \<and> block_spec cols (cols t) hs phs (pss ! b) (f b)" by blast
  then show thesis
    by (intro that [of "\<lambda>b. fst (f b)" "\<lambda>b. fst (snd (f b))" "\<lambda>b. snd (snd (f b))"]) (simp_all add: results_ok_def)
qed

lemma file_job_intersection:
  assumes laws: "table_laws A cols good" and ok: "file_job_ok local args"
    and inp: "hashed_input A D cols good args st t ids hs" and psi: "peer_answers A cols good psi args phs"
    and js: "length js = nat (ap_bucket_num args)"
  shows "\<exists>result dp outs pss. run_app A D psi hdfs local global_role args js st =
      (Inr (Some result), (dp, st(([], ap_output_dir args) \<mapsto> joined_file A (ap_output_dir args) (ap_with_head args) (ap_csv_delimiter args) outs))) \<and>
     length outs = length pss \<and> (\<forall>ps \<in> set pss. set ps \<subseteq> {..<length ids}) \<and>
     (\<forall>b < length pss. cols (outs ! b) = (if pss ! b = [] then take_cols ((STATIC_HASHED_MOD_VALUE_COLUMN_NAMES, []) # cols t) []
        else take_cols (cols t) (filter (\<lambda>i. hs ! i \<in> set phs) (pss ! b)))) \<and>
     mset (concat (map (filter (\<lambda>i. hs ! i \<in> set phs)) pss)) = mset (filter (\<lambda>i. hs ! i \<in> set phs) [0..<length ids]) \<and>
     jr_local result = length ids \<and> jr_join result = length (filter (\<lambda>i. hs ! i \<in> set phs) [0..<length ids])"
proof -
  let ?P = "\<lambda>i. hs ! i \<in> set phs" and ?n = "ap_bucket_num args"
  have PSI: "ap_join_type args = PSI" using ok by (simp add: file_job_ok_def)
  have I: "hash_ids D ids = Inr hs" "0 < ?n" using inp by (simp_all add: hashed_input_def)
  have hs: "length hs = length ids" by (rule get_hash_length [OF I(1)])
  obtain blocks pss where B: "cut_blocks A D args st = Inr blocks" "blocks_of cols good ?n hs (cols t) pss blocks"
    by (rule cut_input [OF laws inp])
  have len: "length blocks = nat ?n" "length pss = length blocks" using B(2) by (simp_all add: blocks_of_def)
  obtain orig join res where R: "results_ok A D psi args blocks orig join res"
    "\<forall>b < length blocks. block_spec cols (cols t) hs phs (pss ! b) (orig b, join b, res b)"
    by (rule input_results [OF laws inp B(2) PSI psi])
  have js': "length js = length blocks" using js len(1) by simp
  obtain dp result where run: "run_app A D psi hdfs local global_role args js st =
      (Inr (Some result), (dp, st(([], ap_output_dir args) \<mapsto>
         joined_file A (ap_output_dir args) (ap_with_head args) (ap_csv_delimiter args) (map res [0..<length blocks]))))"
    "jr_local result = (\<Sum>b \<leftarrow> [0..<length blocks]. fst (orig b))" "jr_join result = (\<Sum>b \<leftarrow> [0..<length blocks]. fst (join b))"
    using run_file_job [OF ok B(1) len(1) R(1) js', of hdfs global_role] by (elim exE conjE)
  have parts: "mset (concat (map (filter Q) pss)) = mset (filter Q [0..<length ids])" for Q
    using blocks_mset [OF B(2) I(2), of Q] hs by simp
  have sizes: "length (concat (map (filter Q) pss)) = length (filter Q [0..<length ids])" for Q
    using arg_cong [OF parts [of Q], of size] by (simp only: size_mset)
  have "jr_local result = (\<Sum>b \<leftarrow> [0..<length blocks]. length (filter (\<lambda>_. True) (pss ! b)))"
    unfolding run(2) using R(2) by (intro arg_cong [of _ _ sum_list] map_cong) (auto simp: block_spec_def)
  then have local: "jr_local result = length ids" using sum_lengths [OF len(2), of "filter (\<lambda>_. True)"] sizes [of "\<lambda>_. True"] by simp
  have "jr_join result = (\<Sum>b \<leftarrow> [0..<length blocks]. length (filter ?P (pss ! b)))"
    unfolding run(3) using R(2) by (intro arg_cong [of _ _ sum_list] map_cong) (auto simp: block_spec_def)
  then have join: "jr_join result = length (filter ?P [0..<length ids])" using sum_lengths [OF len(2), of "filter ?P"] sizes [of ?P] by simp
  have outs: "cols (map res [0..<length blocks] ! b) =
      (if pss ! b = [] then take_cols ((STATIC_HASHED_MOD_VALUE_COLUMN_NAMES, []) # cols t) [] else take_cols (cols t) (filter ?P (pss ! b)))"
    if "b < length pss" for b using R(2) that len(2) by (simp add: block_spec_def)
  have pos: "\<forall>ps \<in> set pss. set ps \<subseteq> {..<length ids}"
  proof
    fix ps
    assume "ps \<in> set pss"
    then obtain b where "b < length pss" "ps = pss ! b" by (metis in_set_conv_nth)
    with B(2) hs show "set ps \<subseteq> {..<length ids}" by (auto simp: blocks_of_def)
  qed
  show ?thesis
    by (rule exI [of _ result], rule exI [of _ dp], rule exI [of _ "map res [0..<length blocks]"], rule exI [of _ pss])
       (intro conjI allI impI run(1) pos parts local join outs, use len(2) in simp_all)
qed

end
