(* ===== verification/Psi_Directory.thy ===== *)
theory Psi_Directory
  imports Psi_Partition
begin

section \<open>A job over a directory\<close>

text \<open>
  What \<^verbatim>\<open>run_app\<close> does when the input is a directory of text files: each file is a block, the worker that
  gets it intersects it with the peer's file of the same number and writes the result to a part file of
  the output directory. The part files are disjoint from each other and from the input, so
  the order in which the workers finish does not matter.
\<close>

definition path_result ::
  "'t arrow \<Rightarrow> digests \<Rightarrow> 't psi_call \<Rightarrow> psi_pir_actor \<Rightarrow> string \<Rightarrow> file_store \<Rightarrow> nat \<Rightarrow> string \<Rightarrow> exn + counts \<times> counts \<times> 't" where
  "path_result A D psi ac csv_delimiter st b path =
     bind_exn (read_block_data A D ac ''nfs'' csv_delimiter (Some (PathBlock (OnePath path))) st) (\<lambda>r.
     bind_exn (process_block A psi ac b r) (\<lambda>(original, joined, out).
     bind_exn (ar_drop A out [STATIC_HASHED_VALUE_COLUMN_NAMES]) (\<lambda>out'. Inr (original, joined, out'))))"

lemma path_action:
  assumes "ac_data_type ac = DirectoryT" "path_result A D psi ac csv_delimiter st b path = Inr (original, joined, out)"
    and "text_format (output_part output_path b data_format)" "infer_protocol (output_part output_path b data_format) = ''nfs''"
  shows "do_action A D psi ac b ''nfs'' data_format (Some (PathBlock (OnePath path))) output_path csv_delimiter (dp, st) =
    (Inr (ac_actor_index ac, b, None),
     (sync_block_status b PROCESSED (Some original) (Some joined) (sync_block_status b PROCSSING None None dp),
      st(([], output_part output_path b data_format) \<mapsto> csv_stream A (output_part output_path b data_format) (ac_with_head ac) csv_delimiter out)))"
  using assms
  by (auto simp: path_result_def bind_exn_Inr do_action_def deliver_block_def write_block_data_def write_text Let_def)

lemma path_result_actor:
  "path_result A D psi (make_actor args data_type a) csv_delimiter st b path =
     path_result A D psi (make_actor args data_type a') csv_delimiter st b path"
proof -
  have "process_block A psi (make_actor args data_type a) b r = process_block A psi (make_actor args data_type a') b r" for r
    by (cases r) (simp add: process_block_def do_psi_def do_pir_def task_id_def cong: if_cong)
  then show ?thesis by (simp add: path_result_def read_block_data_def read_one_def)
qed

lemma path_result_store:
  assumes "st' ([], path) = st ([], path)"
  shows "path_result A D psi ac csv_delimiter st' b path = path_result A D psi ac csv_delimiter st b path"
  using assms
  by (simp add: path_result_def read_block_data_def read_one_def read_data_from_file_def read_data_from_filesystem_def Let_def)

lemma output_part_inject: "output_part d b f = output_part d b' f \<longleftrightarrow> b = b'"
  by (simp add: output_part_def)

subsection \<open>The loop\<close>

definition dir_state :: "nat \<Rightarrow> string set \<Rightarrow> file_store \<Rightarrow> 't app_state \<Rightarrow> bool" where
  "dir_state n inputs st0 s \<longleftrightarrow> length (dp_data_status (fst s)) = n \<and> (\<forall>q \<in> inputs. snd s ([], q) = st0 ([], q))"

definition part_done ::
  "nat \<Rightarrow> (nat \<Rightarrow> counts) \<Rightarrow> (nat \<Rightarrow> counts) \<Rightarrow> (nat \<Rightarrow> string) \<Rightarrow> (nat \<Rightarrow> bytes) \<Rightarrow> nat \<Rightarrow> 't option \<Rightarrow> 't app_state \<Rightarrow> bool" where
  "part_done n orig join part content b out s \<longleftrightarrow>
     length (dp_data_status (fst s)) = n \<and> dp_data_status (fst s) ! b = (PROCESSED, Some (orig b), Some (join b)) \<and>
     snd s ([], part b) = Some (content b) \<and> out = None \<and> b < n"

definition dir_jobs :: "string list \<Rightarrow> (nat \<times> 't block_data option) list" where
  "dir_jobs files = map (\<lambda>b. (b, Some (PathBlock (OnePath (files ! b))))) [0..<length files]"

lemma dir_jobs_simps [simp]:
  "length (dir_jobs files) = length files" "map fst (dir_jobs files) = [0..<length files]" "fst ` set (dir_jobs files) = {..<length files}"
  "dir_jobs files = [] \<longleftrightarrow> files = []"
  by (auto simp: dir_jobs_def image_image comp_def)

text \<open>The parts are text files of the local file system, and none of them is an input.\<close>

definition parts_ok :: "string list \<Rightarrow> (nat \<Rightarrow> string) \<Rightarrow> bool" where
  "parts_ok files part \<longleftrightarrow> inj part \<and> (\<forall>b < length files. text_format (part b) \<and> infer_protocol (part b) = ''nfs'' \<and> part b \<notin> set files)"

definition dir_results ::
  "'t arrow \<Rightarrow> digests \<Rightarrow> 't psi_call \<Rightarrow> app_args \<Rightarrow> file_store \<Rightarrow> string list \<Rightarrow> (nat \<Rightarrow> counts) \<Rightarrow> (nat \<Rightarrow> counts) \<Rightarrow> (nat \<Rightarrow> 't) \<Rightarrow> bool" where
  "dir_results A D psi args st files orig join res \<longleftrightarrow> (\<forall>b < length files.
     path_result A D psi (make_actor args DirectoryT 0) (ap_csv_delimiter args) st b (files ! b) = Inr (orig b, join b, res b))"

abbreviation dir_pool :: "'t arrow \<Rightarrow> digests \<Rightarrow> 't psi_call \<Rightarrow> app_args \<Rightarrow> string \<Rightarrow> ('t app_state, 't block_data option, 't) pool" where
  "dir_pool A D psi args data_format \<equiv>
     app_pool A D psi (make_actor args DirectoryT) ''nfs'' data_format (ap_output_dir args) (ap_csv_delimiter args)"

abbreviation part_of :: "app_args \<Rightarrow> string \<Rightarrow> nat \<Rightarrow> string" where
  "part_of args data_format \<equiv> (\<lambda>b. output_part (ap_output_dir args) b data_format)"

abbreviation part_text :: "'t arrow \<Rightarrow> app_args \<Rightarrow> string \<Rightarrow> (nat \<Rightarrow> 't) \<Rightarrow> nat \<Rightarrow> bytes" where
  "part_text A args f res \<equiv> (\<lambda>b. csv_stream A (part_of args f b) (ap_with_head args) (ap_csv_delimiter args) (res b))"

lemma dir_job_act:
  assumes res: "dir_results A D psi args st files orig join res" and job: "(b, d) \<in> set (dir_jobs files)"
    and s: "dir_state (length files) (set files) st s" and parts: "parts_ok files (part_of args f)"
  shows "pl_act (dir_pool A D psi args f) a b d s = (Inr (a, b, None),
      (sync_block_status b PROCESSED (Some (orig b)) (Some (join b)) (sync_block_status b PROCSSING None None (fst s)),
       (snd s)(([], part_of args f b) \<mapsto> part_text A args f res b)))"
proof -
  have b: "b < length files" "d = Some (PathBlock (OnePath (files ! b)))" using job by (auto simp: dir_jobs_def)
  have same: "snd s ([], files ! b) = st ([], files ! b)" using s nth_mem [OF b(1)] unfolding dir_state_def by blast
  have "path_result A D psi (make_actor args DirectoryT a) (ap_csv_delimiter args) (snd s) b (files ! b) =
      path_result A D psi (make_actor args DirectoryT 0) (ap_csv_delimiter args) st b (files ! b)"
    unfolding path_result_store [of "snd s" "files ! b" st, OF same] by (rule path_result_actor)
  also have "\<dots> = Inr (orig b, join b, res b)" using res b(1) unfolding dir_results_def by blast
  finally have result: "path_result A D psi (make_actor args DirectoryT a) (ap_csv_delimiter args) (snd s) b (files ! b) = Inr (orig b, join b, res b)" .
  have "text_format (part_of args f b)" "infer_protocol (part_of args f b) = ''nfs''" using parts b(1) unfolding parts_ok_def by blast+
  from path_action [OF _ result this, of "fst s"] show ?thesis by (simp add: app_pool_def b(2))
qed

lemma dir_job_done:
  assumes "dir_results A D psi args st files orig join res" "(b, d) \<in> set (dir_jobs files)" "dir_state (length files) (set files) st s"
    and "parts_ok files (part_of args f)"
  shows "\<exists>s'. pl_act (dir_pool A D psi args f) a b d s = (Inr (a, b, None), s') \<and>
    part_done (length files) orig join (part_of args f) (part_text A args f res) b None s' \<and> dir_state (length files) (set files) st s'"
proof -
  have b: "b < length files" using assms(2) by (auto simp: dir_jobs_def)
  then have "part_of args f b \<notin> set files" using assms(4) unfolding parts_ok_def by blast
  with dir_job_act [OF assms, of a] b assms(3) show ?thesis
    by (auto simp: part_done_def dir_state_def sync_status_nth)
qed

lemma dir_job_keep:
  assumes "dir_results A D psi args st files orig join res" "(b, d) \<in> set (dir_jobs files)" "dir_state (length files) (set files) st s"
    and "parts_ok files (part_of args f)" "pl_act (dir_pool A D psi args f) a b d s = (Inr r, s')"
    and "part_done (length files) orig join (part_of args f) (part_text A args f res) b' out s" "b \<noteq> b'"
  shows "part_done (length files) orig join (part_of args f) (part_text A args f res) b' out s'"
proof -
  have "s' = (sync_block_status b PROCESSED (Some (orig b)) (Some (join b)) (sync_block_status b PROCSSING None None (fst s)),
       (snd s)(([], part_of args f b) \<mapsto> part_text A args f res b))"
    using dir_job_act [OF assms(1-4), of a] assms(5) by simp
  then have s': "snd s' = (snd s)(([], part_of args f b) \<mapsto> part_text A args f res b)"
    "dp_data_status (fst s') = (dp_data_status (fst s))[b := (PROCSSING, None, None), b := (PROCESSED, Some (orig b), Some (join b))]"
    by (simp_all only: fst_conv snd_conv sync_status_nth)
  have "([], part_of args f b') \<noteq> (([], part_of args f b) :: string \<times> string)" using assms(7) by (simp add: output_part_inject)
  then have "snd s' ([], part_of args f b') = snd s ([], part_of args f b')" unfolding s'(1) by (rule fun_upd_other)
  with assms(6,7) s'(2) show ?thesis by (simp only: part_done_def length_list_update nth_list_update_neq not_False_eq_True)
qed

lemma next_keeps_dir:
  assumes "dir_state n inputs st s" "next_block s = (r, s')"
  shows "dir_state n inputs st s'"
proof -
  obtain dp st1 where s: "s = (dp, st1)" by fastforce
  obtain dp' where s': "get_next_unprocessed_data_and_use dp = (r, dp')" "s' = (dp', st1)"
    using assms(2) unfolding s by (rule next_blockE)
  with next_keeps_fields [of dp r dp'] assms(1) show ?thesis by (simp add: dir_state_def s)
qed

lemma part_done_next:
  assumes "part_done n orig join part content b out s" "dispatch_ok (fst s)" "next_block s = (r, s')"
  shows "part_done n orig join part content b out s'"
proof -
  obtain dp st1 where s: "s = (dp, st1)" by fastforce
  obtain dp' where s': "get_next_unprocessed_data_and_use dp = (r, dp')" "s' = (dp', st1)"
    using assms(3) unfolding s by (rule next_blockE)
  have "dp_data_status dp' ! b = dp_data_status dp ! b"
    using next_cases [of dp] assms(1,2) s'(1) by (auto simp: s part_done_def nth_list_update)
  with assms(1) next_keeps_fields [OF s'(1)] show ?thesis by (simp add: part_done_def s s'(2))
qed

lemma dir_wait:
  fixes A :: "'t arrow"
  assumes res: "dir_results A D psi args st files orig join res" and parts: "parts_ok files (part_of args f)"
    and jb: "dispatch_ok (fst (jb_state jb))" "dir_state (length files) (set files) st (jb_state jb)" "app.aligned jb" "jb_refs jb \<noteq> []"
      "app.jobs_left jb = dir_jobs files" "length (jb_outputs jb) = length files"
    and js: "length js = length files"
  shows "\<exists>jb'. wait_loop (dir_pool A D psi args f) False js jb = (Inr True, jb') \<and>
     (\<forall>b < length files. part_done (length files) orig join (part_of args f) (part_text A args f res) b None (jb_state jb'))"
proof -
  let ?Q = "part_done (length files) orig join (part_of args f) (part_text A args f res)" and ?I = "dir_state (length files) (set files) st"
  have "\<exists>jb'. wait_loop (dir_pool A D psi args f) False js jb = (Inr True, jb') \<and>
     (dispatch_ok (fst (jb_state jb')) \<and> (\<forall>a. ac_actor_index (make_actor args DirectoryT a) = a)) \<and>
     ?I (jb_state jb') \<and> length (jb_outputs jb') = length (jb_outputs jb) \<and>
     (\<forall>b \<in> fst ` set (app.jobs_left jb). \<exists>out. ?Q b out (jb_state jb') \<and> (False \<and> out \<noteq> None \<longrightarrow> jb_outputs jb' ! b = out)) \<and>
     (\<forall>b out. b \<notin> fst ` set (app.jobs_left jb) \<and> ?Q b out (jb_state jb) \<longrightarrow> ?Q b out (jb_state jb')) \<and>
     (\<forall>b. b \<notin> fst ` set (app.jobs_left jb) \<longrightarrow> jb_outputs jb' ! b = jb_outputs jb ! b) \<and>
     (\<exists>b s. ?Q b (jb_completed jb') s)"
  proof (rule app.wait_loop_all [where J = "set (dir_jobs files)"], goal_cases)
    case (1 a b d s)
    from dir_job_done [OF res 1(1,3) parts, of a] show ?case by blast
  next
    case (2 a b d s r s' b' out')
    from dir_job_keep [OF res 2(1,3) parts 2(6,4,5)] show ?case .
  next
    case (3 s r s' b out)
    then show ?case using part_done_next by (simp add: app_pool_def)
  next
    case (4 s r s')
    then show ?case using next_keeps_dir by (simp add: app_pool_def)
  qed (use jb js in simp_all)
  then obtain jb' where run: "wait_loop (dir_pool A D psi args f) False js jb = (Inr True, jb')"
    "\<forall>b < length files. \<exists>out. ?Q b out (jb_state jb')"
    using jb(5) by auto
  have "?Q b None (jb_state jb')" if "b < length files" for b
  proof -
    from run(2) that obtain out where "?Q b out (jb_state jb')" by blast
    then show ?thesis by (simp add: part_done_def)
  qed
  with run(1) show ?thesis by blast
qed

lemma dir_start:
  fixes A :: "'t arrow" and dp :: "'t block_dispatch_actor"
  assumes dp: "dp_data_type dp = DirectoryT" "dp_data_status dp = replicate (length files) (INIT, None, None)"
      "dp_data_paths dp = map OnePath files"
    and k: "0 < k" "k \<le> length files"
  obtains jb where "start_jobs (dir_pool A D psi args f) [0..<k] (start_state (dp, st) (length files)) = (Inr (), jb)"
    "dispatch_ok (fst (jb_state jb))" "dir_state (length files) (set files) st (jb_state jb)"
    "app.aligned jb" "jb_refs jb \<noteq> []" "app.jobs_left jb = dir_jobs files" "length (jb_outputs jb) = length files"
proof -
  let ?jb0 = "start_state (dp, st) (length files)" and ?M = "dir_pool A D psi args f"
  let ?I = "dir_state (length files) (set files) st :: 't app_state \<Rightarrow> bool"
  have left: "blocks_left dp = dir_jobs files" "dispatch_ok dp"
    using dp by (auto simp: blocks_left_def block_datum_def dispatch_ok_def is_data_single_file_def filter_id_conv dir_jobs_def)
  obtain s where start: "start_jobs ?M [0..<k] ?jb0 = (Inr (), ?jb0\<lparr>jb_state := s, jb_refs := zip [0..<k] (take k (dir_jobs files))\<rparr>)"
    "dispatch_ok (fst s)" "blocks_left (fst s) = drop k (dir_jobs files)"
    using app.start_jobs_takes [where A = A and D = D and psi = psi and actors = "make_actor args DirectoryT" and data_protocol = "''nfs''"
        and data_format = f and output_dir = "ap_output_dir args" and csv_delimiter = "ap_csv_delimiter args"
        and jb = ?jb0 and ks = "[0..<k]"] left k(2)
    by (auto simp: start_state_def)
  have "?I (jb_state (snd (start_jobs ?M [0..<k] ?jb0)))"
  proof (rule start_jobs_keeps)
    show "?I s'" if "?I s" "pl_next ?M s = (r, s')" for s r s'
      using next_keeps_dir that by (simp add: app_pool_def)
  qed (simp add: start_state_def dir_state_def dp(2))
  moreover have "files \<noteq> []" using k by auto
  ultimately show thesis
    using start k
    by (intro that [of "?jb0\<lparr>jb_state := s, jb_refs := zip [0..<k] (take k (dir_jobs files))\<rparr>"])
       (simp_all add: app.jobs_left_def app.aligned_def start_state_def map_snd_zip map_fst_zip)
qed

text \<open>A directory of text files on the local file system, listed in the order of their names.\<close>

definition dir_job_ok :: "filesystem \<Rightarrow> app_args \<Rightarrow> string list \<Rightarrow> bool" where
  "dir_job_ok local args files \<longleftrightarrow>
     infer_protocol (ap_data_path args) = ''nfs'' \<and> fs_type local (ap_data_path args) = DirectoryT \<and>
     (\<forall>fi \<in> set (fs_list local (ap_data_path args) False). fi_type fi = FileT) \<and>
     files = sort (map fi_path (filter (\<lambda>fi. fi_extension fi \<in> set data_extensions) (fs_list local (ap_data_path args) False))) \<and>
     files \<noteq> [] \<and> parts_ok files (part_of args (infer_format (hd files))) \<and> 0 < ap_max_actors args \<and> ap_join_type args = PSI"

lemma listed_files:
  assumes "\<forall>fi \<in> set infos. fi_type fi = FileT"
  shows "refetch_if_has_directory hdfs local protocol (filter_data_paths [] infos True) =
    map OnePath (sort (map fi_path (filter (\<lambda>fi. fi_extension fi \<in> set data_extensions) infos)))"
proof -
  let ?P = "\<lambda>fi. if fi_type fi = FileT then fi_extension fi \<in> set data_extensions else True"
  have eq: "filter ?P infos = filter (\<lambda>fi. fi_extension fi \<in> set data_extensions) infos"
    using assms by (intro filter_cong) auto
  have types: "\<forall>e \<in> set (filter_data_paths [] infos True). snd e = FileT" using assms by (auto simp: filter_data_paths_def)
  have "map fst (filter_data_paths [] infos True) = sort (map fi_path (filter ?P infos))"
    by (intro properties_for_sort [symmetric]) (simp_all add: filter_data_paths_def image_mset.compositionality comp_def)
  moreover have "refetch_if_has_directory hdfs local protocol (filter_data_paths [] infos True) =
      map OnePath (map fst (filter_data_paths [] infos True))"
    using types by (auto simp: refetch_if_has_directory_def refetch_entry_def)
  ultimately show ?thesis by (simp only: eq)
qed

lemma init_dir_job:
  assumes "dir_job_ok local args files"
  obtains dp where "init_data hdfs local
      (init_block_dispatch_actor (ap_data_path args) (ap_with_head args) None None (ap_bucket_num args) (ap_example_id_name args)) = (Inr (), dp)"
    "dp_data_type dp = DirectoryT" "dp_data_protocol dp = Some ''nfs''" "dp_data_format dp = Some (infer_format (hd files))"
    "dp_data_paths dp = map OnePath files" "dp_data_status dp = replicate (length files) (INIT, None, None)"
proof -
  let ?infos = "fs_list local (ap_data_path args) False"
  have paths: "refetch_if_has_directory hdfs local ''nfs'' (filter_data_paths [] ?infos True) = map OnePath files"
    using listed_files [of ?infos hdfs local "''nfs''"] assms unfolding dir_job_ok_def by simp
  obtain p ps where files: "files = p # ps" using assms by (cases files) (auto simp: dir_job_ok_def)
  have "sorted files" using assms unfolding dir_job_ok_def by simp
  then have "sorted (map (\<lambda>p. [p]) files)" by (simp add: sorted_map sorted_wrt_map flip: le_less)
  then have sort: "sort_data_paths (map OnePath files) = Inr (map OnePath files)"
    by (simp add: sort_data_paths_def sort_key_id_if_sorted comp_def)
  have "infer_protocol (ap_data_path args) = ''nfs''" "fs_type local (ap_data_path args) = DirectoryT"
    using assms unfolding dir_job_ok_def by blast+
  then show thesis
    using paths sort
    by (intro that [of "init_data_status ((init_block_dispatch_actor (ap_data_path args) (ap_with_head args) None None (ap_bucket_num args)
           (ap_example_id_name args))\<lparr>dp_data_protocol := Some ''nfs'', dp_data_paths := map OnePath files, dp_data_type := DirectoryT,
           dp_data_format := Some (infer_format (hd files))\<rparr>)"])
       (simp_all add: init_data_def init_block_dispatch_actor_def prepare_data_protocol_and_format_def
          init_data_path_and_format_def init_data_path_and_format_with_locals_def files path_format_def
          init_data_status_def is_data_single_file_def Let_def)
qed

lemma run_dir_job:
  fixes A :: "'t arrow"
  assumes ok: "dir_job_ok local args files" and res: "dir_results A D psi args st files orig join res"
    and js: "length js = length files"
  shows "\<exists>dp st' result. run_app A D psi hdfs local global_role args js st = (Inr (Some result), (dp, st')) \<and>
     jr_local result = (\<Sum>b \<leftarrow> [0..<length files]. fst (orig b)) \<and> jr_join result = (\<Sum>b \<leftarrow> [0..<length files]. fst (join b)) \<and>
     (\<forall>b < length files. st' ([], part_of args (infer_format (hd files)) b) = Some (part_text A args (infer_format (hd files)) res b))"
proof -
  let ?f = "infer_format (hd files)" and ?n = "length files"
  let ?M = "dir_pool A D psi args ?f" and ?k = "adjust_max_actors args (length files)"
  obtain dp :: "'t block_dispatch_actor" where init: "init_data hdfs local
      (init_block_dispatch_actor (ap_data_path args) (ap_with_head args) None None (ap_bucket_num args) (ap_example_id_name args)) = (Inr (), dp)"
    and dp: "dp_data_type dp = DirectoryT" "dp_data_protocol dp = Some ''nfs''" "dp_data_format dp = Some ?f"
      "dp_data_paths dp = map OnePath files" "dp_data_status dp = replicate ?n (INIT, None, None)"
    by (rule init_dir_job [OF ok])
  have k: "0 < ?k" "?k \<le> ?n" using ok by (auto simp: dir_job_ok_def adjust_max_actors_def)
  obtain jb where start: "start_jobs ?M [0..<?k] (start_state (dp, st) ?n) = (Inr (), jb)" "dispatch_ok (fst (jb_state jb))"
    "dir_state ?n (set files) st (jb_state jb)" "app.aligned jb" "jb_refs jb \<noteq> []" "app.jobs_left jb = dir_jobs files" "length (jb_outputs jb) = ?n"
    by (rule dir_start [OF dp(1,5,4) k])
  have parts: "parts_ok files (part_of args ?f)" using ok unfolding dir_job_ok_def by blast
  obtain jb' where loop: "wait_loop ?M False js jb = (Inr True, jb')"
    "\<forall>b < ?n. part_done ?n orig join (part_of args ?f) (part_text A args (infer_format (hd files)) res) b None (jb_state jb')"
    using dir_wait [OF res parts start(2-7) js] by (elim exE conjE)
  obtain dp' st' where jb': "jb_state jb' = (dp', st')" by fastforce
  have "0 < ?n" using k by linarith
  then have "length (dp_data_status dp') = ?n" using loop(2) by (auto simp: part_done_def jb')
  then have status: "dp_data_status dp' = map (\<lambda>b. (PROCESSED, Some (orig b), Some (join b))) [0..<?n]"
    using loop(2) by (intro nth_equalityI) (simp_all add: part_done_def jb')
  have "run_app A D psi hdfs local global_role args js st = finish_app A global_role args DirectoryT jb'"
    using init dp start(1) loop(1) by (simp add: run_app_def run_jobs_def Let_def prepare_blocks_def get_data_block_count_def)
  moreover have "\<exists>result. finish_app A global_role args DirectoryT jb' = (Inr (Some result), (dp', st')) \<and>
      jr_local result = fst (fst (get_results dp')) \<and> jr_join result = fst (snd (get_results dp'))"
    using ok by (simp add: finish_app_def jb' generate_result_def dir_job_ok_def split: prod.split)
  moreover have "\<forall>b < ?n. st' ([], part_of args ?f b) = Some (part_text A args (infer_format (hd files)) res b)" using loop(2) by (simp add: part_done_def jb')
  ultimately show ?thesis using get_results_processed [OF status] by auto
qed

subsection \<open>What a part holds\<close>

text \<open>File \<open>path\<close> is read as the table \<open>t\<close> with the ids \<open>ids\<close>, whose hashes are \<open>hs\<close>.\<close>

definition path_input ::
  "'t arrow \<Rightarrow> digests \<Rightarrow> ('t \<Rightarrow> columns) \<Rightarrow> ('t \<Rightarrow> bool) \<Rightarrow> app_args \<Rightarrow> file_store \<Rightarrow> string \<Rightarrow> 't \<Rightarrow> pyval list \<Rightarrow> bytes list \<Rightarrow> bool" where
  "path_input A D cols good args st path t ids hs \<longleftrightarrow>
     read_data_from_file A path (ap_with_head args) (ap_csv_delimiter args) st = Inr t \<and> good t \<and>
     (\<exists>idn. id_name (ap_example_id_name args) (cols t) = Some idn \<and> map_of (cols t) idn = Some ids) \<and> hash_ids D ids = Inr hs \<and> one_array hs \<and>
     STATIC_HASHED_MOD_VALUE_COLUMN_NAMES \<notin> fst ` set (cols t) \<and> STATIC_HASHED_VALUE_COLUMN_NAMES \<notin> fst ` set (cols t)"

lemma law_column:
  assumes "table_laws A cols good" "good t" "map_of (cols t) n = Some vs"
  shows "ar_column A t n = Inr vs" "length vs = ar_num_rows A t"
  using assms by (force simp: table_laws_def column_laws_def dest: map_of_SomeD)+

lemma finish_read_path:
  assumes laws: "table_laws A cols good" and t: "good t" "map_of (cols t) idn = Some ids" "hash_ids D ids = Inr hs"
    and size: "one_array hs"
    and names: "STATIC_HASHED_MOD_VALUE_COLUMN_NAMES \<notin> fst ` set (cols t)" "STATIC_HASHED_VALUE_COLUMN_NAMES \<notin> fst ` set (cols t)"
  obtains t' where "finish_read A D idn t = Inr (ar_combine_chunks A t', idn)" "good t'"
    "cols t' = (STATIC_HASHED_VALUE_COLUMN_NAMES, map VBytes hs) # cols t"
proof -
  note col = law_column [OF laws t(1,2)]
  have len: "length (map VBytes hs) = ar_num_rows A t" using get_hash_length [OF t(3)] col(2) by simp
  obtain t' where t': "ar_add_column0 A t STATIC_HASHED_VALUE_COLUMN_NAMES (map VBytes hs) = Inr t'" "good t'"
    "cols t' = (STATIC_HASHED_VALUE_COLUMN_NAMES, map VBytes hs) # cols t"
    by (rule law_add [OF laws t(1) len _ names(2)]) (use size in \<open>auto simp: typed_values_def\<close>)
  have "ids \<noteq> []" using t(3) by (auto simp: hash_ids_def)
  then have "0 < ar_num_rows A t" "cols t \<noteq> []" using col(2) t(2) by (auto simp: col(2) [symmetric])
  with names t' col(1) t(3) law_names [OF laws t(1)] law_names [OF laws t'(2)] reserved_names(1) show thesis
    by (intro that [of t']) (auto simp: finish_read_def has_column_by_name_def add_hash_column_def)
qed

lemma path_rows:
  assumes laws: "table_laws A cols good" and inp: "path_input A D cols good args st path t ids hs" and PSI: "ap_join_type args = PSI"
    and psi: "psi_keeps A cols good psi (ap_role_type args) (ap_app_id args @ ''_'' @ str_of_nat b) peer"
  obtains orig join res where
    "path_result A D psi (make_actor args DirectoryT 0) (ap_csv_delimiter args) st b path = Inr (orig, join, res)"
    "fst orig = length ids" "fst join = length (kept_rows hs peer [0..<length ids])" "cols res = take_cols (cols t) (kept_rows hs peer [0..<length ids])"
proof -
  let ?ac = "make_actor args DirectoryT 0"
  note I = inp [unfolded path_input_def]
  from I obtain idn where idn: "id_name (ap_example_id_name args) (cols t) = Some idn" "map_of (cols t) idn = Some ids" by blast
  have t: "good t" "hash_ids D ids = Inr hs" "length hs = length ids" "one_array hs" using I get_hash_length by auto
  obtain t1 where t1: "convert_string_to_large_string A t = Inr t1" "good t1" "cols t1 = cols t" by (rule convert_keeps [OF laws t(1)])
  obtain t2 where t2: "finish_read A D idn t1 = Inr (ar_combine_chunks A t2, idn)" "good t2"
    "cols t2 = (STATIC_HASHED_VALUE_COLUMN_NAMES, map VBytes hs) # cols t"
    by (rule finish_read_path [OF laws t1(2) _ t(2,4)]) (use idn(2) I t1(3) in auto)
  have read: "read_block_data A D ?ac ''nfs'' (ap_csv_delimiter args) (Some (PathBlock (OnePath path))) st = Inr (ar_combine_chunks A t2, idn)"
    using I actual_id_name [OF laws t(1) idn(1)] t1(1) t2(1) by (simp add: read_block_data_def read_one_def)
  obtain orig join out where out: "process_block A psi ?ac b (ar_combine_chunks A t2, idn) = Inr (orig, join, out)"
    "fst orig = length hs" "fst join = length (filter (\<lambda>h. h \<in> peer) hs)" "good out"
    "cols out = take_cols (cols t2) (filter (\<lambda>i. hs ! i \<in> peer) [0..<length hs])"
    by (rule process_hashed [OF laws t2(2,3), of ?ac psi b peer idn]) (use PSI psi in \<open>simp_all add: task_id_def\<close>)
  have "STATIC_HASHED_VALUE_COLUMN_NAMES \<in> fst ` set (cols out)" using out(5) t2(3) by simp
  then obtain res where res: "ar_drop A out [STATIC_HASHED_VALUE_COLUMN_NAMES] = Inr res" "good res"
    "cols res = filter (\<lambda>c. fst c \<noteq> STATIC_HASHED_VALUE_COLUMN_NAMES) (cols out)" 
    by (rule law_drop [OF laws out(4)]) (use out(5) t2(3) I law_some [OF laws t(1)] in \<open>simp add: take_cols_filter filter_other_name\<close>)
  have "cols res = take_cols (cols t) (kept_rows hs peer [0..<length ids])"
    using res(3) out(5) t2(3) t(3) I by (simp add: take_cols_filter filter_other_name kept_rows_def)
  moreover have "length (filter (\<lambda>h. h \<in> peer) hs) = length (kept_rows hs peer [0..<length ids])"
    using positions_of_filter [of hs "\<lambda>h. h \<in> peer"] t(3) unfolding kept_rows_def by (metis length_map)
  ultimately show thesis using read out res(1) t(3) by (intro that) (simp_all add: path_result_def)
qed

end
