(* ===== verification/Sample_Tables.thy ===== *)
theory Sample_Tables
  imports Psi_Partition
begin

section \<open>A concrete table library\<close>

text \<open>Tables as lists of columns: an instance of \<open>arrow\<close> that meets \<open>table_laws\<close>.\<close>

definition list_rows :: "columns \<Rightarrow> nat" where
  "list_rows t = (case t of [] \<Rightarrow> 0 | c # _ \<Rightarrow> length (snd c))"

definition list_good :: "columns \<Rightarrow> bool" where
  "list_good t \<longleftrightarrow> t \<noteq> [] \<and> distinct (map fst t) \<and> (\<forall>c \<in> set t. length (snd c) = list_rows t)"

definition octets_of :: "pyval \<Rightarrow> bytes" where
  "octets_of v = (case v of VBytes b \<Rightarrow> b | VStr s \<Rightarrow> s | _ \<Rightarrow> [])"

definition int_of :: "pyval \<Rightarrow> int" where
  "int_of v = (case v of VInt k \<Rightarrow> k | _ \<Rightarrow> 0)"

definition list_sort :: "columns \<Rightarrow> string \<Rightarrow> int list \<Rightarrow> exn + columns list" where
  "list_sort t key boundaries =
     (case map_of t key of
        None \<Rightarrow> Inl KeyError
      | Some vs \<Rightarrow> Inr (map (\<lambda>b. let ps = filter (\<lambda>i. key_block boundaries (int_of (vs ! i)) = b) [0..<length vs]
          in if ps = [] then [] else take_cols t ps) [0..<length boundaries + 1]))"

definition list_csv :: "bool \<Rightarrow> string \<Rightarrow> columns \<Rightarrow> bytes" where
  "list_csv h d t = (if h then concat (map (\<lambda>c. fst c @ d) t) else []) @
     concat (map (\<lambda>i. concat (map (\<lambda>c. octets_of (snd c ! i) @ d) t)) [0..<list_rows t])"

definition list_arrow :: "columns \<Rightarrow> columns arrow" where
  "list_arrow input =
     \<lparr>ar_column_names = map fst, ar_num_rows = list_rows,
      ar_column = (\<lambda>t n. case map_of t n of None \<Rightarrow> Inl KeyError | Some vs \<Rightarrow> Inr vs),
      ar_column0 = (\<lambda>t. case t of [] \<Rightarrow> [] | c # _ \<Rightarrow> map octets_of (snd c)),
      ar_take = take_cols,
      ar_null_count = (\<lambda>t n. case map_of t n of None \<Rightarrow> 0 | Some vs \<Rightarrow> length (filter (\<lambda>v. v = VNone) vs)),
      ar_int16 = (\<lambda>vs. if \<forall>v \<in> set vs. - 32768 \<le> v \<and> v \<le> 32767 then Inr (map VInt vs) else Inl ValueError),
      ar_add_column0 = (\<lambda>t n vs. if length vs = list_rows t \<and> n \<notin> fst ` set t then Inr ((n, vs) # t) else Inl ValueError),
      ar_drop = (\<lambda>t ns. if set ns \<subseteq> fst ` set t then Inr (filter (\<lambda>c. fst c \<notin> set ns) t) else Inl KeyError),
      ar_schema = map (\<lambda>c. (fst c, ''string'')),
      ar_cast = (\<lambda>t sch. if sch = map (\<lambda>c. (fst c, ''large_string'')) t then Inr t else Inl ValueError),
      ar_combine_chunks = (\<lambda>t. t), ar_to_batches = (\<lambda>t. if list_rows t = 0 then [] else [t]),
      ar_slice00 = (\<lambda>t. take_cols t []), ar_from_pydict_empty = map (\<lambda>c. (fst c, [])),
      ar_from_batches = (\<lambda>ts. case ts of [t] \<Rightarrow> Inr t | _ \<Rightarrow> Inl ValueError),
      ar_concat_tables = (\<lambda>ts. case ts of [t] \<Rightarrow> Inr t | _ \<Rightarrow> Inl ValueError),
      ar_write_csv = list_csv, ar_write_parquet = (\<lambda>_. list_csv True []),
      ar_read_csv = (\<lambda>_ _. Inr input), ar_unpack = (\<lambda>_. Inr), ar_pack = (\<lambda>_ b. b), ar_read_parquet = (\<lambda>_. Inr input),
      ar_validate_key = (\<lambda>ts k. case (ts, k) of ([t], Inl n) \<Rightarrow> if n \<in> fst ` set t then Inr () else Inl ValueError | _ \<Rightarrow> Inl ValueError),
      ar_simple_sort = (\<lambda>bs key _ ts _. case (ts, key) of ([t], [(k, _)]) \<Rightarrow> list_sort t k bs | _ \<Rightarrow> Inl ValueError)\<rparr>"

lemma list_rows_take: "t \<noteq> [] \<Longrightarrow> list_rows (take_cols t ps) = length ps"
  by (cases t) (auto simp: list_rows_def take_cols_def split: prod.split)

lemma list_good_iff: "list_good t \<longleftrightarrow> t \<noteq> [] \<and> distinct (map fst t) \<and> (\<exists>k. \<forall>c \<in> set t. length (snd c) = k)"
  by (cases t) (auto simp: list_good_def list_rows_def)

lemma list_good_take: "list_good t \<Longrightarrow> list_good (take_cols t ps)"
  unfolding list_good_iff by (auto simp: take_cols_def comp_def case_prod_unfold)

lemma list_good_filter: "list_good t \<Longrightarrow> filter P t \<noteq> [] \<Longrightarrow> list_good (filter P t)"
  unfolding list_good_iff by (metis distinct_map_filter filter_is_subset subsetD)

lemma octets_of_bytes [simp]: "octets_of \<circ> VBytes = (\<lambda>b. b)"
  by (simp add: fun_eq_iff octets_of_def)

lemma list_column_laws: "column_laws (list_arrow input) (\<lambda>t. t) list_good"
  by (auto simp: column_laws_def list_arrow_def list_good_def split: list.split)

lemma list_edit_laws: "edit_laws (list_arrow input) (\<lambda>t. t) list_good"
  by (auto simp: edit_laws_def list_arrow_def list_good_take list_good_filter comp_def large_types_def)
     (simp add: list_good_def list_rows_def)

lemma list_batch_laws: "batch_laws (list_arrow input) (\<lambda>t. t) list_good"
proof -
  have "map (\<lambda>c. (fst c, [])) (map (\<lambda>c. (fst c, ''string'')) t) = take_cols t []" for t :: columns
    by (simp add: take_cols_def case_prod_unfold)
  then show ?thesis by (simp add: batch_laws_def list_arrow_def list_good_take)
qed

definition list_part :: "int list \<Rightarrow> int list \<Rightarrow> nat \<Rightarrow> nat list" where
  "list_part boundaries ks b = filter (\<lambda>i. key_block boundaries (ks ! i) = b) [0..<length ks]"

definition list_block :: "columns \<Rightarrow> int list \<Rightarrow> int list \<Rightarrow> nat \<Rightarrow> columns" where
  "list_block t boundaries ks b = (let ps = list_part boundaries ks b in if ps = [] then [] else take_cols t ps)"

lemma list_sort_ints:
  assumes "map_of t key = Some (map VInt ks)"
  shows "list_sort t key boundaries = Inr (map (list_block t boundaries ks) [0..<length boundaries + 1])"
proof -
  have "filter (\<lambda>i. key_block boundaries (int_of (map VInt ks ! i)) = b) [0..<length ks] = list_part boundaries ks b" for b
    unfolding list_part_def by (intro filter_cong) (auto simp: int_of_def)
  with assms show ?thesis by (simp add: list_sort_def list_block_def [abs_def] Let_def)
qed

lemma list_sort_laws: "sort_laws (list_arrow input) (\<lambda>t. t) list_good"
proof -
  have block: "\<exists>ps. distinct ps \<and> set ps = {i. i < length ks \<and> key_block bs (ks ! i) = b} \<and>
      (if ps = [] then list_rows (list_block t bs ks b) = 0 else list_good (list_block t bs ks b) \<and> list_block t bs ks b = take_cols t ps)"
    if "list_good t" for t :: columns and bs ks b
    by (rule exI [of _ "list_part bs ks b"])
       (use that in \<open>auto simp: list_part_def list_block_def Let_def list_rows_def list_good_take\<close>)
  show ?thesis
    unfolding sort_laws_def
  proof (intro allI impI conjI)
    fix t :: columns and key ks bs
    assume t: "list_good t" "map_of t key = Some (map VInt ks)"
    then show "ar_validate_key (list_arrow input) [t] (Inl key) = Inr ()"
      by (force simp: list_arrow_def dest: map_of_SomeD)
    show "\<exists>blocks. ar_simple_sort (list_arrow input) bs [(key, ''ascending'')] False [t] (length bs + 1) = Inr blocks \<and>
        length blocks = length bs + 1 \<and>
        (\<forall>b < length blocks. \<exists>ps. distinct ps \<and> set ps = {i. i < length ks \<and> key_block bs (ks ! i) = b} \<and>
           (if ps = [] then ar_num_rows (list_arrow input) (blocks ! b) = 0 else list_good (blocks ! b) \<and> blocks ! b = take_cols t ps))"
      by (rule exI [of _ "map (list_block t bs ks) [0..<length bs + 1]"])
         (use block [OF t(1), of ks bs] in \<open>simp add: list_arrow_def list_sort_ints [OF t(2)] del: upt_Suc split del: if_split cong: if_cong\<close>)
  qed
qed

lemma list_table_laws: "table_laws (list_arrow input) (\<lambda>t. t) list_good"
  using list_column_laws list_edit_laws list_batch_laws list_sort_laws
  by (auto simp: table_laws_def int16_law_def list_arrow_def)

end
