(* ===== verification/Psi_Job_Properties.thy ===== *)
theory Psi_Job_Properties
  imports Sample_Tables
begin

section \<open>Properties of the intersection job\<close>

subsection \<open>The hashes of a column of ids\<close>

lemma from_bytes_snoc: "from_bytes (b @ [c]) = from_bytes b * 256 + of_char c"
  by (simp add: from_bytes_def)

lemma from_big_endian: "from_bytes (big_endian k n) = n mod 256 ^ k"
proof (induction k arbitrary: n)
  case (Suc k)
  have "from_bytes (big_endian (Suc k) n) = (n div 256 mod 256 ^ k) * 256 + n mod 256"
    using Suc by (simp add: from_bytes_snoc)
  also have "\<dots> = n mod (256 * 256 ^ k)" by (simp add: mod_mult2_eq)
  finally show ?case by simp
qed (simp add: from_bytes_def)

text \<open>The octets whose digest stands for an id; a missing id has none.\<close>

fun id_octets :: "digests \<Rightarrow> pyval \<Rightarrow> bytes option" where
  "id_octets D (VStr s) = Some s"
| "id_octets D (VInt x) = (case to_bytes8 x of Inl _ \<Rightarrow> None | Inr b \<Rightarrow> Some b)"
| "id_octets D (VBytes b) = Some b"
| "id_octets D (VFloat x) = (case dg_pack_f D x of Inl _ \<Rightarrow> None | Inr b \<Rightarrow> Some b)"
| "id_octets D VNone = None"

lemma integer_octets:
  "id_octets D (VInt x) = (if 0 \<le> x \<and> x < 2 ^ 64 then Some (big_endian 8 (nat x)) else None)"
  by (simp add: to_bytes8_def)

lemma integer_octets_inject: "id_octets D (VInt x) = Some b \<Longrightarrow> id_octets D (VInt y) = Some b \<Longrightarrow> x = y"
  by (auto simp: integer_octets from_big_endian nat_less_iff simp del: id_octets.simps split: if_splits
      dest!: arg_cong [of _ _ from_bytes])

lemma hash_kind:
  assumes "hash_type v = Inr ty" "\<forall>w \<in> set ws. w = VNone \<or> hash_type w = Inr ty"
  shows "get_hash D ws ty = Inr hs \<longleftrightarrow> (\<exists>bs. map (id_octets D) ws = map Some bs \<and> hs = map (dg_blake2b16 D) bs)"
proof -
  define f where "f = (if ty = ''str'' then hash_str D else if ty = ''int'' then hash_int D else if ty = ''bytes'' then hash_bytes D else hash_float D)"
  have ty: "ty \<in> {''str'', ''int'', ''bytes'', ''float''}" using assms(1) by (cases v) auto
  then have "get_hash D ws ty = map_sum_list f ws" by (auto simp: get_hash_def f_def)
  then have "get_hash D ws ty = Inr hs \<longleftrightarrow> map f ws = map Inr hs" by (simp add: map_sum_list_Inr)
  moreover have "f w = Inr h \<longleftrightarrow> (\<exists>b. id_octets D w = Some b \<and> h = dg_blake2b16 D b)" if "w = VNone \<or> hash_type w = Inr ty" for w h
    using that ty by (cases w) (auto simp: f_def hash16_def split: sum.splits)
  ultimately have one: "get_hash D ws ty = Inr hs \<longleftrightarrow> map f ws = map Inr hs"
    "\<And>w h. w \<in> set ws \<Longrightarrow> f w = Inr h \<longleftrightarrow> (\<exists>b. id_octets D w = Some b \<and> h = dg_blake2b16 D b)" using assms(2) by blast+
  have "map f xs = map Inr hs \<longleftrightarrow> (\<exists>bs. map (id_octets D) xs = map Some bs \<and> hs = map (dg_blake2b16 D) bs)" if "set xs \<subseteq> set ws" for xs hs
    using that
  proof (induction xs arbitrary: hs)
    case (Cons x xs)
    then have "map f xs = map Inr zs \<longleftrightarrow> (\<exists>bs. map (id_octets D) xs = map Some bs \<and> zs = map (dg_blake2b16 D) bs)" for zs by simp
    moreover have "f x = Inr h \<longleftrightarrow> (\<exists>b. id_octets D x = Some b \<and> h = dg_blake2b16 D b)" for h using one(2) Cons.prems by simp
    ultimately show ?case by (cases hs) (auto simp: Cons_eq_map_conv map_eq_Cons_conv)
  qed auto
  then show ?thesis using one(1) by blast
qed

text \<open>
  C32. The hashes of a column of ids, whose values are of one type or missing: they are the digests of the octets of
  its values, and hashing fails exactly when the column is empty, an id is missing, a double cannot be packed or
  an integer is not below \<open>2 ^ 64\<close> and not negative. Different integers that can be hashed have different octets, so no two
  of them are confused before the digest.
\<close>

theorem ids_hash_by_content:
  assumes "\<forall>v \<in> set ids. v = VNone \<or> hash_type v = hash_type (hd ids)"
  shows "(hash_ids D ids = Inr hs \<longleftrightarrow>
       ids \<noteq> [] \<and> (\<exists>bs. map (id_octets D) ids = map Some bs \<and> hs = map (dg_blake2b16 D) bs)) \<and>
     (\<forall>x. id_octets D (VInt x) \<noteq> None \<longleftrightarrow> 0 \<le> x \<and> x < 2 ^ 64) \<and>
     (\<forall>x y b. id_octets D (VInt x) = Some b \<and> id_octets D (VInt y) = Some b \<longrightarrow> x = y)"
proof (intro conjI allI impI)
  show "hash_ids D ids = Inr hs \<longleftrightarrow> ids \<noteq> [] \<and> (\<exists>bs. map (id_octets D) ids = map Some bs \<and> hs = map (dg_blake2b16 D) bs)"
  proof (cases ids)
    case (Cons v vs)
    show ?thesis
    proof (cases "hash_type v")
      case (Inl e)
      then have "v = VNone" by (cases v) auto
      then show ?thesis by (auto simp: Cons hash_ids_def Cons_eq_map_conv)
    next
      case (Inr ty)
      with hash_kind [OF Inr, of ids D hs] assms show ?thesis by (simp add: Cons hash_ids_def)
    qed
  qed (simp add: hash_ids_def)
qed (use integer_octets integer_octets_inject in \<open>auto simp del: id_octets.simps\<close>)

theorem ids_hash_by_content_witness:
  "\<forall>D hs. hash_ids D [VInt 7, VNone] \<noteq> Inr hs \<and> hash_ids D [VInt 7, VInt (2 ^ 64)] \<noteq> Inr hs"
proof (intro allI conjI)
  fix D hs
  have "\<forall>v \<in> set [VInt 7, VNone]. v = VNone \<or> hash_type v = hash_type (hd [VInt 7, VNone])" by simp
  from ids_hash_by_content [OF this] show "hash_ids D [VInt 7, VNone] \<noteq> Inr hs" by (auto simp: Cons_eq_map_conv)
  have "\<forall>v \<in> set [VInt 7, VInt (2 ^ 64)]. v = VNone \<or> hash_type v = hash_type (hd [VInt 7, VInt (2 ^ 64)])" by simp
  from ids_hash_by_content [OF this] show "hash_ids D [VInt 7, VInt (2 ^ 64)] \<noteq> Inr hs" by (auto simp: Cons_eq_map_conv to_bytes8_def)
qed

subsection \<open>A job over one file\<close>

lemma file_job_rows:
  assumes "table_laws A cols good" "file_job_ok local args" "hashed_input A D cols good args st t ids hs"
    and "hash_ids D pids = Inr phs" "no_collision hs ids phs pids" "peer_answers A cols good psi args phs"
    and "length js = nat (ap_bucket_num args)"
  shows "\<exists>result dp outs pss. run_app A D psi hdfs local global_role args js st =
      (Inr (Some result), (dp, st(([], ap_output_dir args) \<mapsto> joined_file A (ap_output_dir args) (ap_with_head args) (ap_csv_delimiter args) outs))) \<and>
     length outs = length pss \<and>
     (\<forall>b < length pss. cols (outs ! b) = (if pss ! b = [] then take_cols ((STATIC_HASHED_MOD_VALUE_COLUMN_NAMES, []) # cols t) []
        else take_cols (cols t) (filter (\<lambda>i. ids ! i \<in> set pids) (pss ! b)))) \<and>
     mset (concat (map (filter (\<lambda>i. ids ! i \<in> set pids)) pss)) = mset (filter (\<lambda>i. ids ! i \<in> set pids) [0..<length ids]) \<and>
     jr_local result = length ids \<and> jr_join result = length (filter (\<lambda>i. ids ! i \<in> set pids) [0..<length ids])"
proof -
  let ?P = "\<lambda>i. hs ! i \<in> set phs" and ?Q = "\<lambda>i. ids ! i \<in> set pids"
  have hids: "hash_ids D ids = Inr hs" using assms(3) by (simp add: hashed_input_def)
  have PQ: "filter ?P ps = filter ?Q ps" if "set ps \<subseteq> {..<length ids}" for ps
    using hash_member [OF hids assms(4,5)] that by (intro filter_cong) auto
  obtain result dp outs pss where R: "run_app A D psi hdfs local global_role args js st =
      (Inr (Some result), (dp, st(([], ap_output_dir args) \<mapsto> joined_file A (ap_output_dir args) (ap_with_head args) (ap_csv_delimiter args) outs)))"
    "length outs = length pss" "\<forall>ps \<in> set pss. set ps \<subseteq> {..<length ids}"
    "\<forall>b < length pss. cols (outs ! b) = (if pss ! b = [] then take_cols ((STATIC_HASHED_MOD_VALUE_COLUMN_NAMES, []) # cols t) []
        else take_cols (cols t) (filter ?P (pss ! b)))"
    "mset (concat (map (filter ?P) pss)) = mset (filter ?P [0..<length ids])"
    "jr_local result = length ids" "jr_join result = length (filter ?P [0..<length ids])"
    using file_job_intersection [OF assms(1-3,6,7), of hdfs global_role] by (elim exE conjE)
  have all: "filter ?P [0..<length ids] = filter ?Q [0..<length ids]" by (rule PQ) auto
  have blocks: "map (filter ?P) pss = map (filter ?Q) pss" using PQ R(3) by simp
  have outs: "cols (outs ! b) = (if pss ! b = [] then take_cols ((STATIC_HASHED_MOD_VALUE_COLUMN_NAMES, []) # cols t) []
        else take_cols (cols t) (filter ?Q (pss ! b)))" if "b < length pss" for b
    using R(4) PQ [of "pss ! b"] R(3) that by simp
  show ?thesis
    by (rule exI [of _ result], rule exI [of _ dp], rule exI [of _ outs], rule exI [of _ pss])
       (intro conjI allI impI R(1,2,6) outs R(5) [unfolded blocks all] R(7) [unfolded all])
qed

text \<open>
  C2. A job over a text file with at most 32768 blocks: it ends after one wait per block,
  whatever the order in which the workers finish; the output file is the text of the results of the
  blocks in order, with one header; the results hold exactly the rows whose id is among the
  peer's ids, each row once and with all its columns; the report counts the rows and
  the common rows. A block without rows contributes no row, but keeps the column of the bucket
  numbers in its header.
\<close>

theorem file_job_intersects:
  assumes "table_laws A cols good" "file_job_ok local args" "hashed_input A D cols good args st t ids hs"
    and "hash_ids D pids = Inr phs" "no_collision hs ids phs pids" "peer_answers A cols good psi args phs"
    and "length js = nat (ap_bucket_num args)"
  shows "\<exists>result dp outs pss. run_app A D psi hdfs local global_role args js st =
      (Inr (Some result), (dp, st(([], ap_output_dir args) \<mapsto> joined_file A (ap_output_dir args) (ap_with_head args) (ap_csv_delimiter args) outs))) \<and>
     length outs = length pss \<and>
     (\<forall>b < length pss. cols (outs ! b) = (if pss ! b = [] then take_cols ((STATIC_HASHED_MOD_VALUE_COLUMN_NAMES, []) # cols t) []
        else take_cols (cols t) (filter (\<lambda>i. ids ! i \<in> set pids) (pss ! b)))) \<and>
     mset (concat (map (filter (\<lambda>i. ids ! i \<in> set pids)) pss)) = mset (filter (\<lambda>i. ids ! i \<in> set pids) [0..<length ids]) \<and>
     jr_local result = length ids \<and> jr_join result = length (filter (\<lambda>i. ids ! i \<in> set pids) [0..<length ids])"
  by (rule file_job_rows [OF assms])

definition sample_input :: columns where
  "sample_input = [(''id'', [VStr ''a'', VStr ''b'', VStr ''c'']), (''x'', [VStr ''1'', VStr ''2'', VStr ''3''])]"

definition sample_digests :: digests where
  "sample_digests = \<lparr>dg_blake2b16 = (\<lambda>b. b), dg_crc32 = from_bytes, dg_pack_f = Inr\<rparr>"

definition sample_job :: app_args where
  "sample_job = \<lparr>ap_app_id = ''j'', ap_join_type = PSI, ap_data_path = ''in.csv'', ap_example_id_name = ColumnName ''id'',
     ap_with_head = True, ap_local_ip = ''0.0.0.0'', ap_local_start_port = 1, ap_remote_proxy_address = Inr 2, ap_bucket_num = 2,
     ap_role_type = RECEIVER, ap_local_domain = ''a'', ap_remote_domain = ''b'', ap_redis_addr = [], ap_redis_pwd = [], ap_output_dir = ''out.csv'', ap_max_actors = 1,
     ap_csv_delimiter = '',''\<rparr>"

definition sample_fs :: filesystem where
  "sample_fs = \<lparr>fs_type = (\<lambda>_. FileT), fs_list = (\<lambda>_ _. [])\<rparr>"

definition sample_files :: file_store where
  "sample_files = (\<lambda>_. Some [])"

definition sample_peer :: "bytes list" where
  "sample_peer = [''b'', ''c'', ''d'']"

definition sample_psi :: "columns psi_call" where
  "sample_psi role tid t = Inr (Some (take_cols t (filter (\<lambda>i. ar_column0 (list_arrow sample_input) t ! i \<in>
     peer_block 2 sample_peer (if tid = ''j_0'' then 0 else 1)) [0..<list_rows t])))"

lemma sample_job_ok: "file_job_ok sample_fs sample_job"
  by code_simp

lemma sample_peer_answers: "peer_answers (list_arrow sample_input) (\<lambda>t. t) list_good sample_psi sample_job sample_peer"
proof -
  have "str_of_nat 0 = ''0''" "str_of_nat 1 = ''1''" by code_simp+
  then show ?thesis
    by (auto simp: peer_answers_def psi_keeps_def sample_psi_def sample_job_def list_arrow_def less_2_cases_iff)
qed

lemma sample_hashed_input:
  "hashed_input (list_arrow sample_input) sample_digests (\<lambda>t. t) list_good sample_job sample_files sample_input
     [VStr ''a'', VStr ''b'', VStr ''c''] [''a'', ''b'', ''c'']"
proof -
  have "read_data_from_file (list_arrow sample_input) ''in.csv'' True '','' sample_files = Inr sample_input"
    by (simp add: read_data_from_file_def read_data_from_filesystem_def sample_files_def list_arrow_def) code_simp
  then show ?thesis
    by (simp add: hashed_input_def sample_job_def)
       (simp add: sample_input_def list_good_def list_rows_def id_name_def one_array_def hash_ids_def get_hash_def sample_digests_def hash16_def
        STATIC_HASHED_MOD_VALUE_COLUMN_NAMES_def STATIC_HASHED_VALUE_COLUMN_NAMES_def)
qed

theorem file_job_intersects_witness:
  "\<exists>result s. run_app (list_arrow sample_input) sample_digests sample_psi (\<lambda>_. sample_fs) sample_fs None sample_job [0, 0] sample_files =
     (Inr (Some result), s) \<and> jr_local result = 3 \<and> jr_join result = 2"
proof -
  have pids: "hash_ids sample_digests [VStr ''b'', VStr ''c'', VStr ''d''] = Inr sample_peer" by code_simp
  have "no_collision [''a'', ''b'', ''c''] [VStr ''a'', VStr ''b'', VStr ''c''] sample_peer [VStr ''b'', VStr ''c'', VStr ''d'']"
    by (simp add: no_collision_def sample_peer_def) (auto simp: less_Suc_eq numeral_3_eq_3)
  from file_job_intersects [OF list_table_laws sample_job_ok sample_hashed_input pids this sample_peer_answers, of "[0, 0]" "\<lambda>_. sample_fs" None]
  show ?thesis by (auto simp: sample_job_def)
qed

subsection \<open>The dispatcher\<close>

text \<open>
  C13. The dispatcher implements a queue: the blocks that no worker has taken, in their order, each with
  its data. Asking for the next block gives the head and leaves the tail, or nothing when the
  queue is empty; a report about a block that is not in the queue leaves it as it is.
\<close>

theorem dispatcher_is_queue:
  assumes "dispatch_ok dp"
  shows "(case blocks_left dp of
        [] \<Rightarrow> get_next_unprocessed_data_and_use dp = (Inr None, dp)
      | x # xs \<Rightarrow> (\<exists>dp'. get_next_unprocessed_data_and_use dp = (Inr (Some x), dp') \<and> blocks_left dp' = xs \<and> dispatch_ok dp')) \<and>
     (\<forall>b status o1 o2. b \<notin> fst ` set (blocks_left dp) \<and> status \<noteq> INIT \<longrightarrow>
        blocks_left (snd (change_data_status (int b) status o1 o2 dp)) = blocks_left dp)"
proof -
  have "case blocks_left dp of
        [] \<Rightarrow> get_next_unprocessed_data_and_use dp = (Inr None, dp)
      | x # xs \<Rightarrow> (\<exists>dp'. get_next_unprocessed_data_and_use dp = (Inr (Some x), dp') \<and> blocks_left dp' = xs \<and> dispatch_ok dp')"
    using next_when_none [of dp] next_when_some [OF assms] by (cases "blocks_left dp") auto
  moreover have "\<forall>b status o1 o2. b \<notin> fst ` set (blocks_left dp) \<and> status \<noteq> INIT \<longrightarrow>
        blocks_left (snd (change_data_status (int b) status o1 o2 dp)) = blocks_left dp"
    using sync_status_keeps(1) by (auto simp: sync_block_status_def)
  ultimately show ?thesis ..
qed

definition sample_dispatch :: "columns block_dispatch_actor" where
  "sample_dispatch = (init_block_dispatch_actor ''in.csv'' True None None 2 (ColumnIndex 0))\<lparr>dp_data_blocks := [Some [], Some []],
     dp_data_status := [(PREPARED, None, None), (INIT, None, None)]\<rparr>"

theorem dispatcher_is_queue_witness:
  "blocks_left sample_dispatch = [(1, Some (TableBlock []))] \<and>
   (\<exists>dp'. get_next_unprocessed_data_and_use sample_dispatch = (Inr (Some (1, Some (TableBlock []))), dp') \<and> blocks_left dp' = [])"
proof -
  have "dispatch_ok sample_dispatch" by code_simp
  moreover have "blocks_left sample_dispatch = [(1, Some (TableBlock []))]" by code_simp
  ultimately show ?thesis using dispatcher_is_queue [of sample_dispatch] by auto
qed

subsection \<open>Jobs that cannot succeed\<close>

text \<open>A job all of whose blocks fail never reports a result.\<close>

lemma failing_action:
  assumes "\<And>r. \<exists>e. process_block A psi ac b r = Inl e"
  shows "\<exists>e s'. do_action A D psi ac b data_protocol data_format d output_path csv_delimiter s = (Inl e, s')"
proof -
  have bind: "\<exists>e. bind_exn x (process_block A psi ac b) = Inl e" for x using assms by (cases x) auto
  obtain dp st where s: "s = (dp, st)" by fastforce
  obtain e where "bind_exn (read_block_data A D ac data_protocol csv_delimiter d st) (process_block A psi ac b) = Inl e"
    using bind by blast
  then show ?thesis by (simp add: do_action_def s)
qed

lemma failing_loop:
  assumes "\<And>a b r. \<exists>e. process_block A psi (actors a) b r = Inl e"
  shows "fst (wait_loop (app_pool A D psi actors data_protocol data_format output_dir csv_delimiter) f js jb) \<noteq> Inr True"
proof (induction js arbitrary: jb)
  case (Cons j js)
  let ?M = "app_pool A D psi actors data_protocol data_format output_dir csv_delimiter"
  obtain a b d where ref: "jb_refs jb ! (j mod length (jb_refs jb)) = (a, b, d)" by (metis prod_cases3)
  obtain e s' where "do_action A D psi (actors a) b data_protocol data_format d output_dir csv_delimiter (jb_state jb) = (Inl e, s')"
    using failing_action [OF assms] by blast
  then have "complete_job ?M f (j mod length (jb_refs jb)) jb = (Inl e, jb\<lparr>jb_state := s'\<rparr>)"
    by (simp add: complete_job_def ref app_pool_def)
  with Cons.IH [of jb] show ?case by simp
qed simp

lemma failing_job:
  assumes "\<And>dt a b r. \<exists>e. process_block A psi (make_actor args dt a) b r = Inl e"
  shows "fst (run_app A D psi hdfs local global_role args js st) \<noteq> Inr (Some result)"
proof -
  have jobs: "fst (run_jobs A D psi global_role args js s) \<noteq> Inr (Some result)" for s
  proof -
    let ?dp = "fst s"
    let ?M = "app_pool A D psi (make_actor args (dp_data_type ?dp)) (case dp_data_protocol ?dp of None \<Rightarrow> [] | Some p \<Rightarrow> p)
      (case dp_data_format ?dp of None \<Rightarrow> ''None'' | Some f \<Rightarrow> f) (ap_output_dir args) (ap_csv_delimiter args)"
    have loop: "\<exists>r jb'. wait_loop ?M (dp_data_type ?dp = FileT) js jb = (r, jb') \<and> r \<noteq> Inr True" for jb
      using failing_loop [of A psi "make_actor args (dp_data_type ?dp)" D, OF assms] by (metis prod.collapse)
    obtain p s1 where prep: "prepare_blocks A D args (case dp_data_protocol ?dp of None \<Rightarrow> [] | Some p \<Rightarrow> p) s = (p, s1)" by (rule prod.exhaust)
    obtain q jb where start: "start_jobs ?M [0..<adjust_max_actors args (get_data_block_count ?dp)] (start_state s1 (get_data_block_count ?dp)) = (q, jb)"
      by (rule prod.exhaust)
    obtain r jb' where "wait_loop ?M (dp_data_type ?dp = FileT) js jb = (r, jb')" "r \<noteq> Inr True" using loop by blast
    with prep start show ?thesis
      by (cases p; cases q; cases r) (simp_all add: run_jobs_def Let_def split: bool.split)
  qed
  obtain r dp where "init_data hdfs local (init_block_dispatch_actor (ap_data_path args) (ap_with_head args) None None (ap_bucket_num args)
      (ap_example_id_name args)) = (r, dp :: 'a block_dispatch_actor)" by (rule prod.exhaust)
  with jobs show ?thesis by (cases r) (simp_all add: run_app_def)
qed

text \<open>
  The default work mode is \<^verbatim>\<open>pir\<close>, which no worker supports: a job in this mode never reports a result,
  whatever the input, the peer and the number of waits.
\<close>

theorem pir_job_never_finishes:
  assumes "ap_join_type args = PIR"
  shows "fst (run_app A D psi hdfs local global_role args js st) \<noteq> Inr (Some result)"
proof (rule failing_job)
  show "\<exists>e. process_block A psi (make_actor args dt a) b r = Inl e" for dt a b r
    using assms by (cases r) (auto simp: process_block_def do_pir_def bind_exn_def Let_def split: sum.split)
qed

theorem pir_job_never_finishes_witness:
  "ap_join_type (sample_job\<lparr>ap_join_type := PIR\<rparr>) = PIR \<and>
   (\<forall>result. fst (run_app (list_arrow sample_input) sample_digests sample_psi (\<lambda>_. sample_fs) sample_fs (Some RECEIVER)
     (sample_job\<lparr>ap_join_type := PIR\<rparr>) [0, 0] sample_files) \<noteq> Inr (Some result))"
  by (intro conjI allI pir_job_never_finishes) simp_all

lemma wait_for_nothing: "jb_refs jb = [] \<Longrightarrow> wait_loop M f js jb = (Inr False, jb)"
  by (induction js) simp_all

text \<open>
  A negative number of workers (\<^verbatim>\<open>--parallels\<close>) is not refused: no worker is started and, once the
  input is prepared, the driver waits for ever for the result of a job that does not exist.
\<close>

theorem no_worker_waits_forever:
  assumes "ap_max_actors args < 0"
    and "init_data hdfs local (init_block_dispatch_actor (ap_data_path args) (ap_with_head args) None None (ap_bucket_num args)
        (ap_example_id_name args)) = (Inr (), dp)"
    and "prepare_blocks A D args (case dp_data_protocol dp of None \<Rightarrow> [] | Some p \<Rightarrow> p) (dp, st) = (Inr (), s1)"
  shows "run_app A D psi hdfs local global_role args js st = (Inr None, s1)"
proof -
  have none: "adjust_max_actors args n = 0" for n using assms(1) by (simp add: adjust_max_actors_def)
  show ?thesis
    using assms(2,3) by (simp add: run_app_def run_jobs_def none wait_for_nothing start_state_def Let_def)
qed

definition plain_fs :: filesystem where
  "plain_fs = \<lparr>fs_type = (\<lambda>_. DirectoryT), fs_list = (\<lambda>_ _. [\<lparr>fi_path = ''d/a.csv'', fi_type = FileT, fi_extension = ''csv''\<rparr>])\<rparr>"

theorem no_worker_waits_forever_witness:
  "\<exists>s1. \<forall>js. run_app (list_arrow sample_input) sample_digests sample_psi (\<lambda>_. plain_fs) plain_fs (Some RECEIVER)
     (sample_job\<lparr>ap_max_actors := -1\<rparr>) js sample_files = (Inr None, s1)"
proof -
  let ?args = "sample_job\<lparr>ap_max_actors := -1\<rparr>"
  obtain dp :: "columns block_dispatch_actor" where init: "init_data (\<lambda>_. plain_fs) plain_fs (init_block_dispatch_actor (ap_data_path ?args) (ap_with_head ?args)
      None None (ap_bucket_num ?args) (ap_example_id_name ?args)) = (Inr (), dp)" and dir: "dp_data_type dp = DirectoryT"
    by (simp add: init_data_def init_block_dispatch_actor_def prepare_data_protocol_and_format_def init_data_path_and_format_def
        init_data_path_and_format_with_locals_def plain_fs_def filter_data_paths_def data_extensions_def refetch_if_has_directory_def
        refetch_entry_def path_format_def sort_data_paths_def init_data_status_def is_data_single_file_def
        infer_protocol_def startswith_def sample_job_def Let_def)
  have "prepare_blocks (list_arrow sample_input) sample_digests ?args (case dp_data_protocol dp of None \<Rightarrow> [] | Some p \<Rightarrow> p) (dp, sample_files) =
      (Inr (), (dp, sample_files))" by (simp add: prepare_blocks_def dir)
  from no_worker_waits_forever [OF _ init this] show ?thesis by (intro exI allI) simp
qed

text \<open>
  A job over a text file without a header line fails with a \<^verbatim>\<open>TypeError\<close> before the file is read:
  the parse options are built with a parameter they do not have.
\<close>

theorem headerless_csv_fails:
  assumes "infer_protocol (ap_data_path args) = ''nfs''" "fs_type local (ap_data_path args) = FileT" "text_format (ap_data_path args)"
    and "\<not> ap_with_head args"
  shows "fst (run_app A D psi hdfs local global_role args js st) = Inl TypeError"
proof -
  obtain dp :: "'a block_dispatch_actor" where init: "init_data hdfs local
      (init_block_dispatch_actor (ap_data_path args) (ap_with_head args) None None (ap_bucket_num args) (ap_example_id_name args)) = (Inr (), dp)"
    "dp_data_type dp = FileT" "dp_data_protocol dp = Some ''nfs''"
    by (rule init_file_job [OF assms(1,2)])
  have "read_data_from_file A (ap_data_path args) (ap_with_head args) (ap_csv_delimiter args) st = Inl TypeError"
    using assms(3,4) by (simp add: read_data_from_file_def read_data_from_filesystem_def text_format_def Let_def)
  then have "prepare_blocks A D args ''nfs'' (dp, st) = (Inl TypeError, (dp, st))"
    using init(2) by (simp add: prepare_blocks_def repartition_for_existed_data_def)
  with init show ?thesis by (simp add: run_app_def run_jobs_def Let_def)
qed

theorem headerless_csv_fails_witness:
  "fst (run_app (list_arrow sample_input) sample_digests sample_psi (\<lambda>_. sample_fs) sample_fs None
     (sample_job\<lparr>ap_with_head := False\<rparr>) [0, 0] sample_files) = Inl TypeError"
proof -
  have ok: "infer_protocol (ap_data_path (sample_job\<lparr>ap_with_head := False\<rparr>)) = ''nfs''"
    "fs_type sample_fs (ap_data_path (sample_job\<lparr>ap_with_head := False\<rparr>)) = FileT"
    "text_format (ap_data_path (sample_job\<lparr>ap_with_head := False\<rparr>))" "\<not> ap_with_head (sample_job\<lparr>ap_with_head := False\<rparr>)"
    by code_simp+
  show ?thesis by (rule headerless_csv_fails [OF ok])
qed

text \<open>
  A local input directory that holds a data file and a subdirectory cannot be processed: the
  paths of the files and the lists of the subdirectories are sorted together, which raises
  (\<^verbatim>\<open>IndexError\<close> when an empty subdirectory comes first, \<^verbatim>\<open>TypeError\<close> otherwise).
\<close>

theorem mixed_directory_fails:
  assumes "infer_protocol path = ''nfs''" "fs_type local path \<noteq> FileT"
    and "fi \<in> set (fs_list local path False)" "fi_type fi = FileT" "fi_extension fi \<in> set data_extensions"
    and "di \<in> set (fs_list local path False)" "fi_type di \<noteq> FileT"
  shows "fst (init_data hdfs local (init_block_dispatch_actor path with_head None None n col)) \<in> {Inl IndexError, Inl TypeError}"
proof -
  let ?ps = "refetch_if_has_directory hdfs local ''nfs'' (filter_data_paths [] (fs_list local path False) True)"
  have "(fi_path fi, FileT) \<in> set (filter_data_paths [] (fs_list local path False) True)"
    "(fi_path di, fi_type di) \<in> set (filter_data_paths [] (fs_list local path False) True)"
    using assms(3-7) by (force simp: filter_data_paths_def)+
  then have "OnePath (fi_path fi) \<in> set ?ps" "\<exists>ps. PathList ps \<in> set ?ps"
    using assms(7) by (force simp: refetch_if_has_directory_def refetch_entry_def image_iff)+
  then have mixed: "sort_data_paths ?ps = Inl TypeError" and "?ps \<noteq> []" by (force simp: sort_data_paths_def)+
  then obtain p ps where ps: "?ps = p # ps" by (cases ?ps) auto
  show ?thesis
    using assms(1,2) mixed
    by (cases "path_format p") (auto simp: init_data_def init_block_dispatch_actor_def prepare_data_protocol_and_format_def
        init_data_path_and_format_def init_data_path_and_format_with_locals_def ps path_format_def Let_def
        split: data_path.splits list.splits)
qed

definition mixed_fs :: filesystem where
  "mixed_fs = \<lparr>fs_type = (\<lambda>_. DirectoryT), fs_list = (\<lambda>_ recursive.
     \<lparr>fi_path = ''d/a.csv'', fi_type = FileT, fi_extension = ''csv''\<rparr> #
     (if recursive then [] else [\<lparr>fi_path = ''d/sub'', fi_type = DirectoryT, fi_extension = []\<rparr>]))\<rparr>"

theorem mixed_directory_fails_witness:
  "fst (init_data (\<lambda>_. mixed_fs) mixed_fs (init_block_dispatch_actor ''d'' True None None 2 (ColumnIndex 0) :: columns block_dispatch_actor))
     \<in> {Inl IndexError, Inl TypeError}"
  by (rule mixed_directory_fails [where fi = "\<lparr>fi_path = ''d/a.csv'', fi_type = FileT, fi_extension = ''csv''\<rparr>"
        and di = "\<lparr>fi_path = ''d/sub'', fi_type = DirectoryT, fi_extension = []\<rparr>"]) (code_simp, simp_all add: mixed_fs_def data_extensions_def)

definition last_suffix :: "string \<Rightarrow> string" where
  "last_suffix p = (if CHR ''.'' \<in> set p then rev (takeWhile (\<lambda>c. c \<noteq> CHR ''.'') (rev p)) else [])"

lemma takeWhile_to: "c \<notin> set xs \<Longrightarrow> takeWhile (\<lambda>x. x \<noteq> c) (xs @ c # ys) = xs"
  by (induction xs) auto

lemma last_suffix_append: "CHR ''.'' \<notin> set e \<Longrightarrow> last_suffix (p @ CHR ''.'' # e) = e"
  by (simp add: last_suffix_def takeWhile_to)

text \<open>
  Compressed text files are never found in a directory: the listing compares the extension of a
  file, its last suffix, with \<^verbatim>\<open>csv.gz\<close>, which no last suffix is.
\<close>

theorem compressed_csv_skipped:
  assumes "\<forall>fi \<in> set infos. fi_extension fi = last_suffix (fi_path fi)" "endswith p ''.csv.gz''"
  shows "(pre @ p, FileT) \<notin> set (filter_data_paths pre infos with_directory)"
proof -
  obtain q where "p = q @ ''.csv.gz''" using assms(2) by (auto simp: endswith_iff)
  then have "p = (q @ ''.csv'') @ CHR ''.'' # ''gz''" by simp
  then have "last_suffix p = ''gz''" using last_suffix_append [of "''gz''" "q @ ''.csv''"] by simp
  with assms(1) show ?thesis by (auto simp: filter_data_paths_def data_extensions_def)
qed

theorem compressed_csv_skipped_witness:
  "(''d/a.csv.gz'', FileT) \<notin> set (filter_data_paths [] [\<lparr>fi_path = ''d/a.csv.gz'', fi_type = FileT, fi_extension = ''gz''\<rparr>] True)"
  using compressed_csv_skipped [of "[\<lparr>fi_path = ''d/a.csv.gz'', fi_type = FileT, fi_extension = ''gz''\<rparr>]" "''d/a.csv.gz''" "[]" True]
  by (simp add: last_suffix_def endswith_def)

subsection \<open>The roles\<close>

text \<open>
  With the same two targets the two parties take complementary roles and name each other as the
  remote party; a party that is neither target gets no role.
\<close>

theorem roles_complementary:
  assumes "leader \<noteq> follower" "CHR '','' \<notin> set leader" "CHR '','' \<notin> set follower"
  shows "(let targets = split_on CHR '','' (leader @ '','' @ follower)
     in choose_role targets leader = Inr (Some RECEIVER) \<and> choose_remote targets leader = follower \<and>
        choose_role targets follower = Inr (Some SENDER) \<and> choose_remote targets follower = leader \<and>
        (\<forall>other. other \<noteq> leader \<and> other \<noteq> follower \<longrightarrow> choose_role targets other = Inr None))"
  using assms split_on_two [of "CHR '',''" leader follower] by (auto simp: choose_role_def choose_remote_def Let_def)

theorem roles_complementary_witness:
  "choose_role (split_on CHR '','' ''jd,cu1'') ''cu1'' = Inr (Some SENDER) \<and> choose_remote (split_on CHR '','' ''jd,cu1'') ''cu1'' = ''jd''"
  using roles_complementary [of "''jd''" "''cu1''"] by (simp add: Let_def)

end
