(* ===== verification/Psi_Directory_Properties.thy ===== *)
theory Psi_Directory_Properties
  imports Psi_Directory Psi_Job_Properties
begin

section \<open>Properties of a job over a directory\<close>

text \<open>The files of a directory and the peer's files of the same numbers.\<close>

definition dir_input ::
  "'t arrow \<Rightarrow> digests \<Rightarrow> ('t \<Rightarrow> columns) \<Rightarrow> ('t \<Rightarrow> bool) \<Rightarrow> app_args \<Rightarrow> file_store \<Rightarrow> string list \<Rightarrow> (nat \<Rightarrow> 't) \<Rightarrow> (nat \<Rightarrow> pyval list) \<Rightarrow>
     (nat \<Rightarrow> bytes list) \<Rightarrow> bool" where
  "dir_input A D cols good args st files ts ids hs \<longleftrightarrow>
     (\<forall>b < length files. path_input A D cols good args st (files ! b) (ts b) (ids b) (hs b))"

definition dir_peer ::
  "'t arrow \<Rightarrow> digests \<Rightarrow> ('t \<Rightarrow> columns) \<Rightarrow> ('t \<Rightarrow> bool) \<Rightarrow> 't psi_call \<Rightarrow> app_args \<Rightarrow> nat \<Rightarrow> (nat \<Rightarrow> pyval list) \<Rightarrow> (nat \<Rightarrow> bytes list) \<Rightarrow> (nat \<Rightarrow> pyval list) \<Rightarrow> bool" where
  "dir_peer A D cols good psi args n ids hs pids \<longleftrightarrow> (\<forall>b < n. \<exists>phs. hash_ids D (pids b) = Inr phs \<and> no_collision (hs b) (ids b) phs (pids b) \<and>
     psi_keeps A cols good psi (ap_role_type args) (ap_app_id args @ ''_'' @ str_of_nat b) (set phs))"

definition common_rows :: "pyval list \<Rightarrow> pyval list \<Rightarrow> nat list" where
  "common_rows ids pids = filter (\<lambda>i. ids ! i \<in> set pids) [0..<length ids]"

lemma dir_block:
  assumes laws: "table_laws A cols good" and inp: "dir_input A D cols good args st files ts ids hs"
    and peer: "dir_peer A D cols good psi args (length files) ids hs pids" and PSI: "ap_join_type args = PSI" and b: "b < length files"
  shows "\<exists>r. path_result A D psi (make_actor args DirectoryT 0) (ap_csv_delimiter args) st b (files ! b) = Inr r \<and>
    fst (fst r) = length (ids b) \<and> fst (fst (snd r)) = length (common_rows (ids b) (pids b)) \<and>
    cols (snd (snd r)) = take_cols (cols (ts b)) (common_rows (ids b) (pids b))"
proof -
  have I: "path_input A D cols good args st (files ! b) (ts b) (ids b) (hs b)" using inp b by (simp add: dir_input_def)
  then have hids: "hash_ids D (ids b) = Inr (hs b)" by (simp add: path_input_def)
  obtain phs where phs: "hash_ids D (pids b) = Inr phs" "no_collision (hs b) (ids b) phs (pids b)"
    "psi_keeps A cols good psi (ap_role_type args) (ap_app_id args @ ''_'' @ str_of_nat b) (set phs)"
    using peer b unfolding dir_peer_def by blast
  have kept: "kept_rows (hs b) (set phs) [0..<length (ids b)] = common_rows (ids b) (pids b)"
    using hash_member [OF hids phs(1,2)] unfolding kept_rows_def common_rows_def by (intro filter_cong) auto
  obtain orig join res where "path_result A D psi (make_actor args DirectoryT 0) (ap_csv_delimiter args) st b (files ! b) = Inr (orig, join, res)"
    "fst orig = length (ids b)" "fst join = length (kept_rows (hs b) (set phs) [0..<length (ids b)])"
    "cols res = take_cols (cols (ts b)) (kept_rows (hs b) (set phs) [0..<length (ids b)])"
    by (rule path_rows [OF laws I PSI phs(3)])
  then show ?thesis by (intro exI [of _ "(orig, join, res)"]) (simp add: kept)
qed

text \<open>
  C3. A job over a directory of text files: it ends after one wait per file, whatever the order in which the
  workers finish; part \<open>b\<close> of the output is the text of the rows of file \<open>b\<close> whose id is among the ids of the
  peer's file \<open>b\<close>, in their order and with all their columns; the report sums the rows and the common
  rows of the files. Ids that the parties keep in files of different numbers do not meet.
\<close>

theorem directory_job_intersects:
  assumes "table_laws A cols good" "dir_job_ok local args files" "dir_input A D cols good args st files ts ids hs"
    and "dir_peer A D cols good psi args (length files) ids hs pids" "length js = length files"
  shows "\<exists>result dp st' outs. run_app A D psi hdfs local global_role args js st = (Inr (Some result), (dp, st')) \<and>
     (\<forall>b < length files. st' ([], output_part (ap_output_dir args) b (infer_format (hd files))) =
          Some (csv_stream A (output_part (ap_output_dir args) b (infer_format (hd files))) (ap_with_head args) (ap_csv_delimiter args) (outs b)) \<and>
        cols (outs b) = take_cols (cols (ts b)) (common_rows (ids b) (pids b))) \<and>
     jr_local result = (\<Sum>b \<leftarrow> [0..<length files]. length (ids b)) \<and>
     jr_join result = (\<Sum>b \<leftarrow> [0..<length files]. length (common_rows (ids b) (pids b)))"
proof -
  have "ap_join_type args = PSI" using assms(2) unfolding dir_job_ok_def by blast
  from dir_block [OF assms(1,3,4) this] obtain f where f: "\<And>b. b < length files \<Longrightarrow>
      path_result A D psi (make_actor args DirectoryT 0) (ap_csv_delimiter args) st b (files ! b) = Inr (f b) \<and>
      fst (fst (f b)) = length (ids b) \<and> fst (fst (snd (f b))) = length (common_rows (ids b) (pids b)) \<and>
      cols (snd (snd (f b))) = take_cols (cols (ts b)) (common_rows (ids b) (pids b))" by metis
  then have "dir_results A D psi args st files (\<lambda>b. fst (f b)) (\<lambda>b. fst (snd (f b))) (\<lambda>b. snd (snd (f b)))"
    by (simp add: dir_results_def)
  from run_dir_job [OF assms(2) this assms(5), of hdfs global_role] obtain dp st' result where run:
    "run_app A D psi hdfs local global_role args js st = (Inr (Some result), (dp, st'))"
    "jr_local result = (\<Sum>b \<leftarrow> [0..<length files]. fst (fst (f b)))" "jr_join result = (\<Sum>b \<leftarrow> [0..<length files]. fst (fst (snd (f b))))"
    "\<forall>b < length files. st' ([], output_part (ap_output_dir args) b (infer_format (hd files))) =
       Some (csv_stream A (output_part (ap_output_dir args) b (infer_format (hd files))) (ap_with_head args) (ap_csv_delimiter args) (snd (snd (f b))))" by blast
  moreover have "map (\<lambda>b. fst (fst (f b))) [0..<length files] = map (\<lambda>b. length (ids b)) [0..<length files]"
    "map (\<lambda>b. fst (fst (snd (f b)))) [0..<length files] = map (\<lambda>b. length (common_rows (ids b) (pids b))) [0..<length files]"
    using f by auto
  ultimately show ?thesis using f by (intro exI [of _ result] exI [of _ dp] exI [of _ st'] exI [of _ "\<lambda>b. snd (snd (f b))"]) simp
qed

definition sample_dir_fs :: filesystem where
  "sample_dir_fs = \<lparr>fs_type = (\<lambda>_. DirectoryT), fs_list = (\<lambda>_ _.
     [\<lparr>fi_path = ''d/b.csv'', fi_type = FileT, fi_extension = ''csv''\<rparr>, \<lparr>fi_path = ''d/a.csv'', fi_type = FileT, fi_extension = ''csv''\<rparr>])\<rparr>"

definition sample_dir_job :: app_args where
  "sample_dir_job = sample_job\<lparr>ap_data_path := ''d'', ap_output_dir := ''out''\<rparr>"

definition sample_peer_ids :: "nat \<Rightarrow> pyval list" where
  "sample_peer_ids b = (if b = 0 then [VStr ''b'', VStr ''c'', VStr ''d''] else [VStr ''a''])"

definition sample_dir_psi :: "columns psi_call" where
  "sample_dir_psi role tid t = Inr (Some (take_cols t (filter (\<lambda>i. ar_column0 (list_arrow sample_input) t ! i \<in>
     (if tid = ''j_0'' then {''b'', ''c'', ''d''} else {''a''})) [0..<list_rows t])))"

lemma sample_dir_ok: "dir_job_ok sample_dir_fs sample_dir_job [''d/a.csv'', ''d/b.csv'']"
proof -
  have "inj (part_of sample_dir_job ''csv'')" by (auto simp: inj_def output_part_inject)
  moreover have "text_format (part_of sample_dir_job ''csv'' b) \<and> infer_protocol (part_of sample_dir_job ''csv'' b) = ''nfs'' \<and>
      part_of sample_dir_job ''csv'' b \<notin> {''d/a.csv'', ''d/b.csv''}" if "b \<in> {0, 1}" for b
  proof -
    have "part_of sample_dir_job ''csv'' 0 = ''out/part_000000.csv''" "part_of sample_dir_job ''csv'' 1 = ''out/part_000001.csv''"
      by code_simp+
    moreover have "text_format ''out/part_000000.csv''" "text_format ''out/part_000001.csv''" "infer_protocol ''out/part_000000.csv'' = ''nfs''"
      "infer_protocol ''out/part_000001.csv'' = ''nfs''" by code_simp+
    ultimately show ?thesis using that by auto
  qed
  ultimately have "parts_ok [''d/a.csv'', ''d/b.csv''] (part_of sample_dir_job ''csv'')" by (simp add: parts_ok_def less_2_cases_iff numeral_2_eq_2 [symmetric])
  moreover have "infer_format ''d/a.csv'' = ''csv''" "infer_protocol ''d'' = ''nfs''" "sort [''d/b.csv'', ''d/a.csv''] = [''d/a.csv'', ''d/b.csv'']"
    by code_simp+
  ultimately show ?thesis
    by (simp add: dir_job_ok_def sample_dir_fs_def sample_dir_job_def sample_job_def data_extensions_def)
qed

lemma sample_dir_input:
  "dir_input (list_arrow sample_input) sample_digests (\<lambda>t. t) list_good sample_dir_job sample_files [''d/a.csv'', ''d/b.csv'']
     (\<lambda>_. sample_input) (\<lambda>_. [VStr ''a'', VStr ''b'', VStr ''c'']) (\<lambda>_. [''a'', ''b'', ''c''])"
proof -
  have "read_data_from_file (list_arrow sample_input) ''d/a.csv'' True '','' sample_files = Inr sample_input"
    "read_data_from_file (list_arrow sample_input) ''d/b.csv'' True '','' sample_files = Inr sample_input"
    by (simp_all add: read_data_from_file_def read_data_from_filesystem_def sample_files_def list_arrow_def) code_simp+
  then have "read_data_from_file (list_arrow sample_input) ([''d/a.csv'', ''d/b.csv''] ! b) True '','' sample_files = Inr sample_input"
    if "b < 2" for b using that by (auto simp: less_2_cases_iff)
  then show ?thesis
    by (simp add: dir_input_def path_input_def sample_dir_job_def sample_job_def)
       (simp add: sample_input_def list_good_def list_rows_def id_name_def one_array_def hash_ids_def get_hash_def sample_digests_def hash16_def
        STATIC_HASHED_MOD_VALUE_COLUMN_NAMES_def STATIC_HASHED_VALUE_COLUMN_NAMES_def)
qed

lemma sample_dir_peer:
  "dir_peer (list_arrow sample_input) sample_digests (\<lambda>t. t) list_good sample_dir_psi sample_dir_job 2 (\<lambda>_. [VStr ''a'', VStr ''b'', VStr ''c''])
     (\<lambda>_. [''a'', ''b'', ''c'']) sample_peer_ids"
proof -
  have "hash_ids sample_digests [VStr ''b'', VStr ''c'', VStr ''d''] = Inr [''b'', ''c'', ''d'']" "hash_ids sample_digests [VStr ''a''] = Inr [''a'']"
    by code_simp+
  moreover have "str_of_nat 0 = ''0''" "str_of_nat 1 = ''1''" by code_simp+
  moreover have "no_collision [''a'', ''b'', ''c''] [VStr ''a'', VStr ''b'', VStr ''c''] [''b'', ''c'', ''d''] [VStr ''b'', VStr ''c'', VStr ''d'']"
    "no_collision [''a'', ''b'', ''c''] [VStr ''a'', VStr ''b'', VStr ''c''] [''a''] [VStr ''a'']"
    by (auto simp: no_collision_def less_Suc_eq numeral_3_eq_3)
  ultimately show ?thesis
    by (auto simp: dir_peer_def sample_peer_ids_def psi_keeps_def sample_dir_psi_def sample_dir_job_def sample_job_def list_arrow_def less_2_cases_iff)
qed

theorem directory_job_intersects_witness:
  "\<exists>result s. run_app (list_arrow sample_input) sample_digests sample_dir_psi (\<lambda>_. sample_dir_fs) sample_dir_fs None sample_dir_job [0, 0] sample_files =
     (Inr (Some result), s) \<and> jr_local result = 6 \<and> jr_join result = 3"
proof -
  have "length [''d/a.csv'', ''d/b.csv''] = 2" by simp
  note peer = sample_dir_peer [folded this]
  have "length (common_rows [VStr ''a'', VStr ''b'', VStr ''c''] (sample_peer_ids 0)) = 2"
    "length (common_rows [VStr ''a'', VStr ''b'', VStr ''c''] (sample_peer_ids 1)) = 1"
    by code_simp+
  with directory_job_intersects [OF list_table_laws sample_dir_ok sample_dir_input peer, of "[0, 0]" "\<lambda>_. sample_dir_fs" None]
  show ?thesis by auto
qed

subsection \<open>A file without rows\<close>

text \<open>Dropping a column that a table does not have raises.\<close>

definition drop_raises :: "'t arrow \<Rightarrow> ('t \<Rightarrow> columns) \<Rightarrow> ('t \<Rightarrow> bool) \<Rightarrow> bool" where
  "drop_raises A cols good \<longleftrightarrow> (\<forall>t n. good t \<and> n \<notin> fst ` set (cols t) \<longrightarrow> ar_drop A t [n] = Inl KeyError)"

text \<open>
  A directory with a file that has a header and no rows cannot be processed: the hash column is added only
  to tables with rows, but it is dropped from the result whatever the table was. The worker raises
  \<^verbatim>\<open>KeyError\<close>, the block stays in the state \<^verbatim>\<open>PROCSSING\<close> and nothing is written.
\<close>

theorem empty_file_fails:
  assumes laws: "table_laws A cols good" and drop: "drop_raises A cols good"
    and t: "read_data_from_file A path (ap_with_head args) (ap_csv_delimiter args) st = Inr t" "good t" "ar_num_rows A t = 0" "cols t \<noteq> []"
    and names: "id_name (ap_example_id_name args) (cols t) = Some idn" "STATIC_HASHED_VALUE_COLUMN_NAMES \<notin> fst ` set (cols t)"
    and psi: "ap_join_type args = PSI"
      "\<forall>bt. good bt \<longrightarrow> ar_num_rows A bt = 0 \<longrightarrow> psi (ap_role_type args) (ap_app_id args @ ''_'' @ str_of_nat b) bt = Inr (Some (ar_take A bt []))"
  shows "do_action A D psi (make_actor args DirectoryT a) b ''nfs'' data_format (Some (PathBlock (OnePath path))) output_path (ap_csv_delimiter args) (dp, st) =
    (Inl KeyError, (sync_block_status b PROCSSING None None dp, st))"
proof -
  let ?ac = "make_actor args DirectoryT a"
  obtain t1 where t1: "convert_string_to_large_string A t = Inr t1" "good t1" "cols t1 = cols t" by (rule convert_keeps [OF laws t(2)])
  obtain n vs cs where cs: "cols t1 = (n, vs) # cs" using t(4) t1(3) by (metis neq_Nil_conv prod.exhaust)
  have rows: "ar_num_rows A t1 = 0" using law_rows [OF laws t1(2) cs] law_rows [OF laws t(2)] t(3) cs t1(3) by simp
  let ?c = "ar_combine_chunks A t1"
  let ?bt = "batch_in A (ar_from_pydict_empty A (ar_schema A ?c)) ?c"
  have bt: "good ?bt" "cols ?bt = cols t1" by (rule law_batch_in [OF laws t1(2) cs])+
  have "ar_num_rows A ?bt = 0" using law_rows [OF laws bt(1)] law_rows [OF laws t1(2) cs] bt(2) cs rows by simp
  then have call: "psi (ac_role ?ac) (task_id ?ac b) ?bt = Inr (Some (ar_take A ?bt []))"
    using psi(2) bt(1) by (simp add: task_id_def)
  have taken: "good (ar_take A ?bt [])" "cols (ar_take A ?bt []) = take_cols (cols t) []"
    using law_take [OF laws bt(1), of "[]"] bt(2) t1(3) by simp_all
  obtain out where out: "ar_from_batches A [ar_take A ?bt []] = Inr out" "good out" "cols out = cols (ar_take A ?bt [])"
    by (rule law_from_batches [OF laws taken(1)])
  have "ar_drop A out [STATIC_HASHED_VALUE_COLUMN_NAMES] = Inl KeyError"
    using drop out(2,3) taken(2) names(2) unfolding drop_raises_def by simp
  moreover have "read_block_data A D ?ac ''nfs'' (ap_csv_delimiter args) (Some (PathBlock (OnePath path))) st = Inr (?c, idn)"
    using t(1) actual_id_name [OF laws t(2) names(1)] t1(1) rows by (simp add: read_block_data_def read_one_def finish_read_def)
  ultimately show ?thesis
    using call out(1) psi(1)
    by (simp add: do_action_def process_block_def do_psi_def deliver_block_def write_block_data_def Let_def split: prod.split)
qed

definition header_only :: columns where
  "header_only = [(''id'', []), (''x'', [])]"

theorem empty_file_fails_witness:
  "do_action (list_arrow header_only) sample_digests sample_dir_psi (make_actor sample_dir_job DirectoryT 0) 1 ''nfs'' ''csv''
     (Some (PathBlock (OnePath ''d/b.csv''))) ''out'' '','' (sample_dispatch, sample_files) =
   (Inl KeyError, (sync_block_status 1 PROCSSING None None sample_dispatch, sample_files))"
proof -
  have one: "ap_csv_delimiter sample_dir_job = '',''" "str_of_nat 1 = ''1''" by code_simp+
  have keeps: "\<forall>bt. list_good bt \<longrightarrow> ar_num_rows (list_arrow header_only) bt = 0 \<longrightarrow>
      sample_dir_psi (ap_role_type sample_dir_job) (ap_app_id sample_dir_job @ ''_'' @ str_of_nat 1) bt = Inr (Some (ar_take (list_arrow header_only) bt []))"
    by (simp add: sample_dir_psi_def list_arrow_def)
  have read: "read_data_from_file (list_arrow header_only) ''d/b.csv'' (ap_with_head sample_dir_job) (ap_csv_delimiter sample_dir_job) sample_files = Inr header_only"
    by (simp add: read_data_from_file_def read_data_from_filesystem_def sample_files_def list_arrow_def) code_simp
  have drop: "drop_raises (list_arrow header_only) (\<lambda>t. t) list_good" by (simp add: drop_raises_def list_arrow_def)
  show ?thesis
    by (rule empty_file_fails [where psi = sample_dir_psi and b = 1 and idn = "''id''", OF list_table_laws drop read, unfolded one(1), OF _ _ _ _ _ _ keeps])
       (simp_all add: header_only_def list_good_def list_rows_def list_arrow_def id_name_def sample_dir_job_def sample_job_def STATIC_HASHED_VALUE_COLUMN_NAMES_def)
qed

end
