(* ===== verification/Psi_Register.thy ===== *)
theory Psi_Register
  imports Psi_Api Psi_Job_Properties
begin

section \<open>Registration of a running intersection\<close>

text \<open>
  \<^verbatim>\<open>register_uuid.py\<close> and the bodies of \<^verbatim>\<open>psi_sender\<close> and \<^verbatim>\<open>psi_receiver\<close> (\<^verbatim>\<open>api.py\<close>): the link is set up, the address of the party is
  registered in redis under the task for as long as the call runs, handshake and flow run, and
  the registration is removed when the object goes out of scope. The link of \<^verbatim>\<open>link_py\<close> is
  its setup; handshake and flow are what \<open>flow\<close> returns for the store they run in.
\<close>

record link_setup =
  lk_rank :: int
  lk_self_domain :: string
  lk_target_domain :: string
  lk_id :: string
  lk_parties :: "(string \<times> string) list"

definition psi_sender_link :: "string \<Rightarrow> string \<Rightarrow> string \<Rightarrow> string \<Rightarrow> string \<Rightarrow> link_setup" where
  "psi_sender_link task local_address remote_address self_domain target_domain =
     \<lparr>lk_rank = SENDER_RANK, lk_self_domain = self_domain, lk_target_domain = target_domain, lk_id = task,
      lk_parties = [(self_domain, local_address), (target_domain, remote_address)]\<rparr>"

definition psi_receiver_link :: "string \<Rightarrow> string \<Rightarrow> string \<Rightarrow> string \<Rightarrow> string \<Rightarrow> link_setup" where
  "psi_receiver_link task local_address remote_address self_domain target_domain =
     \<lparr>lk_rank = RECEIVER_RANK, lk_self_domain = self_domain, lk_target_domain = target_domain, lk_id = task,
      lk_parties = [(target_domain, remote_address), (self_domain, local_address)]\<rparr>"

subsection \<open>Register\<close>

type_synonym key_store = "string \<rightharpoonup> string"

definition register_key :: "string \<Rightarrow> string" where
  "register_key app_id = ''network:'' @ app_id"

text \<open>\<^verbatim>\<open>(host, port) = redis_address.split(':')\<close> and \<^verbatim>\<open>int(port)\<close>.\<close>

definition redis_host_port :: "string \<Rightarrow> exn + string \<times> int" where
  "redis_host_port redis_address =
     (case split_on CHR '':'' redis_address of
        [host, port] \<Rightarrow> (case parse_int port of None \<Rightarrow> Inl ValueError | Some p \<Rightarrow> Inr (host, p))
      | _ \<Rightarrow> Inl ValueError)"

definition register_uuid :: "string \<Rightarrow> int \<Rightarrow> string \<Rightarrow> key_store \<Rightarrow> key_store" where
  "register_uuid host_ip role_port app_id st = st(register_key app_id \<mapsto> host_ip @ '':'' @ str_of_int role_port)"

definition unregister_uuid :: "string \<Rightarrow> key_store \<Rightarrow> key_store" where
  "unregister_uuid app_id st = st(register_key app_id := None)"

text \<open>The constructor; \<open>host_ip\<close> is the outcome of \<^verbatim>\<open>get_host_ip\<close>, \<open>up\<close> tells whether redis answers.\<close>

definition init_register :: "bool \<Rightarrow> exn + string \<Rightarrow> string \<Rightarrow> int \<Rightarrow> string \<Rightarrow> key_store \<Rightarrow> (unit, key_store) eff" where
  "init_register up host_ip redis_address role_port app_id st =
     (case redis_host_port redis_address of
        Inl e \<Rightarrow> (Inl e, st)
      | Inr _ \<Rightarrow>
          (case host_ip of
             Inl e \<Rightarrow> (Inl e, if up then unregister_uuid app_id st else st)
           | Inr ip \<Rightarrow> if up then (Inr (), register_uuid ip role_port app_id st) else (Inl RpcError, st)))"

text \<open>\<^verbatim>\<open>int(local_address.split(':')[1])\<close>\<close>

definition local_port :: "string \<Rightarrow> exn + int" where
  "local_port local_address =
     (case split_on CHR '':'' local_address of
        _ # port # _ \<Rightarrow> (case parse_int port of None \<Rightarrow> Inl ValueError | Some p \<Rightarrow> Inr p)
      | _ \<Rightarrow> Inl IndexError)"

subsection \<open>The entry points\<close>

definition psi_entry ::
  "bool \<Rightarrow> exn + string \<Rightarrow> string \<Rightarrow> string \<Rightarrow> string \<Rightarrow> (key_store \<Rightarrow> exn + 'r) \<Rightarrow> key_store \<Rightarrow> ('r, key_store) eff" where
  "psi_entry up host_ip local_address redis_address task flow st =
     (case local_port local_address of
        Inl e \<Rightarrow> (Inl e, st)
      | Inr port \<Rightarrow>
          and_then (init_register up host_ip redis_address port task st)
            (\<lambda>_ st1. (flow st1, unregister_uuid task st1)))"

definition psi_sender ::
  "bool \<Rightarrow> exn + string \<Rightarrow> (link_setup \<Rightarrow> psi_context \<Rightarrow> 't \<Rightarrow> key_store \<Rightarrow> exn + 't option) \<Rightarrow> ('t \<Rightarrow> int) \<Rightarrow> 't \<Rightarrow> string \<Rightarrow> string \<Rightarrow> string \<Rightarrow>
     string \<Rightarrow> string \<Rightarrow> string \<Rightarrow> bool \<Rightarrow> key_store \<Rightarrow> ('t option, key_store) eff" where
  "psi_sender up host_ip flow num_rows psi_in task local_address remote_address self_domain target_domain redis_address send_back =
     psi_entry up host_ip local_address redis_address task
       (flow (psi_sender_link task local_address remote_address self_domain target_domain)
             (psi_sender_context (num_rows psi_in) self_domain target_domain send_back) psi_in)"

definition psi_receiver ::
  "bool \<Rightarrow> exn + string \<Rightarrow> (link_setup \<Rightarrow> psi_context \<Rightarrow> 't \<Rightarrow> key_store \<Rightarrow> exn + 't option) \<Rightarrow> ('t \<Rightarrow> int) \<Rightarrow> 't \<Rightarrow> string \<Rightarrow> string \<Rightarrow> string \<Rightarrow>
     string \<Rightarrow> string \<Rightarrow> string \<Rightarrow> bool \<Rightarrow> key_store \<Rightarrow> ('t option, key_store) eff" where
  "psi_receiver up host_ip flow num_rows psi_in task local_address remote_address self_domain target_domain redis_address send_back =
     psi_entry up host_ip local_address redis_address task
       (flow (psi_receiver_link task local_address remote_address self_domain target_domain)
             (psi_receiver_context (num_rows psi_in) self_domain target_domain send_back) psi_in)"

text \<open>The call that the workers of a job make, each party with its own redis.\<close>

definition registered_call ::
  "bool \<Rightarrow> exn + string \<Rightarrow> (link_setup \<Rightarrow> psi_context \<Rightarrow> 't \<Rightarrow> key_store \<Rightarrow> exn + 't option) \<Rightarrow> ('t \<Rightarrow> int) \<Rightarrow> psi_pir_actor \<Rightarrow> key_store \<Rightarrow> 't psi_call" where
  "registered_call up host_ip flow num_rows ac st role task psi_in =
     fst ((if role = SENDER then psi_sender else psi_receiver) up host_ip flow num_rows psi_in task (ac_local_address ac) (ac_proxy_address ac)
       (ac_local_domain ac) (ac_remote_domain ac) (ac_redis_addr ac) True st)"

section \<open>Properties of the registration\<close>

lemma psi_entry_runs:
  assumes "local_port local_address = Inr port" "redis_host_port redis_address = Inr hp"
  shows "psi_entry True (Inr ip) local_address redis_address task flow st =
    (flow (st(register_key task \<mapsto> ip @ '':'' @ str_of_int port)), st(register_key task := None))"
  using assms by (simp add: psi_entry_def init_register_def register_uuid_def unregister_uuid_def)

text \<open>
  While handshake and flow of an intersection run, the address of the party is registered under its task;
  afterwards the key is gone, whatever the flow returned, and the other keys are as before. The setups of the links
  of the two parties list the parties in the same order, each at the position of its rank.
\<close>

theorem registered_while_running:
  assumes "local_port local_address = Inr port" "redis_host_port redis_address = Inr hp"
  shows "psi_sender True (Inr ip) flow num_rows psi_in task local_address remote_address d1 d2 redis_address send_back st =
      (flow (psi_sender_link task local_address remote_address d1 d2) (psi_sender_context (num_rows psi_in) d1 d2 send_back) psi_in
         (st(''network:'' @ task \<mapsto> ip @ '':'' @ str_of_int port)), st(''network:'' @ task := None)) \<and>
    psi_receiver True (Inr ip) flow num_rows psi_in task local_address remote_address d2 d1 redis_address send_back st =
      (flow (psi_receiver_link task local_address remote_address d2 d1) (psi_receiver_context (num_rows psi_in) d2 d1 send_back) psi_in
         (st(''network:'' @ task \<mapsto> ip @ '':'' @ str_of_int port)), st(''network:'' @ task := None)) \<and>
    map fst (lk_parties (psi_sender_link task l1 r1 d1 d2)) = map fst (lk_parties (psi_receiver_link task l2 r2 d2 d1)) \<and>
    lk_parties (psi_sender_link task l1 r1 d1 d2) ! nat (lk_rank (psi_sender_link task l1 r1 d1 d2)) = (d1, l1) \<and>
    lk_parties (psi_receiver_link task l2 r2 d2 d1) ! nat (lk_rank (psi_receiver_link task l2 r2 d2 d1)) = (d2, l2)"
  by (simp add: psi_sender_def psi_receiver_def psi_entry_runs [OF assms] register_key_def psi_sender_link_def psi_receiver_link_def
      SENDER_RANK_def RECEIVER_RANK_def)

theorem registered_while_running_witness:
  "psi_sender True (Inr ''10.0.0.1'') (\<lambda>_ _ t st. Inr (st ''network:j_0'')) (\<lambda>_. 0) [] ''j_0'' ''0.0.0.0:81'' ''p:1'' ''a'' ''b'' ''r:63'' True Map.empty =
     (Inr (Some ''10.0.0.1:81''), Map.empty)"
proof -
  have ports: "local_port ''0.0.0.0:81'' = Inr 81" "redis_host_port ''r:63'' = Inr (''r'', 63)"
    by (simp_all add: local_port_def redis_host_port_def parse_int_def py_strip_def py_space_def is_decimal_def decimal_value_def)
  have "str_of_nat 81 = ''81''" by code_simp
  then have shown: "str_of_int 81 = ''81''" by (simp add: str_of_int_def)
  from registered_while_running [OF ports(1,2), of "''10.0.0.1''" "\<lambda>_ _ t st. Inr (st ''network:j_0'')" "\<lambda>_. 0" "[]" "''j_0''" "''p:1''" "''a''" "''b''" True Map.empty]
  show ?thesis by (simp add: shown)
qed

text \<open>
  Without a usable redis address a job never reports a result: every intersection raises before its handshake.
  The default of \<^verbatim>\<open>--redis-server\<close> is the empty string, which is not usable.
\<close>

theorem no_redis_no_result:
  fixes A :: "'t arrow"
  assumes "redis_host_port (ap_redis_addr args) = Inl e"
  shows "fst (run_app A D (registered_call up host_ip flow num_rows (make_actor args dt i) reg) hdfs local global_role args js st) \<noteq> Inr (Some result)"
proof (rule failing_job)
  fix dt' a b and r :: "'t \<times> string"
  let ?psi = "registered_call up host_ip flow num_rows (make_actor args dt i) reg"
  have call: "\<exists>e'. ?psi role task t = Inl e'" for role task t
    using assms by (auto simp: registered_call_def psi_sender_def psi_receiver_def psi_entry_def init_register_def make_actor_def split: sum.split)
  have bind: "\<exists>e'. bind_exn x g = Inl e'" if "\<And>y. \<exists>e'. g y = Inl e'" for x :: "exn + 't" and g :: "'t \<Rightarrow> exn + 'c"
    using that by (cases x) auto
  obtain data name where r: "r = (data, name)" by fastforce
  show "\<exists>e'. process_block A ?psi (make_actor args dt' a) b r = Inl e'"
    unfolding process_block_def r Let_def prod.case
  proof (rule bind)
    fix data'
    let ?bt = "batch_in A (ar_from_pydict_empty A (ar_schema A data)) data'"
    obtain e' where "?psi (ac_role (make_actor args dt' a)) (task_id (make_actor args dt' a) b) ?bt = Inl e'" using call by blast
    then show "\<exists>e'. bind_exn (if ac_join_type (make_actor args dt' a) = PSI then do_psi ?psi (make_actor args dt' a) b ?bt
        else do_pir (make_actor args dt' a) b ?bt) (\<lambda>recBatchOut.
        bind_exn (ar_from_batches A [case recBatchOut of None \<Rightarrow> ar_from_pydict_empty A (ar_schema A data) | Some b \<Rightarrow> b]) (\<lambda>out.
          Inr (count_values A data' [STATIC_HASHED_VALUE_COLUMN_NAMES, name], count_values A out [STATIC_HASHED_VALUE_COLUMN_NAMES, name], out))) = Inl e'"
      by (simp add: do_psi_def do_pir_def)
  qed
qed

theorem no_redis_no_result_witness:
  "redis_host_port (ma_redis_server (create_argment_parser ''in.csv'' ''out.csv'' ''j'' ''p:1'' ''a,b'' ''s'' ''a'')) = Inl ValueError \<and>
   (\<forall>result. fst (run_app (list_arrow sample_input) sample_digests
      (registered_call True (Inr ''10.0.0.1'') (\<lambda>_ _ t _. Inr (Some t)) (\<lambda>_. 0) (make_actor sample_job FileT 0) Map.empty)
      (\<lambda>_. sample_fs) sample_fs (Some RECEIVER) sample_job [0, 0] sample_files) \<noteq> Inr (Some result))"
proof (intro conjI allI)
  show "redis_host_port (ma_redis_server (create_argment_parser ''in.csv'' ''out.csv'' ''j'' ''p:1'' ''a,b'' ''s'' ''a'')) = Inl ValueError"
    by (simp add: create_argment_parser_def redis_host_port_def)
  show "fst (run_app (list_arrow sample_input) sample_digests
      (registered_call True (Inr ''10.0.0.1'') (\<lambda>_ _ t _. Inr (Some t)) (\<lambda>_. 0) (make_actor sample_job FileT 0) Map.empty)
      (\<lambda>_. sample_fs) sample_fs (Some RECEIVER) sample_job [0, 0] sample_files) \<noteq> Inr (Some result)" for result
    by (rule no_redis_no_result [where e = ValueError]) (simp add: sample_job_def redis_host_port_def)
qed

end
