(* ===== verification/Psi_Main.thy ===== *)
theory Psi_Main
  imports Psi_Job_Properties
begin

section \<open>The main program of a job\<close>

text \<open>
  The last part of \<^verbatim>\<open>psi_actors.py\<close>: the report of the status of a node to the coordinator (\<^verbatim>\<open>set_node_status\<close>) and the
  main program around \<^verbatim>\<open>run_app\<close>. A report is the message that is posted; \<open>post k\<close> is the outcome of the k-th
  request: an exception of the http library, or the status code of the answer.
\<close>

subsection \<open>Reports\<close>

record status_message =
  sm_url :: string
  sm_id :: string
  sm_type :: int
  sm_status :: int
  sm_cluster_id :: "string option"
  sm_node_id :: "string option"
  sm_result :: "job_result option" \<comment> \<open>the argument \<^verbatim>\<open>result\<close>, when it is given\<close>

text \<open>What the function returns: a code, or the method \<^verbatim>\<open>response.json\<close>, which it does not call.\<close>

datatype status_answer = StatusCode int | JsonMethod

definition status_message_of :: "environment \<Rightarrow> string \<Rightarrow> string \<Rightarrow> int \<Rightarrow> int \<Rightarrow> job_result option \<Rightarrow> status_message" where
  "status_message_of env status_host app_id ty status result =
     \<lparr>sm_url = ''http://'' @ status_host @ ''/coordinator/outer/set-worker-info'', sm_id = app_id, sm_type = ty, sm_status = status,
      sm_cluster_id = en_cluster_id env, sm_node_id = en_node_id env, sm_result = result\<rparr>"

definition set_node_status ::
  "(nat \<Rightarrow> exn + int) \<Rightarrow> environment \<Rightarrow> string \<Rightarrow> string \<Rightarrow> int \<Rightarrow> int \<Rightarrow> job_result option \<Rightarrow> status_message list \<Rightarrow>
     (status_answer, status_message list) eff" where
  "set_node_status post env status_host app_id ty status result sent =
     (case post (length sent) of
        Inl e \<Rightarrow> Inl e
      | Inr code \<Rightarrow> Inr (if code \<noteq> 200 then StatusCode code else JsonMethod),
      sent @ [status_message_of env status_host app_id ty status result])"

subsection \<open>The program\<close>

datatype program_end = Ended | Waiting | Uncaught exn

text \<open>
  The part of the program that is guarded by a handler: the result, or \<open>None\<close> when the driver still waits. A role that no
  branch has assigned is a \<^verbatim>\<open>NameError\<close>.
\<close>

definition guarded_job ::
  "'t arrow \<Rightarrow> digests \<Rightarrow> 't psi_call \<Rightarrow> (string \<Rightarrow> filesystem) \<Rightarrow> filesystem \<Rightarrow> environment \<Rightarrow> main_args \<Rightarrow> role_type option \<Rightarrow> nat list \<Rightarrow>
     file_store \<Rightarrow> (job_result option, file_store) eff" where
  "guarded_job A D psi hdfs local env args role js st =
     (if length (split_on CHR '','' (ma_input_col args)) > 1 then (Inl ValueError, st)
      else case role of
             None \<Rightarrow> (Inl NameError, st)
           | Some r \<Rightarrow>
               (case run_app A D psi hdfs local (Some r) (app_args_of env args r) js st of (res, (_, st')) \<Rightarrow> (res, st')))"

definition report_failure ::
  "(nat \<Rightarrow> exn + int) \<Rightarrow> environment \<Rightarrow> string \<Rightarrow> string \<Rightarrow> status_message list \<Rightarrow> program_end \<times> status_message list" where
  "report_failure post env status_host app_id sent =
     (case set_node_status post env status_host app_id 0 500 None sent of
        (Inl e, sent') \<Rightarrow> (Uncaught e, sent')
      | (Inr _, sent') \<Rightarrow> (Ended, sent'))"

definition main_program ::
  "'t arrow \<Rightarrow> digests \<Rightarrow> 't psi_call \<Rightarrow> (string \<Rightarrow> filesystem) \<Rightarrow> filesystem \<Rightarrow> (nat \<Rightarrow> exn + int) \<Rightarrow> environment \<Rightarrow> main_args \<Rightarrow> nat list \<Rightarrow>
     file_store \<Rightarrow> (program_end \<times> status_message list) \<times> file_store" where
  "main_program A D psi hdfs local post env args js st =
     (let status_host = ma_status_server args;
          app_id = (if en_task_id env \<noteq> [] then en_task_id env else ma_cluster_id args);
          local_domain = local_domain_of env args
      in if n_parallels env args = 0 then ((Uncaught ZeroDivisionError, []), st)
         else case set_node_status post env status_host app_id 0 (- 1) None [] of
           (Inl e, sent) \<Rightarrow> ((Uncaught e, sent), st)
         | (Inr _, sent) \<Rightarrow>
             (case choose_role (split_on CHR '','' (ma_target args)) local_domain of
                Inl e \<Rightarrow> ((Uncaught e, sent), st)
              | Inr role \<Rightarrow>
                  (case guarded_job A D psi hdfs local env args role js st of
                     (Inl e, st') \<Rightarrow> (report_failure post env status_host app_id sent, st')
                   | (Inr None, st') \<Rightarrow> ((Waiting, sent), st')
                   | (Inr (Some result), st') \<Rightarrow>
                       (case set_node_status post env status_host app_id 0 0 (Some result) sent of
                          (Inl e, sent') \<Rightarrow> (report_failure post env status_host app_id sent', st')
                        | (Inr _, sent') \<Rightarrow> ((Ended, sent'), st')))))"

section \<open>Properties of the main program\<close>

lemma set_node_status_sends:
  "snd (set_node_status post env host app_id ty status result sent) = sent @ [status_message_of env host app_id ty status result]"
  by (simp add: set_node_status_def)

lemma report_failure_sends:
  "report_failure post env host app_id sent =
     (case post (length sent) of Inl e \<Rightarrow> Uncaught e | Inr _ \<Rightarrow> Ended, sent @ [status_message_of env host app_id 0 500 None])"
  by (simp add: report_failure_def set_node_status_def split: sum.split)

lemma status_message_fields [simp]:
  "sm_status (status_message_of env host app_id ty status result) = status"
  "sm_result (status_message_of env host app_id ty status result) = result"
  by (simp_all add: status_message_of_def)

lemmas main_reports_simps = main_program_def set_node_status_def report_failure_sends Let_def

text \<open>
  C25. What the coordinator hears. The first report is that the job runs, and no file is touched when it cannot be
  delivered; afterwards at most a success and a failure are reported, in this order; a success is reported only with
  the result of the job, and a process that ends regularly has reported a success or a failure at last.
\<close>

theorem main_reports:
  assumes "main_program A D psi hdfs local post env args js st = ((e, sent), st')" "n_parallels env args \<noteq> 0"
  shows "map sm_status sent \<in> {[- 1], [- 1, 500], [- 1, 0], [- 1, 0, 500]} \<and>
    (\<forall>x. post 0 = Inl x \<longrightarrow> e = Uncaught x \<and> st' = st) \<and>
    (\<forall>m \<in> set sent. sm_status m = 0 \<longrightarrow> (\<exists>role result.
       choose_role (split_on CHR '','' (ma_target args)) (local_domain_of env args) = Inr role \<and>
       guarded_job A D psi hdfs local env args role js st = (Inr (Some result), st') \<and> sm_result m = Some result)) \<and>
    (e = Ended \<longrightarrow> sm_status (last sent) \<in> {0, 500})"
proof -
  let ?role = "choose_role (split_on CHR '','' (ma_target args)) (local_domain_of env args)"
  show ?thesis
  proof (cases "post 0")
    case (Inl x)
    with assms show ?thesis by (auto simp: main_reports_simps)
  next
    case ok: (Inr c)
    show ?thesis
    proof (cases ?role)
      case (Inl x)
      with ok assms show ?thesis by (auto simp: main_reports_simps)
    next
      case role: (Inr role)
      obtain g st1 where g: "guarded_job A D psi hdfs local env args role js st = (g, st1)" by fastforce
      note simps = main_reports_simps ok role g numeral_2_eq_2
      show ?thesis
      proof (cases g)
        case (Inl x)
        with assms show ?thesis by (cases "post 1") (auto simp: simps)
      next
        case (Inr r)
        then show ?thesis
        proof (cases r)
          case None
          with Inr assms show ?thesis by (auto simp: simps)
        next
          case (Some result)
          with Inr assms show ?thesis by (cases "post 1"; cases "post 2") (auto simp: simps)
        qed
      qed
    qed
  qed
qed

definition sample_environment :: environment where
  "sample_environment = \<lparr>en_cpu = None, en_task_id = [], en_local_domain = ''a'', en_local_ip = [], en_cluster_id = None, en_node_id = Some ''n''\<rparr>"

definition sample_main :: main_args where
  "sample_main = \<lparr>ma_input = ''in.csv'', ma_output = ''out.csv'', ma_cluster_id = ''j'', ma_input_col = ''id'', ma_proxy_listen = 1,
     ma_proxy_remote = ''2'', ma_redis_server = [], ma_redis_password = [], ma_target = ''a,b'', ma_status_server = ''s'', ma_party_id = ''p'',
     ma_parallels = 1, ma_work_mode = ''psi'', ma_buckets = 2, ma_csv_header = True, ma_csv_delimiter = '',''\<rparr>"

lemma sample_main_args: "app_args_of sample_environment sample_main RECEIVER = sample_job"
  by code_simp

lemma sample_main_ok:
  "n_parallels sample_environment sample_main = 1"
  "choose_role (split_on CHR '','' (ma_target sample_main)) (local_domain_of sample_environment sample_main) = Inr (Some RECEIVER)"
  "length (split_on CHR '','' (ma_input_col sample_main)) = 1"
  by code_simp+

theorem main_reports_witness:
  "\<exists>sent st'. main_program (list_arrow sample_input) sample_digests sample_psi (\<lambda>_. sample_fs) sample_fs (\<lambda>_. Inl RpcError)
     sample_environment sample_main [] sample_files = ((Uncaught RpcError, sent), st') \<and> st' = sample_files \<and>
     map sm_status sent \<in> {[- 1], [- 1, 500], [- 1, 0], [- 1, 0, 500]}"
proof -
  obtain e sent st' where run: "main_program (list_arrow sample_input) sample_digests sample_psi (\<lambda>_. sample_fs) sample_fs (\<lambda>_. Inl RpcError)
     sample_environment sample_main [] sample_files = ((e, sent), st')" by (metis surj_pair)
  have "n_parallels sample_environment sample_main \<noteq> 0" by (simp add: sample_main_ok)
  note reports = main_reports [OF run this]
  from conjunct1 [OF conjunct2 [OF reports]] have e: "e = Uncaught RpcError" "st' = sample_files" by simp_all
  show ?thesis
    by (rule exI [of _ sent], rule exI [of _ st'], intro conjI) (rule run [unfolded e(1)], rule e(2), rule conjunct1 [OF reports])
qed

text \<open>
  C4. From the command line to the report: a job over a text file, started with options and an environment that name the domain
  of the party among the targets, whose reports can be delivered, ends; it reports that it runs and then a
  success with the number of rows and the number of rows whose id the peer has, and the only file it
  changes is the output, with exactly these rows.
\<close>

theorem main_file_job_reports_success:
  assumes role: "choose_role (split_on CHR '','' (ma_target args)) (local_domain_of env args) = Inr (Some role)"
    and opts: "length (split_on CHR '','' (ma_input_col args)) = 1" "post 0 = Inr c0" "post 1 = Inr c1"
    and job: "table_laws A cols good" "file_job_ok local (app_args_of env args role)"
      "hashed_input A D cols good (app_args_of env args role) st t ids hs" "hash_ids D pids = Inr phs" "no_collision hs ids phs pids"
      "peer_answers A cols good psi (app_args_of env args role) phs" "length js = nat (ap_bucket_num (app_args_of env args role))"
  shows "\<exists>sent result outs pss.
    main_program A D psi hdfs local post env args js st =
      ((Ended, sent), st(([], ma_output args) \<mapsto> joined_file A (ma_output args) (ma_csv_header args) (ma_csv_delimiter args) outs)) \<and>
    map (\<lambda>m. (sm_status m, sm_result m)) sent = [(- 1, None), (0, Some result)] \<and>
    jr_local result = length ids \<and> jr_join result = length (filter (\<lambda>i. ids ! i \<in> set pids) [0..<length ids]) \<and>
    length outs = length pss \<and>
    (\<forall>b < length pss. cols (outs ! b) = (if pss ! b = [] then take_cols ((STATIC_HASHED_MOD_VALUE_COLUMN_NAMES, []) # cols t) []
       else take_cols (cols t) (filter (\<lambda>i. ids ! i \<in> set pids) (pss ! b)))) \<and>
    mset (concat (map (filter (\<lambda>i. ids ! i \<in> set pids)) pss)) = mset (filter (\<lambda>i. ids ! i \<in> set pids) [0..<length ids])"
proof -
  let ?args = "app_args_of env args role"
  have args: "ap_output_dir ?args = ma_output args" "ap_with_head ?args = ma_csv_header args" "ap_csv_delimiter ?args = ma_csv_delimiter args"
    "ap_max_actors ?args = n_parallels env args" by (simp_all add: app_args_of_def Let_def)
  have n: "n_parallels env args \<noteq> 0" using job(2) args(4) by (simp add: file_job_ok_def)
  obtain result dp outs pss where R: "run_app A D psi hdfs local (Some role) ?args js st =
      (Inr (Some result), (dp, st(([], ap_output_dir ?args) \<mapsto> joined_file A (ap_output_dir ?args) (ap_with_head ?args) (ap_csv_delimiter ?args) outs)))"
    and rest: "length outs = length pss"
      "\<forall>b < length pss. cols (outs ! b) = (if pss ! b = [] then take_cols ((STATIC_HASHED_MOD_VALUE_COLUMN_NAMES, []) # cols t) []
        else take_cols (cols t) (filter (\<lambda>i. ids ! i \<in> set pids) (pss ! b)))"
      "mset (concat (map (filter (\<lambda>i. ids ! i \<in> set pids)) pss)) = mset (filter (\<lambda>i. ids ! i \<in> set pids) [0..<length ids])"
      "jr_local result = length ids" "jr_join result = length (filter (\<lambda>i. ids ! i \<in> set pids) [0..<length ids])"
    using file_job_rows [OF job, of hdfs "Some role"] by (elim exE conjE)
  have g: "guarded_job A D psi hdfs local env args (Some role) js st =
      (Inr (Some result), st(([], ma_output args) \<mapsto> joined_file A (ma_output args) (ma_csv_header args) (ma_csv_delimiter args) outs))"
    using R opts(1) by (simp add: guarded_job_def args)
  have "\<exists>sent. main_program A D psi hdfs local post env args js st =
      ((Ended, sent), st(([], ma_output args) \<mapsto> joined_file A (ma_output args) (ma_csv_header args) (ma_csv_delimiter args) outs)) \<and>
    map (\<lambda>m. (sm_status m, sm_result m)) sent = [(- 1, None), (0, Some result)]"
    using n role opts g by (simp add: main_reports_simps)
  then obtain sent where sent: "main_program A D psi hdfs local post env args js st =
      ((Ended, sent), st(([], ma_output args) \<mapsto> joined_file A (ma_output args) (ma_csv_header args) (ma_csv_delimiter args) outs))"
    "map (\<lambda>m. (sm_status m, sm_result m)) sent = [(- 1, None), (0, Some result)]" by (elim exE conjE)
  show ?thesis
    by (rule exI [of _ sent], rule exI [of _ result], rule exI [of _ outs], rule exI [of _ pss]) (intro conjI sent rest)
qed

theorem main_file_job_reports_success_witness:
  "\<exists>sent result st'. main_program (list_arrow sample_input) sample_digests sample_psi (\<lambda>_. sample_fs) sample_fs (\<lambda>_. Inr 200)
     sample_environment sample_main [0, 0] sample_files = ((Ended, sent), st') \<and>
     map (\<lambda>m. (sm_status m, sm_result m)) sent = [(- 1, None), (0, Some result)] \<and> jr_local result = 3 \<and> jr_join result = 2"
proof -
  have pids: "hash_ids sample_digests [VStr ''b'', VStr ''c'', VStr ''d''] = Inr sample_peer" by code_simp
  have "no_collision [''a'', ''b'', ''c''] [VStr ''a'', VStr ''b'', VStr ''c''] sample_peer [VStr ''b'', VStr ''c'', VStr ''d'']"
    by (simp add: no_collision_def sample_peer_def) (auto simp: less_Suc_eq numeral_3_eq_3)
  note result = main_file_job_reports_success [where post = "\<lambda>_. Inr 200" and local = sample_fs and hdfs = "\<lambda>_. sample_fs",
      OF sample_main_ok(2,3) refl refl list_table_laws, unfolded sample_main_args,
      OF sample_job_ok sample_hashed_input pids this sample_peer_answers, of "[0, 0]"]
  have "length [0, 0 :: nat] = nat (ap_bucket_num sample_job)" by (simp add: sample_job_def)
  from result [OF this] obtain sent r where
    "\<exists>st'. main_program (list_arrow sample_input) sample_digests sample_psi (\<lambda>_. sample_fs) sample_fs (\<lambda>_. Inr 200)
       sample_environment sample_main [0, 0] sample_files = ((Ended, sent), st')"
    "map (\<lambda>m. (sm_status m, sm_result m)) sent = [(- 1, None), (0, Some r)]" "jr_local r = length [VStr ''a'', VStr ''b'', VStr ''c'']"
    "jr_join r = length (filter (\<lambda>i. [VStr ''a'', VStr ''b'', VStr ''c''] ! i \<in> set [VStr ''b'', VStr ''c'', VStr ''d''])
       [0..<length [VStr ''a'', VStr ''b'', VStr ''c'']])"
    by (elim exE conjE) (rule that, rule exI, assumption+)
  then show ?thesis by auto
qed

end
