(* ===== verification/Block_Convert.thy ===== *)
theory Block_Convert
  imports Block_Registry
begin

section \<open>Converting a block to text lines\<close>

text \<open>
  The functions \<^verbatim>\<open>map_fn\<close> and \<^verbatim>\<open>write_data\<close> of \<^verbatim>\<open>controller/sync_convert_data_block.py\<close>, which write the examples
  of a block as lines of text, one field for the label and one for each value of each feature. Texts are
  given by their UTF-8 encoding; the parser of examples is a parameter, which gives the features in the
  order of the map with the values of their byte lists (none for other kinds of features).
\<close>

subsection \<open>Bytes and texts\<close>

definition in_range :: "nat \<Rightarrow> nat \<Rightarrow> char \<Rightarrow> bool" where
  "in_range lo hi c \<longleftrightarrow> lo \<le> (of_char c :: nat) \<and> (of_char c :: nat) \<le> hi"

definition second_ok :: "char \<Rightarrow> char \<Rightarrow> bool" where
  "second_ok c d =
     (if in_range 224 224 c then in_range 160 191 d
      else if in_range 237 237 c then in_range 128 159 d
      else if in_range 240 240 c then in_range 144 191 d
      else if in_range 244 244 c then in_range 128 143 d
      else in_range 128 191 d)"

text \<open>Whether bytes are UTF-8: \<^verbatim>\<open>str(val, encoding='utf-8')\<close> raises otherwise.\<close>

fun utf8_ok :: "bytes \<Rightarrow> bool" where
  "utf8_ok [] = True"
| "utf8_ok (c # cs) =
     (if in_range 0 127 c then utf8_ok cs
      else if in_range 194 223 c then (case cs of d # ds \<Rightarrow> in_range 128 191 d \<and> utf8_ok ds | _ \<Rightarrow> False)
      else if in_range 224 239 c
      then (case cs of d # e # es \<Rightarrow> second_ok c d \<and> in_range 128 191 e \<and> utf8_ok es | _ \<Rightarrow> False)
      else if in_range 240 244 c
      then (case cs of d # e # f # fs \<Rightarrow> second_ok c d \<and> in_range 128 191 e \<and> in_range 128 191 f \<and> utf8_ok fs | _ \<Rightarrow> False)
      else False)"

text \<open>\<^verbatim>\<open>repr\<close> of bytes.\<close>

definition hex_digit :: "nat \<Rightarrow> char" where
  "hex_digit n = ''0123456789abcdef'' ! (n mod 16)"

definition byte_repr :: "char \<Rightarrow> char \<Rightarrow> string" where
  "byte_repr quote c =
     (let n = of_char c :: nat; backslash = CHR 0x5C
      in if c = quote \<or> c = backslash then [backslash, c]
         else if n = 9 then [backslash, CHR ''t'']
         else if n = 10 then [backslash, CHR ''n'']
         else if n = 13 then [backslash, CHR ''r'']
         else if n < 32 \<or> 127 \<le> n then [backslash, CHR ''x'', hex_digit (n div 16), hex_digit n]
         else [c])"

definition bytes_repr :: "bytes \<Rightarrow> string" where
  "bytes_repr b =
     (let quote = (if CHR 0x27 \<in> set b \<and> CHR 0x22 \<notin> set b then CHR 0x22 else CHR 0x27)
      in CHR ''b'' # quote # concat (map (byte_repr quote) b) @ [quote])"

datatype py_name = Text string | Bytes bytes

fun shown_name :: "py_name \<Rightarrow> string" where
  "shown_name (Text s) = s"
| "shown_name (Bytes b) = bytes_repr b"

subsection \<open>A line\<close>

definition example_id_ns :: string where
  "example_id_ns = ''%X''"

definition default_label :: string where
  "default_label = ''0 0''"

text \<open>
  The handler of a value that is not UTF-8 encodes the name of the feature in place of the value; the value stays
  bytes, and the name is not encoded twice.
\<close>

fun value_fields :: "py_name \<Rightarrow> bytes list \<Rightarrow> exn + string list" where
  "value_fields ns [] = Inr []"
| "value_fields ns (val # vals) =
     (if utf8_ok val then (case value_fields ns vals of Inl e \<Rightarrow> Inl e | Inr fs \<Rightarrow> Inr ((shown_name ns @ '' '' @ val) # fs))
      else case ns of
             Bytes b \<Rightarrow> Inl AttributeError
           | Text s \<Rightarrow>
               (case value_fields (Bytes s) vals of
                  Inl e \<Rightarrow> Inl e
                | Inr fs \<Rightarrow> Inr ((bytes_repr s @ '' '' @ bytes_repr val) # fs)))"

fun feature_fields :: "(string, bytes list) dict \<Rightarrow> exn + string list" where
  "feature_fields [] = Inr []"
| "feature_fields ((ns, vals) # fs) =
     (case value_fields (Text ns) vals of
        Inl e \<Rightarrow> Inl e
      | Inr xs \<Rightarrow> (case feature_fields fs of Inl e \<Rightarrow> Inl e | Inr ys \<Rightarrow> Inr (xs @ ys)))"

fun collect_features :: "(string, bytes list) dict \<Rightarrow> (string, bytes list) dict \<Rightarrow> (string, bytes list) dict" where
  "collect_features [] f_dict = f_dict"
| "collect_features ((feat, vals) # fs) f_dict =
     (if feat = ''event_time'' then collect_features fs f_dict
      else if feat = ''example_id'' then collect_features fs (dict_set example_id_ns vals f_dict)
      else collect_features fs (dict_set feat vals f_dict))"

fun join_on :: "char \<Rightarrow> string list \<Rightarrow> string" where
  "join_on c [] = []"
| "join_on c [s] = s"
| "join_on c (s # t # ss) = s @ c # join_on c (t # ss)"

definition map_fn :: "(bytes \<Rightarrow> (string, bytes list) dict option) \<Rightarrow> bytes \<Rightarrow> exn + string" where
  "map_fn parse proto =
     (case parse proto of
        None \<Rightarrow> Inl DecodeError
      | Some feature_map \<Rightarrow>
          let f_dict = collect_features feature_map []
          in case (case dict_get f_dict ''label'' of
                     None \<Rightarrow> Inr (default_label, f_dict)
                   | Some [] \<Rightarrow> Inl IndexError
                   | Some (l # _) \<Rightarrow> if utf8_ok l then Inr (l, AList.delete ''label'' f_dict) else Inl ValueError) of
               Inl e \<Rightarrow> Inl e
             | Inr (label, rest) \<Rightarrow>
                 (case feature_fields rest of Inl e \<Rightarrow> Inl e | Inr parts \<Rightarrow> Inr (join_on CHR ''|'' (label # parts))))"

subsection \<open>A block\<close>

text \<open>
  The batches that a session reads from a file: when the file cannot be read further, the batch with the missing
  record is not delivered. \<open>broken\<close> tells that the reading ends with an error instead of the end of the file; both end
  the conversion in the same way. The result is what the function returns or raises, with the text of the output file.
\<close>

definition read_batches :: "nat \<Rightarrow> bytes list \<Rightarrow> bool \<Rightarrow> bytes list list" where
  "read_batches n records broken = (if broken then filter (\<lambda>b. length b = n) (chunks n records) else chunks n records)"

fun write_lines :: "(bytes \<Rightarrow> (string, bytes list) dict option) \<Rightarrow> bytes list \<Rightarrow> string \<Rightarrow> (bool, string) eff" where
  "write_lines parse [] out = (Inr True, out)"
| "write_lines parse (item # items) out =
     (case map_fn parse item of
        Inl e \<Rightarrow> (Inl e, out)
      | Inr vw_str \<Rightarrow> write_lines parse items (out @ vw_str @ [CHR 0x0A]))"

definition write_data ::
  "(bytes \<Rightarrow> (string, bytes list) dict option) \<Rightarrow> bytes list \<Rightarrow> bool \<Rightarrow> nat \<Rightarrow> (bool, string) eff" where
  "write_data parse records broken batch_size = write_lines parse (concat (read_batches batch_size records broken)) []"

subsection \<open>What a line and a file hold\<close>

lemma split_on_cons: "c \<notin> set x \<Longrightarrow> split_on c (x @ c # ys) = x # split_on c ys"
  by (induction x) auto

lemma split_on_join: "xs \<noteq> [] \<Longrightarrow> \<forall>x \<in> set xs. c \<notin> set x \<Longrightarrow> split_on c (join_on c xs) = xs"
  by (induction c xs rule: join_on.induct) (simp_all add: split_on_plain split_on_cons)

lemma value_fields_text:
  "\<forall>v \<in> set vals. utf8_ok v \<Longrightarrow> value_fields (Text ns) vals = Inr (map (\<lambda>v. ns @ '' '' @ v) vals)"
  by (induction vals) simp_all

lemma feature_fields_text:
  "\<forall>(ns, vals) \<in> set fs. \<forall>v \<in> set vals. utf8_ok v \<Longrightarrow>
     feature_fields fs = Inr (concat (map (\<lambda>(ns, vals). map (\<lambda>v. ns @ '' '' @ v) vals) fs))"
  by (induction fs rule: feature_fields.induct) (simp_all add: value_fields_text)

text \<open>The name under which a feature is collected.\<close>

definition shown_as :: "string \<Rightarrow> string" where
  "shown_as feat = (if feat = ''example_id'' then example_id_ns else feat)"

lemma collect_features_append:
  assumes "distinct (map fst fs)" "example_id_ns \<notin> fst ` set fs" "(shown_as ` fst ` set fs) \<inter> fst ` set f_dict = {}"
  shows "collect_features fs f_dict = f_dict @ map (\<lambda>f. (shown_as (fst f), snd f)) (filter (\<lambda>f. fst f \<noteq> ''event_time'') fs)"
  using assms
proof (induction fs arbitrary: f_dict)
  case (Cons f fs)
  obtain feat vals where f: "f = (feat, vals)" by fastforce
  have step: "collect_features ((feat, vals) # fs) f_dict =
      (if feat = ''event_time'' then collect_features fs f_dict else collect_features fs (dict_set (shown_as feat) vals f_dict))"
    by (simp add: shown_as_def)
  have parts: "distinct (map fst fs)" "example_id_ns \<notin> fst ` set fs" "feat \<notin> fst ` set fs" "feat \<noteq> example_id_ns"
    "(shown_as ` fst ` set fs) \<inter> fst ` set f_dict = {}" "shown_as feat \<notin> fst ` set f_dict"
    using Cons.prems unfolding f by auto
  have new: "dict_set (shown_as feat) vals f_dict = f_dict @ [(shown_as feat, vals)]" by (rule dict_set_new [OF parts(6)])
  have "shown_as feat \<noteq> shown_as other" if "other \<in> fst ` set fs" for other
    using parts(2-4) that by (cases "other = ''example_id''"; cases "feat = ''example_id''") (simp_all add: shown_as_def, blast+)
  then have "(shown_as ` fst ` set fs) \<inter> fst ` set (f_dict @ [(shown_as feat, vals)]) = {}" using parts(5) by auto
  from Cons.IH [OF parts(1,2,5)] Cons.IH [OF parts(1,2) this] show ?case unfolding f step new by simp
qed simp

definition line_label :: "(string, bytes list) dict \<Rightarrow> bytes option" where
  "line_label fs = (case map_of fs ''label'' of None \<Rightarrow> Some default_label | Some [] \<Rightarrow> None | Some (l # _) \<Rightarrow> Some l)"

text \<open>The records that are written: those of the batches that can be read.\<close>

definition written :: "nat \<Rightarrow> bytes list \<Rightarrow> bool \<Rightarrow> bytes list" where
  "written n records broken = (if broken then take (length records div n * n) records else records)"

lemma full_chunks: "0 < n \<Longrightarrow> concat (filter (\<lambda>b. length b = n) (chunks n xs)) = take (length xs div n * n) xs"
proof (induction "length xs" arbitrary: xs rule: less_induct)
  case less
  show ?case
  proof (cases "length xs < n")
    case True
    then show ?thesis using less.prems by (cases "xs = []") (simp_all add: chunks_short)
  next
    case False
    then have div: "length xs div n * n = n + length (drop n xs) div n * n" and ne: "xs \<noteq> []"
      using less.prems by (auto simp: le_div_geq)
    have "concat (filter (\<lambda>b. length b = n) (chunks n (drop n xs))) = take (length (drop n xs) div n * n) (drop n xs)"
      using less.prems ne False by (intro less.hyps) auto
    then show ?thesis using False ne less.prems unfolding div take_add by (simp add: chunks.simps [of n xs])
  qed
qed

lemma write_lines_all:
  "\<forall>r \<in> set rs. map_fn parse r = Inr (line r) \<Longrightarrow>
     write_lines parse rs out = (Inr True, out @ concat (map (\<lambda>r. line r @ [CHR 0x0A]) rs))"
  by (induction rs arbitrary: out) simp_all

lemma concat_read: "0 < n \<Longrightarrow> concat (read_batches n records broken) = written n records broken"
  by (simp add: read_batches_def written_def full_chunks)

text \<open>
  C33. A line whose parts are UTF-8 and without the separator splits into the label and one field for each value of a
  feature, in the order of the features, wherever the id stands among them: the label is the first value of the feature of this name,
  which gets no field of its own, or \<^verbatim>\<open>0 0\<close> where there is none; the id is shown under the name \<^verbatim>\<open>%X\<close>, and the time of the
  event is left out.
\<close>

theorem converted_line_splits:
  assumes "parse proto = Some fs" "distinct (map fst fs)" "''%X'' \<notin> fst ` set fs"
    and label: "line_label fs = Some label" "utf8_ok label" "CHR ''|'' \<notin> set label"
    and clean: "\<forall>(ns, vals) \<in> set fs. ns \<noteq> ''label'' \<and> ns \<noteq> ''event_time'' \<longrightarrow>
      CHR ''|'' \<notin> set ns \<and> (\<forall>v \<in> set vals. utf8_ok v \<and> CHR ''|'' \<notin> set v)"
  shows "\<exists>line. map_fn parse proto = Inr line \<and>
    split_on CHR ''|'' line = label #
      concat (map (\<lambda>(ns, vals). map (\<lambda>v. (if ns = ''example_id'' then ''%X'' else ns) @ '' '' @ v) vals)
        (filter (\<lambda>f. fst f \<noteq> ''event_time'' \<and> fst f \<noteq> ''label'') fs))"
proof -
  let ?all = "map (\<lambda>f. (shown_as (fst f), snd f)) (filter (\<lambda>f. fst f \<noteq> ''event_time'') fs)"
  let ?rest = "map (\<lambda>f. (shown_as (fst f), snd f)) (filter (\<lambda>f. fst f \<noteq> ''event_time'' \<and> fst f \<noteq> ''label'') fs)"
  have d: "collect_features fs [] = ?all"
    using collect_features_append [of fs "[]"] assms(2,3) by (simp add: example_id_ns_def)
  have get: "dict_get ?all ''label'' = dict_get fs ''label''"
    by (induction fs) (auto simp: shown_as_def example_id_ns_def)
  have cut: "AList.delete ''label'' ?all = ?rest"
    by (induction fs) (auto simp: shown_as_def example_id_ns_def)
  have none: "?all = ?rest" if "dict_get fs ''label'' = None"
    using that by (intro arg_cong [of _ _ "map _"] filter_cong) (force simp: dict_get_None_notin)+
  define parts where "parts = concat (map (\<lambda>(ns, vals). map (\<lambda>v. ns @ '' '' @ v) vals) ?rest)"
  have f: "feature_fields ?rest = Inr parts"
    unfolding parts_def using clean by (intro feature_fields_text) fastforce
  have ok: "\<forall>x \<in> set (label # parts). CHR ''|'' \<notin> set x"
  proof
    fix x
    assume "x \<in> set (label # parts)"
    then consider "x = label" | ns vals v where "(ns, vals) \<in> set fs" "ns \<noteq> ''event_time''" "ns \<noteq> ''label''" "v \<in> set vals"
        "x = shown_as ns @ '' '' @ v"
      unfolding parts_def by auto
    then show "CHR ''|'' \<notin> set x"
    proof cases
      case 2
      then have "CHR ''|'' \<notin> set ns" "CHR ''|'' \<notin> set v" using bspec [OF clean 2(1)] by simp_all
      then show ?thesis unfolding 2(5) shown_as_def example_id_ns_def by simp
    qed (use label(3) in simp)
  qed
  have "(case dict_get ?all ''label'' of
           None \<Rightarrow> Inr (default_label, ?all)
         | Some [] \<Rightarrow> Inl IndexError
         | Some (l # _) \<Rightarrow> if utf8_ok l then Inr (l, AList.delete ''label'' ?all) else Inl ValueError) = (Inr (label, ?rest) :: exn + _)"
  proof (cases "dict_get fs ''label''")
    case None
    then have "label = default_label" using label(1) by (simp add: line_label_def)
    then show ?thesis unfolding get cut by (simp only: None option.case none [OF None])
  next
    case (Some vals)
    then obtain more where "vals = label # more" using label(1) by (cases vals) (simp_all add: line_label_def)
    then show ?thesis unfolding get cut using label(2) by (simp only: Some option.case list.case if_True)
  qed
  then have "map_fn parse proto = Inr (join_on CHR ''|'' (label # parts))"
    unfolding map_fn_def assms(1) option.case Let_def d by (simp only: sum.case prod.case f)
  moreover have "split_on CHR ''|'' (join_on CHR ''|'' (label # parts)) = label # parts"
    by (rule split_on_join) (use ok in simp_all)
  moreover have "parts = concat (map (\<lambda>(ns, vals). map (\<lambda>v. (if ns = ''example_id'' then ''%X'' else ns) @ '' '' @ v) vals)
        (filter (\<lambda>f. fst f \<noteq> ''event_time'' \<and> fst f \<noteq> ''label'') fs))"
    unfolding parts_def shown_as_def example_id_ns_def by (simp add: comp_def case_prod_unfold)
  ultimately show ?thesis by auto
qed

theorem converted_line_splits_witness:
  "\<exists>line. map_fn (\<lambda>_. Some [(''age'', [''a'', ''b'']), (''label'', [''1'', ''2'']), (''event_time'', [''2019'']), (''example_id'', [''e1''])]) [] = Inr line \<and>
    split_on CHR ''|'' line = [''1'', ''age a'', ''age b'', ''%X e1'']"
  using converted_line_splits [of
      "\<lambda>_. Some [(''age'', [''a'', ''b'']), (''label'', [''1'', ''2'']), (''event_time'', [''2019'']), (''example_id'', [''e1''])]" "[]"
      "[(''age'', [''a'', ''b'']), (''label'', [''1'', ''2'']), (''event_time'', [''2019'']), (''example_id'', [''e1''])]" "''1''"]
  by (simp add: in_range_def line_label_def)

text \<open>
  The conversion writes the lines of the records in order and reports success, also when the file
  cannot be read to its end: then the records after the last full batch are missing, up to \<open>n - 1\<close> of those
  that could be read.
\<close>

theorem conversion_reports_success:
  assumes "0 < n" "\<forall>r \<in> set records. map_fn parse r = Inr (line r)"
  shows "write_data parse records broken n =
      (Inr True, concat (map (\<lambda>r. line r @ [CHR 0x0A]) (written n records broken))) \<and>
    length records - length (written n records broken) = (if broken then length records mod n else 0)"
proof
  have "\<forall>r \<in> set (written n records broken). map_fn parse r = Inr (line r)"
    using assms(2) by (auto simp: written_def dest: in_set_takeD)
  then show "write_data parse records broken n = (Inr True, concat (map (\<lambda>r. line r @ [CHR 0x0A]) (written n records broken)))"
    using write_lines_all [of "written n records broken" parse line "[]"] by (simp add: write_data_def concat_read [OF assms(1)])
  show "length records - length (written n records broken) = (if broken then length records mod n else 0)"
    using div_times_less_eq_dividend [of "length records" n] by (simp add: written_def min_absorb2 minus_div_mult_eq_mod)
qed

theorem conversion_reports_success_witness:
  "write_data (\<lambda>r. Some [(''x'', [r])]) [''a'', ''b'', ''c''] True 2 = (Inr True, ''0 0|x a'' @ CHR 0x0A # ''0 0|x b'' @ [CHR 0x0A])"
proof -
  have "\<forall>r \<in> set [''a'', ''b'', ''c'']. map_fn (\<lambda>r. Some [(''x'', [r])]) r = Inr (''0 0|x '' @ r)"
    by (simp add: map_fn_def default_label_def in_range_def)
  from conversion_reports_success [OF _ this, of 2 True] show ?thesis by (simp add: written_def)
qed

text \<open>
  A feature with two values that are not UTF-8 cannot be converted: the second one raises an \<^verbatim>\<open>AttributeError\<close>.
\<close>

lemma second_undecodable_raises:
  "\<not> utf8_ok u \<Longrightarrow> \<not> utf8_ok v \<Longrightarrow> value_fields (Text ns) [u, v] = Inl AttributeError"
  by simp

end
