(* ===== verification/Route_Server.thy ===== *)
theory Route_Server
  imports Meta_Database
begin

section \<open>The route server\<close>

text \<open>
  \<^verbatim>\<open>route_server.py\<close> with the constants of \<^verbatim>\<open>config.py\<close>: the main program creates the tables when it runs distributed, starts the
  gRPC server of the proxy and the http server, and hands each request to one of two applications by the
  prefix of its path. The application below \<^verbatim>\<open>/v1/data\<close> is not in the repository, and the dispatcher is a class of
  werkzeug: both are parameters. The application below \<^verbatim>\<open>/v1/parse\<close> is the handler \<open>parse_data_block_meta\<close>. What an
  application of Flask answers to a request that its own routes do not take (an unknown path, another verb, a static
  file) is the parameter \<open>flask\<close>.
\<close>

definition api_version :: string where
  "api_version = ''v1''"

definition http_service :: "string \<times> nat" where
  "http_service = (''0.0.0.0'', 6380)"

definition proxy_service :: "string \<times> nat" where
  "proxy_service = (''localhost'', 3700)"

datatype wsgi_app = ManagerApp | DataApp | ParseApp

definition mounts :: "(string \<times> wsgi_app) list" where
  "mounts = [(''/'' @ api_version @ ''/data'', DataApp), (''/'' @ api_version @ ''/parse'', ParseApp)]"

type_synonym dispatcher = "(string \<times> wsgi_app) list \<Rightarrow> wsgi_app \<Rightarrow> string \<Rightarrow> wsgi_app \<times> string"

text \<open>
  What the documentation of the dispatcher says: a path below a mount goes to its application, with the mount
  taken off; a path from the root below none goes to the default application.
\<close>

definition dispatches :: "dispatcher \<Rightarrow> bool" where
  "dispatches D \<longleftrightarrow>
     (\<forall>ms base m app rest. (m, app) \<in> set ms \<longrightarrow> rest = [] \<or> hd rest = CHR ''/'' \<longrightarrow>
        (\<forall>(m', app') \<in> set ms. startswith (m @ rest) m' \<longrightarrow> m' = m \<and> app' = app) \<longrightarrow> D ms base (m @ rest) = (app, rest)) \<and>
     (\<forall>ms base path. startswith path ''/'' \<longrightarrow> (\<forall>(m, app) \<in> set ms. \<not> startswith path m) \<longrightarrow> D ms base path = (base, path))"

text \<open>An exception of a handler becomes an answer with the code 100 and the text of the exception.\<close>

datatype reply = Reply int string | HttpError nat

type_synonym flask_default = "wsgi_app \<Rightarrow> string \<Rightarrow> string \<Rightarrow> reply" \<comment> \<open>application, verb, path\<close>

definition parse_app ::
  "flask_default \<Rightarrow> (exn \<Rightarrow> string) \<Rightarrow> string \<Rightarrow> string \<Rightarrow> (string, jval) dict \<Rightarrow> process list \<Rightarrow> reply \<times> process list" where
  "parse_app flask err_text verb path json ps =
     (if path = ''/data/block/meta'' \<and> verb = ''POST''
      then (case parse_data_block_meta json ps of
              (Inl e, ps') \<Rightarrow> (Reply 100 (err_text e), ps')
            | (Inr (code, msg), ps') \<Rightarrow> (Reply code msg, ps'))
      else (flask ParseApp verb path, ps))"

definition route_request ::
  "dispatcher \<Rightarrow> flask_default \<Rightarrow> (string \<Rightarrow> string \<Rightarrow> (string, jval) dict \<Rightarrow> reply) \<Rightarrow> (exn \<Rightarrow> string) \<Rightarrow> string \<Rightarrow> string \<Rightarrow>
     (string, jval) dict \<Rightarrow> process list \<Rightarrow> reply \<times> process list" where
  "route_request D flask data_app err_text verb path json ps =
     (case D mounts ManagerApp path of
        (ManagerApp, rest) \<Rightarrow> (flask ManagerApp verb rest, ps)
      | (DataApp, rest) \<Rightarrow> (data_app verb rest json, ps)
      | (ParseApp, rest) \<Rightarrow> parse_app flask err_text verb rest json ps)"

subsection \<open>The main program\<close>

datatype server_event =
    GrpcServer string nat
  | HttpServer string nat
  | Killed
  | GrpcStopped
  | Exited int

text \<open>
  The tables after the start and what the program does, or the exception that ends it: \<open>fails\<close> tells that the http server raises,
  otherwise it ends at an interrupt, which the loop after it meets too.
\<close>

definition route_main :: "string option \<Rightarrow> bool \<Rightarrow> bool \<Rightarrow> string set \<Rightarrow> (server_event list, string set) eff" where
  "route_main mode connected fails tables =
     and_then
       (if (case mode of None \<Rightarrow> ''local'' | Some m \<Rightarrow> m) = ''distribute'' then init_db connected tables else (Inr (), tables))
       (\<lambda>_ tables'.
          (Inr ([GrpcServer (fst proxy_service) (snd proxy_service), HttpServer (fst http_service) (snd http_service)] @
             (if fails then [Killed] else [GrpcStopped, Exited 0])), tables'))"

subsection \<open>Requests reach their handlers\<close>

lemma dispatched: "dispatches D \<Longrightarrow> (m, app) \<in> set ms \<Longrightarrow> rest = [] \<or> hd rest = CHR ''/'' \<Longrightarrow>
    \<forall>(m', app') \<in> set ms. startswith (m @ rest) m' \<longrightarrow> m' = m \<and> app' = app \<Longrightarrow> D ms base (m @ rest) = (app, rest)"
  unfolding dispatches_def by blast

lemma data_requests: "dispatches D \<Longrightarrow> D mounts ManagerApp (''/v1/data/'' @ rest) = (DataApp, CHR ''/'' # rest)"
  using dispatched [of D "''/v1/data''" DataApp mounts "CHR ''/'' # rest" ManagerApp]
  by (simp add: mounts_def api_version_def startswith_def)

lemma parse_requests: "dispatches D \<Longrightarrow> D mounts ManagerApp (''/v1/parse/'' @ rest) = (ParseApp, CHR ''/'' # rest)"
  using dispatched [of D "''/v1/parse''" ParseApp mounts "CHR ''/'' # rest" ManagerApp]
  by (simp add: mounts_def api_version_def startswith_def)

text \<open>
  C28. The notification that the maker sends after it has saved a block goes to the port of the http server and
  to the handler that starts the process for this block, and the request that such a process sends in the end goes to the application for the data,
  with the block, partition and version in its path. A request with another verb starts no process, nor does one
  whose path is from the root and below neither mount.
\<close>

theorem notification_reaches_handler:
  assumes "dispatches D" "meta_path \<noteq> [] \<or> data_path \<noteq> []"
  shows "(\<exists>path. rq_url (save_data_block_info host meta_path data_path) = ''http://'' @ host @ '':'' @ str_of_nat (snd http_service) @ path \<and>
      route_request D flask data_app err_text ''POST'' path (rq_json (save_data_block_info host meta_path data_path)) ps =
        (Reply 0 ''success'', ps @ [ParseProcess [] meta_path data_path])) \<and>
    route_request D flask data_app err_text verb (rq_url (block_request meta data_path)) json ps =
      (data_app verb (''/'' @ block_id meta @ ''/'' @ str_of_int (partition_id meta) @ ''/'' @ str_of_int (file_version meta) @
         ''/create/data/block'') json, ps) \<and>
    (verb \<noteq> ''POST'' \<or> startswith path ''/'' \<and> \<not> startswith path ''/v1/data'' \<and> \<not> startswith path ''/v1/parse'' \<longrightarrow>
      snd (route_request D flask data_app err_text verb path json ps) = ps)"
proof (intro conjI impI)
  have port: "str_of_nat (snd http_service) = ''6380''"
    by (simp add: http_service_def str_of_nat.simps char_of_def bit_0)
  show "\<exists>path. rq_url (save_data_block_info host meta_path data_path) = ''http://'' @ host @ '':'' @ str_of_nat (snd http_service) @ path \<and>
      route_request D flask data_app err_text ''POST'' path (rq_json (save_data_block_info host meta_path data_path)) ps =
        (Reply 0 ''success'', ps @ [ParseProcess [] meta_path data_path])"
    using assms(2) parse_requests [OF assms(1), of "''data/block/meta''"]
    by (intro exI [of _ "''/v1/parse/data/block/meta''"])
      (auto simp: port save_data_block_info_def route_request_def parse_app_def parse_data_block_meta_def json_get_def truthy_def Let_def)
  show "route_request D flask data_app err_text verb (rq_url (block_request meta data_path)) json ps =
      (data_app verb (''/'' @ block_id meta @ ''/'' @ str_of_int (partition_id meta) @ ''/'' @ str_of_int (file_version meta) @
         ''/create/data/block'') json, ps)"
    using data_requests [OF assms(1)] by (simp add: route_request_def block_request_def)
  show "snd (route_request D flask data_app err_text verb path json ps) = ps"
    if "verb \<noteq> ''POST'' \<or> startswith path ''/'' \<and> \<not> startswith path ''/v1/data'' \<and> \<not> startswith path ''/v1/parse''"
  proof (cases "verb = ''POST''")
    case True
    then have "D mounts ManagerApp path = (ManagerApp, path)"
      using assms(1) that unfolding dispatches_def by (simp add: mounts_def api_version_def)
    then show ?thesis by (simp add: route_request_def)
  qed (simp add: route_request_def parse_app_def split: prod.split wsgi_app.split)
qed

definition first_prefix :: dispatcher where
  "first_prefix ms base path =
     (case filter (\<lambda>m. startswith path (fst m)) ms of [] \<Rightarrow> (base, path) | m # _ \<Rightarrow> (snd m, drop (length (fst m)) path))"

lemma first_prefix_dispatches: "dispatches first_prefix"
proof -
  have "first_prefix ms base (m @ rest) = (app, rest)"
    if "(m, app) \<in> set ms" "\<forall>(m', app') \<in> set ms. startswith (m @ rest) m' \<longrightarrow> m' = m \<and> app' = app" for ms base m app rest
  proof -
    have "(m, app) \<in> set (filter (\<lambda>x. startswith (m @ rest) (fst x)) ms)" using that(1) by simp
    moreover have "\<forall>x \<in> set (filter (\<lambda>x. startswith (m @ rest) (fst x)) ms). x = (m, app)" using that(2) by auto
    ultimately obtain xs where "filter (\<lambda>x. startswith (m @ rest) (fst x)) ms = (m, app) # xs"
      by (cases "filter (\<lambda>x. startswith (m @ rest) (fst x)) ms") auto
    then show ?thesis by (simp add: first_prefix_def)
  qed
  moreover have "first_prefix ms base path = (base, path)" if "\<forall>(m, app) \<in> set ms. \<not> startswith path m" for ms base and path :: string
  proof -
    have "filter (\<lambda>m. startswith path (fst m)) ms = []" using that by (auto simp: filter_empty_conv)
    then show ?thesis by (simp add: first_prefix_def)
  qed
  ultimately show ?thesis unfolding dispatches_def by blast
qed

theorem notification_reaches_handler_witness:
  "\<exists>path. rq_url (save_data_block_info ''h'' ''m'' ''d'') = ''http://'' @ ''h'' @ '':'' @ str_of_nat (snd http_service) @ path \<and>
    route_request first_prefix (\<lambda>_ _ _. HttpError 404) (\<lambda>_ _ _. HttpError 404) (\<lambda>_. []) ''POST'' path (rq_json (save_data_block_info ''h'' ''m'' ''d'')) [] =
      (Reply 0 ''success'', [ParseProcess [] ''m'' ''d''])"
  using notification_reaches_handler [OF first_prefix_dispatches, of "''m''" "''d''" "''h''" "\<lambda>_ _ _. HttpError 404" "\<lambda>_ _ _. HttpError 404" "\<lambda>_. []" "[]"] by simp

end
