(* ===== verification/Model_Store.thy ===== *)
theory Model_Store
  imports DJ_Prelude "HOL-Library.Countable"
begin

section \<open>The description of a model in redis\<close>

text \<open>
  \<^verbatim>\<open>example/mnist_demo/write_redis.py\<close>: a JSON file that describes an exported model is written to redis under a key made of its
  name and version. Encoder and decoder of JSON are parameters, of which the round trip is used. The state is the data of
  the server, with the answer to a write in \<open>ks_accepts\<close>.
\<close>

datatype json =
    JsonNull
  | JsonBool bool
  | JsonInt int
  | JsonString string
  | JsonArray "json list"
  | JsonObject "(string \<times> json) list"

definition json_truthy :: "json \<Rightarrow> bool" where
  "json_truthy v \<longleftrightarrow> v \<notin> {JsonNull, JsonBool False, JsonInt 0, JsonString [], JsonArray [], JsonObject []}"

fun json_index :: "json \<Rightarrow> string \<Rightarrow> exn + json" where
  "json_index (JsonObject d) k = raising (map_of d k) KeyError"
| "json_index _ k = Inl TypeError"

record json_codec =
  jc_dumps :: "json \<Rightarrow> bytes"
  jc_loads :: "bytes \<Rightarrow> json option"
  jc_str :: "json \<Rightarrow> string" \<comment> \<open>\<^verbatim>\<open>str\<close>\<close>

definition codec_ok :: "json_codec \<Rightarrow> bool" where
  "codec_ok J \<longleftrightarrow> (\<forall>d. jc_dumps J d \<noteq> [] \<and> jc_loads J (jc_dumps J d) = Some d)"

record key_store =
  ks_up :: bool
  ks_accepts :: bool
  ks_data :: "string \<rightharpoonup> bytes"

text \<open>\<^verbatim>\<open>redis_set_json\<close> gives the data back when they are empty, the key otherwise.\<close>

definition redis_set_json :: "json_codec \<Rightarrow> string \<Rightarrow> json \<Rightarrow> key_store \<Rightarrow> (json + string, key_store) eff" where
  "redis_set_json J key data s =
     (if \<not> json_truthy data then (Inr (Inl data), s)
      else if \<not> ks_up s then (Inl RpcError, s)
      else if \<not> ks_accepts s then (Inl GenericException, s)
      else (Inr (Inr key), s\<lparr>ks_data := (ks_data s)(key \<mapsto> jc_dumps J data)\<rparr>))"

definition redis_get_json :: "json_codec \<Rightarrow> string \<Rightarrow> key_store \<Rightarrow> exn + json" where
  "redis_get_json J key s =
     (if key = [] then Inr (JsonString [])
      else if \<not> ks_up s then Inl RpcError
      else case ks_data s key of
             None \<Rightarrow> Inr (JsonString [])
           | Some v \<Rightarrow> if v = [] then Inr (JsonString []) else raising (jc_loads J v) ValueError)"

definition model_key :: "json_codec \<Rightarrow> json \<Rightarrow> exn + string" where
  "model_key J data =
     (case json_index data ''conf_info'' of
        Inl e \<Rightarrow> Inl e
      | Inr conf_info \<Rightarrow>
          (case json_index conf_info ''model_uri'' of
             Inl e \<Rightarrow> Inl e
           | Inr model_uri \<Rightarrow>
               (case json_index conf_info ''version'' of
                  Inl e \<Rightarrow> Inl e
                | Inr version \<Rightarrow> Inr (jc_str J model_uri @ ''-'' @ jc_str J version))))"

definition load_model_json :: "json_codec \<Rightarrow> (string \<Rightarrow> json option) \<Rightarrow> string \<Rightarrow> key_store \<Rightarrow> (unit, key_store) eff" where
  "load_model_json J files fname s =
     (case files fname of
        None \<Rightarrow> (Inl OpError, s)
      | Some data \<Rightarrow>
          (case model_key J data of
             Inl e \<Rightarrow> (Inl e, s)
           | Inr key \<Rightarrow> and_then (redis_set_json J key data s) (\<lambda>_ s'. (Inr (), s'))))"

text \<open>
  After the script has ended without an error the server answers the key of the model with the file, every other key with what it
  answered before; after an error nothing has changed.
\<close>

theorem model_description_roundtrip:
  assumes "codec_ok J" "files fname = Some data" "load_model_json J files fname s = (r, s')"
  shows "(\<forall>key. r = Inr () \<and> model_key J data = Inr key \<longrightarrow> redis_get_json J key s' = Inr data) \<and>
    (\<forall>k. model_key J data \<noteq> Inr k \<longrightarrow> redis_get_json J k s' = redis_get_json J k s) \<and>
    (\<forall>e. r = Inl e \<longrightarrow> s' = s) \<and> (r = Inr () \<longrightarrow> (\<exists>key. model_key J data = Inr key))"
proof (cases "model_key J data")
  case (Inl e)
  with assms(2,3) show ?thesis by (auto simp: load_model_json_def)
next
  case (Inr key)
  then have full: "json_truthy data" by (cases data) (auto simp: model_key_def json_truthy_def)
  have dash: "key \<noteq> []" using Inr by (auto simp: model_key_def split: sum.splits)
  from assms Inr full dash show ?thesis
    by (auto simp: load_model_json_def redis_set_json_def redis_get_json_def codec_ok_def split: if_splits)
qed

text \<open>The descriptions can be numbered, which gives a codec.\<close>

instance json :: countable
  by countable_datatype

definition unary_codec :: json_codec where
  "unary_codec =
     \<lparr>jc_dumps = (\<lambda>d. replicate (to_nat d + 1) CHR ''a''),
      jc_loads = (\<lambda>b. if b = [] then None else Some (from_nat (length b - 1))),
      jc_str = (\<lambda>d. case d of JsonString s \<Rightarrow> s | _ \<Rightarrow> [])\<rparr>"

definition sample_file :: json where
  "sample_file = JsonObject [(''conf_info'', JsonObject [(''model_uri'', JsonString ''mnist''), (''version'', JsonString ''7'')])]"

theorem model_description_roundtrip_witness:
  "\<exists>s'. load_model_json unary_codec [''f'' \<mapsto> sample_file] ''f'' \<lparr>ks_up = True, ks_accepts = True, ks_data = Map.empty\<rparr> = (Inr (), s') \<and>
    redis_get_json unary_codec ''mnist-7'' s' = Inr sample_file"
proof -
  have codec: "codec_ok unary_codec" by (simp add: codec_ok_def unary_codec_def)
  have key: "model_key unary_codec sample_file = Inr ''mnist-7''" by (simp add: model_key_def sample_file_def unary_codec_def)
  then obtain s' where run: "load_model_json unary_codec [''f'' \<mapsto> sample_file] ''f'' \<lparr>ks_up = True, ks_accepts = True, ks_data = Map.empty\<rparr> = (Inr (), s')"
    by (simp add: load_model_json_def redis_set_json_def json_truthy_def sample_file_def)
  with model_description_roundtrip [OF codec _ run, of sample_file] key show ?thesis by simp
qed

end
