(* ===== verification/Make_Data.thy ===== *)
theory Make_Data
  imports Psi_Blocks Complex_Main "HOL-Library.Word" "HOL-Library.Multiset"
begin

unbundle bit_operations_syntax

section \<open>The raw data of the two parties\<close>

text \<open>
  \<^verbatim>\<open>example/mnist_data/make_data.py\<close> writes the raw data from which the data join starts: each party gets its
  half of the columns of a table, with common example ids, cut into partitions by a hash of the
  id and sorted by the id in each partition. The pixels are of an arbitrary type; a serialized
  \<^verbatim>\<open>tf.train.Example\<close> is a value of the parameter \<open>ser\<close>, the random numbers are a sequence that the
  program draws from. The ids are ASCII (they are uuids).
\<close>

subsection \<open>The hash of an id\<close>

definition convert_n_bytes :: "int \<Rightarrow> nat \<Rightarrow> int" where
  "convert_n_bytes n b =
     (let bits = b * 8 in ((n + 2 ^ (bits - 1)) mod 2 ^ bits - 2 ^ (bits - 1)) AND 0xfffffff)"

definition convert_4_bytes :: "int \<Rightarrow> int" where
  "convert_4_bytes n = convert_n_bytes n 4"

fun hash_loop :: "nat \<Rightarrow> nat \<Rightarrow> int \<Rightarrow> string \<Rightarrow> int" where
  "hash_loop n i h [] = h"
| "hash_loop n i h (c # cs) = hash_loop n (i + 1) (h + of_char c * 31 ^ (n - 1 - i)) cs"

definition getHashCode :: "string \<Rightarrow> int" where
  "getHashCode s = convert_4_bytes (hash_loop (length s) 0 0 s)"

subsection \<open>Examples\<close>

datatype 'x feature = FloatList "'x list" | Int64List "int list" | BytesList "bytes list"

datatype 'x feature_values = Floats "'x list" | Ints "int list" | Octets "bytes list"

text \<open>The list constructors refuse values of another type.\<close>

definition get_feature :: "'x feature_values \<Rightarrow> string \<Rightarrow> exn + 'x feature" where
  "get_feature values f_type =
     (if f_type = ''float'' then (case values of Floats xs \<Rightarrow> Inr (FloatList xs) | _ \<Rightarrow> Inl TypeError)
      else if f_type = ''int64'' then (case values of Ints xs \<Rightarrow> Inr (Int64List xs) | _ \<Rightarrow> Inl TypeError)
      else if f_type = ''bytes'' then (case values of Octets xs \<Rightarrow> Inr (BytesList xs) | _ \<Rightarrow> Inl TypeError)
      else Inl ValueError)"

definition item_2_tf_record ::
  "((string \<times> 'x feature) list \<Rightarrow> bytes) \<Rightarrow> bytes list \<Rightarrow> 'x list \<Rightarrow> int list option \<Rightarrow> exn + bytes" where
  "item_2_tf_record ser example_id xx yy =
     bind_exn (get_feature (Octets example_id) ''bytes'') (\<lambda>f_id.
     bind_exn (get_feature (Octets [''20191001042452'']) ''bytes'') (\<lambda>f_time.
     bind_exn (get_feature (Floats xx) ''float'') (\<lambda>f_x.
     let pb_dict = [(''example_id'', f_id), (''event_time'', f_time), (''x'', f_x)]
     in case yy of
          None \<Rightarrow> Inr (ser pb_dict)
        | Some [] \<Rightarrow> Inr (ser pb_dict)
        | Some ys \<Rightarrow> bind_exn (get_feature (Ints ys) ''int64'') (\<lambda>f_y. Inr (ser (pb_dict @ [(''y'', f_y)]))))))"

text \<open>The leader's and the follower's columns; the width is that of the first row.\<close>

definition split_columns :: "'x list list \<Rightarrow> 'x list list \<times> 'x list list" where
  "split_columns x = (let h = length (hd x) div 2 in (map (take h) x, map (drop h) x))"

definition list_at :: "'a list \<Rightarrow> nat \<Rightarrow> exn + 'a" where
  "list_at xs i = (if i < length xs then Inr (xs ! i) else Inl IndexError)"

definition get_pb_dataset ::
  "((string \<times> 'x feature) list \<Rightarrow> bytes) \<Rightarrow> string list \<Rightarrow> 'x list list \<Rightarrow> int list option \<Rightarrow> exn + (string \<times> bytes) list" where
  "get_pb_dataset ser eids x y =
     map_sum_list
       (\<lambda>i. bind_exn (list_at eids i) (\<lambda>eid.
            bind_exn
              (case y of
                 Some ys \<Rightarrow> bind_exn (list_at ys i) (\<lambda>yi. item_2_tf_record ser [eid] (x ! i) (Some [yi]))
               | None \<Rightarrow> item_2_tf_record ser [eid] (x ! i) None)
              (\<lambda>pb_str. Inr (eid, pb_str))))
       [0..<length x]"

subsection \<open>Partitions\<close>

text \<open>A partition number that is not positive leaves no list to append to.\<close>

fun put_records :: "int \<Rightarrow> (string \<times> bytes) list list \<Rightarrow> (string \<times> bytes) list \<Rightarrow> exn + (string \<times> bytes) list list" where
  "put_records n out [] = Inr out"
| "put_records n out ((example_id, pb_str) # dataset) =
     (if n = 0 then Inl ZeroDivisionError
      else let partition_id = getHashCode example_id mod n
           in if 0 \<le> partition_id \<and> nat partition_id < length out
              then put_records n (out[nat partition_id := out ! nat partition_id @ [(example_id, pb_str)]]) dataset
              else Inl IndexError)"

definition repartition_and_sort :: "(string \<times> bytes) list \<Rightarrow> int \<Rightarrow> exn + (string \<times> bytes) list list" where
  "repartition_and_sort dataset n_partition =
     bind_exn (put_records n_partition (replicate (nat n_partition) []) dataset) (\<lambda>out. Inr (map (sort_key fst) out))"

subsection \<open>Files\<close>

record data_store =
  md_records :: "string \<Rightarrow> bytes list option" \<comment> \<open>record files\<close>
  md_texts :: "string \<Rightarrow> string option" \<comment> \<open>text files\<close>
  md_dirs :: "string set"

definition rmtree :: "string \<Rightarrow> data_store \<Rightarrow> data_store" where
  "rmtree d st = \<lparr>md_records = (\<lambda>p. if inside d p then None else md_records st p),
     md_texts = (\<lambda>p. if inside d p then None else md_texts st p), md_dirs = {p \<in> md_dirs st. \<not> inside d p}\<rparr>"

definition renew_dir :: "string \<Rightarrow> data_store \<Rightarrow> data_store" where
  "renew_dir d st =
     (let st1 = (if d \<in> md_dirs st then rmtree d st else st) in st1\<lparr>md_dirs := insert d (md_dirs st1)\<rparr>)"

text \<open>The records of a partition that are not dropped, and the number of the next draw.\<close>

fun keep_records :: "rat \<Rightarrow> (nat \<Rightarrow> rat) \<Rightarrow> nat \<Rightarrow> (string \<times> bytes) list \<Rightarrow> (string \<times> bytes) list \<times> nat" where
  "keep_records drop_rate draws k [] = ([], k)"
| "keep_records drop_rate draws k (r # rs) =
     (if drop_rate > 0
      then case keep_records drop_rate draws (k + 1) rs of (kept, k') \<Rightarrow> (if draws k > drop_rate then r # kept else kept, k')
      else case keep_records drop_rate draws k rs of (kept, k') \<Rightarrow> (r # kept, k'))"

definition record_path :: "string \<Rightarrow> nat \<Rightarrow> string" where
  "record_path save_dir i = path_join save_dir (zfill 5 (str_of_nat i) @ ''.tfrecord'')"

definition meta_path_of :: "string \<Rightarrow> nat \<Rightarrow> string" where
  "meta_path_of save_meta_dir i = path_join save_meta_dir (zfill 5 (str_of_nat i) @ ''.meta'')"

definition meta_text :: "(string \<times> bytes) list \<Rightarrow> string" where
  "meta_text rs = concat (map (\<lambda>(eid, record). eid @ [CHR 0x0A]) rs)"

definition save_partition ::
  "string \<Rightarrow> string option \<Rightarrow> rat \<Rightarrow> (nat \<Rightarrow> rat) \<Rightarrow> nat \<Rightarrow> (string \<times> bytes) list \<Rightarrow> nat \<times> data_store \<Rightarrow> (unit, nat \<times> data_store) eff" where
  "save_partition save_dir save_meta_dir drop_rate draws i rs s =
     (case s of (k, st) \<Rightarrow>
        case save_meta_dir of
          None \<Rightarrow> (Inl UnboundLocalError, s)
        | Some meta_dir \<Rightarrow>
            (case keep_records drop_rate draws k rs of (kept, k') \<Rightarrow>
               (Inr (), (k', st\<lparr>md_records := (md_records st)(record_path save_dir i \<mapsto> map snd kept),
                                md_texts := (md_texts st)(meta_path_of meta_dir i \<mapsto> meta_text kept)\<rparr>))))"

fun save_partitions ::
  "string \<Rightarrow> string option \<Rightarrow> rat \<Rightarrow> (nat \<Rightarrow> rat) \<Rightarrow> nat \<Rightarrow> (string \<times> bytes) list list \<Rightarrow> nat \<times> data_store \<Rightarrow> (unit, nat \<times> data_store) eff" where
  "save_partitions save_dir save_meta_dir drop_rate draws i [] s = (Inr (), s)"
| "save_partitions save_dir save_meta_dir drop_rate draws i (rs # data) s =
     and_then (save_partition save_dir save_meta_dir drop_rate draws i rs s)
       (\<lambda>_. save_partitions save_dir save_meta_dir drop_rate draws (i + 1) data)"

definition save_local ::
  "(string \<times> bytes) list \<Rightarrow> string \<Rightarrow> int \<Rightarrow> rat \<Rightarrow> bool \<Rightarrow> (nat \<Rightarrow> rat) \<Rightarrow> nat \<times> data_store \<Rightarrow> (unit, nat \<times> data_store) eff" where
  "save_local ori_data save_dir n_partition drop_rate need_meta draws s =
     (case s of (k, st) \<Rightarrow>
        let meta_dir = save_dir @ ''_meta'';
            st1 = renew_dir save_dir st;
            st2 = (if need_meta then renew_dir meta_dir st1 else st1)
        in case repartition_and_sort ori_data n_partition of
             Inl e \<Rightarrow> (Inl e, (k, st2))
           | Inr data \<Rightarrow>
               save_partitions save_dir (if need_meta then Some meta_dir else None) drop_rate draws 0 data (k, st2))"

subsection \<open>The program\<close>

record make_args =
  mk_output_dir :: string
  mk_partition_num :: int
  mk_drop_rate :: rat
  mk_need_meta :: int

text \<open>
  \<^verbatim>\<open>int(len_all * 0.8)\<close> is the integer part of four fifths. Without any record the length is \<open>-1\<close>, which is
  a slice up to the last but one: of nothing, nothing.
\<close>

definition len_train :: "nat \<Rightarrow> nat" where
  "len_train len_all = nat (min (int len_all * 4 div 5) (int len_all - 1))"

definition save_dataset ::
  "make_args \<Rightarrow> (nat \<Rightarrow> rat) \<Rightarrow> exn + (string \<times> bytes) list \<Rightarrow> string \<Rightarrow> nat \<times> data_store \<Rightarrow> (unit, nat \<times> data_store) eff" where
  "save_dataset args draws dataset path s =
     (case dataset of
        Inl e \<Rightarrow> (Inl e, s)
      | Inr ds \<Rightarrow> save_local ds (mk_output_dir args @ path) (mk_partition_num args) (mk_drop_rate args) (mk_need_meta args = 1) draws s)"

definition make_data_main ::
  "((string \<times> 'x feature) list \<Rightarrow> bytes) \<Rightarrow> 'x list list \<Rightarrow> 'x list list \<Rightarrow> int list \<Rightarrow> string list \<Rightarrow> make_args \<Rightarrow> (nat \<Rightarrow> rat) \<Rightarrow>
     nat \<times> data_store \<Rightarrow> (unit, nat \<times> data_store) eff" where
  "make_data_main ser xl xf y e_ids args draws s =
     (let n = len_train (length xl)
      in if length xl \<noteq> length y then (Inl AssertionError, s)
         else and_then (save_dataset args draws (get_pb_dataset ser (take n e_ids) (take n xl) (Some (take n y))) ''/leader_train'' s)
           (\<lambda>_ s1. and_then (save_dataset args draws (get_pb_dataset ser (take n e_ids) (take n xf) None) ''/follower_train'' s1)
           (\<lambda>_ s2. and_then (save_dataset args draws (get_pb_dataset ser (drop n e_ids) (drop n xl) (Some (drop n y))) ''/leader_test'' s2)
           (\<lambda>_ s3. save_dataset args draws (get_pb_dataset ser (drop n e_ids) (drop n xf) None) ''/follower_test'' s3))))"

subsection \<open>The hash is a part of Java's\<close>

text \<open>\<^verbatim>\<open>java.lang.String.hashCode\<close>: 32 bit arithmetic, one multiplication per character.\<close>

definition java_hash :: "string \<Rightarrow> 32 word" where
  "java_hash s = foldl (\<lambda>h c. 31 * h + of_char c) 0 s"

lemma hash_loop_horner:
  "i + length s = n \<Longrightarrow> hash_loop n i (h * 31 ^ length s) s = foldl (\<lambda>h c. 31 * h + of_char c) h s"
proof (induction s arbitrary: i h)
  case (Cons c s)
  have "h * 31 ^ length (c # s) + of_char c * 31 ^ (n - 1 - i) = (31 * h + of_char c) * 31 ^ length s"
    using Cons.prems by (auto simp: algebra_simps)
  with Cons.IH [of "i + 1" "31 * h + of_char c"] Cons.prems show ?case by simp
qed simp

lemma of_int_of_char: "of_int (of_char c) = (of_char c :: 'a :: comm_ring_1)"
  by (simp add: of_char_def horner_sum_eq_sum flip: of_bool_def)

lemma java_hash_int: "java_hash s = word_of_int (foldl (\<lambda>h c. 31 * h + of_char c) 0 s)"
proof -
  have "foldl (\<lambda>h c. 31 * h + of_char c) (word_of_int h) s = (word_of_int (foldl (\<lambda>h c. 31 * h + of_char c) h s) :: 32 word)" for h
  proof (induction s arbitrary: h)
    case (Cons c s)
    have "31 * word_of_int h + of_char c = (word_of_int (31 * h + of_char c) :: 32 word)"
      using of_int_of_char [of c, where 'a = "32 word"] by simp
    with Cons.IH [of "31 * h + of_char c"] show ?case by simp
  qed simp
  from this [of 0] show ?thesis by (simp add: java_hash_def)
qed

lemma convert_take_bit: "convert_4_bytes n = take_bit 28 n"
proof -
  have "((n + 2 ^ 31) mod 2 ^ 32 - 2 ^ 31) mod 2 ^ 28 = ((n + 2 ^ 31) mod 2 ^ 32 mod 2 ^ 28 - 2 ^ 31) mod (2 ^ 28 :: int)"
    by (simp only: mod_simps)
  also have "\<dots> = ((n + 2 ^ 31) mod 2 ^ 28 - 2 ^ 31) mod 2 ^ 28"
    by (subst mod_mod_cancel) simp_all
  also have "\<dots> = (n + 2 ^ 31 - 2 ^ 31) mod 2 ^ 28" by (simp only: mod_simps)
  finally have "((n + 2 ^ 31) mod 2 ^ 32 - 2 ^ 31) mod 2 ^ 28 = n mod (2 ^ 28 :: int)" by simp
  moreover have "m AND 0xfffffff = m mod 2 ^ 28" for m :: int
    using take_bit_eq_mask [of 28 m] by (simp add: take_bit_eq_mod mask_eq_exp_minus_1)
  ultimately show ?thesis by (simp add: convert_4_bytes_def convert_n_bytes_def take_bit_eq_mod)
qed

lemma getHashCode_int: "getHashCode s = take_bit 28 (foldl (\<lambda>h c. 31 * h + of_char c) 0 s)"
  using hash_loop_horner [of 0 s "length s" 0] by (simp add: getHashCode_def convert_take_bit)

lemma getHashCode_nonneg [simp]: "0 \<le> getHashCode s"
  by (simp add: getHashCode_int)

text \<open>
  C34. The partition hash is Java's \<^verbatim>\<open>String.hashCode\<close>, computed with unbounded integers and cut to its
  lower 28 bits (the code says that it is Java's hash, which has 32 bits and a sign).
\<close>

theorem hash_is_java_hash: "getHashCode s = uint (java_hash s AND 0xfffffff) \<and> getHashCode s < 2 ^ 28"
proof
  have "uint (w AND 0xfffffff) = take_bit 28 (uint w)" for w :: "32 word"
    using take_bit_eq_mask [of 28 "uint w"] by (simp add: uint_and mask_eq_exp_minus_1)
  then show "getHashCode s = uint (java_hash s AND 0xfffffff)"
    by (simp only: getHashCode_int java_hash_int uint_word_of_int_eq take_bit_take_bit) simp
  show "getHashCode s < 2 ^ 28" unfolding getHashCode_int by (rule take_bit_int_less_exp)
qed

subsection \<open>Partitions\<close>

definition in_partition :: "int \<Rightarrow> nat \<Rightarrow> string \<times> bytes \<Rightarrow> bool" where
  "in_partition n i r \<longleftrightarrow> getHashCode (fst r) mod n = int i"

lemma put_records_filter:
  assumes "0 < n" "length out = nat n"
  shows "put_records n out ds = Inr (map (\<lambda>i. out ! i @ filter (in_partition n i) ds) [0..<nat n])"
  using assms(2)
proof (induction ds arbitrary: out)
  case (Cons r ds)
  let ?k = "nat (getHashCode (fst r) mod n)"
  have k: "?k < nat n" "int ?k = getHashCode (fst r) mod n" using assms(1) by simp_all
  have "map (\<lambda>i. out[?k := out ! ?k @ [r]] ! i @ filter (in_partition n i) ds) [0..<nat n] =
      map (\<lambda>i. out ! i @ filter (in_partition n i) (r # ds)) [0..<nat n]"
    using k Cons.prems by (intro map_cong) (auto simp: in_partition_def nth_list_update)
  with Cons.IH [of "out[?k := out ! ?k @ [r]]"] Cons.prems assms(1) k(1) show ?case
    by (cases r) (simp add: Let_def)
next
  case Nil
  then show ?case using map_nth [of out] by simp
qed

lemma repartition_filter:
  assumes "0 < n"
  shows "repartition_and_sort ds n = Inr (map (\<lambda>i. sort_key fst (filter (in_partition n i) ds)) [0..<nat n])"
  using put_records_filter [OF assms, of "replicate (nat n) []" ds]
  by (simp add: repartition_and_sort_def comp_def)

lemma mset_buckets:
  assumes "\<And>x. x \<in> set xs \<Longrightarrow> \<exists>!i. i < m \<and> P i x"
  shows "mset (concat (map (\<lambda>i. filter (P i) xs) [0..<m])) = mset xs"
  using assms
proof (induction xs)
  case (Cons x xs)
  from Cons.prems obtain i where i: "i < m" "P i x" "\<And>j. j < m \<Longrightarrow> P j x \<Longrightarrow> j = i" by (metis list.set_intros(1))
  have IH: "mset (concat (map (\<lambda>i. filter (P i) xs) [0..<m])) = mset xs"
    by (rule Cons.IH) (rule Cons.prems, simp)
  have step: "mset (concat (map (\<lambda>i. filter (P i) (x # xs)) ks)) =
      mset (concat (map (\<lambda>i. filter (P i) xs) ks)) + (if i \<in> set ks then {#x#} else {#})"
    if "set ks \<subseteq> {..<m}" "distinct ks" for ks
    using that
  proof (induction ks)
    case (Cons k ks)
    then have "k < m" by simp
    then have "P k x \<longleftrightarrow> k = i" using i(2) i(3) [of k] by blast
    with Cons show ?case by (cases "k = i") simp_all
  qed simp
  have "set [0..<m] \<subseteq> {..<m}" by auto
  from step [OF this] IH i(1) show ?case by simp
qed (simp add: concat_eq_Nil_conv)

lemma map_fst_sort_key: "map fst (sort_key fst xs) = sort (map fst xs)"
proof (rule properties_for_sort [symmetric])
  show "mset (map fst (sort_key fst xs)) = mset (map fst xs)" by (simp only: mset_map mset_sort)
qed simp

lemma filter_fst_partition: "map fst (filter (in_partition n i) ds) = filter (\<lambda>e. getHashCode e mod n = int i) (map fst ds)"
  by (induction ds) (simp_all add: in_partition_def)

subsection \<open>Files\<close>

lemma path_inject [simp]:
  "record_path d i = record_path d j \<longleftrightarrow> i = j" "meta_path_of d i = meta_path_of d j \<longleftrightarrow> i = j"
  by (simp_all add: record_path_def meta_path_of_def path_join_inject file_name_def zfill_no_slash)

lemma keep_records_all: "drop_rate \<le> 0 \<Longrightarrow> keep_records drop_rate draws k rs = (rs, k)"
  by (induction rs) simp_all

definition holds_partition :: "string \<Rightarrow> nat \<Rightarrow> (string \<times> bytes) list \<Rightarrow> data_store \<Rightarrow> bool" where
  "holds_partition d i rs st \<longleftrightarrow> md_records st (record_path d i) = Some (map snd rs) \<and>
     md_texts st (meta_path_of (d @ ''_meta'') i) = Some (meta_text rs)"

lemma save_partitions_all:
  assumes "drop_rate \<le> 0"
  shows "\<exists>st'. save_partitions d (Some (d @ ''_meta'')) drop_rate draws i data (k, st) = (Inr (), (k, st')) \<and>
     (\<forall>j < length data. holds_partition d (i + j) (data ! j) st') \<and>
     (\<forall>j rs. j < i \<and> holds_partition d j rs st \<longrightarrow> holds_partition d j rs st')"
proof (induction data arbitrary: i st)
  case (Cons rs data)
  let ?st = "st\<lparr>md_records := (md_records st)(record_path d i \<mapsto> map snd rs),
    md_texts := (md_texts st)(meta_path_of (d @ ''_meta'') i \<mapsto> meta_text rs)\<rparr>"
  obtain st' where IH: "save_partitions d (Some (d @ ''_meta'')) drop_rate draws (i + 1) data (k, ?st) = (Inr (), (k, st'))"
    "\<forall>j < length data. holds_partition d (i + 1 + j) (data ! j) st'"
    "\<forall>j rs. j < i + 1 \<and> holds_partition d j rs ?st \<longrightarrow> holds_partition d j rs st'"
    using Cons.IH [of "i + 1" ?st] by (elim exE conjE)
  have step: "save_partition d (Some (d @ ''_meta'')) drop_rate draws i rs (k, st) = (Inr (), (k, ?st))"
    by (simp add: save_partition_def keep_records_all [OF assms])
  have first: "holds_partition d i rs st'" using IH(3) by (simp add: holds_partition_def)
  have "holds_partition d (i + j) ((rs # data) ! j) st'" if "j < length (rs # data)" for j
    using IH(2) first that by (cases j) auto
  moreover have "holds_partition d j rs' st'" if "j < i" "holds_partition d j rs' st" for j rs'
    using IH(3) that by (simp add: holds_partition_def)
  ultimately show ?case using step IH(1) by auto
qed simp

lemma save_local_partitions:
  assumes "0 < n" "drop_rate \<le> 0"
  shows "\<exists>st'. save_local ds d n drop_rate True draws (k, st) = (Inr (), (k, st')) \<and>
     (\<forall>i < nat n. holds_partition d i (sort_key fst (filter (in_partition n i) ds)) st')"
  using save_partitions_all [OF assms(2), of d draws 0 "map (\<lambda>i. sort_key fst (filter (in_partition n i) ds)) [0..<nat n]" k]
  by (auto simp: save_local_def repartition_filter [OF assms(1)] Let_def)

text \<open>
  C35. Two datasets with the same example ids, saved with the same number of partitions and without
  dropping records: every record is in exactly one partition file, the files with the same number
  hold the same ids in the same order at both parties, and the meta files list them.
\<close>

theorem partitions_align:
  assumes "0 < n" "drop_rate \<le> 0" "map fst leader = map fst follower"
  shows "\<exists>stL stF outL outF.
     save_local leader dirL n drop_rate True draws (k, st) = (Inr (), (k, stL)) \<and>
     save_local follower dirF n drop_rate True draws (k, stL) = (Inr (), (k, stF)) \<and>
     length outL = nat n \<and> length outF = nat n \<and>
     (\<forall>i < nat n. holds_partition dirL i (outL ! i) stL \<and> holds_partition dirF i (outF ! i) stF \<and>
        map fst (outL ! i) = map fst (outF ! i) \<and> sorted (map fst (outL ! i)) \<and>
        (\<forall>e \<in> set (map fst (outL ! i)). getHashCode e mod n = int i)) \<and>
     mset (concat outL) = mset leader \<and> mset (concat outF) = mset follower"
proof -
  let ?out = "\<lambda>ds. map (\<lambda>i. sort_key fst (filter (in_partition n i) ds)) [0..<nat n]"
  obtain stL where L: "save_local leader dirL n drop_rate True draws (k, st) = (Inr (), (k, stL))"
    "\<forall>i < nat n. holds_partition dirL i (?out leader ! i) stL"
    using save_local_partitions [OF assms(1,2), of leader dirL draws k st] by auto
  obtain stF where F: "save_local follower dirF n drop_rate True draws (k, stL) = (Inr (), (k, stF))"
    "\<forall>i < nat n. holds_partition dirF i (?out follower ! i) stF"
    using save_local_partitions [OF assms(1,2), of follower dirF draws k stL] by auto
  have mset_out: "mset (concat (?out ds)) = mset ds" for ds
  proof -
    have "mset (concat (?out ds)) = mset (concat (map (\<lambda>i. filter (in_partition n i) ds) [0..<nat n]))"
      by (simp add: mset_concat comp_def)
    also have "\<dots> = mset ds"
    proof (rule mset_buckets)
      fix r assume "r \<in> set ds"
      show "\<exists>!i. i < nat n \<and> in_partition n i r"
        by (rule ex1I [of _ "nat (getHashCode (fst r) mod n)"]) (use assms(1) in \<open>auto simp: in_partition_def\<close>)
    qed
    finally show ?thesis .
  qed
  show ?thesis
    by (rule exI [of _ stL], rule exI [of _ stF], rule exI [of _ "?out leader"], rule exI [of _ "?out follower"])
       (use L F mset_out assms(3) in \<open>auto simp: map_fst_sort_key filter_fst_partition simp flip: set_map\<close>)
qed

theorem partitions_align_witness:
  "\<exists>stL outL. save_local [(''a'', ''1''), (''b'', ''2'')] ''d/leader'' 2 0 True (\<lambda>_. 0)
       (0, \<lparr>md_records = Map.empty, md_texts = Map.empty, md_dirs = {}\<rparr>) = (Inr (), (0, stL)) \<and>
     length outL = 2 \<and> holds_partition ''d/leader'' 1 (outL ! 1) stL"
proof -
  let ?st = "\<lparr>md_records = Map.empty, md_texts = Map.empty, md_dirs = {}\<rparr>"
  obtain stL stF outL outF where
    "save_local [(''a'', ''1''), (''b'', ''2'')] ''d/leader'' 2 0 True (\<lambda>_. 0) (0, ?st) = (Inr (), (0, stL))"
    "length outL = nat 2" "\<forall>i < nat 2. holds_partition ''d/leader'' i (outL ! i) stL \<and> holds_partition ''d/follower'' i (outF ! i) stF \<and>
        map fst (outL ! i) = map fst (outF ! i) \<and> sorted (map fst (outL ! i)) \<and>
        (\<forall>e \<in> set (map fst (outL ! i)). getHashCode e mod 2 = int i)"
    using partitions_align [of 2 0 "[(''a'', ''1''), (''b'', ''2'')]" "[(''a'', ''3''), (''b'', ''4'')]" "''d/leader''" "\<lambda>_. 0" 0 ?st "''d/follower''"]
    by auto
  then show ?thesis by (intro exI [of _ stL] exI [of _ outL]) simp
qed

text \<open>
  Without meta files (\<^verbatim>\<open>--need_meta 0\<close>) the program always fails: the path of the meta file is built
  from a directory name that was not assigned. No partition is written.
\<close>

theorem no_meta_fails:
  assumes "0 < n"
  shows "save_local ds d n drop_rate False draws (k, st) = (Inl UnboundLocalError, (k, renew_dir d st))"
proof -
  obtain m where "nat n = Suc m" using assms gr0_implies_Suc [of "nat n"] by auto
  then show ?thesis
    by (simp add: save_local_def repartition_filter [OF assms] save_partition_def upt_conv_Cons Let_def del: upt_Suc)
qed

theorem no_meta_fails_witness:
  "fst (save_local [(''a'', ''1'')] ''d'' 2 0 False (\<lambda>_. 0) (0, \<lparr>md_records = Map.empty, md_texts = Map.empty, md_dirs = {}\<rparr>)) =
     Inl UnboundLocalError"
  using no_meta_fails [of 2 "[(''a'', ''1'')]" "''d''" 0 "\<lambda>_. 0" 0] by simp

end
