(* ===== verification/Trainer_Env.thy ===== *)
theory Trainer_Env
  imports Psi_Blocks
begin

section \<open>The environment of a training worker\<close>

text \<open>
  \<^verbatim>\<open>Trainer/fl_comm_libs/flenv.py\<close>, \<^verbatim>\<open>flflags.py\<close> and \<^verbatim>\<open>fl_rpc_utils.py\<close>: a worker reads its place in the cluster
  and its addresses from flags and environment variables, registers with the coordinator until
  it is paired with a worker of the other party, prepares its directories and runs the user's
  function. The parsed value of the variable \<^verbatim>\<open>TF_CONFIG\<close> is a record; a cluster is the list of its jobs
  with the addresses of their tasks, as \<^verbatim>\<open>tf.train.ClusterSpec\<close> gives it back. The answers of the
  coordinator are a function of the number of the call.
\<close>

subsection \<open>Flags and variables\<close>

record flags =
  fl_role :: string
  fl_appli_id :: string
  fl_local_addr :: "string option"
  fl_peer_addr :: "string option"
  fl_dc_addr :: "string option"
  fl_coordinator_addr :: "string option"
  fl_proxy_addr :: "string option"
  fl_worker_id :: int
  fl_rpc_service_type :: int
  fl_model_dir :: string
  fl_export_dir :: string
  fl_local_debug :: int
  fl_check_exampleid :: int
  fl_eval :: int
  fl_checkpoint_hdfs_path :: string

definition default_flags :: flags where
  "default_flags = \<lparr>fl_role = ''leader'', fl_appli_id = ''jdfl'', fl_local_addr = None, fl_peer_addr = None, fl_dc_addr = None,
     fl_coordinator_addr = None, fl_proxy_addr = None, fl_worker_id = 0, fl_rpc_service_type = 1,
     fl_model_dir = ''./models/model_dir/'', fl_export_dir = ''./models/export_savemodel/'', fl_local_debug = 0,
     fl_check_exampleid = 0, fl_eval = 0, fl_checkpoint_hdfs_path = []\<rparr>"

record tf_config =
  tc_cluster :: "(string \<times> string list) list option"
  tc_job_name :: "string option"
  tc_task_index :: "int option"

record trainer_env =
  te_tf_config :: "tf_config option"
  te_app_id :: "string option"
  te_rpc_service_type :: "string option"
  te_worker_port :: "string option"
  te_coordinator_ip :: "string option"
  te_coordinator_port :: "string option"
  te_proxy_ip :: "string option"
  te_proxy_port :: "string option"
  te_datacenter_ip :: "string option"
  te_datacenter_port :: "string option"
  te_model_dir :: "string option"
  te_export_dir :: "string option"
  te_host_ip :: string \<comment> \<open>\<^verbatim>\<open>socket.gethostbyname(socket.gethostname())\<close>\<close>

subsection \<open>The cluster\<close>

record tf_settings =
  mc_worker_replicas :: nat
  mc_worker_id :: int
  mc_is_local :: bool
  mc_ps_tasks :: "nat option"
  mc_job_name :: "string option"
  mc_task_index :: "int option"
  mc_cluster :: "(string \<times> string list) list option"

definition local_settings :: tf_settings where
  "local_settings = \<lparr>mc_worker_replicas = 1, mc_worker_id = 0, mc_is_local = True, mc_ps_tasks = None, mc_job_name = None,
     mc_task_index = None, mc_cluster = None\<rparr>"

definition job_tasks :: "(string \<times> string list) list \<Rightarrow> string \<Rightarrow> nat" where
  "job_tasks cluster job = length (case map_of cluster job of None \<Rightarrow> [] | Some addrs \<Rightarrow> addrs)"

definition parse_tf_config :: "tf_config option \<Rightarrow> exn + tf_settings" where
  "parse_tf_config config =
     (case config of
        None \<Rightarrow> Inr local_settings
      | Some tc \<Rightarrow>
          (case (tc_job_name tc, tc_task_index tc) of
             (Some job_name, Some task_index) \<Rightarrow>
               (case tc_cluster tc of
                  None \<Rightarrow> Inl TypeError
                | Some cluster \<Rightarrow>
                    let n_worker = job_tasks cluster ''worker''; n_master = job_tasks cluster ''master'';
                        n_chief = job_tasks cluster ''chief''; ps_tasks = job_tasks cluster ''ps'';
                        worker_replicas = n_worker + n_master + n_chief
                    in if worker_replicas > 1 \<and> ps_tasks < 1 then Inl ValueError
                       else Inr \<lparr>mc_worker_replicas = worker_replicas,
                                 mc_worker_id = (if job_name = ''master'' then task_index
                                                 else if job_name = ''chief'' then int n_master + task_index
                                                 else if job_name = ''worker'' then int n_chief + int n_master + task_index
                                                 else 0),
                                 mc_is_local = \<not> (worker_replicas \<ge> 1 \<and> ps_tasks > 0),
                                 mc_ps_tasks = Some ps_tasks, mc_job_name = Some job_name, mc_task_index = Some task_index,
                                 mc_cluster = Some cluster\<rparr>)
           | _ \<Rightarrow> Inr local_settings))"

subsection \<open>The configuration\<close>

record mconfig = tf_settings +
  mc_role :: string
  mc_appli_id :: string
  mc_channel_appli_id :: string
  mc_rpc_service_type :: "int + string"
  mc_local_addr :: "string option"
  mc_bind_addr :: "string option"
  mc_peer_addr :: "string option"
  mc_coordinator_addr :: "string option"
  mc_proxy_addr :: "string option"
  mc_dc_addr :: "string option"
  mc_model_dir :: string
  mc_export_dir :: string
  mc_local_debug :: int
  mc_log_dir :: "int + string"
  mc_eval :: int
  mc_checkpoint_hdfs_path :: string
  mc_channel_comm_uuid :: "(string + string list) option" \<comment> \<open>set by \<open>fl_run\<close>\<close>

definition env_addr :: "string option \<Rightarrow> string option \<Rightarrow> string option \<Rightarrow> string option" where
  "env_addr ip port otherwise =
     (case (ip, port) of (Some i, Some p) \<Rightarrow> Some (i @ '':'' @ p) | _ \<Rightarrow> otherwise)"

text \<open>The local address and the address to bind to.\<close>

definition local_addrs :: "flags \<Rightarrow> trainer_env \<Rightarrow> exn + string option \<times> string option" where
  "local_addrs fs env =
     bind_exn
       (case fl_local_addr fs of
          None \<Rightarrow> Inr (None, None)
        | Some addr \<Rightarrow> bind_exn (py_index (split_on CHR '':'' addr) 1) (\<lambda>port. Inr (Some addr, Some (''[::]:'' @ port))))
       (\<lambda>addrs.
          case te_worker_port env of
            None \<Rightarrow> Inr addrs
          | Some env_port \<Rightarrow>
              let port = hd (split_on CHR '','' env_port)
              in Inr (Some (te_host_ip env @ '':'' @ port), Some (''[::]:'' @ port)))"

text \<open>\<open>_parse_mconfig\<close> also writes the two addresses that default to the peer's into the flags.\<close>

definition debug_flags :: "flags \<Rightarrow> flags" where
  "debug_flags fs =
     (if fl_local_debug fs = 1
      then fs\<lparr>fl_coordinator_addr := (case fl_coordinator_addr fs of None \<Rightarrow> fl_peer_addr fs | a \<Rightarrow> a),
              fl_proxy_addr := (case fl_proxy_addr fs of None \<Rightarrow> fl_peer_addr fs | a \<Rightarrow> a)\<rparr>
      else fs)"

definition parse_mconfig :: "flags \<Rightarrow> trainer_env \<Rightarrow> exn + flags \<times> mconfig" where
  "parse_mconfig fs env =
     bind_exn (parse_tf_config (te_tf_config env)) (\<lambda>tf.
     bind_exn (local_addrs fs env) (\<lambda>(local_addr, bind_addr).
     let fs' = debug_flags fs;
         appli_id = (case te_app_id env of None \<Rightarrow> fl_appli_id fs | Some a \<Rightarrow> a)
     in Inr (fs', tf_settings.extend tf (mconfig.fields
          (fl_role fs) appli_id (appli_id @ ''_TrainerWorkerService_'' @ str_of_int (mc_worker_id tf))
          (case te_rpc_service_type env of None \<Rightarrow> Inl (fl_rpc_service_type fs) | Some t \<Rightarrow> Inr t)
          local_addr bind_addr (fl_peer_addr fs)
          (env_addr (te_coordinator_ip env) (te_coordinator_port env) (fl_coordinator_addr fs'))
          (env_addr (te_proxy_ip env) (te_proxy_port env) (fl_proxy_addr fs'))
          (env_addr (te_datacenter_ip env) (te_datacenter_port env) (fl_dc_addr fs))
          (case te_model_dir env of None \<Rightarrow> fl_model_dir fs | Some d \<Rightarrow> d)
          (case te_export_dir env of None \<Rightarrow> fl_export_dir fs | Some d \<Rightarrow> d)
          (fl_local_debug fs) (if fl_local_debug fs = 0 then Inr ''logs'' else Inl (fl_local_debug fs))
          (fl_eval fs) (fl_checkpoint_hdfs_path fs) None))))"

definition set_role :: "string \<Rightarrow> flags \<times> mconfig \<Rightarrow> flags \<times> mconfig" where
  "set_role role s = (case s of (fs, cfg) \<Rightarrow> (fs\<lparr>fl_role := role\<rparr>, cfg\<lparr>mc_role := role\<rparr>))"

definition set_local_debug :: "flags \<times> mconfig \<Rightarrow> flags \<times> mconfig" where
  "set_local_debug s = (case s of (fs, cfg) \<Rightarrow> (fs\<lparr>fl_local_debug := 1\<rparr>, cfg\<lparr>mc_local_debug := 1\<rparr>))"

subsection \<open>Registration\<close>

datatype 'a answer = RpcFailure | Answer 'a

record pair_stub =
  ps_register :: "nat \<Rightarrow> int answer" \<comment> \<open>status of the k-th registration\<close>
  ps_pairs :: "nat \<Rightarrow> (int \<times> (string \<times> string) list) answer" \<comment> \<open>status and pairs (local, remote) of the k-th query\<close>

definition rpc_channel_uuid_register :: "int answer \<Rightarrow> bool" where
  "rpc_channel_uuid_register response = (case response of RpcFailure \<Rightarrow> False | Answer status \<Rightarrow> status = 0)"

text \<open>Only the first pair is taken.\<close>

definition rpc_channel_uuid_getpairs :: "(int \<times> (string \<times> string) list) answer \<Rightarrow> (string \<times> string) list option" where
  "rpc_channel_uuid_getpairs response =
     (case response of
        RpcFailure \<Rightarrow> None
      | Answer (status, service_map) \<Rightarrow>
          if status = 0 then (case service_map of [] \<Rightarrow> None | servpair # _ \<Rightarrow> Some [servpair]) else None)"

text \<open>A loop that tries until it succeeds; \<open>None\<close> when it never does.\<close>

partial_function (option) wait_until :: "(nat \<Rightarrow> 'a option) \<Rightarrow> nat \<Rightarrow> 'a option" where
  "wait_until try_it k = (case try_it k of Some x \<Rightarrow> Some x | None \<Rightarrow> wait_until try_it (k + 1))"

definition prepare_rpc_channel :: "pair_stub \<Rightarrow> string list option" where
  "prepare_rpc_channel stub =
     Option.bind (wait_until (\<lambda>k. if rpc_channel_uuid_register (ps_register stub k) then Some () else None) 0) (\<lambda>_.
     Option.bind (wait_until (\<lambda>k. rpc_channel_uuid_getpairs (ps_pairs stub k)) 0) (\<lambda>pairs. Some (map snd pairs)))"

subsection \<open>Running the user's function\<close>

text \<open>
  The state is the set of existing paths. \<open>hdfs\<close> gives the names of the files below a remote
  path, or nothing when the download command fails. The function is called at the end; what
  matters here is what it finds, so the result holds the configuration it is called with.
\<close>

definition rm_dir :: "string \<Rightarrow> string set \<Rightarrow> string set" where
  "rm_dir d paths = insert d {p \<in> paths. \<not> inside d p}"

definition download_from_hdfs :: "(string \<Rightarrow> string list option) \<Rightarrow> string \<Rightarrow> string \<Rightarrow> string set \<Rightarrow> (unit, string set) eff" where
  "download_from_hdfs hdfs src dest paths =
     (if src = [] \<or> dest = [] then (Inl AssertionError, paths)
      else (case hdfs src of
              None \<Rightarrow> (Inl GenericException, paths)
            | Some names \<Rightarrow> (Inr (), paths \<union> (\<lambda>n. path_join dest n) ` set names)))"

definition success_file :: "mconfig \<Rightarrow> string" where
  "success_file cfg = path_join (mc_model_dir cfg) ''DOWNLOAD_SUCCESS''"

definition fetch_checkpoint :: "(string \<Rightarrow> string list option) \<Rightarrow> mconfig \<Rightarrow> string set \<Rightarrow> (bool, string set) eff" where
  "fetch_checkpoint hdfs cfg paths =
     (if mc_checkpoint_hdfs_path cfg \<noteq> [] \<and> success_file cfg \<notin> paths
      then and_then (download_from_hdfs hdfs (mc_checkpoint_hdfs_path cfg) (mc_model_dir cfg) paths)
             (\<lambda>_ paths'. (Inr True, insert (success_file cfg) paths'))
      else (Inr False, paths))"

definition clean_dirs :: "bool \<Rightarrow> mconfig \<Rightarrow> string set \<Rightarrow> string set" where
  "clean_dirs is_chief cfg paths =
     (let paths1 = rm_dir ''_tmp/'' paths
      in if is_chief then rm_dir (mc_export_dir cfg) (rm_dir (mc_model_dir cfg) paths1) else paths1)"

text \<open>\<open>None\<close>: still waiting for the coordinator. The result tells whether the checkpoint was downloaded.\<close>

definition local_uuid :: "mconfig \<Rightarrow> string" where
  "local_uuid cfg = ''jdfl_TrainerWorkerService_'' @ str_of_int (mc_worker_id cfg)"

definition fl_run :: "pair_stub \<Rightarrow> (string \<Rightarrow> string list option) \<Rightarrow> bool \<Rightarrow> bool \<Rightarrow> mconfig \<Rightarrow> string set \<Rightarrow>
    (bool \<times> mconfig, string set) eff option" where
  "fl_run stub hdfs local_debug is_chief cfg paths =
     Option.bind
       (if local_debug then Some (Inl (local_uuid cfg))
        else map_option Inr (prepare_rpc_channel stub))
       (\<lambda>uuid.
          let cfg' = cfg\<lparr>mc_channel_comm_uuid := Some uuid\<rparr>
          in Some (and_then (fetch_checkpoint hdfs cfg' (clean_dirs is_chief cfg' paths))
               (\<lambda>downloaded paths'. (Inr (downloaded, cfg'), paths'))))"

datatype started = StartServer | StartFunction bool \<comment> \<open>as chief\<close> | StartNothing

definition run_cluster :: "tf_settings \<Rightarrow> started" where
  "run_cluster cfg =
     (if mc_is_local cfg then StartFunction True
      else case mc_job_name cfg of
             None \<Rightarrow> StartNothing
           | Some job_name \<Rightarrow>
               if job_name = ''ps'' then StartServer
               else if job_name \<in> {''master'', ''worker'', ''chief''} then StartFunction (job_name \<noteq> ''worker'')
               else StartNothing)"

subsection \<open>Checking that both parties train on the same examples\<close>

datatype check_op = NoCheck | SendHashes "int list" | CompareHashes "int list"

text \<open>The branch for another role formats a name that does not exist.\<close>

definition verify_example_ids :: "(string \<Rightarrow> int) \<Rightarrow> flags \<Rightarrow> string list \<Rightarrow> exn + check_op" where
  "verify_example_ids to_hash fs ids =
     (if fl_check_exampleid fs = 0 then Inr NoCheck
      else if fl_role fs = ''leader'' then Inr (SendHashes (map to_hash ids))
      else if fl_role fs = ''follower'' then Inr (CompareHashes (map to_hash ids))
      else Inl NameError)"

subsection \<open>Worker numbers\<close>

definition valid_task :: "(string \<times> string list) list \<Rightarrow> string \<Rightarrow> int \<Rightarrow> bool" where
  "valid_task cluster job index \<longleftrightarrow> job \<in> {''master'', ''chief'', ''worker''} \<and> 0 \<le> index \<and> index < int (job_tasks cluster job)"

definition task_config :: "(string \<times> string list) list \<Rightarrow> string \<Rightarrow> int \<Rightarrow> tf_config" where
  "task_config cluster job index = \<lparr>tc_cluster = Some cluster, tc_job_name = Some job, tc_task_index = Some index\<rparr>"

definition rank_of :: "(string \<times> string list) list \<Rightarrow> string \<Rightarrow> int \<Rightarrow> int" where
  "rank_of cluster job index = index + (if job = ''master'' then 0 else int (job_tasks cluster ''master'') +
     (if job = ''chief'' then 0 else int (job_tasks cluster ''chief'')))"

lemma parse_task:
  assumes "parse_tf_config (Some (task_config cluster job index)) = Inr s" "valid_task cluster job index"
  shows "mc_worker_id s = rank_of cluster job index \<and>
     mc_worker_replicas s = job_tasks cluster ''worker'' + job_tasks cluster ''master'' + job_tasks cluster ''chief'' \<and>
     mc_job_name s = Some job"
  using assms by (auto simp: parse_tf_config_def task_config_def rank_of_def valid_task_def Let_def split: if_splits)

lemma rank_of_range: "valid_task cluster job index \<Longrightarrow> 0 \<le> rank_of cluster job index \<and>
    rank_of cluster job index < int (job_tasks cluster ''worker'' + job_tasks cluster ''master'' + job_tasks cluster ''chief'')"
  by (auto simp: valid_task_def rank_of_def)

lemma rank_of_inject:
  "valid_task cluster job index \<Longrightarrow> valid_task cluster job' index' \<Longrightarrow>
     rank_of cluster job index = rank_of cluster job' index' \<longleftrightarrow> job = job' \<and> index = index'"
  unfolding valid_task_def rank_of_def by (elim conjE insertE emptyE; hypsubst; simp)

lemma rank_of_onto:
  assumes "k < job_tasks cluster ''worker'' + job_tasks cluster ''master'' + job_tasks cluster ''chief''"
  shows "\<exists>job index. valid_task cluster job index \<and> rank_of cluster job index = int k"
proof -
  let ?m = "job_tasks cluster ''master''" and ?c = "job_tasks cluster ''chief''"
  consider "k < ?m" | "?m \<le> k" "k < ?m + ?c" | "?m + ?c \<le> k" by linarith
  then show ?thesis
  proof cases
    case 1
    then show ?thesis by (intro exI [of _ "''master''"] exI [of _ "int k"]) (simp add: valid_task_def rank_of_def)
  next
    case 2
    then show ?thesis by (intro exI [of _ "''chief''"] exI [of _ "int k - int ?m"]) (auto simp: valid_task_def rank_of_def)
  next
    case 3
    with assms show ?thesis
      by (intro exI [of _ "''worker''"] exI [of _ "int k - int ?m - int ?c"]) (auto simp: valid_task_def rank_of_def)
  qed
qed

text \<open>
  C36. The worker numbers of a cluster: every master, chief and worker task that is accepted gets a number below
  the number of replicas, different tasks get different numbers, and every number belongs to a
  task. A distributed task runs the training function, as the chief exactly when its job is not \<^verbatim>\<open>worker\<close>: a cluster
  without master and chief has no chief, and one with both has several.
\<close>

theorem worker_numbers:
  assumes "valid_task cluster job index" "parse_tf_config (Some (task_config cluster job index)) = Inr s"
  shows "0 \<le> mc_worker_id s \<and> mc_worker_id s < int (mc_worker_replicas s) \<and>
     (\<forall>job' index' s'. valid_task cluster job' index' \<and> parse_tf_config (Some (task_config cluster job' index')) = Inr s' \<longrightarrow>
        (mc_worker_id s' = mc_worker_id s \<longleftrightarrow> job' = job \<and> index' = index)) \<and>
     (\<forall>k < mc_worker_replicas s. \<exists>job' index'. valid_task cluster job' index' \<and>
        (\<forall>s'. parse_tf_config (Some (task_config cluster job' index')) = Inr s' \<longrightarrow> mc_worker_id s' = int k)) \<and>
     (\<not> mc_is_local s \<longrightarrow> run_cluster s = StartFunction (job \<noteq> ''worker''))"
proof (intro conjI allI impI)
  note p = parse_task [OF assms(2,1)]
  show "0 \<le> mc_worker_id s" "mc_worker_id s < int (mc_worker_replicas s)" using p rank_of_range [OF assms(1)] by simp_all
  show "mc_worker_id s' = mc_worker_id s \<longleftrightarrow> job' = job \<and> index' = index"
    if "valid_task cluster job' index' \<and> parse_tf_config (Some (task_config cluster job' index')) = Inr s'" for job' index' s'
    using that parse_task [of cluster job' index' s'] p rank_of_inject [OF _ assms(1), of job' index'] by simp
  show "\<exists>job' index'. valid_task cluster job' index' \<and>
      (\<forall>s'. parse_tf_config (Some (task_config cluster job' index')) = Inr s' \<longrightarrow> mc_worker_id s' = int k)"
    if "k < mc_worker_replicas s" for k
    using that p rank_of_onto [of k cluster] parse_task by fastforce
  show "run_cluster s = StartFunction (job \<noteq> ''worker'')" if "\<not> mc_is_local s"
    using that p assms(1) by (auto simp: run_cluster_def valid_task_def)
qed

definition sample_cluster :: "(string \<times> string list) list" where
  "sample_cluster = [(''ps'', [''p:1'']), (''worker'', [''w:1'', ''w:2'']), (''chief'', [''c:1''])]"

theorem worker_numbers_witness:
  "\<exists>s. parse_tf_config (Some (task_config sample_cluster ''worker'' 1)) = Inr s \<and> mc_worker_id s = 2 \<and>
     mc_worker_id s < int (mc_worker_replicas s)"
proof -
  have valid: "valid_task sample_cluster ''worker'' 1" by (simp add: valid_task_def sample_cluster_def job_tasks_def)
  obtain s where s: "parse_tf_config (Some (task_config sample_cluster ''worker'' 1)) = Inr s" "mc_worker_id s = 2"
    by (simp add: parse_tf_config_def task_config_def sample_cluster_def job_tasks_def)
  with worker_numbers [OF valid s(1)] show ?thesis by blast
qed

subsection \<open>Waiting for the coordinator\<close>

lemma wait_until_sound:
  assumes "wait_until f k = Some x"
  shows "\<exists>j \<ge> k. f j = Some x \<and> (\<forall>i. k \<le> i \<and> i < j \<longrightarrow> f i = None)"
proof (rule wait_until.raw_induct [where P = "\<lambda>f k x. \<exists>j \<ge> k. f j = Some x \<and> (\<forall>i. k \<le> i \<and> i < j \<longrightarrow> f i = None)", OF _ assms])
  fix loop and f :: "nat \<Rightarrow> 'b option" and k x
  assume IH: "\<And>f k x. loop f k = Some x \<Longrightarrow> \<exists>j \<ge> k. f j = Some x \<and> (\<forall>i. k \<le> i \<and> i < j \<longrightarrow> f i = None)"
    and body: "(case f k of Some x \<Rightarrow> Some x | None \<Rightarrow> loop f (k + 1)) = Some x"
  show "\<exists>j \<ge> k. f j = Some x \<and> (\<forall>i. k \<le> i \<and> i < j \<longrightarrow> f i = None)"
  proof (cases "f k")
    case None
    with body have "loop f (k + 1) = Some x" by simp
    from IH [OF this] obtain j where "k + 1 \<le> j" "f j = Some x" "\<forall>i. k + 1 \<le> i \<and> i < j \<longrightarrow> f i = None" by blast
    with None show ?thesis by (intro exI [of _ j]) (metis Suc_eq_plus1 le_neq_implies_less le_trans le_add1 Suc_leI)
  qed (use body in auto)
qed

lemma wait_until_complete:
  assumes "f j = Some x" "k \<le> j" "\<And>i. k \<le> i \<Longrightarrow> i < j \<Longrightarrow> f i = None"
  shows "wait_until f k = Some x"
  using assms
proof (induction "j - k" arbitrary: k)
  case 0
  then show ?case by (subst wait_until.simps) simp
next
  case (Suc n)
  have "wait_until f (k + 1) = Some x" using Suc.prems Suc.hyps by (intro Suc.hyps(1)) auto
  with Suc show ?case by (subst wait_until.simps) simp
qed

lemma getpairs_iff:
  "rpc_channel_uuid_getpairs a = Some pairs \<longleftrightarrow> (\<exists>p ps. a = Answer (0, p # ps) \<and> pairs = [p])"
  by (auto simp: rpc_channel_uuid_getpairs_def split: answer.splits list.splits if_splits)

text \<open>
  Pairing with the other party: the worker leaves the waiting loops exactly when some registration and
  some query are answered with status 0 and at least one pair; the result is the remote uuid of
  the first pair of the first such answer. Failed calls, other states and empty answers are waited out.
\<close>

theorem pairing_waits:
  "prepare_rpc_channel stub = Some uuids \<longleftrightarrow>
     (\<exists>k. ps_register stub k = Answer 0) \<and>
     (\<exists>k p ps. ps_pairs stub k = Answer (0, p # ps) \<and> uuids = [snd p] \<and> (\<forall>i < k. rpc_channel_uuid_getpairs (ps_pairs stub i) = None))"
proof -
  let ?r = "\<lambda>k. if rpc_channel_uuid_register (ps_register stub k) then Some () else None"
  let ?q = "\<lambda>k. rpc_channel_uuid_getpairs (ps_pairs stub k)"
  have reg: "rpc_channel_uuid_register a \<longleftrightarrow> a = Answer 0" for a
    by (simp add: rpc_channel_uuid_register_def split: answer.split)
  have R: "wait_until ?r 0 = Some () \<longleftrightarrow> (\<exists>k. ps_register stub k = Answer 0)"
  proof
    assume "wait_until ?r 0 = Some ()"
    from wait_until_sound [OF this] show "\<exists>k. ps_register stub k = Answer 0" by (auto simp: reg split: if_splits)
  next
    assume ex: "\<exists>k. ps_register stub k = Answer 0"
    show "wait_until ?r 0 = Some ()"
      by (rule wait_until_complete [of _ "LEAST k. ps_register stub k = Answer 0"])
         (use LeastI_ex [OF ex] in \<open>auto simp: reg dest: not_less_Least\<close>)
  qed
  have Q: "wait_until ?q 0 = Some pairs \<longleftrightarrow>
      (\<exists>k p ps. ps_pairs stub k = Answer (0, p # ps) \<and> pairs = [p] \<and> (\<forall>i < k. ?q i = None))" for pairs
  proof
    assume "wait_until ?q 0 = Some pairs"
    from wait_until_sound [OF this] show "\<exists>k p ps. ps_pairs stub k = Answer (0, p # ps) \<and> pairs = [p] \<and> (\<forall>i < k. ?q i = None)"
      by (auto simp: getpairs_iff)
  next
    assume "\<exists>k p ps. ps_pairs stub k = Answer (0, p # ps) \<and> pairs = [p] \<and> (\<forall>i < k. ?q i = None)"
    then obtain k where "?q k = Some pairs" "\<forall>i < k. ?q i = None" by (auto simp: getpairs_iff)
    then show "wait_until ?q 0 = Some pairs" by (intro wait_until_complete [of _ k]) simp_all
  qed
  have "prepare_rpc_channel stub = Some uuids \<longleftrightarrow>
      wait_until ?r 0 = Some () \<and> (\<exists>pairs. wait_until ?q 0 = Some pairs \<and> uuids = map snd pairs)"
    by (auto simp: prepare_rpc_channel_def bind_eq_Some_conv)
  moreover have "(\<exists>pairs. (\<exists>k p ps. ps_pairs stub k = Answer (0, p # ps) \<and> pairs = [p] \<and> (\<forall>i < k. ?q i = None)) \<and> uuids = map snd pairs) \<longleftrightarrow>
      (\<exists>k p ps. ps_pairs stub k = Answer (0, p # ps) \<and> uuids = [snd p] \<and> (\<forall>i < k. ?q i = None))"
    (is "?l = ?r")
  proof
    assume ?l
    then show ?r by (elim exE conjE) (intro exI conjI, assumption, simp, assumption)
  next
    assume ?r
    then show ?l by (elim exE conjE) (intro exI conjI, assumption, rule refl, assumption, simp)
  qed
  ultimately show ?thesis unfolding R Q by simp
qed

definition sample_stub :: pair_stub where
  "sample_stub = \<lparr>ps_register = (\<lambda>k. if k = 0 then RpcFailure else Answer 0),
     ps_pairs = (\<lambda>k. if k = 0 then Answer (0, []) else Answer (0, [(''l'', ''r''), (''l2'', ''r2'')]))\<rparr>"

theorem pairing_waits_witness: "prepare_rpc_channel sample_stub = Some [''r'']"
proof -
  have "ps_register sample_stub 1 = Answer 0" "ps_pairs sample_stub 1 = Answer (0, (''l'', ''r'') # [(''l2'', ''r2'')])"
    "\<forall>i < 1. rpc_channel_uuid_getpairs (ps_pairs sample_stub i) = None"
    by (simp_all add: sample_stub_def rpc_channel_uuid_getpairs_def)
  then show ?thesis unfolding pairing_waits by (metis snd_conv)
qed

subsection \<open>Restarted workers\<close>

lemma path_join_file: "file_name n \<Longrightarrow> path_join d n = path_join d [] @ n"
  using file_name_hd [of n] by (simp add: path_join_def)

lemma success_file_inside: "inside (mc_model_dir cfg) (success_file cfg)" "success_file cfg \<noteq> mc_model_dir cfg"
proof -
  have name: "success_file cfg = path_join (mc_model_dir cfg) [] @ ''DOWNLOAD_SUCCESS''"
    unfolding success_file_def by (rule path_join_file) (simp add: file_name_def)
  then show "inside (mc_model_dir cfg) (success_file cfg)" by (simp add: inside_def)
  have "length (success_file cfg) > length (mc_model_dir cfg)" using name by (simp add: path_join_def)
  then show "success_file cfg \<noteq> mc_model_dir cfg" by auto
qed

text \<open>
  The marker file that should keep a restarted process from downloading the checkpoint again has no effect
  on the chief: it removes the model directory with the marker before it looks for it, so it downloads
  every time and loses what the model directory held. A worker that is not the chief does keep
  the marker.
\<close>

theorem restarted_chief_downloads:
  assumes "mc_checkpoint_hdfs_path cfg \<noteq> []" "mc_model_dir cfg \<noteq> []" "hdfs (mc_checkpoint_hdfs_path cfg) = Some names"
    and "mc_export_dir cfg \<noteq> success_file cfg"
  shows "(\<exists>cfg' paths'. fl_run stub hdfs True True cfg paths = Some (Inr (True, cfg'), paths') \<and>
       (\<forall>p \<in> paths'. inside (mc_model_dir cfg) p \<longrightarrow> p \<in> {mc_model_dir cfg, mc_export_dir cfg, success_file cfg} \<union>
          path_join (mc_model_dir cfg) ` set names)) \<and>
     (success_file cfg \<in> paths \<and> \<not> inside ''_tmp/'' (success_file cfg) \<longrightarrow>
        (\<exists>cfg'. fl_run stub hdfs True False cfg paths = Some (Inr (False, cfg'), rm_dir ''_tmp/'' paths)))"
proof -
  let ?cfg = "cfg\<lparr>mc_channel_comm_uuid := Some (Inl (local_uuid cfg))\<rparr>"
  have same: "success_file ?cfg = success_file cfg" by (simp add: success_file_def)
  have gone: "success_file cfg \<notin> clean_dirs True ?cfg paths"
    using success_file_inside [of cfg] assms(4) by (simp add: clean_dirs_def rm_dir_def Let_def)
  have "fl_run stub hdfs True True cfg paths = Some (Inr (True, ?cfg),
      insert (success_file cfg) (clean_dirs True ?cfg paths \<union> path_join (mc_model_dir cfg) ` set names))"
    using gone assms(1-3) by (simp add: fl_run_def fetch_checkpoint_def download_from_hdfs_def same Let_def)
  moreover have "fl_run stub hdfs True False cfg paths = Some (Inr (False, ?cfg), rm_dir ''_tmp/'' paths)"
    if "success_file cfg \<in> paths" "\<not> inside ''_tmp/'' (success_file cfg)"
    using that by (simp add: fl_run_def fetch_checkpoint_def clean_dirs_def rm_dir_def same Let_def)
  ultimately show ?thesis by (auto simp: clean_dirs_def rm_dir_def Let_def)
qed

definition sample_mconfig :: mconfig where
  "sample_mconfig = snd (projr (parse_mconfig (default_flags\<lparr>fl_checkpoint_hdfs_path := ''hdfs://m/ckpt'', fl_local_debug := 1\<rparr>)
     \<lparr>te_tf_config = None, te_app_id = None, te_rpc_service_type = None, te_worker_port = None, te_coordinator_ip = None,
      te_coordinator_port = None, te_proxy_ip = None, te_proxy_port = None, te_datacenter_ip = None, te_datacenter_port = None,
      te_model_dir = None, te_export_dir = None, te_host_ip = ''10.0.0.1''\<rparr>))"

theorem restarted_chief_downloads_witness:
  "\<exists>cfg' paths'. fl_run sample_stub (\<lambda>_. Some [''checkpoint'']) True True sample_mconfig
     {''./models/model_dir/DOWNLOAD_SUCCESS'', ''./models/model_dir/model.ckpt-7''} = Some (Inr (True, cfg'), paths')"
proof -
  have "mc_checkpoint_hdfs_path sample_mconfig \<noteq> []" "mc_model_dir sample_mconfig \<noteq> []"
    "mc_export_dir sample_mconfig \<noteq> success_file sample_mconfig"
    by (simp_all add: sample_mconfig_def parse_mconfig_def parse_tf_config_def local_settings_def local_addrs_def default_flags_def
        debug_flags_def env_addr_def success_file_def path_join_def tf_settings.defs mconfig.defs Let_def)
  from restarted_chief_downloads [OF this(1,2) _ this(3), of "\<lambda>_. Some [''checkpoint'']" "[''checkpoint'']" sample_stub
      "{''./models/model_dir/DOWNLOAD_SUCCESS'', ''./models/model_dir/model.ckpt-7''}", OF refl] show ?thesis by blast
qed

end
