(* ===== verification/Trainer_Session.thy ===== *)
theory Trainer_Session
  imports Trainer_Env
begin

section \<open>Connecting a training session\<close>

text \<open>
  The connection protocol of \<^verbatim>\<open>FLEstimator.train_or_eval\<close> (\<^verbatim>\<open>Trainer/fl_comm_libs/fl_estimator.py\<close>). Before the first step
  the worker runs three operations of the bridge: it connects to the proxy, waits until its peer is
  connected and, as the follower, waits for the leader to start; the last two are tried three
  times, and a failure of one of the three starts again from the connection. The status that
  the k-th run of an operation returns is a parameter.
\<close>

datatype bridge_op = Connect | WaitPeer | Follow

text \<open>Up to \<open>n\<close> runs of one operation, until one returns status 0: the number of the next run and the outcomes.\<close>

fun try_op :: "(bridge_op \<Rightarrow> nat \<Rightarrow> int) \<Rightarrow> bridge_op \<Rightarrow> nat \<Rightarrow> nat \<Rightarrow> bool \<times> nat \<times> (bridge_op \<times> bool) list" where
  "try_op status op 0 k = (False, k, [])"
| "try_op status op (Suc n) k =
     (if status op k = 0 then (True, k + 1, [(op, True)])
      else case try_op status op n (k + 1) of (ok, k', tr) \<Rightarrow> (ok, k', (op, False) # tr))"

definition try_connect :: "(bridge_op \<Rightarrow> nat \<Rightarrow> int) \<Rightarrow> nat \<Rightarrow> bool \<times> nat \<times> (bridge_op \<times> bool) list" where
  "try_connect status k = try_op status Connect 1 k"

definition wait_connect :: "(bridge_op \<Rightarrow> nat \<Rightarrow> int) \<Rightarrow> nat \<Rightarrow> bool \<times> nat \<times> (bridge_op \<times> bool) list" where
  "wait_connect status k = try_op status WaitPeer 3 k"

definition wait_train_ready :: "(bridge_op \<Rightarrow> nat \<Rightarrow> int) \<Rightarrow> nat \<Rightarrow> bool \<times> nat \<times> (bridge_op \<times> bool) list" where
  "wait_train_ready status k = try_op status Follow 3 k"

text \<open>One pass of the loop: ready, or start again.\<close>

definition connect_pass :: "(bridge_op \<Rightarrow> nat \<Rightarrow> int) \<Rightarrow> string \<Rightarrow> nat \<Rightarrow> bool \<times> nat \<times> (bridge_op \<times> bool) list" where
  "connect_pass status role k =
     (case try_connect status k of
        (False, k1, tr1) \<Rightarrow> (False, k1, tr1)
      | (True, k1, tr1) \<Rightarrow>
          (case wait_connect status k1 of
             (False, k2, tr2) \<Rightarrow> (False, k2, tr1 @ tr2)
           | (True, k2, tr2) \<Rightarrow>
               if role = ''follower''
               then case wait_train_ready status k2 of (ok, k3, tr3) \<Rightarrow> (ok, k3, tr1 @ tr2 @ tr3)
               else (True, k2, tr1 @ tr2)))"

partial_function (option) connect_loop ::
  "(bridge_op \<Rightarrow> nat \<Rightarrow> int) \<Rightarrow> string \<Rightarrow> nat \<Rightarrow> (bridge_op \<times> bool) list \<Rightarrow> (nat \<times> (bridge_op \<times> bool) list) option" where
  "connect_loop status role k tr =
     (case connect_pass status role k of
        (ok, k', tr') \<Rightarrow> if ok then Some (k', tr @ tr') else connect_loop status role k' (tr @ tr'))"

subsection \<open>What a pass does\<close>

text \<open>A phase of an operation that succeeds within \<open>n\<close> runs.\<close>

definition phase_ok :: "bridge_op \<Rightarrow> nat \<Rightarrow> (bridge_op \<times> bool) list \<Rightarrow> bool" where
  "phase_ok op n tr \<longleftrightarrow> (\<exists>m < n. tr = replicate m (op, False) @ [(op, True)])"

definition ready_trace :: "string \<Rightarrow> (bridge_op \<times> bool) list \<Rightarrow> bool" where
  "ready_trace role tr \<longleftrightarrow> (\<exists>tr1 tr2. phase_ok WaitPeer 3 tr1 \<and>
     (if role = ''follower'' then phase_ok Follow 3 tr2 else tr2 = []) \<and> tr = (Connect, True) # tr1 @ tr2)"

lemma try_op_ok: "try_op status op n k = (True, k', tr) \<Longrightarrow> phase_ok op n tr"
proof (induction n arbitrary: k k' tr)
  case (Suc n)
  show ?case
  proof (cases "status op k = 0")
    case False
    then obtain tr' where rest: "try_op status op n (k + 1) = (True, k', tr')" and tr: "tr = (op, False) # tr'"
      using Suc.prems by (auto split: prod.splits)
    obtain m where "m < n" "tr' = replicate m (op, False) @ [(op, True)]" using Suc.IH [OF rest] by (auto simp: phase_ok_def)
    with tr show ?thesis by (auto simp: phase_ok_def intro!: exI [of _ "Suc m"])
  qed (use Suc.prems in \<open>auto simp: phase_ok_def intro!: exI [of _ 0]\<close>)
qed simp

lemma try_connect_ok: "try_connect status k = (True, k', tr) \<Longrightarrow> tr = [(Connect, True)]"
  by (auto simp: try_connect_def split: if_splits)

lemma connect_pass_ready:
  assumes "connect_pass status role k = (True, k', tr)"
  shows "ready_trace role tr"
proof -
  obtain k1 tr1 where 1: "try_connect status k = (True, k1, tr1)"
    using assms by (auto simp: connect_pass_def split: prod.splits bool.splits)
  then obtain k2 tr2 where 2: "wait_connect status k1 = (True, k2, tr2)"
    using assms by (auto simp: connect_pass_def split: prod.splits bool.splits)
  note peer = try_op_ok [OF 2 [unfolded wait_connect_def]]
  show ?thesis
  proof (cases "role = ''follower''")
    case True
    then obtain k3 tr3 where 3: "wait_train_ready status k2 = (True, k3, tr3)" "tr = tr1 @ tr2 @ tr3"
      using assms 1 2 by (auto simp: connect_pass_def split: prod.splits)
    note try_op_ok [OF 3(1) [unfolded wait_train_ready_def]]
    with peer True 3(2) try_connect_ok [OF 1] show ?thesis unfolding ready_trace_def by auto
  next
    case False
    then have "tr = tr1 @ tr2" using assms 1 2 by (simp add: connect_pass_def)
    with peer False try_connect_ok [OF 1] show ?thesis unfolding ready_trace_def by auto
  qed
qed

lemma try_op_advances: "k \<le> fst (snd (try_op status op n k)) \<and> (0 < n \<longrightarrow> k < fst (snd (try_op status op n k)))"
proof (induction n arbitrary: k)
  case (Suc n)
  from Suc.IH [of "k + 1"] show ?case by (auto split: prod.split)
qed simp

lemma connect_pass_advances: "k < fst (snd (connect_pass status role k))"
proof -
  obtain ok1 k1 tr1 where 1: "try_connect status k = (ok1, k1, tr1)" by (metis prod_cases3)
  obtain ok2 k2 tr2 where 2: "wait_connect status k1 = (ok2, k2, tr2)" by (metis prod_cases3)
  obtain ok3 k3 tr3 where 3: "wait_train_ready status k2 = (ok3, k3, tr3)" by (metis prod_cases3)
  have "k < k1" "k1 < k2" "k2 < k3"
    using try_op_advances [of k status Connect 1] try_op_advances [of k1 status WaitPeer 3] try_op_advances [of k2 status Follow 3] 1 2 3
    by (simp_all add: try_connect_def wait_connect_def wait_train_ready_def)
  with 1 2 3 show ?thesis by (cases ok1; cases ok2) (simp_all add: connect_pass_def)
qed

lemma try_op_answered: "status op k = 0 \<Longrightarrow> 0 < n \<Longrightarrow> try_op status op n k = (True, k + 1, [(op, True)])"
  by (cases n) simp_all

lemma connect_pass_answered:
  assumes "\<And>op j. k \<le> j \<Longrightarrow> status op j = 0"
  shows "\<exists>k' tr. connect_pass status role k = (True, k', tr)"
  using assms by (simp add: connect_pass_def try_connect_def wait_connect_def wait_train_ready_def try_op_answered)

lemma connect_loop_sound:
  assumes "connect_loop status role k tr = Some r"
  shows "\<exists>pre tr1. snd r = tr @ pre @ tr1 \<and> ready_trace role tr1"
proof (rule connect_loop.raw_induct [where P = "\<lambda>status role k tr r. \<exists>pre tr1. snd r = tr @ pre @ tr1 \<and> ready_trace role tr1", OF _ assms])
  fix loop and status :: "bridge_op \<Rightarrow> nat \<Rightarrow> int" and role k tr r
  assume IH: "\<And>status role k tr r. loop status role k tr = Some r \<Longrightarrow> \<exists>pre tr1. snd r = tr @ pre @ tr1 \<and> ready_trace role tr1"
    and body: "(case connect_pass status role k of (ok, k', tr') \<Rightarrow> if ok then Some (k', tr @ tr') else loop status role k' (tr @ tr')) = Some r"
  obtain ok k' tr' where p: "connect_pass status role k = (ok, k', tr')" by (metis prod_cases3)
  show "\<exists>pre tr1. snd r = tr @ pre @ tr1 \<and> ready_trace role tr1"
  proof (cases ok)
    case True
    with body p connect_pass_ready [of status role k k' tr'] show ?thesis by (intro exI [of _ "[]"] exI [of _ tr']) auto
  next
    case False
    then have "loop status role k' (tr @ tr') = Some r" using body p by simp
    from IH [OF this] show ?thesis by (elim exE conjE) (metis append.assoc)
  qed
qed

lemma connect_loop_ends:
  assumes "\<And>op j. n \<le> j \<Longrightarrow> status op j = 0"
  shows "\<exists>r. connect_loop status role k tr = Some r"
proof (induction "n - k" arbitrary: k tr rule: less_induct)
  case less
  obtain ok k' tr' where p: "connect_pass status role k = (ok, k', tr')" by (metis prod_cases3)
  show ?case
  proof (cases ok)
    case True
    with p show ?thesis by (subst connect_loop.simps) simp
  next
    case False
    have "k < n"
    proof (rule ccontr)
      assume "\<not> k < n"
      then have "\<exists>k' tr. connect_pass status role k = (True, k', tr)" by (intro connect_pass_answered assms) simp
      with p False show False by simp
    qed
    moreover have "k < k'" using connect_pass_advances [of k status role] p by simp
    ultimately have "\<exists>r. connect_loop status role k' (tr @ tr') = Some r" by (intro less) simp
    with p False show ?thesis by (subst connect_loop.simps) simp
  qed
qed

text \<open>
  A training worker starts only after one pass in which it connected, then saw its peer
  connected within three runs and, as the follower, then saw the leader start within three
  runs, with no other operation in between; the leader never waits for a start. When the
  operations succeed from some run on, the worker does start.
\<close>

theorem session_starts_ready:
  "(connect_loop status role 0 [] = Some (k, tr) \<longrightarrow> (\<exists>pre tr1. tr = pre @ tr1 \<and> ready_trace role tr1)) \<and>
   ((\<exists>n. \<forall>op j. n \<le> j \<longrightarrow> status op j = 0) \<longrightarrow> (\<exists>r. connect_loop status role 0 [] = Some r))"
proof (intro conjI impI)
  assume "connect_loop status role 0 [] = Some (k, tr)"
  from connect_loop_sound [OF this] show "\<exists>pre tr1. tr = pre @ tr1 \<and> ready_trace role tr1" by simp
next
  assume "\<exists>n. \<forall>op j. n \<le> j \<longrightarrow> status op j = 0"
  then obtain n where "\<And>op j. n \<le> j \<Longrightarrow> status op j = 0" by blast
  then show "\<exists>r. connect_loop status role 0 [] = Some r" by (rule connect_loop_ends)
qed

definition late_status :: "bridge_op \<Rightarrow> nat \<Rightarrow> int" where
  "late_status op j = (if j < 2 then 1 else 0)"

theorem session_starts_ready_witness:
  "\<exists>k tr pre tr1. connect_loop late_status ''follower'' 0 [] = Some (k, tr) \<and> tr = pre @ tr1 \<and> ready_trace ''follower'' tr1"
proof -
  have "\<forall>op j. 2 \<le> j \<longrightarrow> late_status op j = 0" by (simp add: late_status_def)
  then obtain k tr where run: "connect_loop late_status ''follower'' 0 [] = Some (k, tr)"
    using session_starts_ready [of late_status "''follower''"] by fastforce
  moreover obtain pre tr1 where "tr = pre @ tr1" "ready_trace ''follower'' tr1"
    using session_starts_ready [of late_status "''follower''" k tr] run by auto
  ultimately show ?thesis by blast
qed

end
