(* ===== verification/Trainer_Ops.thy ===== *)
theory Trainer_Ops
  imports Trainer_Session
begin

section \<open>The library of operations\<close>

text \<open>
  \<^verbatim>\<open>load_fl_ops_lib\<close> of \<^verbatim>\<open>Trainer/fl_comm_libs/fl_ops.py\<close>: double-checked locking around a module variable, as a
  step relation over the threads that call it. A thread is described by the place it has reached in the
  function; each step reads or writes the shared variables once, so every interleaving of the
  source is a sequence of steps. The loader of TensorFlow is the parameter \<open>load\<close>: its k-th call returns a
  library or raises (\<^term>\<open>None\<close>).
\<close>

subsection \<open>State and steps\<close>

datatype 'l place =
    FirstCheck
  | FastReturn
  | Acquire
  | SecondCheck
  | LockedReturn
  | Loading
  | StoredReturn
  | Releasing "'l option option"
  | Returned "'l option"
  | Raised

record 'l ops_state =
  fl_ops_so :: "'l option"
  fl_ops_so_lock :: "nat option"
  load_calls :: nat
  places :: "'l place list"

definition ops_start :: "nat \<Rightarrow> 'l ops_state" where
  "ops_start n = \<lparr>fl_ops_so = None, fl_ops_so_lock = None, load_calls = 0, places = replicate n FirstCheck\<rparr>"

definition move :: "nat \<Rightarrow> 'l place \<Rightarrow> 'l ops_state \<Rightarrow> 'l ops_state" where
  "move t p s = s\<lparr>places := (places s)[t := p]\<rparr>"

definition load_fl_ops_lib :: "(nat \<Rightarrow> 'l option) \<Rightarrow> nat \<Rightarrow> 'l ops_state \<Rightarrow> 'l ops_state option" where
  "load_fl_ops_lib load t s =
     (if length (places s) \<le> t then None
      else case places s ! t of
        FirstCheck \<Rightarrow> Some (move t (if fl_ops_so s \<noteq> None then FastReturn else Acquire) s)
      | FastReturn \<Rightarrow> Some (move t (Returned (fl_ops_so s)) s)
      | Acquire \<Rightarrow> (if fl_ops_so_lock s = None then Some (move t SecondCheck (s\<lparr>fl_ops_so_lock := Some t\<rparr>)) else None)
      | SecondCheck \<Rightarrow> Some (move t (if fl_ops_so s \<noteq> None then LockedReturn else Loading) s)
      | LockedReturn \<Rightarrow> Some (move t (Releasing (Some (fl_ops_so s))) s)
      | Loading \<Rightarrow>
          (case load (load_calls s) of
             None \<Rightarrow> Some (move t (Releasing None) (s\<lparr>load_calls := load_calls s + 1\<rparr>))
           | Some l \<Rightarrow> Some (move t StoredReturn (s\<lparr>fl_ops_so := Some l, load_calls := load_calls s + 1\<rparr>)))
      | StoredReturn \<Rightarrow> Some (move t (Releasing (Some (fl_ops_so s))) s)
      | Releasing r \<Rightarrow>
          Some (move t (case r of None \<Rightarrow> Raised | Some v \<Rightarrow> Returned v) (s\<lparr>fl_ops_so_lock := None\<rparr>))
      | Returned v \<Rightarrow> None
      | Raised \<Rightarrow> None)"

inductive ops_run :: "(nat \<Rightarrow> 'l option) \<Rightarrow> 'l ops_state \<Rightarrow> nat list \<Rightarrow> 'l ops_state \<Rightarrow> bool" for load where
  ops_run_refl: "ops_run load s [] s"
| ops_run_step: "\<lbrakk>ops_run load s ts s'; load_fl_ops_lib load t s' = Some s''\<rbrakk> \<Longrightarrow> ops_run load s (ts @ [t]) s''"

subsection \<open>The invariant\<close>

fun holds_lock :: "'l place \<Rightarrow> bool" where
  "holds_lock SecondCheck = True"
| "holds_lock LockedReturn = True"
| "holds_lock Loading = True"
| "holds_lock StoredReturn = True"
| "holds_lock (Releasing r) = True"
| "holds_lock _ = False"

fun place_ok :: "'l option \<Rightarrow> bool \<Rightarrow> 'l place \<Rightarrow> bool" where
  "place_ok so failed FastReturn = (so \<noteq> None)"
| "place_ok so failed LockedReturn = (so \<noteq> None)"
| "place_ok so failed StoredReturn = (so \<noteq> None)"
| "place_ok so failed Loading = (so = None)"
| "place_ok so failed (Releasing (Some v)) = (v = so \<and> so \<noteq> None)"
| "place_ok so failed (Releasing None) = failed"
| "place_ok so failed (Returned v) = (v = so \<and> so \<noteq> None)"
| "place_ok so failed Raised = failed"
| "place_ok so failed _ = True"

definition loads_ok :: "(nat \<Rightarrow> 'l option) \<Rightarrow> 'l option \<Rightarrow> nat \<Rightarrow> bool" where
  "loads_ok load so n =
     (case so of
        None \<Rightarrow> \<forall>k<n. load k = None
      | Some l \<Rightarrow> 0 < n \<and> load (n - 1) = Some l \<and> (\<forall>k<n - 1. load k = None))"

definition some_failed :: "(nat \<Rightarrow> 'l option) \<Rightarrow> nat \<Rightarrow> bool" where
  "some_failed load n = (\<exists>k<n. load k = None)"

definition ops_inv :: "(nat \<Rightarrow> 'l option) \<Rightarrow> 'l ops_state \<Rightarrow> bool" where
  "ops_inv load s =
     (loads_ok load (fl_ops_so s) (load_calls s) \<and>
      (\<forall>t<length (places s). place_ok (fl_ops_so s) (some_failed load (load_calls s)) (places s ! t) \<and>
         (holds_lock (places s ! t) \<longleftrightarrow> fl_ops_so_lock s = Some t)) \<and>
      (\<forall>t. fl_ops_so_lock s = Some t \<longrightarrow> t < length (places s)))"

lemma ops_inv_start: "ops_inv load (ops_start n)"
  by (simp add: ops_inv_def ops_start_def loads_ok_def)

text \<open>
  A place that does not hold the lock stays right when the library is stored or a call to the loader fails.
\<close>

lemma place_ok_stored: "place_ok None f p \<Longrightarrow> \<not> holds_lock p \<Longrightarrow> place_ok (Some l) f p"
  by (cases p) auto

lemma place_ok_failed: "place_ok so f p \<Longrightarrow> (f \<longrightarrow> f') \<Longrightarrow> place_ok so f' p"
  by (cases "(so, f, p)" rule: place_ok.cases) auto

lemma some_failed_mono: "some_failed load n \<Longrightarrow> n \<le> m \<Longrightarrow> some_failed load m"
  unfolding some_failed_def by (meson order_less_le_trans)

text \<open>
  What a step of thread \<open>t\<close> has to show: the new place of \<open>t\<close>, and that the places of the other threads still fit.
\<close>

lemma ops_inv_move:
  assumes "loads_ok load (fl_ops_so s) (load_calls s)" "t < length (places s)"
    and "place_ok (fl_ops_so s) (some_failed load (load_calls s)) p" "holds_lock p \<longleftrightarrow> fl_ops_so_lock s = Some t"
    and "\<And>u. u < length (places s) \<Longrightarrow> u \<noteq> t \<Longrightarrow> place_ok (fl_ops_so s) (some_failed load (load_calls s)) (places s ! u)"
    and "\<And>u. u < length (places s) \<Longrightarrow> u \<noteq> t \<Longrightarrow> holds_lock (places s ! u) \<longleftrightarrow> fl_ops_so_lock s = Some u"
    and "\<And>u. fl_ops_so_lock s = Some u \<Longrightarrow> u < length (places s)"
  shows "ops_inv load (move t p s)"
  using assms by (auto simp: ops_inv_def move_def nth_list_update)

lemma ops_invD:
  assumes "ops_inv load s"
  shows "loads_ok load (fl_ops_so s) (load_calls s)"
    and "\<And>u. u < length (places s) \<Longrightarrow> place_ok (fl_ops_so s) (some_failed load (load_calls s)) (places s ! u)"
    and "\<And>u. u < length (places s) \<Longrightarrow> holds_lock (places s ! u) \<longleftrightarrow> fl_ops_so_lock s = Some u"
    and "\<And>u. fl_ops_so_lock s = Some u \<Longrightarrow> u < length (places s)"
  using assms by (simp_all add: ops_inv_def)

lemma ops_inv_load:
  assumes inv: "ops_inv load s" and t: "t < length (places s)" and at: "places s ! t = Loading"
    and st: "load_fl_ops_lib load t s = Some s'"
  shows "ops_inv load s'"
proof -
  note i = ops_invD [OF inv]
  have so: "fl_ops_so s = None" and lock: "fl_ops_so_lock s = Some t" using i(2,3) [OF t] at by auto
  have free: "\<not> holds_lock (places s ! u)" if "u < length (places s)" "u \<noteq> t" for u using i(3) [OF that(1)] that(2) lock by simp
  have none: "\<forall>k<load_calls s. load k = None" using i(1) so by (simp add: loads_ok_def)
  have mono: "some_failed load (load_calls s) \<longrightarrow> some_failed load (load_calls s + 1)" by (simp add: some_failed_mono)
  have others: "place_ok None (some_failed load (load_calls s + 1)) (places s ! u)" if "u < length (places s)" for u
    using place_ok_failed [OF i(2) [OF that] mono] so by simp
  show ?thesis
  proof (cases "load (load_calls s)")
    case None
    then have "s' = move t (Releasing None) (s\<lparr>load_calls := load_calls s + 1\<rparr>)" using st t at by (simp add: load_fl_ops_lib_def)
    moreover have "some_failed load (load_calls s + 1)" using None by (auto simp: some_failed_def)
    ultimately show ?thesis using none None so lock t others free i(4)
      by (auto intro!: ops_inv_move simp: loads_ok_def less_Suc_eq)
  next
    case (Some l)
    then have "s' = move t StoredReturn (s\<lparr>fl_ops_so := Some l, load_calls := load_calls s + 1\<rparr>)"
      using st t at by (simp add: load_fl_ops_lib_def)
    then show ?thesis using none Some lock t free i(4) place_ok_stored [OF others free]
      by (auto intro!: ops_inv_move simp: loads_ok_def)
  qed
qed

lemma ops_inv_step:
  assumes inv: "ops_inv load s" and st: "load_fl_ops_lib load t s = Some s'"
  shows "ops_inv load s'"
proof -
  note i = ops_invD [OF inv]
  have t: "t < length (places s)" using st by (auto simp: load_fl_ops_lib_def split: if_splits)
  note facts = i(1) i(2,3) [OF t]
  show ?thesis
  proof (cases "places s ! t")
    case Loading
    from ops_inv_load [OF inv t this st] show ?thesis .
  next
    case Acquire
    then have "fl_ops_so_lock s = None" "s' = move t SecondCheck (s\<lparr>fl_ops_so_lock := Some t\<rparr>)"
      using st t by (auto simp: load_fl_ops_lib_def split: if_splits)
    then show ?thesis using facts i t by (auto intro!: ops_inv_move)
  next
    case (Releasing r)
    then have "s' = move t (case r of None \<Rightarrow> Raised | Some v \<Rightarrow> Returned v) (s\<lparr>fl_ops_so_lock := None\<rparr>)"
      using st t by (simp add: load_fl_ops_lib_def)
    then show ?thesis using facts i t Releasing by (cases r) (auto intro!: ops_inv_move)
  qed (use st t facts i in \<open>auto simp: load_fl_ops_lib_def split: if_splits intro!: ops_inv_move\<close>)
qed

lemma ops_inv_run: "ops_run load s ts s' \<Longrightarrow> ops_inv load s \<Longrightarrow> ops_inv load s'"
  by (induction rule: ops_run.induct) (auto intro: ops_inv_step)

subsection \<open>Every caller finishes\<close>

fun steps_left :: "'l place \<Rightarrow> nat" where
  "steps_left FirstCheck = 6"
| "steps_left FastReturn = 1"
| "steps_left Acquire = 5"
| "steps_left SecondCheck = 4"
| "steps_left LockedReturn = 2"
| "steps_left Loading = 3"
| "steps_left StoredReturn = 2"
| "steps_left (Releasing r) = 1"
| "steps_left _ = 0"

definition ops_measure :: "'l ops_state \<Rightarrow> nat" where
  "ops_measure s = sum_list (map steps_left (places s))"

lemma sum_list_map_update:
  assumes "t < length xs"
  shows "sum_list (map f (xs[t := p])) + f (xs ! t) = sum_list (map f xs) + (f p :: nat)"
  using assms by (induction xs arbitrary: t) (auto simp: nth_Cons split: nat.splits)

lemma ops_measure_step:
  assumes "load_fl_ops_lib load t s = Some s'"
  shows "ops_measure s' < ops_measure s" "length (places s') = length (places s)"
proof -
  have t: "t < length (places s)" using assms by (auto simp: load_fl_ops_lib_def split: if_splits)
  obtain p s0 where s': "s' = move t p s0" "places s0 = places s" "steps_left p < steps_left (places s ! t)"
    using assms by (fastforce simp: load_fl_ops_lib_def split: if_splits place.splits option.splits)
  then show "ops_measure s' < ops_measure s"
    using sum_list_map_update [OF t, of steps_left p] by (simp add: ops_measure_def move_def)
  show "length (places s') = length (places s)" using s' by (simp add: move_def)
qed

lemma ops_run_bound:
  "ops_run load s ts s' \<Longrightarrow> length ts + ops_measure s' \<le> ops_measure s \<and> length (places s') = length (places s)"
proof (induction rule: ops_run.induct)
  case (ops_run_step s ts s' t s'')
  with ops_measure_step [OF ops_run_step.hyps(2)] show ?case by simp
qed simp

lemma ops_start_measure: "ops_measure (ops_start n) = 6 * n"
  by (simp add: ops_measure_def ops_start_def sum_list_replicate)

text \<open>
  The owner of the lock can always move, and nobody but a thread that waits for the lock is ever blocked.
\<close>

lemma not_stuck:
  assumes inv: "ops_inv load s" and stuck: "\<And>t. load_fl_ops_lib load t s = None" and u: "u < length (places s)"
  shows "fl_ops_so_lock s = None \<and> (places s ! u = Raised \<or> (\<exists>v. places s ! u = Returned v))"
proof -
  have idle: "places s ! t = Acquire \<and> fl_ops_so_lock s \<noteq> None \<or> places s ! t = Raised \<or> (\<exists>v. places s ! t = Returned v)"
    if "t < length (places s)" for t
    using stuck [of t] that by (auto simp: load_fl_ops_lib_def split: if_splits place.splits option.splits)
  have free: "fl_ops_so_lock s = None"
  proof (rule ccontr)
    assume "fl_ops_so_lock s \<noteq> None"
    then obtain t where t: "fl_ops_so_lock s = Some t" by auto
    then have "t < length (places s)" "holds_lock (places s ! t)" using ops_invD(3,4) [OF inv] by auto
    with idle [of t] show False by auto
  qed
  with idle [OF u] show ?thesis by auto
qed

text \<open>
  C29. In every interleaving of any number of callers at most one of them is between the
  acquisition and the release of the lock; a caller that returned has the first library that
  the loader produced, after which the loader is not called again; and a caller raises only if a call to the loader did.
\<close>

theorem library_loaded_once:
  assumes "ops_run load (ops_start n) ts s" "t < n"
  shows "(holds_lock (places s ! t) \<longrightarrow> fl_ops_so_lock s = Some t) \<and>
    (\<forall>v. places s ! t = Returned v \<longrightarrow>
       (\<exists>l k. v = Some l \<and> fl_ops_so s = Some l \<and> load k = Some l \<and> (\<forall>j<k. load j = None) \<and> load_calls s = k + 1)) \<and>
    (places s ! t = Raised \<longrightarrow> (\<exists>k<load_calls s. load k = None))"
proof -
  have inv: "ops_inv load s" using ops_inv_run [OF assms(1) ops_inv_start] .
  have t: "t < length (places s)" using ops_run_bound [OF assms(1)] assms(2) by (simp add: ops_start_def)
  note i = ops_invD(1) [OF inv] ops_invD(2,3) [OF inv t]
  have "\<exists>l k. v = Some l \<and> fl_ops_so s = Some l \<and> load k = Some l \<and> (\<forall>j<k. load j = None) \<and> load_calls s = k + 1"
    if "places s ! t = Returned v" for v
    using i(1,2) that by (auto simp: loads_ok_def intro!: exI [of _ "load_calls s - 1"])
  then show ?thesis using i by (auto simp: some_failed_def)
qed

definition second_try :: "nat \<Rightarrow> string option" where
  "second_try k = (if k = 0 then None else Some ''lib'')"

fun run_schedule :: "(nat \<Rightarrow> 'l option) \<Rightarrow> nat list \<Rightarrow> 'l ops_state \<Rightarrow> 'l ops_state option" where
  "run_schedule load [] s = Some s"
| "run_schedule load (t # ts) s =
     (case load_fl_ops_lib load t s of None \<Rightarrow> None | Some s' \<Rightarrow> run_schedule load ts s')"

lemma ops_run_Cons:
  "ops_run load s' ts s'' \<Longrightarrow> load_fl_ops_lib load t s = Some s' \<Longrightarrow> ops_run load s (t # ts) s''"
  by (induction rule: ops_run.induct) (auto intro: ops_run.intros ops_run_step [of _ _ "[]", simplified] ops_run_step [of _ _ "_ # _", simplified])

lemma run_schedule_run: "run_schedule load ts s = Some s' \<Longrightarrow> ops_run load s ts s'"
  by (induction ts arbitrary: s) (auto intro: ops_run_refl ops_run_Cons split: option.splits)

theorem library_loaded_once_witness:
  "\<exists>s. run_schedule second_try [0, 1, 0, 0, 0, 0, 1, 1, 1, 1, 1] (ops_start 2) = Some s \<and>
     places s = [Raised, Returned (Some ''lib'')] \<and> (\<exists>k<load_calls s. second_try k = None) \<and> load_calls s = 2"
proof -
  obtain s where s: "run_schedule second_try [0, 1, 0, 0, 0, 0, 1, 1, 1, 1, 1] (ops_start 2) = Some s"
      "places s = [Raised, Returned (Some ''lib'')]" "load_calls s = 2"
    by (simp add: ops_start_def load_fl_ops_lib_def move_def second_try_def numeral_2_eq_2)
  moreover from library_loaded_once [OF run_schedule_run [OF s(1)], of 0] s(2) have "\<exists>k<load_calls s. second_try k = None" by simp
  ultimately show ?thesis by blast
qed

lemma loads_ok_first:
  assumes "loads_ok load so n" "load 0 = Some l"
  shows "\<not> some_failed load n" "so \<noteq> None \<Longrightarrow> so = Some l"
proof -
  have "n \<le> 1" using assms by (cases n; cases "n - 1") (auto simp: loads_ok_def split: option.splits)
  then show "\<not> some_failed load n" "so \<noteq> None \<Longrightarrow> so = Some l"
    using assms by (auto simp: some_failed_def loads_ok_def le_Suc_eq split: option.splits)
qed

text \<open>
  C30. Callers do not block each other for ever: a run of \<open>n\<close> callers has at most \<open>6 * n\<close> steps, and when no
  caller can move the lock is free and every caller has returned or raised; if the first call
  to the loader succeeds, every caller has returned its library.
\<close>

theorem callers_finish:
  assumes run: "ops_run load (ops_start n) ts s"
  shows "length ts \<le> 6 * n \<and>
    ((\<forall>t. load_fl_ops_lib load t s = None) \<longrightarrow>
       (\<forall>u<n. fl_ops_so_lock s = None \<and> (places s ! u = Raised \<or> (\<exists>v. places s ! u = Returned v)) \<and>
          (\<forall>l. load 0 = Some l \<longrightarrow> places s ! u = Returned (Some l))))"
proof (intro conjI impI allI)
  show "length ts \<le> 6 * n" using ops_run_bound [OF run] by (simp add: ops_start_measure)
  fix u assume stuck: "\<forall>t. load_fl_ops_lib load t s = None" and "u < n"
  then have u: "u < length (places s)" using ops_run_bound [OF run] by (simp add: ops_start_def)
  have inv: "ops_inv load s" using ops_inv_run [OF run ops_inv_start] .
  from not_stuck [OF inv _ u] stuck
  show fin: "fl_ops_so_lock s = None" "places s ! u = Raised \<or> (\<exists>v. places s ! u = Returned v)" by auto
  fix l assume "load 0 = Some l"
  from loads_ok_first [OF ops_invD(1) [OF inv] this] show "places s ! u = Returned (Some l)"
    using ops_invD(2) [OF inv u] fin(2) by auto
qed

theorem callers_finish_witness:
  "\<exists>s. run_schedule (\<lambda>_. Some ''lib'') [0, 1, 1, 1, 1, 1, 1, 0, 0, 0, 0] (ops_start 2) = Some s \<and>
     length [0, 1, 1, 1, 1, 1, 1, 0, 0, 0, 0 :: nat] \<le> 6 * 2 \<and> fl_ops_so_lock s = None \<and> places s ! 0 = Returned (Some ''lib'')"
proof -
  obtain s where s: "run_schedule (\<lambda>_. Some ''lib'') [0, 1, 1, 1, 1, 1, 1, 0, 0, 0, 0] (ops_start 2) = Some s"
      "places s = [Returned (Some ''lib''), Returned (Some ''lib'')]"
    by (simp add: ops_start_def load_fl_ops_lib_def move_def numeral_2_eq_2)
  from s(2) have "\<forall>t. load_fl_ops_lib (\<lambda>_. Some ''lib'') t s = None"
    by (auto simp: load_fl_ops_lib_def nth_Cons split: nat.splits)
  with callers_finish [OF run_schedule_run [OF s(1)]] s show ?thesis by fastforce
qed

end
