(* ===== verification/Trainer_Loop.thy ===== *)
theory Trainer_Loop
  imports Trainer_Session "HOL-Library.Multiset"
begin

section \<open>The run of a training session\<close>

text \<open>
  The rest of \<^verbatim>\<open>FLEstimator\<close> (\<^verbatim>\<open>Trainer/fl_comm_libs/fl_estimator.py\<close>) that does not build graphs: the preparation of the metrics, the
  loop over the steps after the connection, and the trace file. Metric values, update operations
  and the answers of the session are parameters: \<open>should_stop k\<close> is the answer to the k-th query, \<open>ends k\<close> says
  that the step after it meets the end of the input, which the session of TensorFlow turns into
  the regular end of the block.
\<close>

subsection \<open>Devices and metrics\<close>

definition worker_device :: "string \<Rightarrow> nat \<Rightarrow> string" where
  "worker_device job_name task_index = ''/job:'' @ job_name @ ''/task:'' @ str_of_nat task_index"

definition device_filters :: "'c option \<Rightarrow> string \<Rightarrow> nat \<Rightarrow> string list" where
  "device_filters cluster_spec job_name task_index =
     (case cluster_spec of None \<Rightarrow> [] | Some _ \<Rightarrow> [''/job:ps'', worker_device job_name task_index])"

definition extract_metric_update_ops :: "(string, 'v \<times> 'u) dict \<Rightarrow> 'u list \<times> (string, 'v) dict" where
  "extract_metric_update_ops eval_dict =
     (let es = sort_key fst eval_dict in (map (\<lambda>e. snd (snd e)) es, map (\<lambda>e. (fst e, fst (snd e))) es))"

datatype shown = Shown string | ShownBytes

fun join_strings :: "string \<Rightarrow> string list \<Rightarrow> string" where
  "join_strings sep [] = []"
| "join_strings sep [s] = s"
| "join_strings sep (s # t # ss) = s @ sep @ join_strings sep (t # ss)"

definition dict_to_str :: "(string, shown) dict \<Rightarrow> string" where
  "dict_to_str dictionary =
     join_strings '', ''
       (concat (map (\<lambda>(k, v). case v of Shown s \<Rightarrow> [k @ '' = '' @ s] | ShownBytes \<Rightarrow> []) (sort_key fst dictionary)))"

definition eval_metrics ::
  "'v \<times> 'u \<Rightarrow> 'v \<Rightarrow> (string, 'v \<times> 'u) dict option \<Rightarrow> exn + 'u list \<times> (string, 'v) dict" where
  "eval_metrics mean_loss step eval_metric_ops =
     (let ops = (case eval_metric_ops of None \<Rightarrow> [] | Some d \<Rightarrow> d);
          ops1 = (if ''loss'' \<notin> fst ` set ops then dict_set ''loss'' mean_loss ops else ops)
      in case extract_metric_update_ops ops1 of
           (update_ops, eval_dict) \<Rightarrow>
             if ''global_step'' \<in> fst ` set eval_dict then Inl ValueError
             else Inr (update_ops, dict_set ''global_step'' step eval_dict))"

subsection \<open>Trace files\<close>

record trace_event =
  te_ts :: "int option"
  te_name :: string

definition update_timeline :: "trace_event list \<Rightarrow> trace_event list option \<Rightarrow> trace_event list option" where
  "update_timeline fetched trace =
     Some (case trace of None \<Rightarrow> fetched | Some es \<Rightarrow> es @ filter (\<lambda>e. te_ts e \<noteq> None) fetched)"

definition save_timeline :: "string \<Rightarrow> string \<Rightarrow> int \<Rightarrow> trace_event list option \<Rightarrow> (string \<rightharpoonup> trace_event list option) \<Rightarrow> (string \<rightharpoonup> trace_event list option)" where
  "save_timeline timeline_path role rank_id trace files =
     files(timeline_path @ ''/timeline_step_'' @ role @ ''_'' @ str_of_int rank_id @ ''.json'' \<mapsto> trace)"

subsection \<open>The loop over the steps\<close>

datatype run_mode = TRAIN | EVAL | PREDICT

datatype session_event =
    BridgeInit
  | ChannelInit
  | BridgeOp bridge_op bool
  | TrainStart
  | TrainStep
  | EvalStep
  | StepCommit

definition step_event :: "run_mode \<Rightarrow> session_event list" where
  "step_event mode = (case mode of TRAIN \<Rightarrow> [TrainStep] | EVAL \<Rightarrow> [EvalStep] | PREDICT \<Rightarrow> [])"

partial_function (option) train_loop ::
  "(nat \<Rightarrow> bool) \<Rightarrow> (nat \<Rightarrow> bool) \<Rightarrow> run_mode \<Rightarrow> nat \<Rightarrow> nat \<Rightarrow> session_event list \<Rightarrow> (nat \<times> session_event list) option" where
  "train_loop should_stop ends mode k run_steps tr =
     (if should_stop k then Some (run_steps, tr)
      else if ends k then Some (run_steps, tr @ [TrainStart])
      else train_loop should_stop ends mode (k + 1) (run_steps + 1) (tr @ [TrainStart] @ step_event mode @ [StepCommit]))"

definition run_session ::
  "(nat \<Rightarrow> bool) \<Rightarrow> (nat \<Rightarrow> bool) \<Rightarrow> (bridge_op \<Rightarrow> nat \<Rightarrow> int) \<Rightarrow> string \<Rightarrow> run_mode \<Rightarrow> (nat \<times> session_event list) option" where
  "run_session should_stop ends status role mode =
     (if should_stop 0 then train_loop should_stop ends mode 1 1 []
      else case connect_loop status role 0 [] of
             None \<Rightarrow> None
           | Some (_, tr) \<Rightarrow>
               train_loop should_stop ends mode 1 1 ([BridgeInit, ChannelInit] @ map (\<lambda>(op, ok). BridgeOp op ok) tr))"

subsection \<open>Steps are started and committed\<close>

definition full_steps :: "run_mode \<Rightarrow> nat \<Rightarrow> session_event list" where
  "full_steps mode n = concat (replicate n ([TrainStart] @ step_event mode @ [StepCommit]))"

text \<open>The steps that are made before the query \<open>k + m\<close>, the first one at which the session stops or the input ends.\<close>

definition first_end :: "(nat \<Rightarrow> bool) \<Rightarrow> (nat \<Rightarrow> bool) \<Rightarrow> nat \<Rightarrow> nat \<Rightarrow> bool" where
  "first_end should_stop ends k m \<longleftrightarrow>
     (should_stop (k + m) \<or> ends (k + m)) \<and> (\<forall>i < m. \<not> should_stop (k + i) \<and> \<not> ends (k + i))"

lemma first_end_Suc: "\<not> should_stop k \<Longrightarrow> \<not> ends k \<Longrightarrow> first_end should_stop ends (k + 1) m \<Longrightarrow> first_end should_stop ends k (Suc m)"
  by (auto simp: first_end_def less_Suc_eq_0_disj)

definition last_events :: "(nat \<Rightarrow> bool) \<Rightarrow> nat \<Rightarrow> session_event list" where
  "last_events should_stop k = (if should_stop k then [] else [TrainStart])"

lemma train_loop_sound:
  assumes "train_loop should_stop ends mode k n tr = Some r"
  shows "\<exists>m. first_end should_stop ends k m \<and> snd r = tr @ full_steps mode m @ last_events should_stop (k + m) \<and> fst r = n + m"
proof (rule train_loop.raw_induct [where P = "\<lambda>should_stop ends mode k n tr r. \<exists>m. first_end should_stop ends k m \<and>
    snd r = tr @ full_steps mode m @ last_events should_stop (k + m) \<and> fst r = n + m", OF _ assms])
  fix loop and should_stop ends :: "nat \<Rightarrow> bool" and mode k n tr r
  assume IH: "\<And>should_stop ends mode k n tr r. loop should_stop ends mode k n tr = Some r \<Longrightarrow>
      \<exists>m. first_end should_stop ends k m \<and> snd r = tr @ full_steps mode m @ last_events should_stop (k + m) \<and> fst r = n + m"
    and body: "(if should_stop k then Some (n, tr) else if ends k then Some (n, tr @ [TrainStart])
      else loop should_stop ends mode (k + 1) (n + 1) (tr @ [TrainStart] @ step_event mode @ [StepCommit])) = Some r"
  show "\<exists>m. first_end should_stop ends k m \<and> snd r = tr @ full_steps mode m @ last_events should_stop (k + m) \<and> fst r = n + m"
  proof (cases "should_stop k \<or> ends k")
    case False
    with body IH [of should_stop ends mode "k + 1" "n + 1" "tr @ [TrainStart] @ step_event mode @ [StepCommit]" r]
    obtain m where "first_end should_stop ends (k + 1) m" "fst r = n + 1 + m"
      "snd r = (tr @ [TrainStart] @ step_event mode @ [StepCommit]) @ full_steps mode m @ last_events should_stop (k + 1 + m)" by auto
    with False first_end_Suc [of should_stop k ends m] show ?thesis by (intro exI [of _ "Suc m"]) (simp add: full_steps_def)
  next
    case True
    then show ?thesis
      using body by (intro exI [of _ 0]) (auto simp: full_steps_def first_end_def last_events_def split: if_splits)
  qed
qed

lemma train_loop_ends:
  assumes "should_stop m \<or> ends m" "k \<le> m"
  shows "\<exists>r. train_loop should_stop ends mode k n tr = Some r"
  using assms(2)
proof (induction "m - k" arbitrary: k n tr)
  case 0
  with assms(1) have "should_stop k \<or> ends k" by simp
  then show ?case by (subst train_loop.simps) auto
next
  case (Suc d)
  then have "\<exists>r. train_loop should_stop ends mode (k + 1) (n + 1) (tr @ [TrainStart] @ step_event mode @ [StepCommit]) = Some r"
    by (intro Suc.hyps(1)) simp_all
  then show ?case by (subst train_loop.simps) auto
qed

text \<open>
  C31. The trace of a session that is not told to stop at once: the bridge and its channels are initialized, the
  connection succeeds, and then exactly as many steps follow, each of them started and committed, as there are
  queries before the first one at which the session stops or the input ends. When it is the input
  that ends, one more step is started and not committed; when the session is told to stop, none is. The number that is
  reported as the iteration is one more than the number of steps. The session ends when the bridge answers from some
  run on and the session stops or the input ends.
\<close>

theorem steps_are_committed:
  assumes "\<not> should_stop 0"
  shows "(run_session should_stop ends status role mode = Some (n, tr) \<longrightarrow>
      (\<exists>pre ready m. ready_trace role ready \<and> first_end should_stop ends 1 m \<and> n = m + 1 \<and>
         tr = [BridgeInit, ChannelInit] @ map (\<lambda>(op, ok). BridgeOp op ok) (pre @ ready) @ full_steps mode m @
           (if should_stop (m + 1) then [] else [TrainStart]))) \<and>
    ((\<exists>j. \<forall>op i. j \<le> i \<longrightarrow> status op i = 0) \<and> (\<exists>i \<ge> 1. should_stop i \<or> ends i) \<longrightarrow>
      (\<exists>r. run_session should_stop ends status role mode = Some r))"
proof (intro conjI impI)
  assume run: "run_session should_stop ends status role mode = Some (n, tr)"
  then obtain k tr0 where c: "connect_loop status role 0 [] = Some (k, tr0)"
    and t: "train_loop should_stop ends mode 1 1 ([BridgeInit, ChannelInit] @ map (\<lambda>(op, ok). BridgeOp op ok) tr0) = Some (n, tr)"
    using assms by (auto simp: run_session_def split: option.splits)
  from connect_loop_sound [OF c] obtain pre ready where "tr0 = pre @ ready" "ready_trace role ready" by auto
  with train_loop_sound [OF t] show "\<exists>pre ready m. ready_trace role ready \<and> first_end should_stop ends 1 m \<and> n = m + 1 \<and>
         tr = [BridgeInit, ChannelInit] @ map (\<lambda>(op, ok). BridgeOp op ok) (pre @ ready) @ full_steps mode m @
           (if should_stop (m + 1) then [] else [TrainStart])"
    by (fastforce simp: last_events_def)
next
  assume "(\<exists>j. \<forall>op i. j \<le> i \<longrightarrow> status op i = 0) \<and> (\<exists>i \<ge> 1. should_stop i \<or> ends i)"
  then obtain j i where j: "\<And>op i. j \<le> i \<Longrightarrow> status op i = 0" and i: "1 \<le> i" "should_stop i \<or> ends i" by blast
  obtain k tr0 where "connect_loop status role 0 [] = Some (k, tr0)" using connect_loop_ends [of j status role 0 "[]", OF j] by auto
  moreover have "\<exists>r. train_loop should_stop ends mode 1 1 tr' = Some r" for tr' by (rule train_loop_ends [of should_stop i ends 1, OF i(2,1)])
  ultimately show "\<exists>r. run_session should_stop ends status role mode = Some r" using assms by (simp add: run_session_def)
qed

theorem steps_are_committed_witness:
  "\<exists>tr pre. run_session (\<lambda>k. k = 3) (\<lambda>_. False) late_status ''follower'' TRAIN = Some (3, tr) \<and> tr = pre @ full_steps TRAIN 2"
proof -
  have "\<exists>j. \<forall>op i. j \<le> i \<longrightarrow> late_status op i = 0" by (intro exI [of _ 2]) (simp add: late_status_def)
  moreover have "\<exists>i \<ge> (1 :: nat). i = 3 \<or> False" by (intro exI [of _ 3]) simp
  ultimately obtain n tr where run: "run_session (\<lambda>k. k = 3) (\<lambda>_. False) late_status ''follower'' TRAIN = Some (n, tr)"
    using steps_are_committed [of "\<lambda>k. k = 3" "\<lambda>_. False" late_status "''follower''" TRAIN] by fastforce
  with steps_are_committed [of "\<lambda>k. k = 3" "\<lambda>_. False" late_status "''follower''" TRAIN n tr] obtain pre m where
    m: "first_end (\<lambda>k. k = 3) (\<lambda>_. False) 1 m" "n = m + 1" "tr = pre @ full_steps TRAIN m @ (if m + 1 = 3 then [] else [TrainStart])"
    by fastforce
  then have "m = 2" by (simp add: first_end_def)
  with m run show ?thesis by auto
qed

text \<open>
  The graph of an evaluation does not depend on the order in which the metrics of a model are
  listed: the update operations and the values come out in the order of the names.
\<close>

theorem metric_ops_order_independent:
  assumes "mset d = mset d'" "distinct (map fst d)"
  shows "extract_metric_update_ops d = extract_metric_update_ops d' \<and> sorted (map fst (snd (extract_metric_update_ops d)))"
proof -
  have "sort_key fst d = sort_key fst d'" using assms by (intro sort_key_inj_key_eq) (simp_all add: distinct_map)
  then show ?thesis by (simp add: extract_metric_update_ops_def comp_def Let_def)
qed

theorem metric_ops_order_independent_witness:
  "extract_metric_update_ops [(''loss'', 1 :: nat, ''u''), (''auc'', 2, ''v'')] = extract_metric_update_ops [(''auc'', 2, ''v''), (''loss'', 1, ''u'')]"
proof -
  have "mset [(''loss'', 1 :: nat, ''u''), (''auc'', 2, ''v'')] = mset [(''auc'', 2, ''v''), (''loss'', 1, ''u'')]" by simp
  from metric_ops_order_independent [OF this] show ?thesis by simp
qed

end
