(* ===== verification/Train_Graph.thy ===== *)
theory Train_Graph
  imports Trainer_Loop
begin

section \<open>Graphs of a training session\<close>

text \<open>
  The programs of the trainer build graphs of TensorFlow and hand them to a session. A graph is a
  value here: its leaves are variables, the features of the current batch of a data set and placeholders; its inner
  nodes are operations of TensorFlow and the operations of the bridge (\<^verbatim>\<open>fl_tensor_send\<close>, \<^verbatim>\<open>fl_tensor_recv\<close> and their
  combinations), which exchange tensors with the other party under names. What the operations
  compute, the gradients and the optimizer are the parameter \<open>tensorflow\<close>. The gradients
  registered by \<^verbatim>\<open>Trainer/fl_comm_libs/fl_ops.py\<close>, its data sets and the losses of \<^verbatim>\<open>Trainer/fl_comm_libs/util.py\<close> are modelled in this theory.
\<close>

subsection \<open>Graphs\<close>

datatype unary_op = Relu | CastFloat | ReduceMean | ReduceMin | ArgMax | Sigmoid | Flatten

datatype binary_op = MatMul | BiasAdd | Concat | SparseSoftmaxCE | InTopK | Accuracy | SigmoidCE | Auc nat | Multiply

datatype graph =
    Variable string
  | Feature string string \<comment> \<open>data set and name of the feature\<close>
  | Placeholder string
  | Unary unary_op graph
  | Binary binary_op graph graph
  | FlRecvFake graph string string \<comment> \<open>fake input, name to receive, name to send the gradient\<close>
  | FlRecv string
  | FlSendRecv graph string string \<comment> \<open>input, name to send, name to receive\<close>
  | FlSend graph string

datatype initializer = RandomUniform int int nat \<comment> \<open>bounds in hundredths, seed\<close> | Zeros

record variable_decl =
  vd_name :: string
  vd_shape :: "nat list"
  vd_init :: initializer

text \<open>
  Values are tensors \<^typ>\<open>'t\<close>; \<open>tf_gradients ys xs env grad_ys\<close> is \<^verbatim>\<open>tf.gradients\<close> evaluated in an environment, \<open>tf_adam\<close> the update
  of a variable and of the slots of the optimizer, given the learning rate and the number of steps made, and \<open>fl_request\<close> what the operation \<^verbatim>\<open>fl_grad_backprop_request\<close> of the bridge returns after it has sent its input.
\<close>

record 't tf_env =
  ev_variable :: "string \<Rightarrow> 't"
  ev_feature :: "string \<Rightarrow> string \<Rightarrow> 't"
  ev_placeholder :: "string \<Rightarrow> 't option"
  ev_message :: "string \<Rightarrow> 't option"

record ('t, 's) tensorflow =
  tf_unary :: "unary_op \<Rightarrow> 't \<Rightarrow> 't"
  tf_binary :: "binary_op \<Rightarrow> 't \<Rightarrow> 't \<Rightarrow> 't"
  tf_ones :: 't
  tf_gradients :: "graph \<Rightarrow> graph \<Rightarrow> 't tf_env \<Rightarrow> 't \<Rightarrow> 't"
  tf_initial :: "initializer \<Rightarrow> nat list \<Rightarrow> 't \<times> 's"
  tf_adam :: "nat \<times> nat \<Rightarrow> nat \<Rightarrow> 't \<Rightarrow> 't \<times> 's \<Rightarrow> 't \<times> 's"
  fl_request :: "'t \<Rightarrow> 't"

text \<open>The value of a node, or \<^term>\<open>None\<close> while it waits for a message of the peer.\<close>

fun eval_graph :: "('t, 's) tensorflow \<Rightarrow> 't tf_env \<Rightarrow> graph \<Rightarrow> 't option" where
  "eval_graph L env (Variable v) = Some (ev_variable env v)"
| "eval_graph L env (Feature ds k) = Some (ev_feature env ds k)"
| "eval_graph L env (Placeholder p) = ev_placeholder env p"
| "eval_graph L env (Unary f g) = map_option (tf_unary L f) (eval_graph L env g)"
| "eval_graph L env (Binary f g h) =
     (case eval_graph L env g of
        None \<Rightarrow> None
      | Some x \<Rightarrow> map_option (tf_binary L f x) (eval_graph L env h))"
| "eval_graph L env (FlRecvFake g r s) = ev_message env r"
| "eval_graph L env (FlRecv r) = ev_message env r"
| "eval_graph L env (FlSendRecv g s r) = (case eval_graph L env g of None \<Rightarrow> None | Some _ \<Rightarrow> ev_message env r)"
| "eval_graph L env (FlSend g s) = eval_graph L env g"

text \<open>The tensors that the evaluation of a node sends, with their names.\<close>

fun graph_sends :: "('t, 's) tensorflow \<Rightarrow> 't tf_env \<Rightarrow> graph \<Rightarrow> (string \<times> 't) list" where
  "graph_sends L env (Unary f g) = graph_sends L env g"
| "graph_sends L env (Binary f g h) = graph_sends L env g @ graph_sends L env h"
| "graph_sends L env (FlSendRecv g s r) =
     graph_sends L env g @ (case eval_graph L env g of None \<Rightarrow> [] | Some x \<Rightarrow> [(s, x)])"
| "graph_sends L env (FlSend g s) =
     graph_sends L env g @ (case eval_graph L env g of None \<Rightarrow> [] | Some x \<Rightarrow> [(s, x)])"
| "graph_sends L env _ = []"

text \<open>The nodes whose gradient is registered by \<^verbatim>\<open>fl_ops\<close> in a graph.\<close>

fun fake_inputs :: "graph \<Rightarrow> graph list" where
  "fake_inputs (FlRecvFake g r s) = [FlRecvFake g r s]"
| "fake_inputs (Unary f g) = fake_inputs g"
| "fake_inputs (Binary f g h) = fake_inputs g @ fake_inputs h"
| "fake_inputs _ = []"

subsection \<open>The gradients of the bridge\<close>

text \<open>
  The gradient of a receiving operation sends the gradient that arrives at it to the peer; the variant with a
  fake input gives the least element of what the request returns to this input, the variant \<^verbatim>\<open>FlTensorRecvWithGradBp\<close> the whole of it.
\<close>

definition recv_fake_gradient :: "('t, 's) tensorflow \<Rightarrow> string \<Rightarrow> 't \<Rightarrow> (string \<times> 't) \<times> 't" where
  "recv_fake_gradient L grad_sname grad = ((grad_sname, grad), tf_unary L ReduceMin (fl_request L grad))"

definition recv_grad_bp_gradient :: "('t, 's) tensorflow \<Rightarrow> string \<Rightarrow> 't \<Rightarrow> (string \<times> 't) \<times> 't" where
  "recv_grad_bp_gradient L grad_sname grad = ((grad_sname, grad), fl_request L grad)"

text \<open>What the gradients of a loss send.\<close>

definition gradient_sends :: "('t, 's) tensorflow \<Rightarrow> 't tf_env \<Rightarrow> graph \<Rightarrow> 't \<Rightarrow> (string \<times> 't) list" where
  "gradient_sends L env loss grad_loss =
     concat (map (\<lambda>node. case node of
                    FlRecvFake g r s \<Rightarrow> [fst (recv_fake_gradient L s (tf_gradients L loss node env grad_loss))]
                  | _ \<Rightarrow> []) (fake_inputs loss))"

subsection \<open>Losses\<close>

definition auc :: "graph \<Rightarrow> graph \<Rightarrow> nat \<Rightarrow> graph" where
  "auc logits labels num_thresholds = Binary (Auc num_thresholds) (Unary Flatten labels) (Unary Flatten (Unary Sigmoid logits))"

definition cross_entropy_loss :: "graph \<Rightarrow> graph \<Rightarrow> graph \<Rightarrow> graph" where
  "cross_entropy_loss logits labels weight =
     Binary Multiply weight (Unary ReduceMean (Binary SigmoidCE (Unary Flatten labels) (Unary Flatten logits)))"

subsection \<open>Data sets\<close>

text \<open>
  The data sets of \<^verbatim>\<open>fl_ops\<close>: the paths that the data center serves to a role, and the records or the lines of the files
  whose paths another data set gives. What is served and what a file holds, given the compression and the size of the buffer, are
  parameters. Each data set has the elements of the type that its input has; paths are strings.
\<close>

datatype fl_dataset =
    FlGrpcFetchDataset string
  | FlTFRecordDataset fl_dataset string int
  | FlTextLineDataset fl_dataset string int

datatype element_spec = StringScalar

fun dataset_spec :: "fl_dataset \<Rightarrow> element_spec" where
  "dataset_spec (FlGrpcFetchDataset role) = StringScalar"
| "dataset_spec (FlTFRecordDataset input compression_type buffer_size) = dataset_spec input"
| "dataset_spec (FlTextLineDataset input compression_type buffer_size) = dataset_spec input"

record data_files =
  df_served :: "string \<Rightarrow> string list"
  df_records :: "string \<Rightarrow> int \<Rightarrow> string \<Rightarrow> bytes list"
  df_lines :: "string \<Rightarrow> int \<Rightarrow> string \<Rightarrow> bytes list"

fun dataset_elements :: "data_files \<Rightarrow> fl_dataset \<Rightarrow> bytes list" where
  "dataset_elements S (FlGrpcFetchDataset role) = df_served S role"
| "dataset_elements S (FlTFRecordDataset input compression_type buffer_size) =
     concat (map (df_records S compression_type buffer_size) (dataset_elements S input))"
| "dataset_elements S (FlTextLineDataset input compression_type buffer_size) =
     concat (map (df_lines S compression_type buffer_size) (dataset_elements S input))"

end
