(* ===== verification/Mnist_Models.thy ===== *)
theory Mnist_Models
  imports Train_Graph
begin

section \<open>The models of the example\<close>

text \<open>
  The example of \<^verbatim>\<open>src/example/mnist_demo\<close>: the models of the leader (\<^verbatim>\<open>mnist_leader.py\<close>) and of the follower
  (\<^verbatim>\<open>mnist_follower.py\<close>), which train one network together, and the same network for one party
  (\<^verbatim>\<open>baseline.py\<close>). A model function gives the variables it declares and its specification, or raises.
\<close>

record model_spec =
  es_mode :: run_mode
  es_loss :: "graph option"
  es_train :: "(graph \<times> graph option) option" \<comment> \<open>what Adam minimizes, and its \<^verbatim>\<open>grad_loss\<close>\<close>
  es_predictions :: "(string, graph) dict"
  es_metrics :: "(string, graph) dict"
  es_logged :: "(string, graph) dict"
  es_checked_ids :: "graph option" \<comment> \<open>the ids whose \<^verbatim>\<open>verify_example_ids\<close> the training depends on\<close>

type_synonym built_model = "variable_decl list \<times> model_spec"

definition learning_rate :: "nat \<times> nat" where
  "learning_rate = (1, 10)"

definition seed :: nat where
  "seed = 1"

definition weights :: "string \<Rightarrow> nat \<Rightarrow> nat \<Rightarrow> variable_decl" where
  "weights name rows columns = \<lparr>vd_name = name, vd_shape = [rows, columns], vd_init = RandomUniform (- 1) 1 seed\<rparr>"

definition bias :: "string \<Rightarrow> nat \<Rightarrow> variable_decl" where
  "bias name n = \<lparr>vd_name = name, vd_shape = [n], vd_init = Zeros\<rparr>"

definition dense :: "graph \<Rightarrow> string \<Rightarrow> string \<Rightarrow> graph" where
  "dense x w b = Binary BiasAdd (Binary MatMul x (Variable w)) (Variable b)"

subsection \<open>The leader\<close>

text \<open>The features that the input function parses, by name; the labels are taken out of them.\<close>

definition leader_features :: "string \<Rightarrow> (string, graph) dict" where
  "leader_features ds = [(''example_id'', Feature ds ''example_id''), (''x'', Feature ds ''x'')]"

definition leader_labels :: "string \<Rightarrow> (string, graph) dict" where
  "leader_labels ds = [(''y'', Feature ds ''y'')]"

definition leader_serving_features :: "string \<Rightarrow> (string, graph) dict" where
  "leader_serving_features ds = [(''x'', Feature ds ''x''), (''fl_inputs'', Placeholder ''fl_inputs'')]"

definition leader_decls :: "variable_decl list" where
  "leader_decls = [weights ''w1l'' (28 * 28 div 2) 128, bias ''b1l'' 128, weights ''w2'' (128 * 2) 10, bias ''b2'' 10]"

definition fake_decl :: variable_decl where
  "fake_decl = \<lparr>vd_name = ''fake'', vd_shape = [], vd_init = Zeros\<rparr>"

definition leader_logits :: "graph \<Rightarrow> graph \<Rightarrow> graph" where
  "leader_logits x act1_f = dense (Binary Concat (Unary Relu (dense x ''w1l'' ''b1l'')) act1_f) ''w2'' ''b2''"

definition feature_of :: "(string, graph) dict \<Rightarrow> string \<Rightarrow> exn + graph" where
  "feature_of features k = raising (dict_get features k) KeyError"

text \<open>Which branch \<^verbatim>\<open>verify_example_ids\<close> takes does not depend on the ids.\<close>

definition check_ids :: "flags \<Rightarrow> graph \<Rightarrow> exn + graph" where
  "check_ids fs ids = (case verify_example_ids (\<lambda>_. 0) fs [] of Inl e \<Rightarrow> Inl e | Inr _ \<Rightarrow> Inr ids)"

definition accuracy :: "graph \<Rightarrow> graph \<Rightarrow> graph" where
  "accuracy logits y = Unary ReduceMean (Unary CastFloat (Binary InTopK logits y))"

text \<open>
  In the evaluation mode the leader names a tensor \<^verbatim>\<open>xl\<close> that the function does not have.
\<close>

definition leader_model_fn ::
  "flags \<Rightarrow> (string, graph) dict \<Rightarrow> (string, graph) dict \<Rightarrow> run_mode \<Rightarrow> exn + built_model" where
  "leader_model_fn fs features labels mode =
     (case feature_of features ''x'' of
        Inl e \<Rightarrow> Inl e
      | Inr x \<Rightarrow>
          (case (case mode of
                   TRAIN \<Rightarrow> Inr (leader_decls @ [fake_decl], FlRecvFake (Variable ''fake'') ''act1_f'' ''act1_f_grad'')
                 | EVAL \<Rightarrow> Inl NameError
                 | PREDICT \<Rightarrow> (case feature_of features ''fl_inputs'' of Inl e \<Rightarrow> Inl e | Inr g \<Rightarrow> Inr (leader_decls, g))) of
             Inl e \<Rightarrow> Inl e
           | Inr (decls, act1_f) \<Rightarrow>
               let logits = leader_logits x act1_f
               in if mode = PREDICT
                  then Inr (decls, \<lparr>es_mode = PREDICT, es_loss = None, es_train = None, es_predictions = [(''output'', logits)],
                         es_metrics = [], es_logged = [], es_checked_ids = None\<rparr>)
                  else case feature_of features ''example_id'' of
                    Inl e \<Rightarrow> Inl e
                  | Inr ids \<Rightarrow>
                      (case check_ids fs ids of
                         Inl e \<Rightarrow> Inl e
                       | Inr checked \<Rightarrow>
                           (case feature_of labels ''y'' of
                              Inl e \<Rightarrow> Inl e
                            | Inr y \<Rightarrow>
                                let loss = Binary SparseSoftmaxCE y logits
                                in Inr (decls, \<lparr>es_mode = mode, es_loss = Some loss,
                                     es_train = (if mode = TRAIN then Some (loss, None) else None), es_predictions = [], es_metrics = [],
                                     es_logged = [(''loss'', loss), (''acc'', accuracy logits y)], es_checked_ids = Some checked\<rparr>)))))"

subsection \<open>The follower\<close>

definition follower_features :: "string \<Rightarrow> (string, graph) dict" where
  "follower_features ds = [(''example_id'', Feature ds ''example_id''), (''x'', Feature ds ''x'')]"

definition follower_serving_features :: "string \<Rightarrow> (string, graph) dict" where
  "follower_serving_features ds = [(''x'', Feature ds ''x'')]"

text \<open>The shape is written with a division of floating point numbers, whose value is 392.\<close>

definition follower_decls :: "variable_decl list" where
  "follower_decls = [weights ''w1f'' (28 * 28 div 2) 128, bias ''b1f'' 128]"

definition follower_act :: "graph \<Rightarrow> graph" where
  "follower_act x = Unary Relu (dense x ''w1f'' ''b1f'')"

definition follower_model_fn ::
  "flags \<Rightarrow> (string, graph) dict \<Rightarrow> (string, graph) dict \<Rightarrow> run_mode \<Rightarrow> exn + built_model" where
  "follower_model_fn fs features labels mode =
     (case feature_of features ''x'' of
        Inl e \<Rightarrow> Inl e
      | Inr x \<Rightarrow>
          let act1_f = follower_act x
          in if mode = PREDICT
             then Inr (follower_decls, \<lparr>es_mode = PREDICT, es_loss = None, es_train = None, es_predictions = [(''output'', act1_f)],
                    es_metrics = [], es_logged = [], es_checked_ids = None\<rparr>)
             else case feature_of features ''example_id'' of
               Inl e \<Rightarrow> Inl e
             | Inr ids \<Rightarrow>
                 (case check_ids fs ids of
                    Inl e \<Rightarrow> Inl e
                  | Inr checked \<Rightarrow>
                      if mode = TRAIN
                      then let recv_grad = FlSendRecv act1_f ''act1_f'' ''act1_f_grad''
                           in Inr (follower_decls, \<lparr>es_mode = TRAIN, es_loss = Some recv_grad, es_train = Some (act1_f, Some recv_grad),
                                es_predictions = [], es_metrics = [], es_logged = [], es_checked_ids = Some checked\<rparr>)
                      else Inr (follower_decls, \<lparr>es_mode = EVAL, es_loss = Some (FlSend act1_f ''act1_f''), es_train = None,
                             es_predictions = [], es_metrics = [], es_logged = [], es_checked_ids = Some checked\<rparr>)))"

subsection \<open>The baseline\<close>

definition baseline_decls :: "variable_decl list" where
  "baseline_decls = [weights ''w1l'' (28 * 28 div 2) 128, bias ''b1l'' 128, weights ''w1f'' (28 * 28 div 2) 128, bias ''b1f'' 128,
     weights ''w2'' (128 * 2) 10, bias ''b2'' 10]"

definition mnist_model :: "graph \<Rightarrow> graph \<Rightarrow> graph" where
  "mnist_model xl xf =
     dense (Binary Concat (Unary Relu (dense xl ''w1l'' ''b1l'')) (Unary Relu (dense xf ''w1f'' ''b1f''))) ''w2'' ''b2''"

definition baseline_features :: "string \<Rightarrow> string \<Rightarrow> (string, graph) dict" where
  "baseline_features l_ds f_ds = [(''xl'', Feature l_ds ''x''), (''xf'', Feature f_ds ''x'')]"

definition baseline_model_fn :: "(string, graph) dict \<Rightarrow> graph \<Rightarrow> run_mode \<Rightarrow> exn + built_model" where
  "baseline_model_fn features labels mode =
     (case (feature_of features ''xl'', feature_of features ''xf'') of
        (Inl e, _) \<Rightarrow> Inl e
      | (_, Inl e) \<Rightarrow> Inl e
      | (Inr xl, Inr xf) \<Rightarrow>
          let logits = mnist_model xl xf; loss = Binary SparseSoftmaxCE labels logits
          in Inr (baseline_decls,
               case mode of
                 TRAIN \<Rightarrow> \<lparr>es_mode = TRAIN, es_loss = Some loss, es_train = Some (loss, None), es_predictions = [], es_metrics = [],
                   es_logged = [(''loss'', loss), (''acc'', accuracy logits labels)], es_checked_ids = None\<rparr>
               | EVAL \<Rightarrow> \<lparr>es_mode = EVAL, es_loss = Some loss, es_train = None, es_predictions = [],
                   es_metrics = [(''accuracy'', Binary Accuracy labels (Unary ArgMax logits))], es_logged = [], es_checked_ids = None\<rparr>
               | PREDICT \<Rightarrow> \<lparr>es_mode = PREDICT, es_loss = None, es_train = None,
                   es_predictions = [(''output'', logits), (''predict'', Unary ArgMax logits)], es_metrics = [], es_logged = [],
                   es_checked_ids = None\<rparr>))"

end
