(* ===== verification/Split_Training.thy ===== *)
theory Split_Training
  imports Mnist_Models
begin

section \<open>Training one network by two parties\<close>

text \<open>
  A step of the training session of each party, the messages between the steps, and the input of
  both parties. TensorFlow is the parameter \<^typ>\<open>('t, 's) tensorflow\<close>; what is used of its gradients is the chain rule
  (\<open>gradient_laws\<close>), for a node that is used once, so that no sums are regrouped.
\<close>

subsection \<open>Graphs with a hole\<close>

fun fill :: "string \<Rightarrow> graph \<Rightarrow> graph \<Rightarrow> graph" where
  "fill h F (Placeholder p) = (if p = h then F else Placeholder p)"
| "fill h F (Unary f g) = Unary f (fill h F g)"
| "fill h F (Binary f g1 g2) = Binary f (fill h F g1) (fill h F g2)"
| "fill h F g = g"

fun hole_count :: "string \<Rightarrow> graph \<Rightarrow> nat" where
  "hole_count h (Placeholder p) = (if p = h then 1 else 0)"
| "hole_count h (Unary f g) = hole_count h g"
| "hole_count h (Binary f g1 g2) = hole_count h g1 + hole_count h g2"
| "hole_count h (FlRecvFake g r s) = hole_count h g"
| "hole_count h (FlSendRecv g s r) = hole_count h g"
| "hole_count h (FlSend g s) = hole_count h g"
| "hole_count h _ = 0"

fun graph_variables :: "graph \<Rightarrow> string set" where
  "graph_variables (Variable v) = {v}"
| "graph_variables (Unary f g) = graph_variables g"
| "graph_variables (Binary f g1 g2) = graph_variables g1 \<union> graph_variables g2"
| "graph_variables (FlRecvFake g r s) = graph_variables g"
| "graph_variables (FlSendRecv g s r) = graph_variables g"
| "graph_variables (FlSend g s) = graph_variables g"
| "graph_variables _ = {}"

fun plain :: "graph \<Rightarrow> bool" where
  "plain (Unary f g) = plain g"
| "plain (Binary f g1 g2) \<longleftrightarrow> plain g1 \<and> plain g2"
| "plain (Variable v) = True"
| "plain (Feature ds k) = True"
| "plain (Placeholder p) = True"
| "plain _ = False"

definition set_hole :: "string \<Rightarrow> 't \<Rightarrow> 't tf_env \<Rightarrow> 't tf_env" where
  "set_hole h x env = env\<lparr>ev_placeholder := (ev_placeholder env)(h \<mapsto> x)\<rparr>"

definition env_agree :: "graph \<Rightarrow> 't tf_env \<Rightarrow> 't tf_env \<Rightarrow> bool" where
  "env_agree g env env' \<longleftrightarrow>
     (\<forall>v \<in> graph_variables g. ev_variable env v = ev_variable env' v) \<and> ev_feature env = ev_feature env' \<and>
     (\<forall>p. 0 < hole_count p g \<longrightarrow> ev_placeholder env p = ev_placeholder env' p) \<and> (plain g \<or> ev_message env = ev_message env')"

text \<open>
  The chain rule: the gradient of a graph with one hole that is filled with \<open>F\<close>, with respect to a variable
  of \<open>F\<close>, of the rest of the graph, or to \<open>F\<close> itself; and gradients depend only on the leaves of the graph.
\<close>

definition gradient_laws :: "('t, 's) tensorflow \<Rightarrow> bool" where
  "gradient_laws L \<longleftrightarrow>
     (\<forall>h F C v env gy x. plain C \<longrightarrow> hole_count h C = 1 \<longrightarrow> hole_count h F = 0 \<longrightarrow> eval_graph L env F = Some x \<longrightarrow>
        (plain F \<longrightarrow> v \<notin> graph_variables C \<longrightarrow>
           tf_gradients L (fill h F C) (Variable v) env gy =
             tf_gradients L F (Variable v) env (tf_gradients L C (Placeholder h) (set_hole h x env) gy)) \<and>
        (v \<notin> graph_variables F \<longrightarrow>
           tf_gradients L (fill h F C) (Variable v) env gy = tf_gradients L C (Variable v) (set_hole h x env) gy) \<and>
        (\<not> plain F \<longrightarrow> tf_gradients L (fill h F C) F env gy = tf_gradients L C (Placeholder h) (set_hole h x env) gy)) \<and>
     (\<forall>ys xs env env' gy. env_agree ys env env' \<longrightarrow> tf_gradients L ys xs env gy = tf_gradients L ys xs env' gy)"

subsection \<open>A step of a party\<close>

record ('t, 's) party =
  pt_vars :: "string \<Rightarrow> 't \<times> 's"
  pt_steps :: nat

definition start_party :: "('t, 's) tensorflow \<Rightarrow> variable_decl list \<Rightarrow> ('t, 's) party" where
  "start_party L decls =
     \<lparr>pt_vars = (\<lambda>v. case map_of (map (\<lambda>d. (vd_name d, d)) decls) v of
                     None \<Rightarrow> tf_initial L Zeros [] | Some d \<Rightarrow> tf_initial L (vd_init d) (vd_shape d)),
      pt_steps = 0\<rparr>"

definition party_env :: "('t, 's) party \<Rightarrow> (string \<Rightarrow> string \<Rightarrow> 't) \<Rightarrow> (string \<Rightarrow> 't option) \<Rightarrow> 't tf_env" where
  "party_env p feats msgs =
     \<lparr>ev_variable = (\<lambda>v. fst (pt_vars p v)), ev_feature = feats, ev_placeholder = (\<lambda>_. None), ev_message = msgs\<rparr>"

text \<open>\<^verbatim>\<open>AdamOptimizer.minimize\<close>: the gradients of all declared variables, applied at once; the global step grows.\<close>

definition apply_adam ::
  "('t, 's) tensorflow \<Rightarrow> variable_decl list \<Rightarrow> graph \<Rightarrow> 't tf_env \<Rightarrow> 't \<Rightarrow> ('t, 's) party \<Rightarrow> ('t, 's) party" where
  "apply_adam L decls loss env gy p =
     \<lparr>pt_vars = (\<lambda>v. if v \<in> vd_name ` set decls
                     then tf_adam L learning_rate (pt_steps p) (tf_gradients L loss (Variable v) env gy) (pt_vars p v)
                     else pt_vars p v),
      pt_steps = pt_steps p + 1\<rparr>"

text \<open>What the party sends before it waits, and its step once the messages of the peer are there.\<close>

definition forward_sends ::
  "('t, 's) tensorflow \<Rightarrow> built_model \<Rightarrow> (string \<Rightarrow> string \<Rightarrow> 't) \<Rightarrow> ('t, 's) party \<Rightarrow> (string \<times> 't) list" where
  "forward_sends L m feats p =
     (let env = party_env p feats (\<lambda>_. None)
      in case es_train (snd m) of
           None \<Rightarrow> []
         | Some (loss, None) \<Rightarrow> graph_sends L env loss
         | Some (loss, Some grad_loss) \<Rightarrow> graph_sends L env loss @ graph_sends L env grad_loss)"

definition train_step ::
  "('t, 's) tensorflow \<Rightarrow> built_model \<Rightarrow> (string \<Rightarrow> string \<Rightarrow> 't) \<Rightarrow> (string \<Rightarrow> 't option) \<Rightarrow> ('t, 's) party \<Rightarrow>
     (('t, 's) party \<times> (string \<times> 't) list) option" where
  "train_step L m feats msgs p =
     (let env = party_env p feats msgs
      in case es_train (snd m) of
           None \<Rightarrow> None
         | Some (loss, grad_loss) \<Rightarrow>
             (case (eval_graph L env loss, case grad_loss of None \<Rightarrow> Some (tf_ones L) | Some g \<Rightarrow> eval_graph L env g) of
                (Some _, Some gy) \<Rightarrow> Some (apply_adam L (fst m) loss env gy p, gradient_sends L env loss gy)
              | _ \<Rightarrow> None))"

subsection \<open>A step of both parties\<close>

text \<open>
  Either both sessions make a step, or they stop: a session may have made its step, wait for a message that is not sent,
  or have raised.
\<close>

datatype ('t, 's) party_end = Moved "('t, 's) party" | Waits | Raised exn

datatype ('t, 's) fed_outcome = Stepped "('t, 's) party" "('t, 's) party" | Stopped "('t, 's) party_end" "('t, 's) party_end"

text \<open>The step of a party to which only \<open>msgs\<close> are sent.\<close>

definition step_end ::
  "('t, 's) tensorflow \<Rightarrow> built_model \<Rightarrow> (string \<Rightarrow> string \<Rightarrow> 't) \<Rightarrow> (string \<Rightarrow> 't option) \<Rightarrow> ('t, 's) party \<Rightarrow> ('t, 's) party_end" where
  "step_end L m feats msgs p = (case train_step L m feats msgs p of None \<Rightarrow> Waits | Some (p', _) \<Rightarrow> Moved p')"

definition exchange ::
  "('t, 's) tensorflow \<Rightarrow> built_model \<Rightarrow> built_model \<Rightarrow> (string \<Rightarrow> string \<Rightarrow> 't) \<Rightarrow> ('t, 's) party \<Rightarrow> ('t, 's) party \<Rightarrow> ('t, 's) fed_outcome" where
  "exchange L mL mF feats l f =
     (case train_step L mL feats (map_of (forward_sends L mF feats f)) l of
        None \<Rightarrow> Stopped Waits (step_end L mF feats (map_of (forward_sends L mL feats l)) f)
      | Some (l', sent) \<Rightarrow>
          (case step_end L mF feats (map_of (forward_sends L mL feats l @ sent)) f of
             Moved f' \<Rightarrow> Stepped l' f'
           | stopped \<Rightarrow> Stopped (Moved l') stopped))"

text \<open>
  The check of the ids is an operation of the graph of a party: it runs when the training of its model depends on it,
  on the ids of the node that the model function passes to \<^verbatim>\<open>verify_example_ids\<close>.
\<close>

definition ids_at :: "string list \<Rightarrow> string list \<Rightarrow> graph \<Rightarrow> string list option" where
  "ids_at idsL idsF g =
     (case g of
        Feature ds k \<Rightarrow> if k = ''example_id'' then Some (if ds = ''leader'' then idsL else idsF) else None
      | _ \<Rightarrow> None)"

definition party_check :: "(string \<Rightarrow> int) \<Rightarrow> flags \<Rightarrow> built_model \<Rightarrow> string list \<Rightarrow> string list \<Rightarrow> exn + check_op" where
  "party_check to_hash fs m idsL idsF =
     (case es_checked_ids (snd m) of
        None \<Rightarrow> Inr NoCheck
      | Some node \<Rightarrow> (case ids_at idsL idsF node of None \<Rightarrow> Inl TypeError | Some ids \<Rightarrow> verify_example_ids to_hash fs ids))"

text \<open>The comparison of the follower: \<^term>\<open>None\<close> when it waits for hashes that nobody sends.\<close>

fun ids_agree :: "check_op \<Rightarrow> check_op \<Rightarrow> bool option" where
  "ids_agree (SendHashes a) (CompareHashes b) = Some (a = b)"
| "ids_agree _ (CompareHashes b) = None"
| "ids_agree _ _ = Some True"

text \<open>
  What a party sends depends on its check: the activations of the follower leave only after its assertion has held, while the
  check of the leader is one more message. So a follower that waits or fails in its check sends nothing, and
  the leader makes its step without messages or waits.
\<close>

definition fed_step ::
  "('t, 's) tensorflow \<Rightarrow> (string \<Rightarrow> int) \<Rightarrow> flags \<Rightarrow> flags \<Rightarrow> built_model \<Rightarrow> built_model \<Rightarrow> (string \<Rightarrow> string \<Rightarrow> 't) \<Rightarrow> string list \<Rightarrow> string list \<Rightarrow>
     ('t, 's) party \<Rightarrow> ('t, 's) party \<Rightarrow> ('t, 's) fed_outcome" where
  "fed_step L to_hash fsL fsF mL mF feats idsL idsF l f =
     (let leader_alone = step_end L mL feats (\<lambda>_. None) l
      in case (party_check to_hash fsL mL idsL idsF, party_check to_hash fsF mF idsL idsF) of
           (Inl e, Inl e') \<Rightarrow> Stopped (Raised e) (Raised e')
         | (Inl e, Inr (CompareHashes _)) \<Rightarrow> Stopped (Raised e) Waits
         | (Inl e, Inr _) \<Rightarrow> Stopped (Raised e) (step_end L mF feats (\<lambda>_. None) f)
         | (Inr _, Inl e') \<Rightarrow> Stopped leader_alone (Raised e')
         | (Inr checkL, Inr checkF) \<Rightarrow>
             (case ids_agree checkL checkF of
                None \<Rightarrow> Stopped leader_alone Waits
              | Some False \<Rightarrow> Stopped leader_alone (Raised OpError)
              | Some True \<Rightarrow> exchange L mL mF feats l f))"

subsection \<open>The input of both parties\<close>

text \<open>
  The data sets of the example: the paths that the data center serves to a role, their records, batches of 128 without a
  last smaller one; for the baseline the records of both parties in pairs, the epochs, all batches. \<open>records\<close> gives the records
  of a file, \<open>names\<close> the entries of a directory, and \<open>parse\<close> is \<^verbatim>\<open>tf.parse_example\<close>: the tensor of a feature of a batch.
\<close>

definition batched :: "nat \<Rightarrow> bool \<Rightarrow> 'r list \<Rightarrow> 'r list list" where
  "batched n drop_remainder rs = (if drop_remainder then filter (\<lambda>b. length b = n) (chunks n rs) else chunks n rs)"

definition tf_record_dataset :: "(string \<Rightarrow> 'r list) \<Rightarrow> string list \<Rightarrow> 'r list" where
  "tf_record_dataset records paths = concat (map records paths)"

definition role_dataset :: "string \<Rightarrow> fl_dataset" where
  "role_dataset role = FlTFRecordDataset (FlGrpcFetchDataset role) [] 0"

definition party_input :: "data_files \<Rightarrow> string \<Rightarrow> bytes list list" where
  "party_input S role = batched 128 True (dataset_elements S (role_dataset role))"

definition contains :: "string \<Rightarrow> string \<Rightarrow> bool" where
  "contains sub s \<longleftrightarrow> list_ex (\<lambda>i. take (length sub) (drop i s) = sub) [0..<length s + 1]"

definition load_dataset :: "(string \<Rightarrow> string list) \<Rightarrow> (string \<Rightarrow> 'r list) \<Rightarrow> string \<Rightarrow> 'r list" where
  "load_dataset names records data_dir =
     tf_record_dataset records (sort (map (path_join data_dir) (filter (contains ''tfrecord'') (names data_dir))))"

definition baseline_input :: "'r list \<Rightarrow> 'r list \<Rightarrow> nat \<Rightarrow> nat \<Rightarrow> ('r \<times> 'r) list list" where
  "baseline_input l_ds f_ds batch_size num_epochs = batched batch_size False (concat (replicate num_epochs (zip l_ds f_ds)))"

definition batch_features :: "(string \<Rightarrow> 'r list \<Rightarrow> 't) \<Rightarrow> 'r list \<Rightarrow> 'r list \<Rightarrow> string \<Rightarrow> string \<Rightarrow> 't" where
  "batch_features parse bl bf ds k = parse k (if ds = ''leader'' then bl else bf)"

text \<open>The two sessions over their batches, and the session of the baseline.\<close>

fun fed_train ::
  "('t, 's) tensorflow \<Rightarrow> (string \<Rightarrow> int) \<Rightarrow> flags \<Rightarrow> flags \<Rightarrow> built_model \<Rightarrow> built_model \<Rightarrow> (string \<Rightarrow> 'r list \<Rightarrow> 't) \<Rightarrow> ('r \<Rightarrow> string) \<Rightarrow>
     'r list list \<Rightarrow> 'r list list \<Rightarrow> ('t, 's) party \<Rightarrow> ('t, 's) party \<Rightarrow> ('t, 's) fed_outcome" where
  "fed_train L to_hash fsL fsF mL mF parse rid (bl # bls) (bf # bfs) l f =
     (case fed_step L to_hash fsL fsF mL mF (batch_features parse bl bf) (map rid bl) (map rid bf) l f of
        Stepped l' f' \<Rightarrow> fed_train L to_hash fsL fsF mL mF parse rid bls bfs l' f'
      | stopped \<Rightarrow> stopped)"
| "fed_train L to_hash fsL fsF mL mF parse rid _ _ l f = Stepped l f"

fun baseline_train ::
  "('t, 's) tensorflow \<Rightarrow> built_model \<Rightarrow> (string \<Rightarrow> 'r list \<Rightarrow> 't) \<Rightarrow> ('r \<times> 'r) list list \<Rightarrow> ('t, 's) party \<Rightarrow> ('t, 's) party option" where
  "baseline_train L m parse [] b = Some b"
| "baseline_train L m parse (batch # bs) b =
     (case train_step L m (batch_features parse (map fst batch) (map snd batch)) (\<lambda>_. None) b of
        None \<Rightarrow> None
      | Some (b', _) \<Rightarrow> baseline_train L m parse bs b')"

definition run_estimator ::
  "('t, 's) tensorflow \<Rightarrow> (string \<Rightarrow> string list) \<Rightarrow> (string \<Rightarrow> 'r list) \<Rightarrow> (string \<Rightarrow> 'r list \<Rightarrow> 't) \<Rightarrow> string \<Rightarrow> nat \<Rightarrow>
     exn + ('t, 's) party option" where
  "run_estimator L names records parse data_dir n_epoch =
     (case baseline_model_fn (baseline_features ''leader'' ''follower'') (Feature ''leader'' ''y'') TRAIN of
        Inl e \<Rightarrow> Inl e
      | Inr m \<Rightarrow>
          Inr (baseline_train L m parse
            (baseline_input (load_dataset names records (path_join data_dir ''leader_train''))
               (load_dataset names records (path_join data_dir ''follower_train'')) 128 n_epoch)
            (start_party L (fst m))))"

end
