(* ===== verification/Sample_Gradients.thy ===== *)
theory Sample_Gradients
  imports Split_Training
begin

section \<open>Gradients in reverse mode\<close>

text \<open>
  Gradients that are computed backwards through a graph, from a table of the derivatives of the operations, satisfy the
  chain rule \<open>gradient_laws\<close>: the laws can hold, for every such table. A library over integers
  is an instance.
\<close>

record 't vjp_table =
  vj_unary :: "unary_op \<Rightarrow> 't \<Rightarrow> 't \<Rightarrow> 't"
  vj_left :: "binary_op \<Rightarrow> 't \<Rightarrow> 't \<Rightarrow> 't \<Rightarrow> 't"
  vj_right :: "binary_op \<Rightarrow> 't \<Rightarrow> 't \<Rightarrow> 't \<Rightarrow> 't"

fun rev_grad :: "('t :: comm_monoid_add) vjp_table \<Rightarrow> (graph \<Rightarrow> 't) \<Rightarrow> graph \<Rightarrow> graph \<Rightarrow> 't \<Rightarrow> 't" where
  "rev_grad V val (Unary f a) x g = (if Unary f a = x then g else rev_grad V val a x (vj_unary V f (val a) g))"
| "rev_grad V val (Binary f a b) x g =
     (if Binary f a b = x then g
      else rev_grad V val a x (vj_left V f (val a) (val b) g) + rev_grad V val b x (vj_right V f (val a) (val b) g))"
| "rev_grad V val (FlRecvFake a r s) x g = (if FlRecvFake a r s = x then g else rev_grad V val a x g)"
| "rev_grad V val y x g = (if y = x then g else 0)"

definition value_in :: "('t, 's) tensorflow \<Rightarrow> 't tf_env \<Rightarrow> graph \<Rightarrow> 't" where
  "value_in L env a = the (eval_graph L env a)"

definition reverse_mode :: "('t :: comm_monoid_add) vjp_table \<Rightarrow> ('t, 's) tensorflow \<Rightarrow> bool" where
  "reverse_mode V L \<longleftrightarrow> (\<forall>ys xs env g. tf_gradients L ys xs env g = rev_grad V (value_in L env) ys xs g)"

subsection \<open>The chain rule\<close>

lemma fill_none: "plain C \<Longrightarrow> hole_count h C = 0 \<Longrightarrow> fill h F C = C"
  by (induction C) (auto split: if_splits)

lemma fill_size: "plain C \<Longrightarrow> 0 < hole_count h C \<Longrightarrow> size F \<le> size (fill h F C)"
  by (induction C) (auto split: if_splits)

lemma eval_fill:
  "plain C \<Longrightarrow> eval_graph L env F = Some x \<Longrightarrow> eval_graph L env (fill h F C) = eval_graph L (set_hole h x env) C"
  by (induction C) (auto simp: set_hole_def split: option.splits)

lemma rev_grad_absent:
  "v \<notin> graph_variables C \<Longrightarrow> rev_grad V val C (Variable v) g = 0"
  by (induction C arbitrary: g) auto

lemma rev_grad_no_hole: "plain C \<Longrightarrow> hole_count h C = 0 \<Longrightarrow> rev_grad V val C (Placeholder h) g = 0"
  by (induction C arbitrary: g) (auto split: if_splits)

lemma rev_grad_not_plain: "plain C \<Longrightarrow> \<not> plain F \<Longrightarrow> rev_grad V val C F g = 0"
  by (induction C arbitrary: g) auto

text \<open>Values in the filled graph are values of the context with the value of \<open>F\<close> in the hole.\<close>

lemma value_fill: "plain C \<Longrightarrow> eval_graph L env F = Some x \<Longrightarrow> value_in L env (fill h F C) = value_in L (set_hole h x env) C"
  by (simp add: value_in_def eval_fill)

lemma eval_no_hole:
  "plain C \<Longrightarrow> hole_count h C = 0 \<Longrightarrow> eval_graph L (set_hole h x env) C = eval_graph L env C"
  by (induction C) (auto simp: set_hole_def split: if_splits option.splits)

lemma value_no_hole: "plain C \<Longrightarrow> hole_count h C = 0 \<Longrightarrow> value_in L (set_hole h x env) C = value_in L env C"
  by (simp add: value_in_def eval_no_hole)

lemma chain_through:
  assumes "plain C" "hole_count h C = 1" "v \<notin> graph_variables C" "eval_graph L env F = Some x"
  shows "rev_grad V (value_in L env) (fill h F C) (Variable v) g =
    rev_grad V (value_in L env) F (Variable v) (rev_grad V (value_in L (set_hole h x env)) C (Placeholder h) g)"
  using assms
proof (induction C arbitrary: g)
  case (Binary f a b)
  then consider "hole_count h a = 1" "hole_count h b = 0" | "hole_count h a = 0" "hole_count h b = 1" by (auto simp: add_is_1)
  then show ?case
    using Binary by cases (simp_all add: value_fill value_no_hole fill_none rev_grad_absent rev_grad_no_hole)
qed (auto simp: value_fill split: if_splits)

lemma chain_around:
  assumes "plain C" "v \<notin> graph_variables F" "eval_graph L env F = Some x"
  shows "rev_grad V (value_in L env) (fill h F C) (Variable v) g = rev_grad V (value_in L (set_hole h x env)) C (Variable v) g"
  using assms by (induction C arbitrary: g) (auto simp: value_fill rev_grad_absent)

lemma chain_node:
  assumes "plain C" "hole_count h C = 1" "\<not> plain F" "eval_graph L env F = Some x"
  shows "rev_grad V (value_in L env) (fill h F C) F g = rev_grad V (value_in L (set_hole h x env)) C (Placeholder h) g"
  using assms
proof (induction C arbitrary: g)
  case (Placeholder p)
  moreover have "rev_grad V (value_in L env) F F g = g" by (cases F) simp_all
  ultimately show ?case by (auto split: if_splits)
next
  case (Unary f a)
  then have "size F < size (Unary f (fill h F a))" using fill_size [of a h F] by simp
  then have "Unary f (fill h F a) \<noteq> F" by (metis less_irrefl)
  with Unary show ?case by (simp add: value_fill)
next
  case (Binary f a b)
  have "0 < hole_count h a \<Longrightarrow> size F \<le> size (fill h F a)" "0 < hole_count h b \<Longrightarrow> size F \<le> size (fill h F b)"
    using Binary.prems(1) by (auto intro: fill_size)
  then have "size F < size (Binary f (fill h F a) (fill h F b))" using Binary.prems(2) by (auto simp: add_is_1)
  then have differ: "Binary f (fill h F a) (fill h F b) \<noteq> F" by (metis less_irrefl)
  consider "hole_count h a = 1" "hole_count h b = 0" | "hole_count h a = 0" "hole_count h b = 1"
    using Binary.prems(2) by (auto simp: add_is_1)
  then show ?case
    using Binary differ by cases (simp_all add: value_fill value_no_hole fill_none rev_grad_not_plain rev_grad_no_hole)
qed auto

lemma eval_agree: "env_agree g env env' \<Longrightarrow> eval_graph L env g = eval_graph L env' g"
  by (induction g) (auto simp: env_agree_def split: option.splits)

lemma rev_grad_agree: "env_agree ys env env' \<Longrightarrow> rev_grad V (value_in L env) ys xs g = rev_grad V (value_in L env') ys xs g"
proof (induction ys arbitrary: g)
  case (Unary f a)
  then have "env_agree a env env'" by (auto simp: env_agree_def)
  with Unary show ?case by (simp add: value_in_def eval_agree)
next
  case (Binary f a b)
  then have "env_agree a env env'" "env_agree b env env'" by (auto simp: env_agree_def)
  with Binary show ?case by (simp add: value_in_def eval_agree)
next
  case (FlRecvFake a r s)
  then have "env_agree a env env'" by (auto simp: env_agree_def)
  with FlRecvFake show ?case by simp
qed simp_all

lemma reverse_mode_laws: "reverse_mode V L \<Longrightarrow> gradient_laws L"
  unfolding gradient_laws_def reverse_mode_def
  by (auto intro: chain_through chain_around chain_node rev_grad_agree)

subsection \<open>An instance\<close>

fun int_unary :: "unary_op \<Rightarrow> int \<Rightarrow> int" where
  "int_unary Relu x = max 0 x"
| "int_unary _ x = x"

fun int_binary :: "binary_op \<Rightarrow> int \<Rightarrow> int \<Rightarrow> int" where
  "int_binary MatMul x w = x * w"
| "int_binary SparseSoftmaxCE y z = (z - y) * (z - y)"
| "int_binary _ x y = x + y"

definition int_table :: "int vjp_table" where
  "int_table = \<lparr>vj_unary = (\<lambda>f x g. if f = Relu \<and> x \<le> 0 then 0 else g),
     vj_left = (\<lambda>f x y g. case f of MatMul \<Rightarrow> y * g | SparseSoftmaxCE \<Rightarrow> 2 * (x - y) * g | _ \<Rightarrow> g),
     vj_right = (\<lambda>f x y g. case f of MatMul \<Rightarrow> x * g | SparseSoftmaxCE \<Rightarrow> 2 * (y - x) * g | _ \<Rightarrow> g)\<rparr>"

text \<open>Evaluation does not use the gradients, so they can be defined from it.\<close>

definition int_operations :: "(int, unit) tensorflow" where
  "int_operations = \<lparr>tf_unary = int_unary, tf_binary = int_binary, tf_ones = 1, tf_gradients = (\<lambda>_ _ _ g. g),
     tf_initial = (\<lambda>i _. (case i of RandomUniform lo hi s \<Rightarrow> hi | Zeros \<Rightarrow> 0, ())), tf_adam = (\<lambda>_ _ g (v, s). (v - g, s)),
     fl_request = (\<lambda>g. g)\<rparr>"

definition int_tensorflow :: "(int, unit) tensorflow" where
  "int_tensorflow = int_operations\<lparr>tf_gradients := \<lambda>ys xs env g. rev_grad int_table (value_in int_operations env) ys xs g\<rparr>"

lemma int_eval: "eval_graph int_tensorflow env g = eval_graph int_operations env g"
  by (induction g) (auto simp: int_tensorflow_def split: option.splits)

lemma int_laws: "gradient_laws int_tensorflow"
proof (rule reverse_mode_laws)
  have "value_in int_tensorflow env = value_in int_operations env" for env by (simp add: fun_eq_iff value_in_def int_eval)
  then show "reverse_mode int_table int_tensorflow" by (simp add: reverse_mode_def) (simp add: int_tensorflow_def)
qed

end
