(* ===== verification/Split_Properties.thy ===== *)
theory Split_Properties
  imports Sample_Gradients
begin

section \<open>Training together is training jointly\<close>

text \<open>
  The lemmas that relate a step of the two sessions to a step of the baseline: the graph of the leader is the loss with a hole for the
  activations of the follower, filled with the receiving node; the graph of the baseline is the same loss filled with the
  graph of the follower. The relation \<open>split_of\<close> between the three sets of variables is kept by every step.
\<close>

lemma gradient_lawsD:
  assumes "gradient_laws L" "plain C" "hole_count h C = 1" "hole_count h F = 0" "eval_graph L env F = Some x"
  shows "plain F \<Longrightarrow> v \<notin> graph_variables C \<Longrightarrow> tf_gradients L (fill h F C) (Variable v) env gy =
      tf_gradients L F (Variable v) env (tf_gradients L C (Placeholder h) (set_hole h x env) gy)"
    and "v \<notin> graph_variables F \<Longrightarrow>
      tf_gradients L (fill h F C) (Variable v) env gy = tf_gradients L C (Variable v) (set_hole h x env) gy"
    and "\<not> plain F \<Longrightarrow> tf_gradients L (fill h F C) F env gy = tf_gradients L C (Placeholder h) (set_hole h x env) gy"
  using assms unfolding gradient_laws_def by blast+

lemma gradient_agree:
  "gradient_laws L \<Longrightarrow> env_agree ys env env' \<Longrightarrow> tf_gradients L ys xs env gy = tf_gradients L ys xs env' gy"
  by (simp add: gradient_laws_def)

subsection \<open>The graphs of the example\<close>

text \<open>The loss with a hole for the activations of the follower.\<close>

definition loss_context :: graph where
  "loss_context = Binary SparseSoftmaxCE (Feature ''leader'' ''y'') (leader_logits (Feature ''leader'' ''x'') (Placeholder ''act1_f''))"

definition received :: graph where
  "received = FlRecvFake (Variable ''fake'') ''act1_f'' ''act1_f_grad''"

definition follower_graph :: graph where
  "follower_graph = follower_act (Feature ''follower'' ''x'')"

lemmas graph_defs = loss_context_def received_def follower_graph_def leader_logits_def follower_act_def dense_def mnist_model_def

lemma context_facts:
  "plain loss_context" "hole_count ''act1_f'' loss_context = 1" "graph_variables loss_context = {''w1l'', ''b1l'', ''w2'', ''b2''}"
  "plain follower_graph" "hole_count ''act1_f'' follower_graph = 0" "graph_variables follower_graph = {''w1f'', ''b1f''}"
  "\<not> plain received" "hole_count ''act1_f'' received = 0" "graph_variables received = {''fake''}"
  by (auto simp: graph_defs)

lemma context_holes: "0 < hole_count p loss_context \<longleftrightarrow> p = ''act1_f''" "hole_count p follower_graph = 0"
  by (auto simp: graph_defs)

definition leader_built :: built_model where
  "leader_built = (leader_decls @ [fake_decl], \<lparr>es_mode = TRAIN, es_loss = Some (fill ''act1_f'' received loss_context),
     es_train = Some (fill ''act1_f'' received loss_context, None), es_predictions = [], es_metrics = [],
     es_logged = [(''loss'', fill ''act1_f'' received loss_context),
       (''acc'', accuracy (leader_logits (Feature ''leader'' ''x'') received) (Feature ''leader'' ''y''))],
     es_checked_ids = Some (Feature ''leader'' ''example_id'')\<rparr>)"

definition follower_built :: built_model where
  "follower_built = (let recv_grad = FlSendRecv follower_graph ''act1_f'' ''act1_f_grad''
     in (follower_decls, \<lparr>es_mode = TRAIN, es_loss = Some recv_grad, es_train = Some (follower_graph, Some recv_grad),
       es_predictions = [], es_metrics = [], es_logged = [], es_checked_ids = Some (Feature ''follower'' ''example_id'')\<rparr>))"

lemma leader_builds:
  "fl_role fs = ''leader'' \<Longrightarrow> leader_model_fn fs (leader_features ''leader'') (leader_labels ''leader'') TRAIN = Inr leader_built"
  by (simp add: leader_model_fn_def leader_features_def leader_labels_def feature_of_def check_ids_def verify_example_ids_def
      leader_built_def graph_defs Let_def)

lemma follower_builds:
  "fl_role fs = ''follower'' \<Longrightarrow> follower_model_fn fs (follower_features ''follower'') labels TRAIN = Inr follower_built"
  by (simp add: follower_model_fn_def follower_features_def feature_of_def check_ids_def verify_example_ids_def
      follower_built_def graph_defs Let_def)

lemma baseline_builds:
  obtains mB where "baseline_model_fn (baseline_features ''leader'' ''follower'') (Feature ''leader'' ''y'') TRAIN = Inr mB"
    "fst mB = baseline_decls" "es_train (snd mB) = Some (fill ''act1_f'' follower_graph loss_context, None)"
  by (simp add: baseline_model_fn_def baseline_features_def feature_of_def graph_defs Let_def)

subsection \<open>One step\<close>

text \<open>The variables of the two parties are those of the baseline.\<close>

definition split_of :: "('t, 's) party \<Rightarrow> ('t, 's) party \<Rightarrow> ('t, 's) party \<Rightarrow> bool" where
  "split_of b l f \<longleftrightarrow> (\<forall>v \<in> {''w1l'', ''b1l'', ''w2'', ''b2''}. pt_vars l v = pt_vars b v) \<and>
     (\<forall>v \<in> {''w1f'', ''b1f''}. pt_vars f v = pt_vars b v) \<and> pt_steps l = pt_steps b \<and> pt_steps f = pt_steps b"

lemma start_split:
  "split_of (start_party L baseline_decls) (start_party L (leader_decls @ [fake_decl])) (start_party L follower_decls)"
  by (simp add: split_of_def start_party_def baseline_decls_def leader_decls_def follower_decls_def weights_def bias_def)

definition act_value :: "('t, 's) tensorflow \<Rightarrow> (string \<Rightarrow> string \<Rightarrow> 't) \<Rightarrow> ('t, 's) party \<Rightarrow> 't" where
  "act_value L feats p = tf_unary L Relu (tf_binary L BiasAdd (tf_binary L MatMul (feats ''follower'' ''x'') (fst (pt_vars p ''w1f'')))
     (fst (pt_vars p ''b1f'')))"

lemma eval_follower: "eval_graph L (party_env p feats msgs) follower_graph = Some (act_value L feats p)"
  by (simp add: graph_defs act_value_def party_env_def)

lemma split_act: "split_of b l f \<Longrightarrow> act_value L feats b = act_value L feats f"
  by (simp add: act_value_def split_of_def)

lemma context_agree:
  "split_of b l f \<Longrightarrow> env_agree loss_context (set_hole ''act1_f'' x (party_env l feats msgs)) (set_hole ''act1_f'' x (party_env b feats msgs'))"
  by (auto simp: env_agree_def context_facts context_holes set_hole_def party_env_def split_of_def)

lemma follower_agree: "split_of b l f \<Longrightarrow> env_agree follower_graph (party_env f feats msgs) (party_env b feats msgs')"
  by (auto simp: env_agree_def context_facts context_holes party_env_def split_of_def)

lemma decl_names:
  "vd_name ` set baseline_decls = {''w1l'', ''b1l'', ''w1f'', ''b1f'', ''w2'', ''b2''}"
  "vd_name ` set (leader_decls @ [fake_decl]) = {''w1l'', ''b1l'', ''w2'', ''b2'', ''fake''}"
  "vd_name ` set follower_decls = {''w1f'', ''b1f''}"
  by (auto simp: baseline_decls_def leader_decls_def follower_decls_def fake_decl_def weights_def bias_def)

text \<open>
  The three steps: what the follower sends, the step of the leader with what arrives at its receiving node, the step
  of the follower with the gradient that the leader sends.
\<close>

definition act_gradient :: "('t, 's) tensorflow \<Rightarrow> (string \<Rightarrow> string \<Rightarrow> 't) \<Rightarrow> ('t, 's) party \<Rightarrow> 't \<Rightarrow> 't" where
  "act_gradient L feats p a =
     tf_gradients L loss_context (Placeholder ''act1_f'') (set_hole ''act1_f'' a (party_env p feats (\<lambda>_. None))) (tf_ones L)"

lemma follower_sends: "forward_sends L follower_built feats f = [(''act1_f'', act_value L feats f)]"
  by (simp add: forward_sends_def follower_built_def Let_def eval_follower) (simp add: graph_defs)

lemma leader_sends_nothing: "forward_sends L leader_built feats l = []"
  by (simp add: forward_sends_def leader_built_def graph_defs)

lemma received_value: "eval_graph L (party_env l feats [''act1_f'' \<mapsto> a]) received = Some a"
  by (simp add: received_def party_env_def)

lemma eval_loss:
  assumes "eval_graph L (party_env p feats msgs) F = Some a"
  obtains x where "eval_graph L (party_env p feats msgs) (fill ''act1_f'' F loss_context) = Some x"
proof -
  let ?act = "tf_unary L Relu (tf_binary L BiasAdd (tf_binary L MatMul (feats ''leader'' ''x'') (fst (pt_vars p ''w1l''))) (fst (pt_vars p ''b1l'')))"
  have "eval_graph L (party_env p feats msgs) (fill ''act1_f'' F loss_context) =
      Some (tf_binary L SparseSoftmaxCE (feats ''leader'' ''y'')
        (tf_binary L BiasAdd (tf_binary L MatMul (tf_binary L Concat ?act a) (fst (pt_vars p ''w2''))) (fst (pt_vars p ''b2''))))"
    by (simp add: graph_defs assms) (simp add: party_env_def)
  then show thesis by (rule that)
qed

lemma leader_step:
  assumes laws: "gradient_laws L"
  obtains l' where "train_step L leader_built feats [''act1_f'' \<mapsto> a] l = Some (l', [(''act1_f_grad'', act_gradient L feats l a)])"
    "pt_steps l' = pt_steps l + 1"
    "\<forall>v \<in> {''w1l'', ''b1l'', ''w2'', ''b2''}. pt_vars l' v = tf_adam L learning_rate (pt_steps l)
       (tf_gradients L loss_context (Variable v) (set_hole ''act1_f'' a (party_env l feats (\<lambda>_. None))) (tf_ones L)) (pt_vars l v)"
proof -
  let ?env = "party_env l feats [''act1_f'' \<mapsto> a]" and ?quiet = "party_env l feats (\<lambda>_. None)"
  let ?loss = "fill ''act1_f'' received loss_context"
  let ?l = "apply_adam L (leader_decls @ [fake_decl]) ?loss ?env (tf_ones L) l"
  have agree: "env_agree loss_context (set_hole ''act1_f'' a ?env) (set_hole ''act1_f'' a ?quiet)"
    by (simp add: env_agree_def context_facts set_hole_def party_env_def)
  obtain x where loss: "eval_graph L ?env ?loss = Some x" by (rule eval_loss [OF received_value])
  have node: "tf_gradients L ?loss received ?env (tf_ones L) = act_gradient L feats l a"
    unfolding gradient_lawsD(3) [OF laws context_facts(1,2,8) received_value context_facts(7)]
    by (simp add: act_gradient_def gradient_agree [OF laws agree])
  have fakes: "fake_inputs ?loss = [received]" by (simp add: graph_defs)
  have "gradient_sends L ?env ?loss (tf_ones L) = [(''act1_f_grad'', act_gradient L feats l a)]"
    unfolding gradient_sends_def fakes by (simp add: received_def node [unfolded received_def] recv_fake_gradient_def)
  then have "train_step L leader_built feats [''act1_f'' \<mapsto> a] l = Some (?l, [(''act1_f_grad'', act_gradient L feats l a)])"
    by (simp add: train_step_def leader_built_def Let_def loss)
  moreover have "pt_vars ?l v = tf_adam L learning_rate (pt_steps l)
      (tf_gradients L loss_context (Variable v) (set_hole ''act1_f'' a ?quiet) (tf_ones L)) (pt_vars l v)"
    if v: "v \<in> {''w1l'', ''b1l'', ''w2'', ''b2''}" for v
  proof -
    have v: "v \<notin> graph_variables received" "v \<in> vd_name ` set (leader_decls @ [fake_decl])"
      using v unfolding decl_names context_facts by auto
    note grad = trans [OF gradient_lawsD(2) [OF laws context_facts(1,2,8) received_value v(1)] gradient_agree [OF laws agree]]
    show ?thesis by (simp only: apply_adam_def party.simps grad if_P [OF v(2)])
  qed
  ultimately show thesis by (intro that [of ?l]) (simp_all add: apply_adam_def)
qed

lemma follower_step:
  assumes laws: "gradient_laws L" and g: "msgs ''act1_f_grad'' = Some g"
  obtains f' sent where "train_step L follower_built feats msgs f = Some (f', sent)" "pt_steps f' = pt_steps f + 1"
    "\<forall>v \<in> {''w1f'', ''b1f''}. pt_vars f' v = tf_adam L learning_rate (pt_steps f)
       (tf_gradients L follower_graph (Variable v) (party_env f feats (\<lambda>_. None)) g) (pt_vars f v)"
proof -
  let ?env = "party_env f feats msgs"
  let ?f = "apply_adam L follower_decls follower_graph ?env g f"
  have agree: "env_agree follower_graph ?env (party_env f feats (\<lambda>_. None))"
    by (simp add: env_agree_def context_facts party_env_def)
  have "eval_graph L ?env (FlSendRecv follower_graph ''act1_f'' ''act1_f_grad'') = Some g"
    by (simp add: eval_follower) (simp add: party_env_def g)
  then have "train_step L follower_built feats msgs f = Some (?f, gradient_sends L ?env follower_graph g)"
    by (simp add: train_step_def follower_built_def Let_def eval_follower del: eval_graph.simps)
  moreover have "pt_vars ?f v = tf_adam L learning_rate (pt_steps f)
      (tf_gradients L follower_graph (Variable v) (party_env f feats (\<lambda>_. None)) g) (pt_vars f v)" if "v \<in> {''w1f'', ''b1f''}" for v
    using that decl_names(3) by (simp add: apply_adam_def gradient_agree [OF laws agree])
  moreover have "pt_steps ?f = pt_steps f + 1" by (simp add: apply_adam_def)
  ultimately show thesis by (intro that [of ?f]) blast+
qed

lemma baseline_step:
  assumes laws: "gradient_laws L" and split: "split_of b l f"
    and built: "fst mB = baseline_decls" "es_train (snd mB) = Some (fill ''act1_f'' follower_graph loss_context, None)"
    and a: "a = act_value L feats f" and g: "g = act_gradient L feats l a"
  obtains b' sent where "train_step L mB feats (\<lambda>_. None) b = Some (b', sent)" "pt_steps b' = pt_steps b + 1"
    "\<forall>v \<in> {''w1l'', ''b1l'', ''w2'', ''b2''}. pt_vars b' v = tf_adam L learning_rate (pt_steps l)
       (tf_gradients L loss_context (Variable v) (set_hole ''act1_f'' a (party_env l feats (\<lambda>_. None))) (tf_ones L)) (pt_vars l v)"
    "\<forall>v \<in> {''w1f'', ''b1f''}. pt_vars b' v = tf_adam L learning_rate (pt_steps f)
       (tf_gradients L follower_graph (Variable v) (party_env f feats (\<lambda>_. None)) g) (pt_vars f v)"
proof -
  let ?env = "party_env b feats (\<lambda>_. None)" and ?loss = "fill ''act1_f'' follower_graph loss_context"
  let ?b = "apply_adam L baseline_decls ?loss ?env (tf_ones L) b"
  have act: "eval_graph L ?env follower_graph = Some a" unfolding a split_act [OF split, symmetric] by (rule eval_follower)
  note chain = gradient_lawsD [OF laws context_facts(1,2,5) act]
  note same = gradient_agree [OF laws context_agree [OF split, where msgs = "\<lambda>_. None" and msgs' = "\<lambda>_. None"]]
    gradient_agree [OF laws follower_agree [OF split, where msgs = "\<lambda>_. None" and msgs' = "\<lambda>_. None"]]
  obtain x where "eval_graph L ?env ?loss = Some x" by (rule eval_loss [OF act])
  then have "train_step L mB feats (\<lambda>_. None) b = Some (?b, gradient_sends L ?env ?loss (tf_ones L))"
    by (simp add: train_step_def built Let_def)
  moreover have "pt_vars ?b v = tf_adam L learning_rate (pt_steps l)
       (tf_gradients L loss_context (Variable v) (set_hole ''act1_f'' a (party_env l feats (\<lambda>_. None))) (tf_ones L)) (pt_vars l v)"
    if v: "v \<in> {''w1l'', ''b1l'', ''w2'', ''b2''}" for v
  proof -
    have v: "v \<notin> graph_variables follower_graph" "v \<in> vd_name ` set baseline_decls" "pt_vars b v = pt_vars l v" "pt_steps b = pt_steps l"
      using v split unfolding decl_names context_facts split_of_def by auto
    note grad = trans [OF chain(2) [OF v(1)] same(1) [symmetric]]
    show ?thesis by (simp only: apply_adam_def party.simps grad if_P [OF v(2)] v(3,4))
  qed
  moreover have "pt_vars ?b v = tf_adam L learning_rate (pt_steps f)
       (tf_gradients L follower_graph (Variable v) (party_env f feats (\<lambda>_. None)) g) (pt_vars f v)" if v: "v \<in> {''w1f'', ''b1f''}" for v
  proof -
    have v: "v \<notin> graph_variables loss_context" "v \<in> vd_name ` set baseline_decls" "pt_vars b v = pt_vars f v" "pt_steps b = pt_steps f"
      using v split unfolding decl_names context_facts split_of_def by auto
    note grad = trans [OF chain(1) [OF context_facts(4) v(1)] same(2) [symmetric]]
    show ?thesis by (simp only: apply_adam_def party.simps grad if_P [OF v(2)] v(3,4) g act_gradient_def same(1))
  qed
  moreover have "pt_steps ?b = pt_steps b + 1" by (simp add: apply_adam_def)
  ultimately show thesis by (intro that [of ?b]) blast+
qed

lemma exchange_is_baseline_step:
  assumes laws: "gradient_laws L" and split: "split_of b l f"
    and built: "fst mB = baseline_decls" "es_train (snd mB) = Some (fill ''act1_f'' follower_graph loss_context, None)"
  obtains l' f' b' sent where "exchange L leader_built follower_built feats l f = Stepped l' f'"
    "train_step L mB feats (\<lambda>_. None) b = Some (b', sent)" "split_of b' l' f'"
proof -
  define a where "a = act_value L feats f"
  define g where "g = act_gradient L feats l a"
  obtain l' where l: "train_step L leader_built feats [''act1_f'' \<mapsto> a] l = Some (l', [(''act1_f_grad'', g)])" "pt_steps l' = pt_steps l + 1"
    "\<forall>v \<in> {''w1l'', ''b1l'', ''w2'', ''b2''}. pt_vars l' v = tf_adam L learning_rate (pt_steps l)
       (tf_gradients L loss_context (Variable v) (set_hole ''act1_f'' a (party_env l feats (\<lambda>_. None))) (tf_ones L)) (pt_vars l v)"
    using leader_step [OF laws] unfolding g_def by metis
  obtain f' sent where f: "train_step L follower_built feats [''act1_f_grad'' \<mapsto> g] f = Some (f', sent)" "pt_steps f' = pt_steps f + 1"
    "\<forall>v \<in> {''w1f'', ''b1f''}. pt_vars f' v = tf_adam L learning_rate (pt_steps f)
       (tf_gradients L follower_graph (Variable v) (party_env f feats (\<lambda>_. None)) g) (pt_vars f v)"
    by (rule follower_step [OF laws, of "[''act1_f_grad'' \<mapsto> g]"]) simp
  obtain b' sent' where b: "train_step L mB feats (\<lambda>_. None) b = Some (b', sent')" "pt_steps b' = pt_steps b + 1"
    "\<forall>v \<in> {''w1l'', ''b1l'', ''w2'', ''b2''}. pt_vars b' v = tf_adam L learning_rate (pt_steps l)
       (tf_gradients L loss_context (Variable v) (set_hole ''act1_f'' a (party_env l feats (\<lambda>_. None))) (tf_ones L)) (pt_vars l v)"
    "\<forall>v \<in> {''w1f'', ''b1f''}. pt_vars b' v = tf_adam L learning_rate (pt_steps f)
       (tf_gradients L follower_graph (Variable v) (party_env f feats (\<lambda>_. None)) g) (pt_vars f v)"
    by (rule baseline_step [OF laws split built a_def g_def])
  have "exchange L leader_built follower_built feats l f = Stepped l' f'"
    using l(1) f(1) by (simp add: exchange_def step_end_def follower_sends leader_sends_nothing a_def)
  moreover have "split_of b' l' f'" using l(2,3) f(2,3) b(2-4) split unfolding split_of_def by simp
  ultimately show thesis using b(1) that by blast
qed

subsection \<open>A whole training\<close>

definition check_roles :: "flags \<Rightarrow> flags \<Rightarrow> bool" where
  "check_roles fsL fsF \<longleftrightarrow> fl_role fsL = ''leader'' \<and> fl_role fsF = ''follower'' \<and>
     (fl_check_exampleid fsL = 0 \<longleftrightarrow> fl_check_exampleid fsF = 0)"

text \<open>Without the activations of the follower, the leader waits.\<close>

lemma leader_waits: "step_end L leader_built feats (\<lambda>_. None) l = Waits"
  by (simp add: step_end_def train_step_def leader_built_def Let_def) (simp add: graph_defs party_env_def)

lemma built_checks:
  "party_check to_hash fs leader_built idsL idsF = verify_example_ids to_hash fs idsL"
  "party_check to_hash fs follower_built idsL idsF = verify_example_ids to_hash fs idsF"
  by (simp_all add: party_check_def ids_at_def leader_built_def follower_built_def Let_def)

lemma fed_step_checked:
  assumes "check_roles fsL fsF"
  shows "fed_step L to_hash fsL fsF leader_built follower_built feats idsL idsF l f =
    (if fl_check_exampleid fsL \<noteq> 0 \<and> map to_hash idsL \<noteq> map to_hash idsF then Stopped Waits (Raised OpError)
     else exchange L leader_built follower_built feats l f)"
  using assms
  by (auto simp: fed_step_def built_checks leader_waits verify_example_ids_def check_roles_def Let_def split: bool.splits)

text \<open>The exchange of messages comes through whatever the gradients are.\<close>

lemma exchange_steps: "\<exists>l' f'. exchange L leader_built follower_built feats l f = Stepped l' f'"
proof -
  let ?env = "party_env l feats [''act1_f'' \<mapsto> act_value L feats f]"
  let ?loss = "fill ''act1_f'' received loss_context"
  obtain x where loss: "eval_graph L ?env ?loss = Some x" by (rule eval_loss [OF received_value])
  have fakes: "fake_inputs ?loss = [received]" by (simp add: graph_defs)
  obtain g where "gradient_sends L ?env ?loss (tf_ones L) = [(''act1_f_grad'', g)]"
    unfolding gradient_sends_def fakes by (simp add: received_def recv_fake_gradient_def)
  then obtain l' where l: "train_step L leader_built feats [''act1_f'' \<mapsto> act_value L feats f] l = Some (l', [(''act1_f_grad'', g)])"
    by (simp add: train_step_def leader_built_def Let_def loss)
  have "eval_graph L (party_env f feats [''act1_f_grad'' \<mapsto> g]) (FlSendRecv follower_graph ''act1_f'' ''act1_f_grad'') = Some g"
    by (simp add: eval_follower) (simp add: party_env_def)
  then obtain f' where "step_end L follower_built feats [''act1_f_grad'' \<mapsto> g] f = Moved f'"
    by (simp add: step_end_def train_step_def follower_built_def Let_def eval_follower del: eval_graph.simps)
  with l show ?thesis by (simp add: exchange_def follower_sends leader_sends_nothing)
qed

lemma fed_train_is_baseline:
  assumes laws: "gradient_laws L" and roles: "check_roles fsL fsF"
    and built: "fst mB = baseline_decls" "es_train (snd mB) = Some (fill ''act1_f'' follower_graph loss_context, None)"
    and ids: "\<forall>(bl, bf) \<in> set pairs. map rid bl = map rid bf" and len: "\<forall>(bl, bf) \<in> set pairs. length bl = length bf"
    and split: "split_of b l f"
  shows "\<exists>l' f' b'. fed_train L to_hash fsL fsF leader_built follower_built parse rid (map fst pairs) (map snd pairs) l f = Stepped l' f' \<and>
    baseline_train L mB parse (map (\<lambda>(bl, bf). zip bl bf) pairs) b = Some b' \<and> split_of b' l' f'"
  using ids len split
proof (induction pairs arbitrary: l f b)
  case (Cons pair pairs)
  obtain bl bf where pair: "pair = (bl, bf)" by fastforce
  let ?feats = "batch_features parse bl bf"
  obtain l1 f1 b1 sent where step: "exchange L leader_built follower_built ?feats l f = Stepped l1 f1"
    "train_step L mB ?feats (\<lambda>_. None) b = Some (b1, sent)" "split_of b1 l1 f1"
    by (rule exchange_is_baseline_step [OF laws Cons.prems(3) built])
  have "map rid bl = map rid bf" "length bl = length bf" using Cons.prems by (auto simp: pair)
  then have "map to_hash (map rid bl) = map to_hash (map rid bf)" "map fst (zip bl bf) = bl" "map snd (zip bl bf) = bf" by simp_all
  then have "fed_step L to_hash fsL fsF leader_built follower_built ?feats (map rid bl) (map rid bf) l f = Stepped l1 f1"
    "train_step L mB (batch_features parse (map fst (zip bl bf)) (map snd (zip bl bf))) (\<lambda>_. None) b = Some (b1, sent)"
    using step(1,2) by (simp_all add: fed_step_checked [OF roles])
  moreover have "\<exists>l' f' b'. fed_train L to_hash fsL fsF leader_built follower_built parse rid (map fst pairs) (map snd pairs) l1 f1 = Stepped l' f' \<and>
    baseline_train L mB parse (map (\<lambda>(bl, bf). zip bl bf) pairs) b1 = Some b' \<and> split_of b' l' f'"
    using Cons.prems by (intro Cons.IH step(3)) auto
  ultimately show ?case by (simp add: pair)
qed simp

end
