(* ===== verification/Mnist_Runs.thy ===== *)
theory Mnist_Runs
  imports Mnist_Models
begin

section \<open>Running the example\<close>

text \<open>
  The rest of \<^verbatim>\<open>FLEstimator\<close> (\<^verbatim>\<open>Trainer/fl_comm_libs/fl_estimator.py\<close>), which runs the session of a model and exports it,
  and the functions \<^verbatim>\<open>fl_run\<close> and \<^verbatim>\<open>main\<close> of the leader and of the follower of the example. What the session meets is the
  record \<open>session_world\<close>: the answers of the session and of the bridge, and the variables of the latest
  checkpoint in a directory.
\<close>

subsection \<open>The estimator\<close>

record fl_estimator =
  fe_is_chief :: bool
  fe_role :: string
  fe_appli_id :: string
  fe_local_address :: "string option"
  fe_peer_address :: "string option"
  fe_proxy_address :: "string option"
  fe_dc_address :: "string option"
  fe_proxy_comm_uuid :: "(string + string list) option"
  fe_rank_id :: int
  fe_rpc_serv_type :: "int + string"
  fe_cluster_spec :: "(string \<times> string list) list option"
  fe_job_name :: "string option"
  fe_task_index :: "int option"
  fe_timeline_trace :: "trace_event list option"

record 't session_world =
  sw_should_stop :: "nat \<Rightarrow> bool"
  sw_ends :: "nat \<Rightarrow> bool"
  sw_status :: "bridge_op \<Rightarrow> nat \<Rightarrow> int"
  sw_checkpoint :: "string \<Rightarrow> (string \<rightharpoonup> 't) option"

text \<open>What the two initializations of the bridge are fed with.\<close>

definition bridge_feed :: "fl_estimator \<Rightarrow> string option \<times> string \<times> int \<times> string \<times> (int + string) \<times> (string + string list) option" where
  "bridge_feed est = (fe_local_address est, fe_appli_id est, fe_rank_id est, fe_role est, fe_rpc_serv_type est, fe_proxy_comm_uuid est)"

definition channel_feed :: "fl_estimator \<Rightarrow> string option \<times> string option" where
  "channel_feed est = (fe_proxy_address est, fe_dc_address est)"

text \<open>
  A metric has a value and an update operation on the same tensors. The mean of the loss is added; a specification for an evaluation without
  loss is refused by TensorFlow.
\<close>

datatype metric_op = StreamingMean graph | Streaming graph | GlobalStep

definition session_hooks :: "run_mode \<Rightarrow> model_spec \<Rightarrow> exn + metric_op list \<times> (string, metric_op) dict" where
  "session_hooks mode spec =
     (if mode = TRAIN then Inr ([], [])
      else case es_loss spec of
             None \<Rightarrow> Inl ValueError
           | Some loss \<Rightarrow>
               eval_metrics (StreamingMean loss, StreamingMean loss) GlobalStep
                 (Some (map (\<lambda>(k, g). (k, (Streaming g, Streaming g))) (es_metrics spec))))"

record session_run =
  sn_model :: built_model
  sn_metrics :: "metric_op list \<times> (string, metric_op) dict"
  sn_bridge :: "string option \<times> string \<times> int \<times> string \<times> (int + string) \<times> (string + string list) option"
  sn_channels :: "string option \<times> string option"
  sn_checkpoint_dir :: string
  sn_steps :: nat
  sn_events :: "session_event list"

type_synonym model_fn = "(string, graph) dict \<Rightarrow> (string, graph) dict \<Rightarrow> run_mode \<Rightarrow> exn + built_model"

text \<open>The graph is built first, then the session runs; \<^term>\<open>None\<close> when the session never ends.\<close>

definition train_or_eval ::
  "'t session_world \<Rightarrow> fl_estimator \<Rightarrow> (string, graph) dict \<times> (string, graph) dict \<Rightarrow> model_fn \<Rightarrow> run_mode \<Rightarrow> string \<Rightarrow>
     (exn + session_run) option" where
  "train_or_eval W est inputs model_fn mode checkpoint_path =
     (case model_fn (fst inputs) (snd inputs) mode of
        Inl e \<Rightarrow> Some (Inl e)
      | Inr m \<Rightarrow>
          (case session_hooks mode (snd m) of
             Inl e \<Rightarrow> Some (Inl e)
           | Inr hooks \<Rightarrow>
               (case run_session (sw_should_stop W) (sw_ends W) (sw_status W) (fe_role est) mode of
                  None \<Rightarrow> None
                | Some (steps, events) \<Rightarrow>
                    Some (Inr \<lparr>sn_model = m, sn_metrics = hooks, sn_bridge = bridge_feed est, sn_channels = channel_feed est,
                      sn_checkpoint_dir = checkpoint_path, sn_steps = steps, sn_events = events\<rparr>))))"

definition train_estimator ::
  "'t session_world \<Rightarrow> fl_estimator \<Rightarrow> (string, graph) dict \<times> (string, graph) dict \<Rightarrow> model_fn \<Rightarrow> string \<Rightarrow> (exn + session_run) option" where
  "train_estimator W est inputs model_fn checkpoint_path = train_or_eval W est inputs model_fn TRAIN checkpoint_path"

definition eval_estimator ::
  "'t session_world \<Rightarrow> fl_estimator \<Rightarrow> (string, graph) dict \<times> (string, graph) dict \<Rightarrow> model_fn \<Rightarrow> string \<Rightarrow> (exn + session_run) option" where
  "eval_estimator W est inputs model_fn checkpoint_path = train_or_eval W est inputs model_fn EVAL checkpoint_path"

subsection \<open>Exported models\<close>

record 't saved_model =
  sm_receivers :: "(string, graph) dict"
  sm_predictions :: "(string, graph) dict"
  sm_values :: "string \<rightharpoonup> 't"

text \<open>The saver needs a checkpoint that has every variable of the graph.\<close>

definition restore :: "(string \<rightharpoonup> 't) option \<Rightarrow> variable_decl list \<Rightarrow> exn + (string \<rightharpoonup> 't)" where
  "restore checkpoint decls =
     (case checkpoint of
        None \<Rightarrow> Inl ValueError
      | Some values \<Rightarrow>
          if list_all (\<lambda>d. values (vd_name d) \<noteq> None) decls then Inr (values |` (vd_name ` set decls)) else Inl OpError)"

definition export_savedmodel ::
  "'t session_world \<Rightarrow> model_fn \<Rightarrow> (string, graph) dict \<times> (string, graph) dict \<Rightarrow> string \<Rightarrow> exn + 't saved_model" where
  "export_savedmodel W model_fn receiver checkpoint_path =
     (case model_fn (fst receiver) [] PREDICT of
        Inl e \<Rightarrow> Inl e
      | Inr (decls, spec) \<Rightarrow>
          (case restore (sw_checkpoint W checkpoint_path) decls of
             Inl e \<Rightarrow> Inl e
           | Inr values \<Rightarrow> Inr \<lparr>sm_receivers = snd receiver, sm_predictions = es_predictions spec, sm_values = values\<rparr>))"

text \<open>An answer of an exported model to features and to the values of its placeholders.\<close>

definition serve :: "('t, 's) tensorflow \<Rightarrow> 't saved_model \<Rightarrow> (string \<Rightarrow> string \<Rightarrow> 't) \<Rightarrow> (string \<Rightarrow> 't option) \<Rightarrow> string \<Rightarrow> 't option" where
  "serve L sm feats holes out =
     (case dict_get (sm_predictions sm) out of
        None \<Rightarrow> None
      | Some g \<Rightarrow>
          eval_graph L \<lparr>ev_variable = (\<lambda>v. the (sm_values sm v)), ev_feature = feats, ev_placeholder = holes, ev_message = (\<lambda>_. None)\<rparr> g)"

subsection \<open>The leader and the follower\<close>

definition make_estimator ::
  "bool \<Rightarrow> mconfig \<Rightarrow> (string \<times> string list) list option \<Rightarrow> string option \<Rightarrow> int option \<Rightarrow> fl_estimator" where
  "make_estimator is_chief cfg cluster job_name task_index =
     \<lparr>fe_is_chief = is_chief, fe_role = mc_role cfg, fe_appli_id = mc_appli_id cfg, fe_local_address = mc_bind_addr cfg,
      fe_peer_address = mc_peer_addr cfg, fe_proxy_address = mc_proxy_addr cfg, fe_dc_address = mc_dc_addr cfg,
      fe_proxy_comm_uuid = mc_channel_comm_uuid cfg, fe_rank_id = mc_worker_id cfg, fe_rpc_serv_type = mc_rpc_service_type cfg,
      fe_cluster_spec = cluster, fe_job_name = job_name, fe_task_index = task_index, fe_timeline_trace = None\<rparr>"

definition leader_receiver :: "(string, graph) dict \<times> (string, graph) dict" where
  "leader_receiver =
     (leader_serving_features ''leader'', [(''records'', Placeholder ''records''), (''fl_inputs'', Placeholder ''fl_inputs'')])"

definition follower_receiver :: "(string, graph) dict \<times> (string, graph) dict" where
  "follower_receiver = (follower_serving_features ''follower'', [(''records'', Placeholder ''records'')])"

datatype 't run_event =
    SessionRun session_run
  | MakeDirs string
  | Exported string "'t saved_model"
  | Slept nat

type_synonym 't run_result = "('t run_event list \<times> exn option) option"

text \<open>
  What a run does in order, and the exception it ends with; \<^term>\<open>None\<close> when it never ends. The leader calls a function
  of \<^verbatim>\<open>flenv\<close> after an evaluation that the module does not have.
\<close>

definition leader_exports :: "'t session_world \<Rightarrow> flags \<Rightarrow> mconfig \<Rightarrow> 't run_event list \<times> exn option" where
  "leader_exports W fs cfg =
     (let ctr_model_dir = path_join (mc_export_dir cfg) ''ctr_model''; tower_model_dir = path_join (mc_export_dir cfg) ''tower_model'';
          made = [MakeDirs ctr_model_dir, MakeDirs tower_model_dir];
          model = export_savedmodel W (leader_model_fn fs) leader_receiver (mc_model_dir cfg)
      in case model of
           Inl e \<Rightarrow> (made, Some e)
         | Inr sm \<Rightarrow> (made @ [Exported ctr_model_dir sm, Exported tower_model_dir sm], None))"

definition leader_fl_run ::
  "'t session_world \<Rightarrow> flags \<Rightarrow> bool \<Rightarrow> mconfig \<Rightarrow> (string \<times> string list) list option \<Rightarrow> string option \<Rightarrow> int option \<Rightarrow> 't run_result" where
  "leader_fl_run W fs is_chief cfg cluster job_name task_index =
     (let est = make_estimator is_chief cfg cluster job_name task_index;
          inputs = (leader_features ''leader'', leader_labels ''leader'')
      in if mc_eval cfg = 1
         then (case eval_estimator W est inputs (leader_model_fn fs) (mc_model_dir cfg) of
                 None \<Rightarrow> None
               | Some (Inl e) \<Rightarrow> Some ([], Some e)
               | Some (Inr r) \<Rightarrow> Some ([SessionRun r], if is_chief then Some AttributeError else None))
         else (case train_estimator W est inputs (leader_model_fn fs) (mc_model_dir cfg) of
                 None \<Rightarrow> None
               | Some (Inl e) \<Rightarrow> Some ([], Some e)
               | Some (Inr r) \<Rightarrow>
                   if is_chief
                   then (case leader_exports W fs cfg of (evs, e) \<Rightarrow> Some (SessionRun r # evs, e))
                   else Some ([SessionRun r, Slept 30], None)))"

definition follower_fl_run ::
  "'t session_world \<Rightarrow> flags \<Rightarrow> bool \<Rightarrow> mconfig \<Rightarrow> (string \<times> string list) list option \<Rightarrow> string option \<Rightarrow> int option \<Rightarrow> 't run_result" where
  "follower_fl_run W fs is_chief cfg cluster job_name task_index =
     (let est = make_estimator is_chief cfg cluster job_name task_index;
          inputs = (follower_features ''follower'', [])
      in if mc_eval cfg = 1
         then (case eval_estimator W est inputs (follower_model_fn fs) (mc_model_dir cfg) of
                 None \<Rightarrow> None
               | Some (Inl e) \<Rightarrow> Some ([], Some e)
               | Some (Inr r) \<Rightarrow> Some ([SessionRun r], None))
         else (case train_estimator W est inputs (follower_model_fn fs) (mc_model_dir cfg) of
                 None \<Rightarrow> None
               | Some (Inl e) \<Rightarrow> Some ([], Some e)
               | Some (Inr r) \<Rightarrow>
                   if is_chief
                   then (case export_savedmodel W (follower_model_fn fs) follower_receiver (mc_model_dir cfg) of
                           Inl e \<Rightarrow> Some ([SessionRun r], Some e)
                         | Inr sm \<Rightarrow> Some ([SessionRun r, Exported (mc_export_dir cfg) sm], None))
                   else Some ([SessionRun r, Slept 30], None)))"

text \<open>The program: the environment, the role, and the function in its place in the cluster; a parameter server never returns.\<close>

definition example_main ::
  "string \<Rightarrow> (flags \<Rightarrow> bool \<Rightarrow> mconfig \<Rightarrow> (string \<times> string list) list option \<Rightarrow> string option \<Rightarrow> int option \<Rightarrow> 't run_result) \<Rightarrow>
     pair_stub \<Rightarrow> (string \<Rightarrow> string list option) \<Rightarrow> flags \<Rightarrow> trainer_env \<Rightarrow> string set \<Rightarrow> 't run_result" where
  "example_main role user_fn stub hdfs fs env paths =
     (case parse_mconfig fs env of
        Inl e \<Rightarrow> Some ([], Some e)
      | Inr parsed \<Rightarrow>
          (case set_role role parsed of
             (fs1, cfg) \<Rightarrow>
               (case run_cluster (tf_settings.truncate cfg) of
                  StartServer \<Rightarrow> None
                | StartNothing \<Rightarrow> Some ([], None)
                | StartFunction is_chief \<Rightarrow>
                    (case fl_run stub hdfs (fl_local_debug fs1 = 1) is_chief cfg paths of
                       None \<Rightarrow> None
                     | Some (Inl e, _) \<Rightarrow> Some ([], Some e)
                     | Some (Inr (_, cfg'), _) \<Rightarrow>
                         if mc_is_local cfg' then user_fn fs1 is_chief cfg' None None None
                         else user_fn fs1 is_chief cfg' (mc_cluster cfg') (mc_job_name cfg') (mc_task_index cfg')))))"

definition leader_main ::
  "'t session_world \<Rightarrow> pair_stub \<Rightarrow> (string \<Rightarrow> string list option) \<Rightarrow> flags \<Rightarrow> trainer_env \<Rightarrow> string set \<Rightarrow> 't run_result" where
  "leader_main W = example_main ''leader'' (leader_fl_run W)"

definition follower_main ::
  "'t session_world \<Rightarrow> pair_stub \<Rightarrow> (string \<Rightarrow> string list option) \<Rightarrow> flags \<Rightarrow> trainer_env \<Rightarrow> string set \<Rightarrow> 't run_result" where
  "follower_main W = example_main ''follower'' (follower_fl_run W)"

end
