(* ===== verification/Mnist_Properties.thy ===== *)
theory Mnist_Properties
  imports Split_Properties Mnist_Runs
begin

section \<open>What the example computes\<close>

text \<open>
  The properties of the example: a whole training, the check of the ids, the exported models, and an evaluation.
\<close>

subsection \<open>Batches\<close>

text \<open>Batches without a last smaller one, one at a time.\<close>

lemma batched_step:
  "0 < n \<Longrightarrow> batched n True xs = (if length xs < n then [] else take n xs # batched n True (drop n xs))"
  by (simp add: batched_def chunks.simps [of n xs])

lemma batched_map: "0 < n \<Longrightarrow> batched n True (map f xs) = map (map f) (batched n True xs)"
proof (induction "length xs" arbitrary: xs rule: less_induct)
  case less
  show ?case
    using less.hyps [of "drop n xs"] less.prems
    by (auto simp: batched_step [of n xs] batched_step [of n "map f xs"] take_map drop_map not_less)
qed

lemma batched_zip:
  "0 < n \<Longrightarrow> length xs = length ys \<Longrightarrow>
    batched n True (zip xs ys) = map (\<lambda>(b1, b2). zip b1 b2) (zip (batched n True xs) (batched n True ys))"
proof (induction "length xs" arbitrary: xs ys rule: less_induct)
  case less
  show ?case
    using less.hyps [of "drop n xs" "drop n ys"] less.prems
    by (auto simp: batched_step [of n xs] batched_step [of n ys] batched_step [of n "zip xs ys"] take_zip drop_zip not_less)
qed

lemma batched_length: "b \<in> set (batched n True xs) \<Longrightarrow> length b = n"
  by (simp add: batched_def)

lemma batched_full: "filter (\<lambda>b. length b = n) (batched n False xs) = batched n True xs"
  by (simp add: batched_def)

lemma batched_ids:
  assumes "map rid xs = map rid ys" "0 < n"
  shows "\<forall>(b1, b2) \<in> set (zip (batched n True xs) (batched n True ys)). map rid b1 = map rid b2"
proof -
  have "map (map rid) (batched n True xs) = map (map rid) (batched n True ys)"
    using assms by (metis batched_map)
  then show ?thesis by (auto simp: in_set_zip) (metis nth_map)
qed

lemma concat_replicate_zip:
  "length xs = length ys \<Longrightarrow> concat (replicate n (zip xs ys)) = zip (concat (replicate n xs)) (concat (replicate n ys))"
  by (induction n) simp_all

lemma chunks_full: "0 < n \<Longrightarrow> n dvd length xs \<Longrightarrow> batched n False xs = batched n True xs"
proof (induction "length xs" arbitrary: xs rule: less_induct)
  case less
  show ?case
  proof (cases "xs = []")
    case False
    with less.prems have long: "n \<le> length xs" by (simp add: dvd_imp_le)
    then have "batched n False (drop n xs) = batched n True (drop n xs)" using less False by (simp add: dvd_diff_nat)
    then show ?thesis using long less.prems False by (simp add: batched_step [of n xs]) (simp add: batched_def chunks.simps [of n xs])
  qed (simp add: batched_def)
qed

subsection \<open>Training\<close>

text \<open>The batches that both parties take are the full batches of the baseline.\<close>

lemma party_batches:
  assumes "dataset_elements S (role_dataset ''leader'') = concat (replicate n l_ds)"
    and "dataset_elements S (role_dataset ''follower'') = concat (replicate n f_ds)"
    and ids: "map rid l_ds = map rid f_ds"
  defines "pairs \<equiv> zip (party_input S ''leader'') (party_input S ''follower'')"
  shows "map fst pairs = party_input S ''leader''" "map snd pairs = party_input S ''follower''"
    "\<forall>(bl, bf) \<in> set pairs. map rid bl = map rid bf" "\<forall>(bl, bf) \<in> set pairs. length bl = length bf"
    "map (\<lambda>(bl, bf). zip bl bf) pairs = filter (\<lambda>b. length b = 128) (baseline_input l_ds f_ds 128 n)"
proof -
  note inputs = party_input_def assms(1,2)
  let ?l = "concat (replicate n l_ds)" and ?f = "concat (replicate n f_ds)"
  have "length l_ds = length f_ds" using ids by (rule map_eq_imp_length_eq)
  note zipped = concat_replicate_zip [OF this]
  have all: "map rid ?l = map rid ?f" by (simp add: map_concat ids)
  have same: "map (map rid) (batched 128 True ?l) = map (map rid) (batched 128 True ?f)" using all by (metis batched_map zero_less_numeral)
  then have len: "length (batched 128 True ?l) = length (batched 128 True ?f)" by (metis length_map)
  then show "map fst pairs = party_input S ''leader''" "map snd pairs = party_input S ''follower''"
    by (simp_all add: pairs_def inputs)
  show "\<forall>(bl, bf) \<in> set pairs. map rid bl = map rid bf" using batched_ids [OF all, of 128] by (simp add: pairs_def inputs)
  show "\<forall>(bl, bf) \<in> set pairs. length bl = length bf"
    unfolding pairs_def inputs by clarify (metis batched_length set_zip_leftD set_zip_rightD)
  have "batched 128 True (zip ?l ?f) = map (\<lambda>(b1, b2). zip b1 b2) (zip (batched 128 True ?l) (batched 128 True ?f))"
    by (rule batched_zip) (simp_all add: map_eq_imp_length_eq [OF all])
  then show "map (\<lambda>(bl, bf). zip bl bf) pairs = filter (\<lambda>b. length b = 128) (baseline_input l_ds f_ds 128 n)"
    by (simp add: pairs_def inputs baseline_input_def batched_full zipped)
qed

lemma run_estimator_batches:
  assumes "baseline_model_fn (baseline_features ''leader'' ''follower'') (Feature ''leader'' ''y'') TRAIN = Inr mB"
    and "128 dvd n * length l_ds" "length l_ds = length f_ds"
    and "l_ds = load_dataset names records (path_join data_dir ''leader_train'')"
    and "f_ds = load_dataset names records (path_join data_dir ''follower_train'')"
  shows "run_estimator L names records parse data_dir n =
    Inr (baseline_train L mB parse (filter (\<lambda>b. length b = 128) (baseline_input l_ds f_ds 128 n)) (start_party L (fst mB)))"
proof -
  have "length (concat (replicate n (zip l_ds f_ds))) = n * length l_ds" using assms(3) by (simp add: length_concat sum_list_replicate)
  then have "filter (\<lambda>b. length b = 128) (baseline_input l_ds f_ds 128 n) = baseline_input l_ds f_ds 128 n"
    unfolding baseline_input_def batched_full using assms(2) by (intro chunks_full [symmetric]) simp_all
  then show ?thesis by (simp add: run_estimator_def assms(1) flip: assms(4,5))
qed

lemma models_built:
  assumes "check_roles fsL fsF"
    and "leader_model_fn fsL (leader_features ''leader'') (leader_labels ''leader'') TRAIN = Inr mL"
    and "follower_model_fn fsF (follower_features ''follower'') [] TRAIN = Inr mF"
    and "baseline_model_fn (baseline_features ''leader'' ''follower'') (Feature ''leader'' ''y'') TRAIN = Inr mB"
  shows "mL = leader_built" "mF = follower_built" "fst mB = baseline_decls"
    "es_train (snd mB) = Some (fill ''act1_f'' follower_graph loss_context, None)"
  using assms baseline_builds leader_builds [of fsL] follower_builds [of fsF "[]"] by (auto simp: check_roles_def)

lemma joint_training:
  assumes laws: "gradient_laws L" and roles: "check_roles fsL fsF"
    and built: "fst mB = baseline_decls" "es_train (snd mB) = Some (fill ''act1_f'' follower_graph loss_context, None)"
    and served: "dataset_elements S (role_dataset ''leader'') = concat (replicate n l_ds)"
      "dataset_elements S (role_dataset ''follower'') = concat (replicate n f_ds)"
    and ids: "map rid l_ds = map rid f_ds"
  obtains l f b where
    "fed_train L to_hash fsL fsF leader_built follower_built parse rid (party_input S ''leader'') (party_input S ''follower'')
      (start_party L (fst leader_built)) (start_party L (fst follower_built)) = Stepped l f"
    "baseline_train L mB parse (filter (\<lambda>b. length b = 128) (baseline_input l_ds f_ds 128 n)) (start_party L (fst mB)) = Some b"
    "split_of b l f"
proof -
  note batches = party_batches [OF served ids]
  have start: "split_of (start_party L (fst mB)) (start_party L (fst leader_built)) (start_party L (fst follower_built))"
    by (simp add: built(1) start_split leader_built_def follower_built_def Let_def)
  from fed_train_is_baseline [OF laws roles built batches(3,4) start, of to_hash parse]
  show thesis unfolding batches(1,2,5) using that by blast
qed

text \<open>
  C7. Two parties that train the example on the files that the data center serves to them get the network that the baseline
  trains on the files of both: when the data center serves the records of the directories of the baseline, for as many epochs and with the ids of
  both parties in the same order, both sessions make all their steps, and afterwards the variables and the
  slots of the optimizer of the leader and of the follower are those of the baseline after its full batches; when no
  batch of the baseline is smaller, this is its whole training. Of the gradients only the chain rule is used.
\<close>

theorem split_training_is_joint_training:
  assumes "gradient_laws L" and roles: "check_roles fsL fsF"
    and mL: "leader_model_fn fsL (leader_features ''leader'') (leader_labels ''leader'') TRAIN = Inr mL"
    and mF: "follower_model_fn fsF (follower_features ''follower'') [] TRAIN = Inr mF"
    and mB: "baseline_model_fn (baseline_features ''leader'' ''follower'') (Feature ''leader'' ''y'') TRAIN = Inr mB"
    and l_ds: "l_ds = load_dataset names records (path_join data_dir ''leader_train'')"
    and f_ds: "f_ds = load_dataset names records (path_join data_dir ''follower_train'')"
    and served: "dataset_elements S (role_dataset ''leader'') = concat (replicate n l_ds)"
      "dataset_elements S (role_dataset ''follower'') = concat (replicate n f_ds)"
    and ids: "map rid l_ds = map rid f_ds"
  shows "\<exists>l f b.
    fed_train L to_hash fsL fsF mL mF parse rid (party_input S ''leader'') (party_input S ''follower'')
      (start_party L (fst mL)) (start_party L (fst mF)) = Stepped l f \<and>
    baseline_train L mB parse (filter (\<lambda>b. length b = 128) (baseline_input l_ds f_ds 128 n)) (start_party L (fst mB)) = Some b \<and>
    split_of b l f \<and>
    (128 dvd n * length l_ds \<longrightarrow> run_estimator L names records parse data_dir n = Inr (Some b))"
proof -
  note built = models_built [OF roles mL mF mB]
  obtain l f b where run: "fed_train L to_hash fsL fsF mL mF parse rid (party_input S ''leader'') (party_input S ''follower'')
        (start_party L (fst mL)) (start_party L (fst mF)) = Stepped l f"
      "baseline_train L mB parse (filter (\<lambda>b. length b = 128) (baseline_input l_ds f_ds 128 n)) (start_party L (fst mB)) = Some b"
      "split_of b l f"
    unfolding built(1,2) by (rule joint_training [OF assms(1) roles built(3,4) served ids, of to_hash parse])
  moreover have "length l_ds = length f_ds" using ids by (rule map_eq_imp_length_eq)
  ultimately show ?thesis using run_estimator_batches [OF mB _ _ l_ds f_ds, of n L parse] by auto
qed

text \<open>One batch of the example, trained over integers.\<close>

definition sample_files :: data_files where
  "sample_files =
     \<lparr>df_served = (\<lambda>role. [role]), df_records = (\<lambda>_ _ _. replicate 128 ''a''), df_lines = (\<lambda>_ _ _. [])\<rparr>"

theorem split_training_is_joint_training_witness:
  "\<exists>l f b.
    fed_train int_tensorflow (\<lambda>_. 0) default_flags (default_flags\<lparr>fl_role := ''follower''\<rparr>) leader_built follower_built (\<lambda>k b. int (length b)) (\<lambda>r. r)
      (party_input sample_files ''leader'') (party_input sample_files ''follower'')
      (start_party int_tensorflow (fst leader_built)) (start_party int_tensorflow (fst follower_built)) = Stepped l f \<and>
    run_estimator int_tensorflow (\<lambda>_. [''a.tfrecord'']) (\<lambda>_. replicate 128 ''a'') (\<lambda>k b. int (length b)) ''data'' 1 = Inr (Some b) \<and>
    split_of b l f"
proof -
  let ?r = "\<lambda>_ :: string. replicate 128 ''a''" and ?n = "\<lambda>_ :: string. [''a.tfrecord'']"
  have data: "load_dataset ?n ?r d = replicate 128 ''a''" for d
    by (simp add: load_dataset_def tf_record_dataset_def contains_def upt_rec)
  have served: "dataset_elements sample_files (role_dataset d) = concat (replicate 1 (replicate 128 ''a''))" for d :: string
    by (simp add: role_dataset_def sample_files_def)
  have roles: "check_roles default_flags (default_flags\<lparr>fl_role := ''follower''\<rparr>)" by (simp add: check_roles_def default_flags_def)
  obtain mB where mB: "baseline_model_fn (baseline_features ''leader'' ''follower'') (Feature ''leader'' ''y'') TRAIN = Inr mB"
    using baseline_builds by blast
  have "fl_role default_flags = ''leader''" "fl_role (default_flags\<lparr>fl_role := ''follower''\<rparr>) = ''follower''"
    by (simp_all add: default_flags_def)
  note built = leader_builds [OF this(1)] follower_builds [OF this(2), of "[]"]
  have "128 dvd 1 * length (replicate 128 ''a'')" by simp
  with split_training_is_joint_training [OF int_laws roles built(1) built(2) mB, where names = ?n and records = ?r and data_dir = "''data''"
      and S = sample_files and n = 1 and to_hash = "\<lambda>_. 0" and rid = "\<lambda>r. r" and parse = "\<lambda>k b. int (length b)",
      OF data [symmetric] data [symmetric] served served refl]
  show ?thesis by auto
qed




subsection \<open>Exported models\<close>

text \<open>What a session leaves in its directory: the variables that its graph declares.\<close>

definition party_checkpoint :: "built_model \<Rightarrow> ('t, 's) party \<Rightarrow> string \<rightharpoonup> 't" where
  "party_checkpoint m p = (\<lambda>v. Some (fst (pt_vars p v))) |` (vd_name ` set (fst m))"

lemma follower_exports:
  assumes "sw_checkpoint W path = Some (party_checkpoint follower_built f)"
  obtains sm where "export_savedmodel W (follower_model_fn fs) follower_receiver path = Inr sm"
    "\<And>L feats. serve L sm feats Map.empty ''output'' = Some (act_value L feats f)"
proof -
  note built = follower_model_fn_def follower_receiver_def follower_serving_features_def feature_of_def follower_act_def dense_def
  have "party_checkpoint follower_built f v \<noteq> None" if "v \<in> {''w1f'', ''b1f''}" for v
    using that decl_names(3) by (auto simp: party_checkpoint_def follower_built_def Let_def restrict_map_def)
  then show thesis
    by (intro that [of "\<lparr>sm_receivers = snd follower_receiver, sm_predictions = [(''output'', follower_act (Feature ''follower'' ''x''))],
          sm_values = party_checkpoint follower_built f |` (vd_name ` set follower_decls)\<rparr>"])
      (simp_all add: export_savedmodel_def built assms restore_def follower_decls_def weights_def bias_def serve_def act_value_def
        party_checkpoint_def follower_built_def Let_def)
qed

text \<open>Serving the exported leader with the activations \<open>a\<close> computes the rest of the network of the baseline.\<close>

lemma leader_exports_twice:
  assumes "sw_checkpoint W (mc_model_dir cfg) = Some (party_checkpoint leader_built l)"
  obtains sm where "leader_exports W fs cfg =
      ([MakeDirs (path_join (mc_export_dir cfg) ''ctr_model''), MakeDirs (path_join (mc_export_dir cfg) ''tower_model''),
        Exported (path_join (mc_export_dir cfg) ''ctr_model'') sm, Exported (path_join (mc_export_dir cfg) ''tower_model'') sm], None)"
    "\<And>L feats b f. split_of b l f \<Longrightarrow> serve L sm feats [''fl_inputs'' \<mapsto> act_value L feats f] ''output'' =
      eval_graph L (party_env b feats (\<lambda>_. None)) (mnist_model (Feature ''leader'' ''x'') (Feature ''follower'' ''x''))"
proof -
  let ?sm = "\<lparr>sm_receivers = snd leader_receiver, sm_predictions = [(''output'', leader_logits (Feature ''leader'' ''x'') (Placeholder ''fl_inputs''))],
    sm_values = party_checkpoint leader_built l |` (vd_name ` set leader_decls)\<rparr>"
  have vals: "party_checkpoint leader_built l v = Some (fst (pt_vars l v))" if "v \<in> {''w1l'', ''b1l'', ''w2'', ''b2''}" for v
  proof -
    have "v \<in> vd_name ` set (fst leader_built)" using that decl_names(2) by (auto simp: leader_built_def)
    then show ?thesis by (simp add: party_checkpoint_def)
  qed
  have "export_savedmodel W (leader_model_fn fs) leader_receiver (mc_model_dir cfg) = Inr ?sm"
    by (simp add: export_savedmodel_def leader_model_fn_def leader_receiver_def leader_serving_features_def feature_of_def Let_def
        assms restore_def leader_decls_def weights_def bias_def vals)
  moreover have "serve L ?sm feats [''fl_inputs'' \<mapsto> act_value L feats f] ''output'' =
      eval_graph L (party_env b feats (\<lambda>_. None)) (mnist_model (Feature ''leader'' ''x'') (Feature ''follower'' ''x''))"
    if "split_of b l f" for L feats b f
    using that by (simp add: serve_def leader_logits_def mnist_model_def dense_def leader_decls_def weights_def bias_def vals
        party_env_def act_value_def split_of_def)
  ultimately show thesis by (intro that [of ?sm]) (simp_all add: leader_exports_def Let_def)
qed

text \<open>
  C19. After a training whose variables are those of the joint network, the chiefs of both parties export their models without an
  error, the leader the same model in two directories. An answer of the model of the follower, given as input \<^verbatim>\<open>fl_inputs\<close> to the
  model of the leader, makes the leader answer what the network of the baseline computes from the features of both.
\<close>

theorem exported_models_serve_the_baseline:
  fixes b l f :: "('t, 's) party"
  assumes split: "split_of b l f"
    and saved: "sw_checkpoint WL (mc_model_dir cL) = Some (party_checkpoint leader_built l)"
      "sw_checkpoint WF (mc_model_dir cF) = Some (party_checkpoint follower_built f)"
    and flags: "fl_role fsL = ''leader''" "fl_role fsF = ''follower''" "mc_eval cL \<noteq> 1" "mc_eval cF \<noteq> 1"
    and runs: "leader_fl_run WL fsL True cL clL jL tL = Some (evL, eL)" "follower_fl_run WF fsF True cF clF jF tF = Some (evF, eF)"
  shows "eL = None \<and> eF = None \<and>
    (\<exists>sL sF. Exported (path_join (mc_export_dir cL) ''ctr_model'') sL \<in> set evL \<and>
       Exported (path_join (mc_export_dir cL) ''tower_model'') sL \<in> set evL \<and> Exported (mc_export_dir cF) sF \<in> set evF \<and>
       (\<forall>(L :: ('t, 's) tensorflow) feats. \<exists>a. serve L sF feats Map.empty ''output'' = Some a \<and>
          serve L sL feats [''fl_inputs'' \<mapsto> a] ''output'' =
            eval_graph L (party_env b feats (\<lambda>_. None)) (mnist_model (Feature ''leader'' ''x'') (Feature ''follower'' ''x''))))"
proof -
  obtain sL where sL: "leader_exports WL fsL cL =
      ([MakeDirs (path_join (mc_export_dir cL) ''ctr_model''), MakeDirs (path_join (mc_export_dir cL) ''tower_model''),
        Exported (path_join (mc_export_dir cL) ''ctr_model'') sL, Exported (path_join (mc_export_dir cL) ''tower_model'') sL], None)"
    "\<And>L feats b f. split_of b l f \<Longrightarrow> serve L sL feats [''fl_inputs'' \<mapsto> act_value L feats f] ''output'' =
      eval_graph L (party_env b feats (\<lambda>_. None)) (mnist_model (Feature ''leader'' ''x'') (Feature ''follower'' ''x''))"
    by (rule leader_exports_twice [OF saved(1)]) blast
  obtain sF where sF: "export_savedmodel WF (follower_model_fn fsF) follower_receiver (mc_model_dir cF) = Inr sF"
    "\<And>L feats. serve L sF feats Map.empty ''output'' = Some (act_value L feats f)"
    by (rule follower_exports [OF saved(2)]) blast
  have "eL = None" "Exported (path_join (mc_export_dir cL) ''ctr_model'') sL \<in> set evL"
    "Exported (path_join (mc_export_dir cL) ''tower_model'') sL \<in> set evL"
    using runs(1) flags(3) by (auto simp: leader_fl_run_def Let_def sL(1) train_estimator_def train_or_eval_def session_hooks_def
        leader_builds [OF flags(1)] split: option.splits)
  moreover have "eF = None" "Exported (mc_export_dir cF) sF \<in> set evF"
    using runs(2) flags(4) by (auto simp: follower_fl_run_def Let_def sF(1) train_estimator_def train_or_eval_def session_hooks_def
        follower_builds [OF flags(2)] split: option.splits)
  ultimately show ?thesis using sL(2) [OF split] sF(2) by blast
qed

definition sample_config :: mconfig where
  "sample_config = tf_settings.extend local_settings (mconfig.fields ''leader'' ''jdfl'' ''jdfl_TrainerWorkerService_0'' (Inl 1) None None None None
     None None ''m'' ''e'' 1 (Inl 1) 0 [] None)"

definition finished_world :: "(string \<rightharpoonup> 't) \<Rightarrow> 't session_world" where
  "finished_world checkpoint =
     \<lparr>sw_should_stop = (\<lambda>_. True), sw_ends = (\<lambda>_. True), sw_status = (\<lambda>_ _. 0), sw_checkpoint = (\<lambda>_. Some checkpoint)\<rparr>"

theorem exported_models_serve_the_baseline_witness:
  "\<exists>evL sL. leader_fl_run (finished_world (party_checkpoint leader_built (start_party int_tensorflow baseline_decls))) default_flags True
      sample_config None None None = Some (evL, None) \<and> Exported ''e/tower_model'' sL \<in> set evL"
proof -
  let ?p = "start_party int_tensorflow baseline_decls" and ?fsF = "default_flags\<lparr>fl_role := ''follower''\<rparr>"
  let ?WL = "finished_world (party_checkpoint leader_built ?p)" and ?WF = "finished_world (party_checkpoint follower_built ?p)"
  have roles: "fl_role default_flags = ''leader''" "fl_role ?fsF = ''follower''" by (simp_all add: default_flags_def)
  have cfg: "mc_eval sample_config \<noteq> 1" "mc_export_dir sample_config = ''e''" by (simp_all add: sample_config_def mconfig.defs tf_settings.defs)
  have split: "split_of ?p ?p ?p" by (simp add: split_of_def)
  have saved: "sw_checkpoint (finished_world c) d = Some c" for c :: "string \<rightharpoonup> int" and d by (simp add: finished_world_def)
  have run: "run_session (sw_should_stop (finished_world c)) (sw_ends (finished_world c)) (sw_status (finished_world c)) r TRAIN = Some (1, [])"
    for c :: "string \<rightharpoonup> int" and r
    by (simp add: run_session_def finished_world_def train_loop.simps)
  obtain evL eL where L: "leader_fl_run ?WL default_flags True sample_config None None None = Some (evL, eL)"
    by (cases "leader_exports ?WL default_flags sample_config")
      (auto simp: leader_fl_run_def Let_def cfg train_estimator_def train_or_eval_def session_hooks_def leader_builds [OF roles(1)] run)
  obtain evF eF where F: "follower_fl_run ?WF ?fsF True sample_config None None None = Some (evF, eF)"
    by (cases "export_savedmodel ?WF (follower_model_fn ?fsF) follower_receiver (mc_model_dir sample_config)")
      (auto simp: follower_fl_run_def Let_def cfg train_estimator_def train_or_eval_def session_hooks_def follower_builds [OF roles(2)] run)
  from exported_models_serve_the_baseline [OF split saved saved roles cfg(1,1) L F] L show ?thesis by (auto simp: cfg(2) path_join_def)
qed








end
