(* ===== verification/Mnist_Pipeline.thy ===== *)
theory Mnist_Pipeline
  imports Mnist_Properties Make_Data
begin

section \<open>From the made data to the trained network\<close>

text \<open>
  The data that \<^verbatim>\<open>make_data.py\<close> writes are what the baseline reads and, served to the parties, what they train on:
  the properties of \<open>Make_Data\<close> and of \<open>Mnist_Properties\<close> put together.
\<close>

subsection \<open>Saving leaves other directories alone\<close>

lemma renew_dir_keeps: "\<not> inside d p \<Longrightarrow> md_records (renew_dir d st) p = md_records st p"
  by (simp add: renew_dir_def rmtree_def Let_def)

lemma partition_name: "file_name (zfill 5 (str_of_nat i) @ ''.tfrecord'')"
  by (simp add: file_name_def zfill_no_slash)

lemma record_path_inside: "inside d (record_path d i)"
  using file_name_hd [OF partition_name [of i]]
  by (auto simp: inside_def startswith_def record_path_def path_join_def)

lemma save_partition_keeps:
  assumes "save_partition d m dr draws i rs s = (r, s')" "\<not> inside d p"
  shows "md_records (snd s') p = md_records (snd s) p"
proof -
  have "p \<noteq> record_path d i" using assms(2) record_path_inside by metis
  with assms(1) show ?thesis by (auto simp: save_partition_def split: prod.splits option.splits)
qed

lemma save_partitions_keeps:
  "save_partitions d m dr draws i data s = (r, s') \<Longrightarrow> \<not> inside d p \<Longrightarrow> md_records (snd s') p = md_records (snd s) p"
proof (induction data arbitrary: i s)
  case (Cons rs data)
  obtain r1 s1 where s1: "save_partition d m dr draws i rs s = (r1, s1)" by (meson surj_pair)
  note first = save_partition_keeps [OF s1 Cons.prems(2)]
  show ?case
  proof (cases r1)
    case (Inl e)
    with Cons.prems(1) s1 first show ?thesis by simp
  next
    case (Inr u)
    with Cons.prems(1) s1 have "save_partitions d m dr draws (i + 1) data s1 = (r, s')" by simp
    from Cons.IH [OF this Cons.prems(2)] first show ?thesis by simp
  qed
qed simp

lemma save_dataset_keeps:
  assumes "save_dataset args draws dataset path s = (r, s')"
    and "\<not> inside (mk_output_dir args @ path) p" "\<not> inside (mk_output_dir args @ path @ ''_meta'') p"
  shows "md_records (snd s') p = md_records (snd s) p"
proof -
  note keeps = renew_dir_keeps [OF assms(2)] renew_dir_keeps [OF assms(3)]
  show ?thesis
    using assms(1) save_partitions_keeps [OF _ assms(2)]
    by (auto simp: save_dataset_def save_local_def Let_def keeps split: sum.splits prod.splits if_splits dest!: save_partitions_keeps [OF _ assms(2)])
qed

subsection \<open>The records of a data set\<close>

lemma features_made:
  "get_feature (Octets bs) ''bytes'' = Inr (BytesList bs)" "get_feature (Floats xs) ''float'' = Inr (FloatList xs)"
  "get_feature (Ints ys) ''int64'' = Inr (Int64List ys)"
  by (simp_all add: get_feature_def)

lemma item_record:
  assumes "item_2_tf_record ser [e] xx yy = Inr pb"
  shows "\<exists>more. pb = ser ((''example_id'', BytesList [e]) # more)"
proof -
  let ?rest = "[(''event_time'', BytesList [''20191001042452'']), (''x'', FloatList xx)]"
  have "pb = ser ((''example_id'', BytesList [e]) # ?rest) \<or> (\<exists>ys. pb = ser ((''example_id'', BytesList [e]) # ?rest @ [(''y'', Int64List ys)]))"
    using assms unfolding item_2_tf_record_def features_made bind_exn_def sum.case Let_def
    by (cases yy; cases "the yy") (simp_all, blast)
  then show ?thesis by (elim disjE exE) (rule exI, assumption)+
qed

lemma dataset_records:
  assumes "get_pb_dataset ser eids x y = Inr ds"
  shows "map fst ds = take (length x) eids \<and> (\<forall>(e, pb) \<in> set ds. \<exists>more. pb = ser ((''example_id'', BytesList [e]) # more))"
proof -
  let ?f = "\<lambda>i. bind_exn (list_at eids i) (\<lambda>eid. bind_exn (case y of
       Some ys \<Rightarrow> bind_exn (list_at ys i) (\<lambda>yi. item_2_tf_record ser [eid] (x ! i) (Some [yi]))
     | None \<Rightarrow> item_2_tf_record ser [eid] (x ! i) None) (\<lambda>pb_str. Inr (eid, pb_str)))"
  have f: "map ?f [0..<length x] = map Inr ds" using assms unfolding get_pb_dataset_def map_sum_list_Inr .
  have len: "length ds = length x" using arg_cong [OF f, of length] by (simp only: length_map length_upt diff_zero)
  have each: "i < length eids \<and> fst (ds ! i) = eids ! i \<and> (\<exists>more. snd (ds ! i) = ser ((''example_id'', BytesList [eids ! i]) # more))"
    if "i < length x" for i
  proof -
    have "map ?f [0..<length x] ! i = ?f ([0..<length x] ! i)" "map Inr ds ! i = Inr (ds ! i)" using that len by simp_all
    then have "map Inr ds ! i = ?f i" "map Inr ds ! i = Inr (ds ! i)" using that by (simp_all only: f nth_upt add_0)
    then have "?f i = Inr (ds ! i)" by (rule subst)
    then obtain pb where "i < length eids" "ds ! i = (eids ! i, pb)" "\<exists>yy. item_2_tf_record ser [eids ! i] (x ! i) yy = Inr pb"
      unfolding bind_exn_Inr list_at_def by (cases y) (auto simp: bind_exn_Inr split: if_splits, (metis)+)
    with item_record show ?thesis by (metis fst_conv snd_conv)
  qed
  have short: "length x \<le> length eids" using each [of "length x - 1"] by (cases "x = []") auto
  have "map fst ds = take (length x) eids" by (rule nth_equalityI) (use len each short in auto)
  moreover have "\<exists>more. pb = ser ((''example_id'', BytesList [e]) # more)" if "(e, pb) \<in> set ds" for e pb
    using that each len by (metis fst_conv in_set_conv_nth snd_conv)
  ultimately show ?thesis by blast
qed

subsection \<open>Reading the partitions\<close>

definition partition_file :: "nat \<Rightarrow> string" where
  "partition_file i = zfill 5 (str_of_nat i) @ ''.tfrecord''"

lemma record_path_join: "record_path d i = path_join d (partition_file i)"
  by (simp add: record_path_def partition_file_def)

lemma append_le_iff: "(pre @ a \<le> pre @ b) = (a \<le> (b :: string))"
  by (induction pre) auto

lemma sort_prefix: "sort (map ((@) pre) xs) = map ((@) pre) (sort (xs :: string list))"
proof (rule properties_for_sort)
  show "sorted (map ((@) pre) (sort xs))" by (simp add: sorted_map append_le_iff)
qed simp

lemma contains_partition: "contains ''tfrecord'' (partition_file i)"
proof -
  have "list_ex (\<lambda>k. take 8 (drop k (z @ ''.tfrecord'')) = ''tfrecord'') [0..<length (z @ ''.tfrecord'') + 1]" for z :: string
    unfolding list_ex_iff by (rule bexI [of _ "length z + 1"]) auto
  from this [of "zfill 5 (str_of_nat i)"] show ?thesis by (simp add: contains_def partition_file_def)
qed

lemma load_partitions:
  assumes "mset (names d) = mset (map partition_file [0..<n])" "d \<noteq> []" "last d \<noteq> CHR ''/''"
  shows "load_dataset names records d = concat (map (\<lambda>f. records (path_join d f)) (sort (map partition_file [0..<n])))"
proof -
  have names: "set (names d) = partition_file ` {..<n}" using arg_cong [OF assms(1), of set_mset] by (simp add: atLeast_upt)
  then have all: "filter (contains ''tfrecord'') (names d) = names d" by (auto simp: filter_id_conv contains_partition)
  have join: "map (path_join d) xs = map ((@) (d @ ''/'')) xs" if "set xs \<subseteq> range partition_file" for xs
    using that assms(2,3) partition_name file_name_hd by (fastforce simp: path_join_def partition_file_def)
  have sorted: "sort (names d) = sort (map partition_file [0..<n])"
    using assms(1) by (intro properties_for_sort) simp_all
  have "sort (map (path_join d) (names d)) = map (path_join d) (sort (names d))"
    using names by (subst (1 2) join) (auto simp: sort_prefix)
  then show ?thesis by (simp add: load_dataset_def tf_record_dataset_def all sorted comp_def)
qed

subsection \<open>The made training data\<close>

text \<open>The records below one directory of the output are not inside another one.\<close>

lemma path_apart:
  assumes "x \<noteq> []" "last x \<noteq> CHR ''/''" "y \<noteq> []" "last y \<noteq> CHR ''/''"
    and "list_ex (\<lambda>(a, b). a \<noteq> b) (zip x y)"
  shows "\<not> inside (out @ x) (record_path (out @ y) i)"
proof -
  obtain k where k: "k < length x" "k < length y" "x ! k \<noteq> y ! k"
    using assms(5) unfolding list_ex_iff by (auto simp: in_set_zip)
  have differ: "take (length x) (y @ CHR ''/'' # partition_file i) \<noteq> x"
  proof
    assume "take (length x) (y @ CHR ''/'' # partition_file i) = x"
    then have "take (length x) (y @ CHR ''/'' # partition_file i) ! k = x ! k" by (rule arg_cong)
    with k show False by (simp add: nth_append)
  qed
  have path: "record_path (out @ y) i = out @ y @ CHR ''/'' # partition_file i"
    using assms(3,4) file_name_hd [OF partition_name [of i]] by (simp add: record_path_join path_join_def flip: partition_file_def)
  have dir: "path_join (out @ x) [] = out @ x @ ''/''" using assms(1,2) by (simp add: path_join_def)
  have "y @ CHR ''/'' # partition_file i \<noteq> x" using differ by auto
  moreover have "take (length x + 1) (y @ CHR ''/'' # partition_file i) \<noteq> x @ ''/''"
  proof
    assume "take (length x + 1) (y @ CHR ''/'' # partition_file i) = x @ ''/''"
    then have "take (length x) (take (length x + 1) (y @ CHR ''/'' # partition_file i)) = x" by simp
    with differ show False by (simp only: take_take min.absorb1 le_add1)
  qed
  ultimately show ?thesis unfolding inside_def startswith_def path dir by simp
qed

definition made_partitions :: "string \<Rightarrow> int \<Rightarrow> (string \<times> bytes) list \<Rightarrow> data_store \<Rightarrow> bool" where
  "made_partitions d n ds st \<longleftrightarrow>
     (\<forall>i < nat n. md_records st (record_path d i) = Some (map snd (sort_key fst (filter (in_partition n i) ds))))"

lemma save_dataset_made:
  assumes "save_dataset args draws dataset path s = (Inr (), s')" "mk_drop_rate args \<le> 0" "mk_need_meta args = 1" "0 < mk_partition_num args"
  obtains ds where "dataset = Inr ds" "made_partitions (mk_output_dir args @ path) (mk_partition_num args) ds (snd s')"
proof -
  obtain ds where ds: "dataset = Inr ds" using assms(1) by (cases dataset) (auto simp: save_dataset_def)
  obtain k st where s: "s = (k, st)" by (meson surj_pair)
  obtain st' where "save_local ds (mk_output_dir args @ path) (mk_partition_num args) (mk_drop_rate args) True draws (k, st) = (Inr (), (k, st'))"
    "\<forall>i < nat (mk_partition_num args). holds_partition (mk_output_dir args @ path) i
       (sort_key fst (filter (in_partition (mk_partition_num args) i) ds)) st'"
    using save_local_partitions [OF assms(4,2)] by blast
  then show thesis using assms(1,3) by (intro that [OF ds]) (auto simp: save_dataset_def ds s made_partitions_def holds_partition_def)
qed

lemma made_keeps:
  assumes "made_partitions (mk_output_dir args @ y) n ds (snd s)" "save_dataset args draws dataset x s = (r, s')"
    and "x \<in> {''/follower_train'', ''/leader_test'', ''/follower_test''}" "y \<in> {''/leader_train'', ''/follower_train''}" "x \<noteq> y"
  shows "made_partitions (mk_output_dir args @ y) n ds (snd s')"
proof -
  have "\<not> inside (mk_output_dir args @ z) (record_path (mk_output_dir args @ y) i)" if "z = x \<or> z = x @ ''_meta''" for z i
    using that assms(3-5) by (intro path_apart) (elim insertE emptyE disjE; simp)+
  then show ?thesis using assms(1) save_dataset_keeps [OF assms(2)] by (simp add: made_partitions_def)
qed

lemma made_training_data:
  assumes "make_data_main ser xl xf y e_ids args draws s = (Inr (), s')"
    and args: "mk_drop_rate args \<le> 0" "mk_need_meta args = 1" "0 < mk_partition_num args"
    and len: "length xl = length xf" and rid: "\<And>e more. rid (ser ((''example_id'', BytesList [e]) # more)) = e"
  obtains dsL dsF where "made_partitions (mk_output_dir args @ ''/leader_train'') (mk_partition_num args) dsL (snd s')"
    "made_partitions (mk_output_dir args @ ''/follower_train'') (mk_partition_num args) dsF (snd s')"
    "map fst dsL = map fst dsF" "\<forall>(e, pb) \<in> set dsL \<union> set dsF. rid pb = e"
proof -
  let ?n = "len_train (length xl)"
  obtain s1 where 1: "save_dataset args draws (get_pb_dataset ser (take ?n e_ids) (take ?n xl) (Some (take ?n y))) ''/leader_train'' s = (Inr (), s1)"
    using assms(1) by (auto simp: make_data_main_def Let_def then_do_def split: if_splits prod.splits sum.splits)
  obtain s2 where 2: "save_dataset args draws (get_pb_dataset ser (take ?n e_ids) (take ?n xf) None) ''/follower_train'' s1 = (Inr (), s2)"
    using assms(1) 1 by (auto simp: make_data_main_def Let_def then_do_def split: if_splits prod.splits sum.splits)
  obtain s3 where 3: "save_dataset args draws (get_pb_dataset ser (drop ?n e_ids) (drop ?n xl) (Some (drop ?n y))) ''/leader_test'' s2 = (Inr (), s3)"
    using assms(1) 1 2 by (auto simp: make_data_main_def Let_def then_do_def split: if_splits prod.splits sum.splits)
  have 4: "save_dataset args draws (get_pb_dataset ser (drop ?n e_ids) (drop ?n xf) None) ''/follower_test'' s3 = (Inr (), s')"
    using assms(1) 1 2 3 by (auto simp: make_data_main_def Let_def then_do_def split: if_splits)
  obtain dsL where L: "get_pb_dataset ser (take ?n e_ids) (take ?n xl) (Some (take ?n y)) = Inr dsL"
    "made_partitions (mk_output_dir args @ ''/leader_train'') (mk_partition_num args) dsL (snd s1)" by (rule save_dataset_made [OF 1 args])
  obtain dsF where F: "get_pb_dataset ser (take ?n e_ids) (take ?n xf) None = Inr dsF"
    "made_partitions (mk_output_dir args @ ''/follower_train'') (mk_partition_num args) dsF (snd s2)" by (rule save_dataset_made [OF 2 args])
  note keep = made_keeps [OF _ 3] made_keeps [OF _ 4]
  note kept = made_keeps [OF L(2) 2] keep
  have "made_partitions (mk_output_dir args @ ''/leader_train'') (mk_partition_num args) dsL (snd s')" by (intro kept) simp_all
  moreover have "made_partitions (mk_output_dir args @ ''/follower_train'') (mk_partition_num args) dsF (snd s')"
    using F(2) by (intro keep) simp_all
  moreover have "map fst dsL = map fst dsF" using dataset_records [OF L(1)] dataset_records [OF F(1)] len by simp
  moreover have "\<forall>(e, pb) \<in> set dsL \<union> set dsF. rid pb = e"
    using dataset_records [OF L(1)] dataset_records [OF F(1)] rid by fastforce
  ultimately show thesis by (rule that)
qed

text \<open>Both directories list the ids in the same order.\<close>

definition stored :: "data_store \<Rightarrow> string \<Rightarrow> bytes list" where
  "stored st p = (case md_records st p of None \<Rightarrow> [] | Some rs \<Rightarrow> rs)"

definition partition_ids :: "int \<Rightarrow> string list \<Rightarrow> string list" where
  "partition_ids n es =
     concat (map (\<lambda>f. concat (map (\<lambda>i. if f = partition_file i then sort (filter (\<lambda>e. getHashCode e mod n = int i) es) else []) [0..<nat n]))
       (sort (map partition_file [0..<nat n])))"

lemma listed_ids:
  assumes "made_partitions d n ds st" "\<forall>(e, pb) \<in> set ds. rid pb = e" "mset (names d) = mset (map partition_file [0..<nat n])"
    and "d \<noteq> []" "last d \<noteq> CHR ''/''"
  shows "map rid (load_dataset names (stored st) d) = partition_ids n (map fst ds)"
proof -
  have inj: "partition_file i = partition_file j \<longleftrightarrow> i = j" for i j using path_inject(1) [of d i j] by (auto simp: record_path_join)
  have "map rid (stored st (path_join d (partition_file i))) = sort (filter (\<lambda>e. getHashCode e mod n = int i) (map fst ds))" if "i < nat n" for i
  proof -
    have "map rid (map snd (sort_key fst (filter (in_partition n i) ds))) = map fst (sort_key fst (filter (in_partition n i) ds))"
      using assms(2) by (auto simp: case_prod_beta)
    then show ?thesis using assms(1) that
      by (simp add: made_partitions_def stored_def map_fst_sort_key filter_fst_partition del: map_map flip: record_path_join)
  qed
  moreover have "concat (map (\<lambda>i. if partition_file k = partition_file i then g i else []) [0..<m]) = g k" if "k < m" for k m and g :: "nat \<Rightarrow> string list"
    using that by (induction m) (auto simp: inj less_Suc_eq)
  ultimately have "map rid (stored st (path_join d f)) = concat (map (\<lambda>i. if f = partition_file i
      then sort (filter (\<lambda>e. getHashCode e mod n = int i) (map fst ds)) else []) [0..<nat n])"
    if "f \<in> set (sort (map partition_file [0..<nat n]))" for f
    using that by auto
  then have "map (\<lambda>f. map rid (stored st (path_join d f))) (sort (map partition_file [0..<nat n])) =
      map (\<lambda>f. concat (map (\<lambda>i. if f = partition_file i then sort (filter (\<lambda>e. getHashCode e mod n = int i) (map fst ds)) else []) [0..<nat n]))
        (sort (map partition_file [0..<nat n]))" by (intro map_cong refl)
  then show ?thesis
    unfolding load_partitions [of names d "nat n", OF assms(3-5)] map_concat map_map comp_def partition_ids_def by (rule arg_cong)
qed

text \<open>
  C8. The whole example: \<^verbatim>\<open>make_data.py\<close> cuts a table with labels into the files of both parties, without dropping records; the data center serves
  the training files of each directory to its party, any number of times; both parties train. Then they
  make all steps, and their variables are those that the baseline gets from the full batches of the same directories. The
  hypotheses on the environment are that the directories list the files that were written, in any order, and that a
  parser reads the id back from a record.
\<close>

theorem made_data_trains_jointly:
  assumes "gradient_laws L" "check_roles fsL fsF"
    and "leader_model_fn fsL (leader_features ''leader'') (leader_labels ''leader'') TRAIN = Inr mL"
    and "follower_model_fn fsF (follower_features ''follower'') [] TRAIN = Inr mF"
    and "baseline_model_fn (baseline_features ''leader'' ''follower'') (Feature ''leader'' ''y'') TRAIN = Inr mB"
    and made: "make_data_main ser xl xf y e_ids args draws s = (Inr (), s')" "length xl = length xf"
    and args: "mk_drop_rate args \<le> 0" "mk_need_meta args = 1" "0 < mk_partition_num args"
      "mk_output_dir args = data_dir" "data_dir \<noteq> []" "last data_dir \<noteq> CHR ''/''"
    and rid: "\<forall>e more. rid (ser ((''example_id'', BytesList [e]) # more)) = e"
    and listed: "\<forall>d \<in> {path_join data_dir ''leader_train'', path_join data_dir ''follower_train''}.
      mset (names d) = mset (map partition_file [0..<nat (mk_partition_num args)])"
    and l_ds: "l_ds = load_dataset names (stored (snd s')) (path_join data_dir ''leader_train'')"
    and f_ds: "f_ds = load_dataset names (stored (snd s')) (path_join data_dir ''follower_train'')"
    and served: "dataset_elements S (role_dataset ''leader'') = concat (replicate n l_ds)"
      "dataset_elements S (role_dataset ''follower'') = concat (replicate n f_ds)"
  shows "\<exists>l f b.
    fed_train L to_hash fsL fsF mL mF parse rid (party_input S ''leader'') (party_input S ''follower'')
      (start_party L (fst mL)) (start_party L (fst mF)) = Stepped l f \<and>
    baseline_train L mB parse (filter (\<lambda>b. length b = 128) (baseline_input l_ds f_ds 128 n)) (start_party L (fst mB)) = Some b \<and>
    split_of b l f"
proof -
  have dirs: "path_join data_dir ''leader_train'' = mk_output_dir args @ ''/leader_train''"
    "path_join data_dir ''follower_train'' = mk_output_dir args @ ''/follower_train''"
    using args(4-6) by (simp_all add: path_join_def)
  obtain dsL dsF where made: "made_partitions (mk_output_dir args @ ''/leader_train'') (mk_partition_num args) dsL (snd s')"
      "made_partitions (mk_output_dir args @ ''/follower_train'') (mk_partition_num args) dsF (snd s')"
    and same: "map fst dsL = map fst dsF" and ids: "\<forall>(e, pb) \<in> set dsL \<union> set dsF. rid pb = e"
    by (rule made_training_data [OF made(1) args(1-3) made(2), of rid]) (use rid in auto)
  have all: "mset (names (mk_output_dir args @ ''/leader_train'')) = mset (map partition_file [0..<nat (mk_partition_num args)])"
    "mset (names (mk_output_dir args @ ''/follower_train'')) = mset (map partition_file [0..<nat (mk_partition_num args)])"
    using listed unfolding dirs by blast+
  have "map rid l_ds = partition_ids (mk_partition_num args) (map fst dsL)" "map rid f_ds = partition_ids (mk_partition_num args) (map fst dsF)"
    unfolding l_ds f_ds dirs by (rule listed_ids [where names = names]; use made all ids in simp)+
  then have "map rid l_ds = map rid f_ds" using same by simp
  note built = models_built [OF assms(2-5)]
  show ?thesis unfolding built(1,2) by (rule joint_training [OF assms(1,2) built(3,4) served \<open>map rid l_ds = map rid f_ds\<close>, of to_hash parse]) blast
qed

definition first_id :: "(string \<times> int feature) list \<Rightarrow> bytes" where
  "first_id pb = (case pb of (k, BytesList [e]) # _ \<Rightarrow> e | _ \<Rightarrow> [])"

definition two_rows :: "nat \<times> data_store \<Rightarrow> (unit, nat \<times> data_store) eff" where
  "two_rows = make_data_main first_id [[0], [1]] [[2], [3]] [7, 8] [''a'', ''b'']
     \<lparr>mk_output_dir = ''d'', mk_partition_num = 1, mk_drop_rate = 0, mk_need_meta = 1\<rparr> (\<lambda>_. 0)"

lemma two_rows_made: "\<exists>s'. two_rows s = (Inr (), s')"
proof -
  let ?args = "\<lparr>mk_output_dir = ''d'', mk_partition_num = 1, mk_drop_rate = 0, mk_need_meta = 1\<rparr>"
  have save: "\<exists>s2. save_dataset ?args (\<lambda>_. 0) (Inr ds) path s1 = (Inr (), s2)" for ds path s1
    using save_local_partitions [of 1 0 ds "''d'' @ path" "\<lambda>_. 0" "fst s1" "snd s1"] by (auto simp: save_dataset_def)
  have len: "len_train 2 = 1" by (simp add: len_train_def)
  have data: "\<exists>ds. get_pb_dataset first_id [e] [x] (Some [v]) = Inr ds" "\<exists>ds. get_pb_dataset first_id [e] [x] None = Inr ds" for e x v
    by (auto simp: get_pb_dataset_def item_2_tf_record_def features_made list_at_def)
  obtain d1 d2 d3 d4 where d: "get_pb_dataset first_id [''a''] [[0]] (Some [7]) = Inr d1" "get_pb_dataset first_id [''a''] [[2]] None = Inr d2"
    "get_pb_dataset first_id [''b''] [[1]] (Some [8]) = Inr d3" "get_pb_dataset first_id [''b''] [[3]] None = Inr d4"
    using data(1) [of "''a''" "[0]" 7] data(2) [of "''a''" "[2]"] data(1) [of "''b''" "[1]" 8] data(2) [of "''b''" "[3]"] by blast
  obtain s1 where 1: "save_dataset ?args (\<lambda>_. 0) (Inr d1) ''/leader_train'' s = (Inr (), s1)" using save by blast
  obtain s2 where 2: "save_dataset ?args (\<lambda>_. 0) (Inr d2) ''/follower_train'' s1 = (Inr (), s2)" using save by blast
  obtain s3 where 3: "save_dataset ?args (\<lambda>_. 0) (Inr d3) ''/leader_test'' s2 = (Inr (), s3)" using save by blast
  obtain s4 where 4: "save_dataset ?args (\<lambda>_. 0) (Inr d4) ''/follower_test'' s3 = (Inr (), s4)" using save by blast
  have "length [[0 :: int], [1]] = 2" by simp
  then show ?thesis unfolding two_rows_def make_data_main_def by (simp only: len Let_def) (simp add: d 1 2 3 4)
qed

theorem made_data_trains_jointly_witness:
  "\<exists>k st S l f b. two_rows (0, \<lparr>md_records = Map.empty, md_texts = Map.empty, md_dirs = {}\<rparr>) = (Inr (), (k, st)) \<and>
    dataset_elements S (role_dataset ''leader'') = load_dataset (\<lambda>_. [partition_file 0]) (stored st) ''d/leader_train'' \<and>
    fed_train int_tensorflow (\<lambda>_. 0) default_flags (default_flags\<lparr>fl_role := ''follower''\<rparr>) leader_built follower_built (\<lambda>k b. int (length b)) (\<lambda>r. r)
      (party_input S ''leader'') (party_input S ''follower'') (start_party int_tensorflow (fst leader_built))
      (start_party int_tensorflow (fst follower_built)) = Stepped l f \<and> split_of b l f"
proof -
  obtain s' where made: "two_rows (0, \<lparr>md_records = Map.empty, md_texts = Map.empty, md_dirs = {}\<rparr>) = (Inr (), s')"
    using two_rows_made by blast
  let ?ds = "load_dataset (\<lambda>_. [partition_file 0]) (stored (snd s'))"
  let ?S = "\<lparr>df_served = (\<lambda>role. [role]), df_records = (\<lambda>_ _ role. ?ds (path_join ''d'' (role @ ''_train''))), df_lines = (\<lambda>_ _ _. [])\<rparr>"
  have roles: "check_roles default_flags (default_flags\<lparr>fl_role := ''follower''\<rparr>)" by (simp add: check_roles_def default_flags_def)
  have "fl_role default_flags = ''leader''" "fl_role (default_flags\<lparr>fl_role := ''follower''\<rparr>) = ''follower''"
    by (simp_all add: default_flags_def)
  note built = leader_builds [OF this(1)] follower_builds [OF this(2), of "[]"]
  obtain mB where mB: "baseline_model_fn (baseline_features ''leader'' ''follower'') (Feature ''leader'' ''y'') TRAIN = Inr mB"
    using baseline_builds by blast
  obtain l f b where run: "fed_train int_tensorflow (\<lambda>_. 0) default_flags (default_flags\<lparr>fl_role := ''follower''\<rparr>) leader_built follower_built
      (\<lambda>k b. int (length b)) (\<lambda>r. r) (party_input ?S ''leader'') (party_input ?S ''follower'') (start_party int_tensorflow (fst leader_built))
      (start_party int_tensorflow (fst follower_built)) = Stepped l f" "split_of b l f"
    using made_data_trains_jointly [OF int_laws roles built(1) built(2) mB made [unfolded two_rows_def], of "''d''" "\<lambda>r. r" "\<lambda>_. [partition_file 0]"
        "?ds (path_join ''d'' ''leader_train'')" "?ds (path_join ''d'' ''follower_train'')" ?S 1 "\<lambda>_. 0" "\<lambda>k b. int (length b)"]
    by (auto simp: first_id_def role_dataset_def)
  have "dataset_elements ?S (role_dataset ''leader'') = ?ds ''d/leader_train''" by (simp add: role_dataset_def path_join_def)
  with made run show ?thesis by (cases s') fastforce
qed

end
