(* ===== verification/Spec2Isabelle.thy ===== *)
theory Spec2Isabelle
  imports Join_Properties Join_Server Management_Properties Psi_Properties Psi_Directory_Properties Psi_Register Psi_Main
    Block_Convert Route_Server Model_Store Make_Data Trainer_Ops Mnist_Pipeline
begin

text \<open>
  A verification library for the repository 9n-mpc: federated learning for two parties. The
  repository has two programs of its own that bring the samples of two parties together, DataJoin and PSI, and
  a library that trains a model on them, with an example: scripts that make its data, train it and publish it.

  \<^bold>\<open>DataJoin\<close> (\<^verbatim>\<open>src/src/DataJoin\<close>). The leader sends the example ids of its raw data to the follower;
  the follower joins them with its own records, cuts the common examples into data blocks and
  announces each block to the leader, which stores the block with the same ids from its own
  records. The theories, each with the files it models:

  \<^item> \<open>DJ_Prelude\<close>, \<open>DJ_World\<close>: exceptions, effects (result and state), dictionaries in insertion order,
    chunks; the messages of \<^verbatim>\<open>common/data_join_service_pb2.py\<close>, the constants of \<^verbatim>\<open>config.py\<close> and the record
    \<open>ext\<close> of what the code calls outside the repository, with its contract \<open>world_ok\<close>.
  \<^item> \<open>Block_Manager\<close> (\<^verbatim>\<open>data_block_manager.py\<close>), \<open>Block_Maker\<close> (\<^verbatim>\<open>data_block_maker.py\<close>), \<open>Block_Store\<close> (both
    together as one list of stored blocks), \<open>Raw_Data\<close> (\<^verbatim>\<open>raw_data_loader.py\<close> and the iterators).
  \<^item> \<open>Data_Joiner\<close> (\<^verbatim>\<open>data_joiner.py\<close>, \<^verbatim>\<open>memory_data_joiner.py\<close>): the generator as passes of its loop.
  \<^item> \<open>Block_Saver\<close> (\<^verbatim>\<open>data_block_saver.py\<close>), \<open>Consumers\<close> (\<^verbatim>\<open>example_id_consumer.py\<close>, \<^verbatim>\<open>example_id_appender.py\<close>,
    \<^verbatim>\<open>data_block_consumer.py\<close>), \<open>Join_Service\<close> (the handlers of \<^verbatim>\<open>data_join_manager.py\<close>), \<open>Producers\<close>
    (\<^verbatim>\<open>example_id_producer.py\<close>, \<^verbatim>\<open>data_block_producer.py\<close>), \<open>Join_System\<close> (\<^verbatim>\<open>data_join_manager.py\<close>,
    \<^verbatim>\<open>data_join_server.py\<close> and the two parties as one state).
  \<^item> \<open>Join_Server\<close> (\<^verbatim>\<open>proxy/data_join_channel.py\<close>, the start and stop of \<^verbatim>\<open>DataJoinService\<close>, \<^verbatim>\<open>DataJoin\<close> and the producers): the
    channel to the peer is what it does with a call; the calls to the processor threads are recorded in order.
  \<^item> \<open>Block_Registry\<close> (\<^verbatim>\<open>controller/parse_data_block_meta.py\<close>, \<^verbatim>\<open>controller/sync_convert_data_block.py\<close>,
    \<^verbatim>\<open>routine/parse_data_block_meta_routine.py\<close>): how a stored block gets its entry in the metadata database;
    \<open>Meta_Database\<close> (\<^verbatim>\<open>db/db_models.py\<close>, \<^verbatim>\<open>manager/data_managers.py\<close>, \<^verbatim>\<open>controller/data_controller.py\<close>, \<^verbatim>\<open>db/redis_manager.py\<close>): models, rows,
    tables and the key store with expiry; \<open>Management_Properties\<close>: the properties of both. \<open>Block_Convert\<close> (\<^verbatim>\<open>map_fn\<close> and
    \<^verbatim>\<open>write_data\<close> of \<^verbatim>\<open>sync_convert_data_block.py\<close>): the examples of a block as lines of text. \<open>Route_Server\<close> (\<^verbatim>\<open>route_server.py\<close>): the
    main program, and how a request gets to its handler.
  \<^item> \<open>Join_Properties\<close>: the properties of the join; \<open>Sample_World\<close> and \<open>Sample_Parties\<close> hold a
    concrete world and two concrete parties for the witnesses.

  \<^bold>\<open>PSI\<close> (\<^verbatim>\<open>src/src/PSI\<close>). A job reads a table, hashes its id column, cuts the table into buckets, lets a pool
  of workers intersect each bucket with the peer's bucket by a Diffie-Hellman private set
  intersection, and writes the rows that are left.

  \<^item> \<open>Psi_Handshake\<close> (\<^verbatim>\<open>base.py\<close>, \<^verbatim>\<open>config.py\<close>): requests, negotiation, errors; the context of a party is a
    record. A party whose peer sends nothing gets the error of the time-out of the link (an hour, the default of \<^verbatim>\<open>link_py\<close>).
  \<^item> \<open>Psi_Flow\<close> (\<^verbatim>\<open>flow.py\<close>, \<^verbatim>\<open>cipher_store.py\<close>): the threads of a party as the step relation \<open>party_step\<close>, both
    parties interleaved as \<open>net_step\<close>, with the invariant \<open>flow_inv\<close> of all reachable states, the
    absence of deadlocks and a measure for termination. \<open>Psi_Api\<close> (\<^verbatim>\<open>api.py\<close>) joins handshake and flow.
  \<^item> \<open>Psi_Files\<close>, \<open>Psi_Blocks\<close>, \<open>Psi_Dispatch\<close>, \<open>Psi_Actor\<close>, \<open>Psi_App\<close> (\<^verbatim>\<open>psi_actors.py\<close>): files and formats,
    hashing and repartition, \<^verbatim>\<open>BlockDispatchActor\<close>, \<^verbatim>\<open>PsiPirActor\<close>, the driver \<^verbatim>\<open>run_app\<close>; \<open>Psi_Main\<close>: the main program and its reports.
    \<open>Job_Pool\<close> holds the loop of the driver over an abstract dispatcher and abstract workers.
  \<^item> \<open>Psi_Job\<close>, \<open>Psi_Partition\<close>: a whole job over one file; the laws of tables it relies on
    (\<open>table_laws\<close>, for tables with distinct column names and for the calls that the job makes: a hash column added under a fresh name, the cast to
    the large types, one column dropped beside others, rows taken, ray's sort of a table with rows; satisfied by the lists of columns of \<open>Sample_Tables\<close>).
  \<^item> \<open>Psi_Directory\<close>, \<open>Psi_Directory_Properties\<close>: a whole job over a directory, one block per file.
  \<^item> \<open>Psi_Register\<close> (\<^verbatim>\<open>register_uuid.py\<close>, the rest of \<^verbatim>\<open>api.py\<close>): the address of a party in redis around a call.
  \<^item> \<open>Psi_Properties\<close>, \<open>Psi_Job_Properties\<close>: the properties.

  \<^bold>\<open>Training\<close> (\<^verbatim>\<open>src/src/Trainer/fl_comm_libs\<close>) and the example (\<^verbatim>\<open>src/example\<close>). The leader has half of the features of each sample and the
  labels, the follower the other half; they train one network, whose parts exchange activations and gradients in each step.

  \<^item> \<open>Make_Data\<close> (\<^verbatim>\<open>mnist_data/make_data.py\<close>): hashing, partitioning, serialization and saving of the data of both parties.
  \<^item> \<open>Trainer_Env\<close> (\<^verbatim>\<open>flflags.py\<close>, \<^verbatim>\<open>flenv.py\<close>, \<^verbatim>\<open>fl_rpc_utils.py\<close>, \<^verbatim>\<open>util.py\<close>): flags, cluster, registration at the coordinator, directories.
  \<^item> \<open>Trainer_Session\<close>, \<open>Trainer_Loop\<close> (\<^verbatim>\<open>fl_estimator.py\<close>): the connection protocol, the loop over the steps as a trace of
    events, metrics, trace files.
  \<^item> \<open>Trainer_Ops\<close> (\<^verbatim>\<open>load_fl_ops_lib\<close> of \<^verbatim>\<open>fl_ops.py\<close>): double-checked locking as a step relation over threads, with an
    invariant of all reachable states and a measure.
  \<^item> \<open>Train_Graph\<close> (the gradients and data sets of \<^verbatim>\<open>fl_ops.py\<close>, the losses of \<^verbatim>\<open>util.py\<close>): graphs of TensorFlow as values, with the operations that
    exchange tensors; what the operations compute is the record \<open>tensorflow\<close>, a parameter.
  \<^item> \<open>Mnist_Models\<close> (the model functions of \<^verbatim>\<open>mnist_demo/mnist_leader.py\<close>, \<^verbatim>\<open>mnist_follower.py\<close> and \<^verbatim>\<open>baseline.py\<close>), \<open>Split_Training\<close> (a step of the
    session of each party, the check of the ids on which the built model depends, the messages of a step and how each session ends when one
    is missing, the input functions, the training of the baseline), \<open>Mnist_Runs\<close> (the rest of
    \<^verbatim>\<open>FLEstimator\<close> and the main programs of the example).
  \<^item> \<open>Split_Properties\<close>, \<open>Mnist_Properties\<close>: the properties of the example; \<open>Mnist_Pipeline\<close>: from the made data to the trained
    network; \<open>Sample_Gradients\<close>: gradients in reverse mode satisfy the
    chain rule \<open>gradient_laws\<close> that the properties assume of TensorFlow, and an instance over integers.
  \<^item> \<open>Model_Store\<close> (\<^verbatim>\<open>mnist_demo/write_redis.py\<close>): the description of an exported model in redis.

  \<^bold>\<open>Interfaces.\<close> \<open>transmit_consumer\<close> (Consumers): what a service handler relies on of a consumer, interpreted
  on both consumers. \<open>receiver\<close>, \<open>lite_receiver\<close>, \<open>meta_receiver\<close>, \<open>open_peer\<close> (Producers): what a sender relies
  on of the peer's service, interpreted on the modelled service over each consumer. \<open>block_pool\<close>
  (Job_Pool): what the driver relies on of dispatcher and workers, interpreted on \<open>app_pool\<close>.

  \<^bold>\<open>What is shown.\<close> For DataJoin: the stored blocks of both parties are aligned after a round (\<open>join_round\<close>, one schedule of the
  four processors, which the code runs concurrently); the joiner
  stores the intersection and ends exactly when the last batch leaves something to store;
  the manager finds the stored blocks after a restart by binary search and implements a list; the
  saver stores the announced blocks; senders deliver all ids; the service refuses foreign
  requests and closes a partition only when its queue is empty. For PSI: the intersection is
  correct for every interleaving of the eight threads, ends, and agrees with its handshake;
  a job over a text file writes exactly the common rows whatever the order in which workers
  finish, a job over a directory the common rows of every file, and the program reports their number; the
  dispatcher is a queue. For the management of
  blocks: every stored block is requested with its own meta and data, and the stored entry has the values
  of the request. For training: workers are numbered by a bijection, a session starts only after
  an uninterrupted successful connection and makes and commits exactly the steps before it is told to stop or the input ends, and
  the operation library is loaded at most once, without deadlock, whatever the interleaving; two parties that train the example get
  the variables that the baseline gets from the joined data, step by step, on batches with matching ids only, which the made data always give, and their exported models
  together answer what the joint network answers. The remaining properties state how the code fails
  where it does not do what it means to.

  \<^bold>\<open>Bounds and fuel.\<close> The number of passes of the joiner (\<open>joiner_run\<close>) and of the meta sender (\<open>send_loop\<close>) is an
  argument; the properties name a number that is enough, or say that none is. The list of choices
  of \<open>wait_loop\<close> stands for the results of \<^verbatim>\<open>ray.wait\<close>; one per block is enough. The flow needs no fuel:
  it is a relation with a proved bound on the length of its runs, and so is the loading of the operation library. The
  loops that wait for a peer or a session are partial functions: not returning is the value \<^term>\<open>None\<close>. Python integers are \<open>int\<close> and
  \<open>nat\<close>; fields of messages with a width check their range (\<open>int64_ok\<close>), the conversion of an id to eight
  octets raises outside of 64 bits, and the numbers of the buckets are checked to fit 16 bits.

  \<^bold>\<open>Not modelled.\<close> TensorFlow, gRPC, pyarrow (its streams that compress by the extension of a path included), ray, peewee, redis, werkzeug
  and what Flask answers by itself are parameters or absent. The repository's parts in other languages are not modelled either: the library
  \<^verbatim>\<open>crypto\<close> (\<^verbatim>\<open>PSI/crypto\<close>, Rust over libraries for curves) and the link \<^verbatim>\<open>link_py\<close> (\<^verbatim>\<open>PSI/link_py\<close>, C++) are parameters of the intersection, the
  bridge of \<^verbatim>\<open>_fl_ops.so\<close> (\<^verbatim>\<open>Trainer/rpc\<close>, C++) is represented by its status and by the messages of a step, and the services
  \<^verbatim>\<open>Coordinator\<close> (C++) and \<^verbatim>\<open>Proxy\<close> (lua) by their answers. The placement of graphs on devices, the download and conversion of the images of the example data,
  \<^verbatim>\<open>check_auth\<close> of \<^verbatim>\<open>psi_actors.py\<close> and logging are not modelled. The modules \<^verbatim>\<open>DataJoin.utils\<close> and \<^verbatim>\<open>routine.data_routine\<close> are
  not in the repository: \<^verbatim>\<open>ProcessorManager\<close> is represented by the calls of its methods, the handler that creates an entry by the
  update it names, and the application below \<^verbatim>\<open>/v1/data\<close> by a parameter. Generated message code is represented by records, the
  generated stubs by the calls they make.
\<close>

section \<open>The data join from end to end\<close>

text \<open>
  C1. One round of the two parties' processors, started with the same number of stored blocks on
  both sides: the round succeeds, the follower's new blocks are the leader's ids that the follower
  also has, in the leader's order and cut at the threshold, and the leader's new blocks have the
  same indices and the same ids; each data file holds, in this order, that party's records of the
  ids, so record \<open>k\<close> of block \<open>i\<close> has the same example id at both parties.
\<close>

theorem join_round_aligns_blocks:
  assumes "parties_start E leader_svc follower_svc po dL dF baseL baseF js"
    and "int (length baseF + length dL) \<le> data_block_index_threshold"
    and "blen = block_limit (dw_joiner (js_follower_wrap js))"
    and "length baseF + length (chunks blen (matched dF (leader_ids E dL))) \<le> removed_items_nums_from_buffer"
  shows "\<exists>js' newL newF.
     join_round E leader_svc follower_svc po
       (length (leader_batches E (svc_partition_id leader_svc) (map snd dL)))
       (Suc (length (chunks blen (matched dF (leader_ids E dL))))) js = (Inr (), js') \<and>
     round_result E dL dF baseL baseF newL newF js' \<and>
     map example_ids newF = chunks blen (matched dF (leader_ids E dL)) \<and>
     map example_ids newL = map example_ids newF \<and> map data_block_index newL = map data_block_index newF"
proof -
  obtain js' newL newF where "join_round E leader_svc follower_svc po
       (length (leader_batches E (svc_partition_id leader_svc) (map snd dL)))
       (Suc (length (chunks blen (matched dF (leader_ids E dL))))) js = (Inr (), js')"
    "round_result E dL dF baseL baseF newL newF js'"
    "map example_ids newF = chunks blen (matched dF (leader_ids E dL))"
    "map example_ids newL = map example_ids newF" "map data_block_index newL = map data_block_index newF"
    by (rule round_aligned [OF assms(1-4) refl refl])
  then show ?thesis by blast
qed

theorem join_round_aligns_blocks_witness:
  "\<exists>js' newL newF. join_round sample_ext sample_service sample_service sample_options 1 3 (sample_system 1) = (Inr (), js') \<and>
     round_result sample_ext leader_dict follower_dict [] [] newL newF js' \<and>
     map example_ids newF = [[''a''], [''c'']] \<and> map example_ids newL = map example_ids newF"
proof -
  have blen: "1 = block_limit (dw_joiner (js_follower_wrap (sample_system 1)))"
    by (simp add: sample_system_def sample_wrap_def sample_limit)
  have ids: "leader_ids sample_ext leader_dict = [''a'', ''b'', ''c'']"
    by (simp add: leader_ids_def leader_dict_def sent_id_def example_id_def read_example_id_def sw_example_def)
  have blocks: "chunks 1 (matched follower_dict (leader_ids sample_ext leader_dict)) = [[''a''], [''c'']]"
    unfolding ids sample_matched by code_simp
  have batches: "length (leader_batches sample_ext (svc_partition_id sample_service) (map snd leader_dict)) = 1"
    by (simp add: leader_batches_def leader_dict_def sync_example_id_nums_def batches_short)
  have room: "int (length ([] :: data_block_meta list) + length leader_dict) \<le> data_block_index_threshold"
    by (simp add: leader_dict_def data_block_index_threshold_def)
  have small: "length ([] :: data_block_meta list) +
      length (chunks 1 (matched follower_dict (leader_ids sample_ext leader_dict))) \<le> removed_items_nums_from_buffer"
    unfolding blocks by (simp add: removed_items_nums_from_buffer_def)
  have three: "Suc (length [[''a''], [''c'']]) = 3" by simp
  from join_round_aligns_blocks [OF sample_parties_start [of 1] room blen small, unfolded batches blocks three]
  show ?thesis by (elim exE conjE) (intro exI conjI; assumption)
qed

end
